(* ===== verification/Go_Prelude.thy ===== *)
theory Go_Prelude
  imports Main "HOL-Library.AList" "HOL-Library.Sublist" "HOL-Library.Word"
begin

text \<open>
  What every component shares: Go error values and the state-and-error steps the
  handlers are written in, the functions of the Go packages strings, strconv, path
  and hash/fnv that the driver calls, and Go maps as association lists.
  A Go string is a list of bytes, so a \<^typ>\<open>char\<close> list here; white space is the
  ASCII white space of unicode.IsSpace. A Go map is an association list with distinct
  keys: a loop over a map runs in the order of the list, and since every theorem is
  about all lists this is Go's unspecified iteration order.
\<close>

named_theorems go_step \<open>unfolding of the state-and-error combinators\<close>
named_theorems go_str \<open>equations of the string functions\<close>
named_theorems go_map \<open>equations of the map functions\<close>

section \<open>Errors and steps\<close>

text \<open>
  An error value. \<open>Errorf\<close> keeps the format string and the arguments of
  fmt.Errorf; \<open>GrpcStatus\<close> is status.Error of google.golang.org/grpc (the code by its
  name); \<open>NotFound\<close>, \<open>Timeout\<close> and \<open>Conflict\<close> are the API errors the driver
  tests with IsNotFound, IsTimeout and IsConflict; \<open>DeadlineExceeded\<close> and
  \<open>Canceled\<close> are the two context errors; \<open>Corrupted\<close> is the class of errors that
  mount.IsCorruptedMnt accepts; \<open>NotExist\<close> the one os.IsNotExist accepts.
  \<open>Panic\<close> is a Go run-time panic, and \<open>OutOfFuel\<close> is no Go value: a bounded
  loop of the model ends with it when its bound is used up.
\<close>

datatype err =
    Errorf string "string list"
  | GrpcStatus string string
  | NotFound
  | Timeout
  | Conflict
  | DeadlineExceeded
  | Canceled
  | Corrupted
  | NotExist
  | OtherError string
  | Panic string
  | OutOfFuel

type_synonym 'a res = "err + 'a"

text \<open>A step reads and changes a world \<open>'w\<close> and returns an error or a value.\<close>

type_synonym ('w, 'a) io = "'w \<Rightarrow> 'a res \<times> 'w"

definition ret :: "'a \<Rightarrow> ('w, 'a) io" where
  [go_step]: "ret x = (\<lambda>w. (Inr x, w))"

definition fail :: "err \<Rightarrow> ('w, 'a) io" where
  [go_step]: "fail e = (\<lambda>w. (Inl e, w))"

text \<open>
  \<open>tryE m h f\<close> is the idiom \<open>x, err := m; if err != nil { h(err) }; f(x)\<close>, and
  \<open>bind m f\<close> the case where the error is returned to the caller.
\<close>

definition tryE :: "('w, 'a) io \<Rightarrow> (err \<Rightarrow> ('w, 'b) io) \<Rightarrow> ('a \<Rightarrow> ('w, 'b) io) \<Rightarrow> ('w, 'b) io" where
  [go_step]: "tryE m h f = (\<lambda>w. case m w of (Inl e, w') \<Rightarrow> h e w' | (Inr x, w') \<Rightarrow> f x w')"

definition bind :: "('w, 'a) io \<Rightarrow> ('a \<Rightarrow> ('w, 'b) io) \<Rightarrow> ('w, 'b) io" where
  "bind m f = tryE m fail f"

definition after :: "('w \<Rightarrow> 'w) \<Rightarrow> ('w, 'a) io \<Rightarrow> ('w, 'a) io" where
  [go_step]: "after u m = (\<lambda>w. m (u w))"

definition lift_res :: "'a res \<Rightarrow> ('w, 'a) io" where
  [go_step]: "lift_res r = (\<lambda>w. (r, w))"

definition ignore_err :: "('w, 'a) io \<Rightarrow> ('w, unit) io" where
  "ignore_err m = tryE m (\<lambda>_. ret ()) (\<lambda>_. ret ())"

lemma bind_eq [go_step]:
  "bind m f = (\<lambda>w. case m w of (Inl e, w') \<Rightarrow> (Inl e, w') | (Inr x, w') \<Rightarrow> f x w')"
  by (auto simp: bind_def tryE_def fail_def fun_eq_iff split: prod.split sum.split)

lemma ignore_err_eq [go_step]: "ignore_err m = (\<lambda>w. (Inr (), snd (m w)))"
  by (auto simp: ignore_err_def tryE_def ret_def split: prod.splits sum.splits)

definition bind_res :: "'a res \<Rightarrow> ('a \<Rightarrow> 'b res) \<Rightarrow> 'b res" where
  [go_step]: "bind_res r f = (case r of Inl e \<Rightarrow> Inl e | Inr x \<Rightarrow> f x)"

lemma bind_res_simps [simp]:
  "bind_res (Inl e) f = Inl e" "bind_res (Inr x) f = f x"
  by (simp_all add: bind_res_def)

lemma bind_res_Inr_iff: "bind_res r f = Inr y \<longleftrightarrow> (\<exists>x. r = Inr x \<and> f x = Inr y)"
  by (cases r) auto

text \<open>
  A predicate on worlds that a step keeps whatever it returns. The handlers are shown
  to keep predicates (monitors) this way without fixing what the world is.
\<close>

definition keeps :: "('w \<Rightarrow> bool) \<Rightarrow> ('w, 'a) io \<Rightarrow> bool" where
  "keeps P m \<longleftrightarrow> (\<forall>w. P w \<longrightarrow> P (snd (m w)))"

lemma keepsI: "(\<And>w. P w \<Longrightarrow> P (snd (m w))) \<Longrightarrow> keeps P m"
  by (simp add: keeps_def)

lemma keepsD: "keeps P m \<Longrightarrow> P w \<Longrightarrow> P (snd (m w))"
  by (simp add: keeps_def)

named_theorems keeps_intro \<open>introduction rules for the kept predicates\<close>

lemma keeps_ret [keeps_intro]: "keeps P (ret x)"
  by (simp add: keeps_def ret_def)

lemma keeps_fail [keeps_intro]: "keeps P (fail e)"
  by (simp add: keeps_def fail_def)

lemma keeps_lift_res [keeps_intro]: "keeps P (lift_res r)"
  by (simp add: keeps_def lift_res_def)

lemma keeps_tryE [keeps_intro]:
  "keeps P m \<Longrightarrow> (\<And>e. keeps P (h e)) \<Longrightarrow> (\<And>x. keeps P (f x)) \<Longrightarrow> keeps P (tryE m h f)"
proof (rule keepsI)
  fix w assume a: "keeps P m" "\<And>e. keeps P (h e)" "\<And>x. keeps P (f x)" "P w"
  obtain r w' where m: "m w = (r, w')" by fastforce
  with a have "P w'" using keepsD [of P m w] by simp
  with a m show "P (snd (tryE m h f w))" by (cases r) (auto simp: tryE_def keeps_def)
qed

lemma keeps_bind [keeps_intro]:
  "keeps P m \<Longrightarrow> (\<And>x. keeps P (f x)) \<Longrightarrow> keeps P (bind m f)"
  unfolding bind_def by (intro keeps_intro)

text \<open>The rest of a step may use what the first part returned.\<close>

lemma keeps_bind_result:
  "keeps Q m \<Longrightarrow> (\<And>w x w1. m w = (Inr x, w1) \<Longrightarrow> keeps Q (f x)) \<Longrightarrow> keeps Q (bind m f)"
  by (auto simp: keeps_def bind_eq split: prod.splits sum.splits)

lemma keeps_lift_bind: "(\<And>x. r = Inr x \<Longrightarrow> keeps Q (f x)) \<Longrightarrow> keeps Q (bind (lift_res r) f)"
  by (rule keeps_bind_result [OF keeps_lift_res]) (simp add: lift_res_def)

lemma keeps_ignore_err [keeps_intro]: "keeps P m \<Longrightarrow> keeps P (ignore_err m)"
  unfolding ignore_err_def by (intro keeps_intro)

lemma keeps_after [keeps_intro]:
  "(\<And>w. P w \<Longrightarrow> P (u w)) \<Longrightarrow> keeps P m \<Longrightarrow> keeps P (after u m)"
  by (simp add: keeps_def after_def)

lemma keeps_if [keeps_intro]:
  "(b \<Longrightarrow> keeps P m) \<Longrightarrow> (\<not> b \<Longrightarrow> keeps P n) \<Longrightarrow> keeps P (if b then m else n)"
  by simp

lemma keeps_option [keeps_intro]:
  "(x = None \<Longrightarrow> keeps P m) \<Longrightarrow> (\<And>y. x = Some y \<Longrightarrow> keeps P (f y)) \<Longrightarrow>
   keeps P (case x of None \<Rightarrow> m | Some y \<Rightarrow> f y)"
  by (cases x) auto

lemma keeps_sum [keeps_intro]:
  "(\<And>e. x = Inl e \<Longrightarrow> keeps P (h e)) \<Longrightarrow> (\<And>y. x = Inr y \<Longrightarrow> keeps P (f y)) \<Longrightarrow>
   keeps P (case x of Inl e \<Rightarrow> h e | Inr y \<Rightarrow> f y)"
  by (cases x) auto

lemma keeps_prod [keeps_intro]:
  "(\<And>a b. x = (a, b) \<Longrightarrow> keeps P (f a b)) \<Longrightarrow> keeps P (case x of (a, b) \<Rightarrow> f a b)"
  by (cases x) auto

section \<open>Strings\<close>

definition HasPrefix :: "string \<Rightarrow> string \<Rightarrow> bool" where
  [go_str]: "HasPrefix s p = (take (length p) s = p)"

definition TrimPrefix :: "string \<Rightarrow> string \<Rightarrow> string" where
  [go_str]: "TrimPrefix s p = (if HasPrefix s p then drop (length p) s else s)"

definition HasSuffix :: "string \<Rightarrow> string \<Rightarrow> bool" where
  [go_str]: "HasSuffix s p = HasPrefix (rev s) (rev p)"

definition TrimSuffix :: "string \<Rightarrow> string \<Rightarrow> string" where
  [go_str]: "TrimSuffix s p = (if HasSuffix s p then take (length s - length p) s else s)"

text \<open>strings.Index: the first position of \<open>p\<close> in \<open>s\<close>; Go's \<open>-1\<close> is \<open>None\<close>.\<close>

fun Index :: "string \<Rightarrow> string \<Rightarrow> nat option" where
  "Index [] p = (if p = [] then Some 0 else None)"
| "Index (c # s) p = (if HasPrefix (c # s) p then Some 0 else map_option Suc (Index s p))"

definition Contains :: "string \<Rightarrow> string \<Rightarrow> bool" where
  [go_str]: "Contains s p = (Index s p \<noteq> None)"

text \<open>strings.LastIndex for a one-byte pattern.\<close>

fun LastIndex :: "string \<Rightarrow> char \<Rightarrow> nat option" where
  "LastIndex [] c = None"
| "LastIndex (x # s) c =
     (case LastIndex s c of Some i \<Rightarrow> Some (Suc i) | None \<Rightarrow> if x = c then Some 0 else None)"

text \<open>strings.Split for a one-byte separator, and for any non-empty separator.\<close>

fun Split :: "char \<Rightarrow> string \<Rightarrow> string list" where
  "Split c [] = [[]]"
| "Split c (x # s) = (if x = c then [] # Split c s
     else (case Split c s of [] \<Rightarrow> [[x]] | y # ys \<Rightarrow> (x # y) # ys))"

function SplitStr :: "string \<Rightarrow> string \<Rightarrow> string \<Rightarrow> string list" where
  "SplitStr sep acc s =
     (if s = [] then [acc]
      else if sep \<noteq> [] \<and> HasPrefix s sep then acc # SplitStr sep [] (drop (length sep) s)
      else SplitStr sep (acc @ [hd s]) (tl s))"
  by pat_completeness auto
termination
  by (relation "measure (\<lambda>(sep, acc, s). length s)") (auto simp: neq_Nil_conv)

declare SplitStr.simps [simp del]

text \<open>strings.SplitN with limit two.\<close>

fun SplitN2 :: "char \<Rightarrow> string \<Rightarrow> string list" where
  "SplitN2 c [] = [[]]"
| "SplitN2 c (x # s) = (if x = c then [[], s]
     else (case SplitN2 c s of [] \<Rightarrow> [[x]] | y # ys \<Rightarrow> (x # y) # ys))"

fun Join :: "string list \<Rightarrow> string \<Rightarrow> string" where
  "Join [] sep = []"
| "Join [x] sep = x"
| "Join (x # y # ys) sep = x @ sep @ Join (y # ys) sep"

definition is_space :: "char \<Rightarrow> bool" where
  [go_str]: "is_space c = (c \<in> set [CHR '' '', CHR 0x09, CHR 0x0A, CHR 0x0B, CHR 0x0C, CHR 0x0D])"

definition TrimSpace :: "string \<Rightarrow> string" where
  [go_str]: "TrimSpace s = rev (dropWhile is_space (rev (dropWhile is_space s)))"

definition TrimChar :: "char \<Rightarrow> string \<Rightarrow> string" where
  [go_str]: "TrimChar c s = rev (dropWhile (\<lambda>x. x = c) (rev (dropWhile (\<lambda>x. x = c) s)))"

text \<open>strings.Fields: the maximal runs of bytes that are not white space.\<close>

fun FieldsAcc :: "string \<Rightarrow> string \<Rightarrow> string list" where
  "FieldsAcc acc [] = (if acc = [] then [] else [acc])"
| "FieldsAcc acc (x # s) = (if is_space x then (if acc = [] then FieldsAcc [] s else acc # FieldsAcc [] s)
     else FieldsAcc (acc @ [x]) s)"

definition Fields :: "string \<Rightarrow> string list" where
  "Fields s = FieldsAcc [] s"

text \<open>strings.ReplaceAll for a one-byte pattern, and for any non-empty pattern.\<close>

definition ReplaceChar :: "char \<Rightarrow> string \<Rightarrow> string \<Rightarrow> string" where
  [go_str]: "ReplaceChar c new s = concat (map (\<lambda>x. if x = c then new else [x]) s)"

definition ReplaceAll :: "string \<Rightarrow> string \<Rightarrow> string \<Rightarrow> string" where
  [go_str]: "ReplaceAll s old new = Join (SplitStr old [] s) new"

lemma HasPrefix_iff: "HasPrefix s p \<longleftrightarrow> (\<exists>t. s = p @ t)"
  by (auto simp: HasPrefix_def) (metis append_take_drop_id)

lemma HasPrefix_append [simp]: "HasPrefix (p @ t) p"
  by (simp add: HasPrefix_def)

lemma HasPrefix_Nil [simp]: "HasPrefix s []"
  by (simp add: HasPrefix_def)

lemma HasPrefix_Cons [simp]: "HasPrefix (x # s) (y # p) \<longleftrightarrow> x = y \<and> HasPrefix s p"
  by (auto simp: HasPrefix_def)

lemma HasPrefix_Nil_left [simp]: "HasPrefix [] p \<longleftrightarrow> p = []"
  by (auto simp: HasPrefix_def)

lemma Index_Some: "Index s p = Some i \<Longrightarrow> i + length p \<le> length s \<and> take (length p) (drop i s) = p"
proof (induction s p arbitrary: i rule: Index.induct)
  case (2 c s p)
  show ?case
  proof (cases "HasPrefix (c # s) p")
    case True
    with "2.prems" have "i = 0" by simp
    moreover from True have "take (length p) (c # s) = p" by (simp add: HasPrefix_def)
    moreover from this have "length p \<le> length (c # s)"
      by (metis length_take min.cobounded1)
    ultimately show ?thesis by simp
  next
    case False
    with 2 show ?thesis by auto
  qed
qed (auto split: if_splits)

lemma Index_singleton_None [simp]: "Index s [c] = None \<longleftrightarrow> c \<notin> set s"
  by (induction s) auto

lemma Contains_singleton [simp]: "Contains s [c] \<longleftrightarrow> c \<in> set s"
  by (simp add: Contains_def)

lemma Contains_Nil_iff [simp]: "Contains [] p \<longleftrightarrow> p = []"
  by (simp add: Contains_def)

lemma Contains_Cons: "Contains (c # s) p \<longleftrightarrow> HasPrefix (c # s) p \<or> Contains s p"
  by (auto simp: Contains_def)

lemma Contains_iff: "Contains s p \<longleftrightarrow> (\<exists>a b. s = a @ p @ b)"
proof (induction s)
  case (Cons c s)
  have "(\<exists>a b. c # s = a @ p @ b) \<longleftrightarrow> HasPrefix (c # s) p \<or> (\<exists>a b. s = a @ p @ b)"
    by (auto simp: HasPrefix_iff Cons_eq_append_conv)
  then show ?case using Cons by (simp add: Contains_Cons)
qed auto

lemma Split_nonempty [simp]: "Split c s \<noteq> []"
  by (induction s) (auto split: list.splits)

lemma length_Split_pos [simp]: "0 < length (Split c s)"
  by simp

lemma Split_notin [simp]: "c \<notin> set s \<Longrightarrow> Split c s = [s]"
  by (induction s) auto

lemma Split_append: "c \<notin> set a \<Longrightarrow> Split c (a @ c # b) = a # Split c b"
  by (induction a) auto

lemma Join_Split: "Join (Split c s) [c] = s"
proof (induction s)
  case (Cons x s)
  obtain y ys where y: "Split c s = y # ys" by (cases "Split c s") auto
  with Cons show ?case by (cases ys) auto
qed simp

lemma Split_Join: "xs \<noteq> [] \<Longrightarrow> \<forall>x \<in> set xs. c \<notin> set x \<Longrightarrow> Split c (Join xs [c]) = xs"
  by (induction xs "[c]" rule: Join.induct) (auto simp: Split_append)

lemma SplitStr_nonempty [simp]: "SplitStr sep acc s \<noteq> []"
  by (induction sep acc s rule: SplitStr.induct) (subst SplitStr.simps, auto)

lemma Join_singleton_only: "Join xs sep = [] \<Longrightarrow> sep \<noteq> [] \<Longrightarrow> xs = [] \<or> xs = [[]]"
  by (induction xs sep rule: Join.induct) auto

lemma SplitN2_cases:
  "(c \<notin> set s \<and> SplitN2 c s = [s]) \<or> (\<exists>a b. s = a @ c # b \<and> c \<notin> set a \<and> SplitN2 c s = [a, b])"
proof (induction s)
  case (Cons x s)
  show ?case
  proof (cases "x = c")
    case True
    then show ?thesis by (intro disjI2) (auto intro: exI [of _ "[]"])
  next
    case False
    from Cons show ?thesis
    proof
      assume "c \<notin> set s \<and> SplitN2 c s = [s]"
      with False show ?thesis by auto
    next
      assume "\<exists>a b. s = a @ c # b \<and> c \<notin> set a \<and> SplitN2 c s = [a, b]"
      then obtain a b where "s = a @ c # b" "c \<notin> set a" "SplitN2 c s = [a, b]" by blast
      with False show ?thesis by (intro disjI2 exI [of _ "x # a"] exI [of _ b]) auto
    qed
  qed
qed simp

lemma TrimSpace_subset: "set (TrimSpace s) \<subseteq> set s"
  by (auto simp: TrimSpace_def dest!: set_dropWhileD)

lemma TrimSpace_id: "s = [] \<or> \<not> is_space (hd s) \<and> \<not> is_space (last s) \<Longrightarrow> TrimSpace s = s"
proof -
  assume a: "s = [] \<or> \<not> is_space (hd s) \<and> \<not> is_space (last s)"
  have d: "t = [] \<or> \<not> is_space (hd t) \<Longrightarrow> dropWhile is_space t = t" for t
    by (cases t) auto
  from a have "dropWhile is_space s = s" and "dropWhile is_space (rev s) = rev s"
    by (auto intro!: d simp: hd_rev)
  then show ?thesis by (simp add: TrimSpace_def)
qed

lemma ReplaceChar_append [simp]: "ReplaceChar c n (s @ t) = ReplaceChar c n s @ ReplaceChar c n t"
  by (simp add: ReplaceChar_def)

lemma ReplaceChar_Cons [simp]:
  "ReplaceChar c n (x # s) = (if x = c then n else [x]) @ ReplaceChar c n s" "ReplaceChar c n [] = []"
  by (simp_all add: ReplaceChar_def)

lemma ReplaceChar_notin: "c \<notin> set s \<Longrightarrow> ReplaceChar c n s = s"
  by (induction s) auto

section \<open>Numbers\<close>

fun decimal :: "nat \<Rightarrow> string" where
  "decimal n = (if n < 10 then [char_of (48 + n)] else decimal (n div 10) @ [char_of (48 + n mod 10)])"

declare decimal.simps [simp del]

text \<open>strconv.FormatInt in base 10 (Itoa, and the verb d of fmt).\<close>

definition FormatInt :: "int \<Rightarrow> string" where
  "FormatInt i = (if i < 0 then CHR ''-'' # decimal (nat (- i)) else decimal (nat i))"

definition is_digit :: "char \<Rightarrow> bool" where
  [go_str]: "is_digit c = (48 \<le> (of_char c :: nat) \<and> (of_char c :: nat) \<le> 57)"

definition digit_val :: "char \<Rightarrow> nat" where
  [go_str]: "digit_val c = of_char c - 48"

definition digits_val :: "string \<Rightarrow> nat" where
  "digits_val s = foldl (\<lambda>n c. 10 * n + digit_val c) 0 s"

definition parse_nat :: "string \<Rightarrow> nat option" where
  "parse_nat s = (if s \<noteq> [] \<and> list_all is_digit s then Some (digits_val s) else None)"

text \<open>strconv.ParseInt (base 10) for a given width, and strconv.ParseUint.\<close>

definition ParseInt :: "nat \<Rightarrow> string \<Rightarrow> int option" where
  "ParseInt width s =
     (let neg = HasPrefix s ''-'';
          body = (if neg \<or> HasPrefix s ''+'' then tl s else s)
      in case parse_nat body of None \<Rightarrow> None
         | Some n \<Rightarrow> (let v = (if neg then - int n else int n) in
             if - (2 ^ (width - 1)) \<le> v \<and> v < 2 ^ (width - 1) then Some v else None))"

definition ParseUint :: "nat \<Rightarrow> string \<Rightarrow> nat option" where
  "ParseUint width s = (case parse_nat s of None \<Rightarrow> None
     | Some n \<Rightarrow> if n < 2 ^ width then Some n else None)"

definition Atoi :: "string \<Rightarrow> int option" where
  "Atoi s = ParseInt 64 s"

lemma of_char_digit: "(n::nat) < 10 \<Longrightarrow> (of_char (char_of (48 + n)) :: nat) = 48 + n"
  by simp

lemma is_digit_digit [simp]: "(n::nat) < 10 \<Longrightarrow> is_digit (char_of (48 + n))"
  by (simp add: is_digit_def)

lemma digit_val_digit [simp]: "(n::nat) < 10 \<Longrightarrow> digit_val (char_of (48 + n)) = n"
  by (simp add: digit_val_def)

lemma decimal_nonempty [simp]: "decimal n \<noteq> []"
  by (subst decimal.simps) simp

lemma decimal_digits: "list_all is_digit (decimal n)"
proof (induction n rule: decimal.induct)
  case (1 n)
  then show ?case by (subst decimal.simps) auto
qed

lemma digits_val_decimal [simp]: "digits_val (decimal n) = n"
proof (induction n rule: decimal.induct)
  case (1 n)
  show ?case
  proof (cases "n < 10")
    case True
    then show ?thesis by (subst decimal.simps) (simp add: digits_val_def)
  next
    case False
    with 1 have "foldl (\<lambda>n c. 10 * n + digit_val c) 0 (decimal (n div 10)) = n div 10"
      by (simp add: digits_val_def)
    with False show ?thesis by (subst decimal.simps) (simp add: digits_val_def)
  qed
qed

lemma parse_nat_decimal [simp]: "parse_nat (decimal n) = Some n"
  by (simp add: parse_nat_def decimal_digits)

lemma decimal_hd_digit: "is_digit (hd (decimal n))"
  using decimal_digits [of n] by (cases "decimal n") auto

lemma decimal_no_sign [simp]: "\<not> HasPrefix (decimal n) ''-''" "\<not> HasPrefix (decimal n) ''+''"
  using decimal_hd_digit [of n] by (cases "decimal n"; auto simp: is_digit_def)+

lemma decimal_inj: "decimal m = decimal n \<longleftrightarrow> m = n"
  by (metis digits_val_decimal)

lemma decimal_notin: "\<not> is_digit c \<Longrightarrow> c \<notin> set (decimal n)"
  using decimal_digits [of n] by (auto simp: list_all_iff)

lemma ParseInt_FormatInt:
  "- (2 ^ (width - 1)) \<le> i \<Longrightarrow> i < 2 ^ (width - 1) \<Longrightarrow> ParseInt width (FormatInt i) = Some i"
  by (auto simp: ParseInt_def FormatInt_def Let_def)

section \<open>Paths\<close>

text \<open>
  path.Clean: the components are pushed on a stack, dot components and empty ones are
  dropped, and a dot-dot removes the component before it; it is dropped at the root.
\<close>

definition dot :: string where
  "dot = ''.''"

definition dotdot :: string where
  "dotdot = ''..''"

fun clean_stack :: "bool \<Rightarrow> string list \<Rightarrow> string list \<Rightarrow> string list" where
  "clean_stack rooted st [] = rev st"
| "clean_stack rooted st (c # cs) =
     (if c = [] \<or> c = dot then clean_stack rooted st cs
      else if c = dotdot then
        (case st of
           [] \<Rightarrow> clean_stack rooted (if rooted then [] else [c]) cs
         | t # ts \<Rightarrow> clean_stack rooted (if t = dotdot then c # st else ts) cs)
      else clean_stack rooted (c # st) cs)"

definition path_Clean :: "string \<Rightarrow> string" where
  "path_Clean s =
     (let rooted = HasPrefix s ''/'';
          body = Join (clean_stack rooted [] (Split CHR ''/'' s)) ''/''
      in if rooted then CHR ''/'' # body else if body = [] then ''.'' else body)"

definition path_Join :: "string list \<Rightarrow> string" where
  "path_Join xs = (case filter (\<lambda>x. x \<noteq> []) xs of [] \<Rightarrow> [] | ys \<Rightarrow> path_Clean (Join ys ''/''))"

text \<open>Every component that Clean keeps is proper, and under a root no dot-dot remains.\<close>

definition proper_comp :: "bool \<Rightarrow> string \<Rightarrow> bool" where
  "proper_comp rooted c \<longleftrightarrow> c \<noteq> [] \<and> c \<noteq> dot \<and> (rooted \<longrightarrow> c \<noteq> dotdot)"

lemma proper_comp_dotdot: "\<not> rooted \<Longrightarrow> proper_comp rooted dotdot"
  by (simp add: proper_comp_def dot_def dotdot_def)

lemma proper_comp_other: "c \<noteq> [] \<Longrightarrow> c \<noteq> dot \<Longrightarrow> c \<noteq> dotdot \<Longrightarrow> proper_comp rooted c"
  by (simp add: proper_comp_def)

lemma clean_stack_proper:
  "list_all (proper_comp rooted) st \<Longrightarrow> list_all (proper_comp rooted) (clean_stack rooted st cs)"
proof (induction rooted st cs rule: clean_stack.induct)
  case (2 rooted st c cs)
  consider (skip) "c = [] \<or> c = dot" | (up) "\<not> (c = [] \<or> c = dot)" "c = dotdot"
    | (push) "\<not> (c = [] \<or> c = dot)" "c \<noteq> dotdot" by blast
  then show ?case
  proof cases
    case skip
    with 2 show ?thesis by simp
  next
    case up
    show ?thesis
    proof (cases st)
      case Nil
      have "list_all (proper_comp rooted) (if rooted then [] else [c])"
        using up by (simp add: proper_comp_dotdot)
      with 2(2) up Nil show ?thesis by (cases rooted) simp_all
    next
      case (Cons t ts)
      have "rooted \<Longrightarrow> t \<noteq> dotdot" using 2(5) Cons by (simp add: proper_comp_def)
      with 2(5) up Cons have "list_all (proper_comp rooted) (if t = dotdot then c # st else ts)"
        by (auto simp: proper_comp_dotdot)
      with 2(3) up Cons show ?thesis by (cases "t = dotdot") simp_all
    qed
  next
    case push
    with 2 show ?thesis by (simp add: proper_comp_other)
  qed
qed (simp add: list_all_iff)

lemma clean_stack_subset: "set (clean_stack rooted st cs) \<subseteq> set st \<union> set cs"
proof (induction rooted st cs rule: clean_stack.induct)
  case (2 rooted st c cs)
  then show ?case by (cases st) (auto split: if_splits)
qed auto

lemma Split_no_sep: "x \<in> set (Split c s) \<Longrightarrow> c \<notin> set x"
  by (induction s arbitrary: x) (auto split: if_splits list.splits)

section \<open>Maps\<close>

type_synonym smap = "(string \<times> string) list"

text \<open>Reading a missing key gives the zero value.\<close>

definition mget :: "smap \<Rightarrow> string \<Rightarrow> string" where
  [go_map]: "mget m k = (case map_of m k of None \<Rightarrow> [] | Some v \<Rightarrow> v)"

definition mhas :: "('k \<times> 'v) list \<Rightarrow> 'k \<Rightarrow> bool" where
  [go_map]: "mhas m k = (map_of m k \<noteq> None)"

definition mput :: "'k \<Rightarrow> 'v \<Rightarrow> ('k \<times> 'v) list \<Rightarrow> ('k \<times> 'v) list" where
  "mput k v m = AList.update k v m"

definition mdel :: "'k \<Rightarrow> ('k \<times> 'v) list \<Rightarrow> ('k \<times> 'v) list" where
  "mdel k m = filter (\<lambda>p. fst p \<noteq> k) m"

text \<open>\<open>for k, v := range src { dst[k] = v }\<close>\<close>

definition mputs :: "('k \<times> 'v) list \<Rightarrow> ('k \<times> 'v) list \<Rightarrow> ('k \<times> 'v) list" where
  "mputs src dst = fold (\<lambda>(k, v) m. mput k v m) src dst"

abbreviation wf_map :: "('k \<times> 'v) list \<Rightarrow> bool" where
  "wf_map m \<equiv> distinct (map fst m)"

lemma map_of_mput [simp]: "map_of (mput k v m) = (map_of m)(k \<mapsto> v)"
  by (simp add: mput_def update_conv')

lemma mput_Nil [simp]: "mput k v [] = [(k, v)]"
  by (simp add: mput_def)

lemma mput_Cons [simp]: "mput k v (p # m) = (if k = fst p then (k, v) # m else p # mput k v m)"
  by (cases p) (simp add: mput_def)

lemma set_mput: "set (mput k v m) \<subseteq> insert (k, v) (set m)"
  by (induction m) auto

lemma map_of_mdel [simp]: "map_of (mdel k m) = (map_of m)(k := None)"
  by (induction m) (auto simp: mdel_def fun_eq_iff)

lemma wf_map_mput [simp]: "wf_map (mput k v m) \<longleftrightarrow> wf_map m"
  by (induction m) (auto simp: mput_def update_keys)

lemma wf_map_mdel [simp]: "wf_map m \<Longrightarrow> wf_map (mdel k m)"
  by (simp add: mdel_def distinct_map_filter)

lemma mget_mput [simp]: "mget (mput k v m) k' = (if k' = k then v else mget m k')"
  by (simp add: mget_def)

lemma mhas_mput [simp]: "mhas (mput k v m) k' \<longleftrightarrow> k' = k \<or> mhas m k'"
  by (simp add: mhas_def)

lemma mhas_mdel [simp]: "mhas (mdel k m) k' \<longleftrightarrow> k' \<noteq> k \<and> mhas m k'"
  by (simp add: mhas_def)

lemma map_of_mputs: "wf_map src \<Longrightarrow> map_of (mputs src dst) = map_of dst ++ map_of src"
proof (induction src arbitrary: dst)
  case (Cons p src)
  obtain k v where p: "p = (k, v)" by fastforce
  from Cons.prems p have "k \<notin> dom (map_of src)" by (auto simp: dom_map_of_conv_image_fst)
  moreover have "map_of (mputs (p # src) dst) = (map_of dst)(k \<mapsto> v) ++ map_of src"
    using Cons p by (simp add: mputs_def)
  ultimately show ?case using p by (auto simp: fun_eq_iff map_add_def split: option.splits)
qed (simp add: mputs_def)

lemma wf_map_mputs [simp]: "wf_map (mputs src dst) \<longleftrightarrow> wf_map dst"
  unfolding mputs_def by (induction src arbitrary: dst) (simp_all add: split_beta)

section \<open>Environment, durations, booleans\<close>

text \<open>The environment of the process; os.Getenv does not tell an empty variable from a missing one.\<close>

type_synonym environ = "string \<Rightarrow> string option"

definition Getenv :: "environ \<Rightarrow> string \<Rightarrow> string" where
  "Getenv env k = (case env k of None \<Rightarrow> [] | Some v \<Rightarrow> v)"

definition second :: int where "second = 1000000000"
definition minute :: int where "minute = 60 * second"
definition hour :: int where "hour = 60 * minute"

definition ParseBool :: "string \<Rightarrow> bool option" where
  "ParseBool s = (if s \<in> set [''1'', ''t'', ''T'', ''true'', ''TRUE'', ''True''] then Some True
     else if s \<in> set [''0'', ''f'', ''F'', ''false'', ''FALSE'', ''False''] then Some False else None)"

text \<open>
  The conversion of an \<open>int\<close> to \<open>float32\<close>: a significand of 24 bits, halves to even.
  Every result is a whole number, so it is an \<^typ>\<open>int\<close> here.
\<close>

definition bit_len :: "nat \<Rightarrow> nat" where
  "bit_len n = length (takeWhile (\<lambda>i. 2 ^ i \<le> n) [0..<64])"

definition round_even :: "nat \<Rightarrow> nat \<Rightarrow> nat" where
  "round_even n d = (let q = n div d; r = n mod d in if d < 2 * r \<or> (2 * r = d \<and> odd q) then q + 1 else q)"

definition float32_of_int :: "int \<Rightarrow> int" where
  "float32_of_int x = (let n = nat \<bar>x\<bar>; e = bit_len n - 24 in sgn x * int (round_even n (2 ^ e) * 2 ^ e))"

section \<open>FNV-1a\<close>

definition fnv32a :: "string \<Rightarrow> 32 word" where
  "fnv32a s = foldl (\<lambda>h c. (xor h (of_nat (of_char c))) * 16777619) 2166136261 s"

end
