(* ===== verification/Kube.thy ===== *)
theory Kube
  imports Go_Prelude
begin

text \<open>
  The Kubernetes objects the driver handles (the fields of k8s.io/api that it reads or
  writes), the external services as parameters, and the client of
  src/pkg/k8sclient/client.go. The API server, the operating system and the third-party
  packages are not code of the repository: they are the records \<open>clientset\<close>,
  \<open>host\<close> and \<open>lib\<close> of functions that every definition takes as an argument. A call
  may change the world in any way, so other processes acting between two calls are
  covered.
\<close>

section \<open>Objects\<close>

type_synonym quantity = int

record ObjectMeta =
  mName :: string
  mNamespace :: string
  mUID :: string
  mResourceVersion :: string
  mLabels :: "smap option"
  mAnnotations :: "smap option"
  mFinalizers :: "string list"
  mDeletionTimestamp :: "int option"
  mCreationTimestamp :: int
  mOwnerReferences :: "(string \<times> string) list option" \<comment> \<open>kind and name\<close>

record ResourceRequirements =
  rLimits :: "(string \<times> quantity) list"
  rRequests :: "(string \<times> quantity) list"

record VolumeMount =
  vmName :: string
  vmMountPath :: string
  vmSubPath :: string
  vmReadOnly :: bool
  vmPropagation :: "string option"

record CSIVolumeSource =
  csiDriver :: string
  csiFSType :: "string option"
  csiAttributes :: smap

datatype VolumeSource =
    HostPath string "string option"
  | EmptyDir string "quantity option"
  | ClaimSource string bool
  | SecretSource string "(string \<times> string) list" "int option"
  | CSISource CSIVolumeSource
  | OtherSource

record Volume =
  vName :: string
  vSource :: VolumeSource

datatype Handler = Exec "string list" | OtherHandler

record Lifecycle =
  lcPostStart :: "Handler option"
  lcPreStop :: "Handler option"

record SecurityContext =
  scPrivileged :: "bool option"
  scRunAsUser :: "int option"
  scCapabilitiesAdd :: "string list"

record Container =
  cName :: string
  cImage :: string
  cCommand :: "string list"
  cEnv :: smap
  cEnvFromSecret :: "string list"
  cVolumeMounts :: "VolumeMount list"
  cResources :: ResourceRequirements
  cLifecycle :: "Lifecycle option"
  cLivenessProbe :: "string option"
  cReadinessProbe :: "string option"
  cStartupProbe :: "string option"
  cPorts :: "(string \<times> int) list"
  cSecurityContext :: "SecurityContext option"

record PodSpec =
  psNodeName :: string
  psNodeSelector :: smap
  psContainers :: "Container list"
  psInitContainers :: "Container list"
  psVolumes :: "Volume list"
  psRestartPolicy :: string
  psPriorityClassName :: string
  psServiceAccountName :: string
  psHostNetwork :: bool
  psHostPID :: bool
  psHostIPC :: bool
  psTerminationGracePeriodSeconds :: "int option"
  psAffinity :: "string option"
  psSchedulerName :: string
  psTolerations :: "string list"
  psPreemptionPolicy :: "string option"
  psImagePullSecrets :: "string list"
  psDNSPolicy :: string
  psDNSConfig :: "string option"
  psHostAliases :: "string list"

record ContainerStatus =
  csName :: string
  csReady :: bool
  csWaiting :: "string option" \<comment> \<open>the reason\<close>
  csTerminated :: "(string \<times> int) option" \<comment> \<open>reason and exit code\<close>
  csRunning :: bool

record Condition =
  cnType :: string
  cnStatus :: string
  cnReason :: string
  cnMessage :: string

record PodStatus =
  stPhase :: string
  stReason :: string
  stMessage :: string
  stConditions :: "Condition list"
  stContainerStatuses :: "ContainerStatus list"
  stInitContainerStatuses :: "ContainerStatus list"

record Pod =
  pMeta :: ObjectMeta
  pSpec :: PodSpec
  pStatus :: PodStatus

record CSIPersistentVolumeSource =
  cpDriver :: string
  cpVolumeHandle :: string
  cpFSType :: string
  cpVolumeAttributes :: smap
  cpNodePublishSecretRef :: "(string \<times> string) option" \<comment> \<open>name and namespace\<close>
  cpControllerExpandSecretRef :: "(string \<times> string) option"

record PersistentVolume =
  pvMeta :: ObjectMeta
  pvCapacity :: quantity
  pvCSI :: "CSIPersistentVolumeSource option"
  pvClaimRef :: "(string \<times> string) option" \<comment> \<open>name and namespace\<close>
  pvStorageClassName :: string
  pvMountOptions :: "string list"
  pvAccessModes :: "string list"
  pvReclaimPolicy :: string
  pvVolumeMode :: "string option"

record PersistentVolumeClaim =
  pvcMeta :: ObjectMeta
  pvcStorageClassName :: "string option"
  pvcVolumeName :: string
  pvcStorageRequest :: quantity
  pvcAccessModes :: "string list"
  pvcSelector :: bool
  pvcPhase :: string
  pvcVolumeMode :: "string option"

record StorageClass =
  sclMeta :: ObjectMeta
  sclProvisioner :: string
  sclParameters :: smap
  sclMountOptions :: "string list"
  sclReclaimPolicy :: string

record Secret =
  seMeta :: ObjectMeta
  seData :: smap
  seStringData :: smap
  seOwner :: "(string \<times> string \<times> string) option" \<comment> \<open>kind, name, UID of the owner set by the builder\<close>

record Job =
  jMeta :: ObjectMeta
  jTemplate :: PodSpec
  jTTLSecondsAfterFinished :: "int option"
  jConditions :: "Condition list"
  jCompletionTime :: "int option"

record Node =
  nMeta :: ObjectMeta
  nPodCIDR :: string

abbreviation pod_name :: "Pod \<Rightarrow> string" where "pod_name p \<equiv> mName (pMeta p)"
abbreviation pod_ns :: "Pod \<Rightarrow> string" where "pod_ns p \<equiv> mNamespace (pMeta p)"

text \<open>Ranging over a nil map and reading from it is the same as for an empty map.\<close>

definition omap :: "smap option \<Rightarrow> smap" where
  "omap m = (case m of None \<Rightarrow> [] | Some x \<Rightarrow> x)"

lemma omap_simps [simp]: "omap None = []" "omap (Some m) = m"
  by (simp_all add: omap_def)

abbreviation annos :: "Pod \<Rightarrow> smap" where "annos p \<equiv> omap (mAnnotations (pMeta p))"
abbreviation plabels :: "Pod \<Rightarrow> smap" where "plabels p \<equiv> omap (mLabels (pMeta p))"

definition set_annos :: "smap option \<Rightarrow> Pod \<Rightarrow> Pod" where
  "set_annos m p = p\<lparr>pMeta := (pMeta p)\<lparr>mAnnotations := m\<rparr>\<rparr>"

definition set_spec_containers :: "Container list \<Rightarrow> Pod \<Rightarrow> Pod" where
  "set_spec_containers cs p = p\<lparr>pSpec := (pSpec p)\<lparr>psContainers := cs\<rparr>\<rparr>"

definition set_spec_volumes :: "Volume list \<Rightarrow> Pod \<Rightarrow> Pod" where
  "set_spec_volumes vs p = p\<lparr>pSpec := (pSpec p)\<lparr>psVolumes := vs\<rparr>\<rparr>"

text \<open>The zero values of the Go types.\<close>

definition zero_meta :: ObjectMeta where
  "zero_meta = \<lparr>mName = [], mNamespace = [], mUID = [], mResourceVersion = [], mLabels = None,
     mAnnotations = None, mFinalizers = [], mDeletionTimestamp = None, mCreationTimestamp = 0,
     mOwnerReferences = None\<rparr>"

definition zero_resources :: ResourceRequirements where
  "zero_resources = \<lparr>rLimits = [], rRequests = []\<rparr>"

definition zero_spec :: PodSpec where
  "zero_spec = \<lparr>psNodeName = [], psNodeSelector = [], psContainers = [], psInitContainers = [],
     psVolumes = [], psRestartPolicy = [], psPriorityClassName = [], psServiceAccountName = [],
     psHostNetwork = False, psHostPID = False, psHostIPC = False,
     psTerminationGracePeriodSeconds = None, psAffinity = None, psSchedulerName = [],
     psTolerations = [], psPreemptionPolicy = None, psImagePullSecrets = [], psDNSPolicy = [],
     psDNSConfig = None, psHostAliases = []\<rparr>"

definition zero_status :: PodStatus where
  "zero_status = \<lparr>stPhase = [], stReason = [], stMessage = [], stConditions = [],
     stContainerStatuses = [], stInitContainerStatuses = []\<rparr>"

definition zero_pod :: Pod where
  "zero_pod = \<lparr>pMeta = zero_meta, pSpec = zero_spec, pStatus = zero_status\<rparr>"

definition zero_container :: Container where
  "zero_container = \<lparr>cName = [], cImage = [], cCommand = [], cEnv = [], cEnvFromSecret = [],
     cVolumeMounts = [], cResources = zero_resources, cLifecycle = None, cLivenessProbe = None,
     cReadinessProbe = None, cStartupProbe = None, cPorts = [], cSecurityContext = None\<rparr>"

definition zero_mount :: VolumeMount where
  "zero_mount = \<lparr>vmName = [], vmMountPath = [], vmSubPath = [], vmReadOnly = False, vmPropagation = None\<rparr>"

lemmas zero_defs = zero_meta_def zero_resources_def zero_spec_def zero_status_def zero_pod_def
  zero_container_def zero_mount_def

section \<open>External services\<close>

text \<open>Payloads of a patch: the JSON patch operations and the merge patches the driver sends.\<close>

datatype PatchOp =
    ReplaceList string "string list"
  | ReplaceMap string smap
  | Remove string

datatype Patch = JSONPatch "PatchOp list" | MergeLabels smap | MergeAnnotations smap

record Selector =
  selMatchLabels :: smap
  selExists :: "string list"

text \<open>
  The REST calls of k8s.io/client-go (a namespace first, then a name). The conversion of a
  selector to its string form, which may fail, is part of the call. The objects returned
  for a replica set or a stateful set are never read, so one call stands for the two;
  of a daemon set only the pod specification of its template is. RetryOnConflict calls its function again while that fails with a
  conflict.
\<close>

record 'w clientset =
  c_pods_create :: "string \<Rightarrow> Pod \<Rightarrow> ('w, Pod) io"
  c_pods_get :: "string \<Rightarrow> string \<Rightarrow> ('w, Pod) io"
  c_pods_list :: "string \<Rightarrow> string \<Rightarrow> Selector option \<Rightarrow> smap option \<Rightarrow> ('w, Pod list) io"
    \<comment> \<open>namespace, resource version, label selector, field selector\<close>
  c_pods_log :: "string \<Rightarrow> string \<Rightarrow> string \<Rightarrow> ('w, string) io"
  c_pods_update :: "string \<Rightarrow> Pod \<Rightarrow> ('w, unit) io"
  c_pods_patch :: "string \<Rightarrow> string \<Rightarrow> Patch \<Rightarrow> ('w, unit) io"
  c_pods_delete :: "string \<Rightarrow> string \<Rightarrow> ('w, unit) io"
  c_secrets_get :: "string \<Rightarrow> string \<Rightarrow> ('w, Secret) io"
  c_secrets_create :: "string \<Rightarrow> Secret \<Rightarrow> ('w, Secret) io"
  c_secrets_update :: "string \<Rightarrow> Secret \<Rightarrow> ('w, unit) io"
  c_secrets_delete :: "string \<Rightarrow> string \<Rightarrow> ('w, unit) io"
  c_secrets_patch :: "string \<Rightarrow> string \<Rightarrow> Patch \<Rightarrow> ('w, unit) io"
  c_jobs_get :: "string \<Rightarrow> string \<Rightarrow> ('w, Job) io"
  c_jobs_create :: "string \<Rightarrow> Job \<Rightarrow> ('w, Job) io"
  c_jobs_update :: "string \<Rightarrow> Job \<Rightarrow> ('w, unit) io"
  c_jobs_delete :: "string \<Rightarrow> string \<Rightarrow> ('w, unit) io"
  c_pvs_get :: "string \<Rightarrow> ('w, PersistentVolume) io"
  c_pvs_list :: "Selector option \<Rightarrow> smap option \<Rightarrow> ('w, PersistentVolume list) io"
  c_pvcs_get :: "string \<Rightarrow> string \<Rightarrow> ('w, PersistentVolumeClaim) io"
  c_scs_get :: "string \<Rightarrow> ('w, StorageClass) io"
  c_scs_list :: "('w, StorageClass list) io"
  c_owner_get :: "string \<Rightarrow> string \<Rightarrow> string \<Rightarrow> ('w, unit) io" \<comment> \<open>kind, namespace, name\<close>
  c_daemonsets_get :: "string \<Rightarrow> string \<Rightarrow> ('w, PodSpec) io"
  c_nodes_list :: "Selector option \<Rightarrow> ('w, Node list) io"
  c_retry :: "('w, unit) io \<Rightarrow> ('w, unit) io" \<comment> \<open>retry.RetryOnConflict with the default backoff\<close>
  c_exec :: "string \<Rightarrow> string \<Rightarrow> string \<Rightarrow> string list \<Rightarrow> 'w \<Rightarrow> (string \<times> string \<times> err option) \<times> 'w"

text \<open>The record of os.Stat that the driver reads, and one line of /proc/self/mountinfo.\<close>

record FileInfo =
  fiIno :: nat
  fiDev :: "64 word"
  fiPerm :: nat

record MountInfo =
  miMinor :: int
  miRoot :: string
  miMountPoint :: string

text \<open>
  The node: files, mounts, commands, clock. A call of DoWithTimeout around one of these
  is the call itself, whose error may be a context error.
\<close>

record 'w host =
  h_stat :: "string \<Rightarrow> ('w, FileInfo) io"
  h_path_exists :: "string \<Rightarrow> ('w, bool) io"
  h_mkdir_all :: "string \<Rightarrow> nat \<Rightarrow> ('w, unit) io"
  h_chmod :: "string \<Rightarrow> nat \<Rightarrow> ('w, unit) io"
  h_remove :: "string \<Rightarrow> ('w, unit) io"
  h_remove_all :: "string \<Rightarrow> ('w, unit) io"
  h_mkdir_temp :: "('w, string) io"
  h_read_file :: "string \<Rightarrow> ('w, string) io"
  h_write_file :: "string \<Rightarrow> string \<Rightarrow> ('w, unit) io"
  h_eval_symlinks :: "string \<Rightarrow> ('w, string) io"
  h_umount_lazy :: "string \<Rightarrow> 'w \<Rightarrow> (string \<times> err option) \<times> 'w" \<comment> \<open>umount -l: combined output and error\<close>
  h_mount :: "string \<Rightarrow> string \<Rightarrow> string \<Rightarrow> string list \<Rightarrow> ('w, unit) io"
  h_unmount :: "string \<Rightarrow> ('w, unit) io"
  h_cleanup_mount_point :: "string \<Rightarrow> ('w, unit) io"
  h_is_not_mount_point :: "string \<Rightarrow> ('w, bool) io"
  h_is_likely_not_mount_point :: "string \<Rightarrow> ('w, bool) io"
  h_mount_infos :: "('w, MountInfo list) io"
  h_command :: "string \<Rightarrow> string list \<Rightarrow> smap \<Rightarrow> 'w \<Rightarrow> (string \<times> err option) \<times> 'w" \<comment> \<open>path, arguments, extra environment\<close>
  h_statfs :: "string \<Rightarrow> ('w, 64 word \<times> 64 word \<times> 64 word \<times> 64 word \<times> 64 word) io"
    \<comment> \<open>Bsize, Blocks, Bfree, Files, Ffree\<close>
  h_running_pods :: "('w, Pod list option) io" \<comment> \<open>the kubelet's pod list, or a nil one\<close>
  h_now :: "'w \<Rightarrow> int" \<comment> \<open>nanoseconds\<close>
  h_sleep :: "int \<Rightarrow> 'w \<Rightarrow> 'w" \<comment> \<open>microseconds\<close>
  h_ctx_err :: "'w \<Rightarrow> err option"
  h_intn :: "nat \<Rightarrow> 'w \<Rightarrow> nat \<times> 'w" \<comment> \<open>rand.Intn\<close>
  h_lock :: "nat \<Rightarrow> 'w \<Rightarrow> 'w"
  h_unlock :: "nat \<Rightarrow> 'w \<Rightarrow> 'w"
  h_dev_minor_store :: "string \<Rightarrow> 32 word \<Rightarrow> 'w \<Rightarrow> 'w"
  h_dev_minor_load :: "string \<Rightarrow> 'w \<Rightarrow> 32 word option"
  h_dev_minor_delete :: "string \<Rightarrow> 'w \<Rightarrow> 'w"

text \<open>
  Pure functions of packages outside the repository: SHA-256 in lower-case hex, the
  parsers of resource quantities, YAML or JSON maps and durations, the two directions of
  the time layout (for UTC), and the offset of the local time zone (durations and times
  are in nanoseconds). A quantity is the integer number of its smallest units. Unmarshalling writes into a given value and may
  have changed it when it fails.
\<close>

type_synonym 'a unmarshal = "string \<Rightarrow> 'a \<Rightarrow> err option \<times> 'a"

record lib =
  l_sha256 :: "string \<Rightarrow> string"
  l_parse_quantity :: "string \<Rightarrow> quantity res"
  l_quantity_value :: "quantity \<Rightarrow> int"
  l_yaml_map :: "smap unmarshal"
  l_json_map :: "smap unmarshal"
  l_json_marshal_map :: "smap \<Rightarrow> string"
  l_vci_unmarshal :: "string \<Rightarrow> (string \<times> string) list res" \<comment> \<open>container and mount path\<close>
  l_vci_marshal :: "(string \<times> string) list \<Rightarrow> string"
  l_parse_csi_volumes :: "string \<Rightarrow> CSIVolumeSource list res"
  l_parse_duration :: "string \<Rightarrow> int res"
  l_format_time :: "int \<Rightarrow> string"
  l_parse_time :: "string \<Rightarrow> int res"
  l_local_offset :: int

section \<open>The client\<close>

text \<open>
  The client embeds the interface of client-go. A pod, secret or job argument may be a
  nil pointer, which the client answers without a call.
\<close>

record 'w K8sClient = "'w clientset" +
  enableAPIServerListCache :: bool

definition CreatePod :: "'w K8sClient \<Rightarrow> Pod option \<Rightarrow> ('w, Pod option) io" where
  "CreatePod K pod = (case pod of None \<Rightarrow> ret None
     | Some p \<Rightarrow> bind (c_pods_create K (pod_ns p) p) (\<lambda>mntPod. ret (Some mntPod)))"

definition GetPod :: "'w K8sClient \<Rightarrow> string \<Rightarrow> string \<Rightarrow> ('w, Pod) io" where
  "GetPod K podName namespace = bind (c_pods_get K namespace podName) ret"

definition ListPod :: "'w K8sClient \<Rightarrow> string \<Rightarrow> Selector option \<Rightarrow> smap option \<Rightarrow> ('w, Pod list) io" where
  "ListPod K namespace labelSelector filedSelector =
     bind (c_pods_list K namespace (if enableAPIServerListCache K then ''0'' else []) labelSelector filedSelector) ret"

definition ListNode :: "'w K8sClient \<Rightarrow> Selector option \<Rightarrow> ('w, Node list) io" where
  "ListNode K labelSelector = bind (c_nodes_list K labelSelector) ret"

definition GetPodLog :: "'w K8sClient \<Rightarrow> string \<Rightarrow> string \<Rightarrow> string \<Rightarrow> ('w, string) io" where
  "GetPodLog K podName namespace containerName = bind (c_pods_log K namespace podName containerName) ret"

definition PatchPod :: "'w K8sClient \<Rightarrow> Pod option \<Rightarrow> Patch \<Rightarrow> ('w, unit) io" where
  "PatchPod K pod data = (case pod of None \<Rightarrow> ret () | Some p \<Rightarrow> c_pods_patch K (pod_ns p) (pod_name p) data)"

definition UpdatePod :: "'w K8sClient \<Rightarrow> Pod option \<Rightarrow> ('w, unit) io" where
  "UpdatePod K pod = (case pod of None \<Rightarrow> ret () | Some p \<Rightarrow> c_pods_update K (pod_ns p) p)"

definition DeletePod :: "'w K8sClient \<Rightarrow> Pod option \<Rightarrow> ('w, unit) io" where
  "DeletePod K pod = (case pod of None \<Rightarrow> ret () | Some p \<Rightarrow> c_pods_delete K (pod_ns p) (pod_name p))"

definition GetSecret :: "'w K8sClient \<Rightarrow> string \<Rightarrow> string \<Rightarrow> ('w, Secret) io" where
  "GetSecret K secretName namespace = bind (c_secrets_get K namespace secretName) ret"

text \<open>
  When the creation fails the variable \<open>secret\<close> has been overwritten by the result of
  Create, which client-go makes a non-nil empty object, so the log line reads its name
  without a panic.
\<close>

definition CreateSecret :: "'w K8sClient \<Rightarrow> Secret option \<Rightarrow> ('w, Secret option) io" where
  "CreateSecret K secret = (case secret of None \<Rightarrow> ret None
     | Some s \<Rightarrow> bind (c_secrets_create K (mNamespace (seMeta s)) s) (\<lambda>x. ret (Some x)))"

definition UpdateSecret :: "'w K8sClient \<Rightarrow> Secret option \<Rightarrow> ('w, unit) io" where
  "UpdateSecret K secret = (case secret of None \<Rightarrow> ret () | Some s \<Rightarrow> c_secrets_update K (mNamespace (seMeta s)) s)"

definition DeleteSecret :: "'w K8sClient \<Rightarrow> string \<Rightarrow> string \<Rightarrow> ('w, unit) io" where
  "DeleteSecret K secretName namespace = c_secrets_delete K namespace secretName"

definition PatchSecret :: "'w K8sClient \<Rightarrow> Secret option \<Rightarrow> Patch \<Rightarrow> ('w, unit) io" where
  "PatchSecret K secret data = (case secret of None \<Rightarrow> ret ()
     | Some s \<Rightarrow> c_secrets_patch K (mNamespace (seMeta s)) (mName (seMeta s)) data)"

definition GetJob :: "'w K8sClient \<Rightarrow> string \<Rightarrow> string \<Rightarrow> ('w, Job) io" where
  "GetJob K jobName namespace = bind (c_jobs_get K namespace jobName) ret"

definition CreateJob :: "'w K8sClient \<Rightarrow> Job option \<Rightarrow> ('w, Job option) io" where
  "CreateJob K job = (case job of None \<Rightarrow> ret None
     | Some j \<Rightarrow> bind (c_jobs_create K (mNamespace (jMeta j)) j) (\<lambda>x. ret (Some x)))"

definition UpdateJob :: "'w K8sClient \<Rightarrow> Job option \<Rightarrow> ('w, unit) io" where
  "UpdateJob K job = (case job of None \<Rightarrow> ret () | Some j \<Rightarrow> c_jobs_update K (mNamespace (jMeta j)) j)"

definition DeleteJob :: "'w K8sClient \<Rightarrow> string \<Rightarrow> string \<Rightarrow> ('w, unit) io" where
  "DeleteJob K jobName namespace = c_jobs_delete K namespace jobName"

definition GetPersistentVolume :: "'w K8sClient \<Rightarrow> string \<Rightarrow> ('w, PersistentVolume) io" where
  "GetPersistentVolume K pvName = bind (c_pvs_get K pvName) ret"

definition ListPersistentVolumes :: "'w K8sClient \<Rightarrow> Selector option \<Rightarrow> smap option \<Rightarrow> ('w, PersistentVolume list) io" where
  "ListPersistentVolumes K labelSelector filedSelector = bind (c_pvs_list K labelSelector filedSelector) ret"

definition ListPersistentVolumesByVolumeHandle ::
  "'w K8sClient \<Rightarrow> string \<Rightarrow> ('w, PersistentVolume list) io" where
  "ListPersistentVolumesByVolumeHandle K volumeHandle =
     bind (ListPersistentVolumes K None None) (\<lambda>pvs.
       ret (filter (\<lambda>pv. case pvCSI pv of None \<Rightarrow> False | Some c \<Rightarrow> cpVolumeHandle c = volumeHandle) pvs))"

definition ListStorageClasses :: "'w K8sClient \<Rightarrow> ('w, StorageClass list) io" where
  "ListStorageClasses K = bind (c_scs_list K) ret"

definition GetPersistentVolumeClaim :: "'w K8sClient \<Rightarrow> string \<Rightarrow> string \<Rightarrow> ('w, PersistentVolumeClaim) io" where
  "GetPersistentVolumeClaim K pvcName namespace = bind (c_pvcs_get K namespace pvcName) ret"

definition GetReplicaSet :: "'w K8sClient \<Rightarrow> string \<Rightarrow> string \<Rightarrow> ('w, unit) io" where
  "GetReplicaSet K rsName namespace = bind (c_owner_get K ''ReplicaSet'' namespace rsName) ret"

definition GetStatefulSet :: "'w K8sClient \<Rightarrow> string \<Rightarrow> string \<Rightarrow> ('w, unit) io" where
  "GetStatefulSet K stsName namespace = bind (c_owner_get K ''StatefulSet'' namespace stsName) ret"

definition GetStorageClass :: "'w K8sClient \<Rightarrow> string \<Rightarrow> ('w, StorageClass) io" where
  "GetStorageClass K scName = bind (c_scs_get K scName) ret"

definition GetDaemonSet :: "'w K8sClient \<Rightarrow> string \<Rightarrow> string \<Rightarrow> ('w, PodSpec) io" where
  "GetDaemonSet K dsName namespace = bind (c_daemonsets_get K namespace dsName) ret"

definition ExecuteInContainer ::
  "'w K8sClient \<Rightarrow> string \<Rightarrow> string \<Rightarrow> string \<Rightarrow> string list \<Rightarrow> 'w \<Rightarrow> (string \<times> string \<times> err option) \<times> 'w" where
  "ExecuteInContainer K podName namespace containerName cmd w =
     (let ((sout, serr, e), w') = c_exec K namespace podName containerName cmd w
      in ((TrimSpace sout, TrimSpace serr, e), w'))"

text \<open>
  The configuration that client-go gives to a program in a cluster, as far as the driver
  changes it, and the constructor of the client. Both are parameters; a nil
  configuration is \<open>None\<close>.
\<close>

record rest_config =
  rcTimeout :: int
  rcQPS :: int
  rcBurst :: int

definition env_int :: "environ \<Rightarrow> string \<Rightarrow> (int \<Rightarrow> rest_config \<Rightarrow> rest_config) \<Rightarrow> rest_config \<Rightarrow> rest_config res" where
  "env_int env key upd config = (if Getenv env key \<noteq> []
     then (case Atoi (Getenv env key) of None \<Rightarrow> Inl (OtherError ''strconv.Atoi'') | Some n \<Rightarrow> Inr (upd n config))
     else Inr config)"

definition NewClient ::
  "environ \<Rightarrow> ('w, rest_config option) io \<Rightarrow> (rest_config \<Rightarrow> ('w, 'w clientset) io) \<Rightarrow> ('w, 'w K8sClient) io" where
  "NewClient env inClusterConfig newForConfig =
     bind inClusterConfig (\<lambda>config. case config of
       None \<Rightarrow> fail (GrpcStatus ''NotFound'' ''Can't get kube InClusterConfig'')
     | Some config \<Rightarrow>
         bind (lift_res (env_int env ''KUBE_QPS'' (\<lambda>n. rcQPS_update (\<lambda>_. float32_of_int n)) (config\<lparr>rcTimeout := 10 * second\<rparr>))) (\<lambda>config1.
         bind (lift_res (env_int env ''KUBE_BURST'' (\<lambda>n. rcBurst_update (\<lambda>_. n)) config1)) (\<lambda>config2.
         bind (newForConfig config2) (\<lambda>client.
           ret (clientset.extend client \<lparr>enableAPIServerListCache = (Getenv env ''ENABLE_APISERVER_LIST_CACHE'' = ''true'')\<rparr>)))))"

section \<open>Idle services\<close>

text \<open>
  Services that do nothing and know no object; the witnesses change the calls they need.
\<close>

definition idle_host :: "'w host" where
  "idle_host = \<lparr>h_stat = (\<lambda>_. fail NotFound),
     h_path_exists = (\<lambda>_. ret True),
     h_mkdir_all = (\<lambda>_ _. ret ()),
     h_chmod = (\<lambda>_ _. ret ()),
     h_remove = (\<lambda>_. ret ()),
     h_remove_all = (\<lambda>_. ret ()),
     h_mkdir_temp = fail NotFound,
     h_read_file = (\<lambda>_. fail NotFound),
     h_write_file = (\<lambda>_ _. ret ()),
     h_eval_symlinks = (\<lambda>_. fail NotFound),
     h_umount_lazy = (\<lambda>_ w. (([], None), w)),
     h_mount = (\<lambda>_ _ _ _. ret ()),
     h_unmount = (\<lambda>_. ret ()),
     h_cleanup_mount_point = (\<lambda>_. ret ()),
     h_is_not_mount_point = (\<lambda>_. ret True),
     h_is_likely_not_mount_point = (\<lambda>_. ret True),
     h_mount_infos = fail NotFound,
     h_command = (\<lambda>_ _ _ w. (([], None), w)),
     h_statfs = (\<lambda>_. fail NotFound),
     h_running_pods = ret (Some []),
     h_now = (\<lambda>_. 0),
     h_sleep = (\<lambda>_ w. w),
     h_ctx_err = (\<lambda>_. None),
     h_intn = (\<lambda>_ w. (0, w)),
     h_lock = (\<lambda>_ w. w),
     h_unlock = (\<lambda>_ w. w),
     h_dev_minor_store = (\<lambda>_ _ w. w),
     h_dev_minor_load = (\<lambda>_ _. None),
     h_dev_minor_delete = (\<lambda>_ w. w)\<rparr>"

definition idle_client :: "'w K8sClient" where
  "idle_client = \<lparr>c_pods_create = (\<lambda>_ _. fail NotFound),
     c_pods_get = (\<lambda>_ _. fail NotFound),
     c_pods_list = (\<lambda>_ _ _ _. ret []),
     c_pods_log = (\<lambda>_ _ _. fail NotFound),
     c_pods_update = (\<lambda>_ _. ret ()),
     c_pods_patch = (\<lambda>_ _ _. ret ()),
     c_pods_delete = (\<lambda>_ _. ret ()),
     c_secrets_get = (\<lambda>_ _. fail NotFound),
     c_secrets_create = (\<lambda>_ _. fail NotFound),
     c_secrets_update = (\<lambda>_ _. ret ()),
     c_secrets_delete = (\<lambda>_ _. ret ()),
     c_secrets_patch = (\<lambda>_ _ _. ret ()),
     c_jobs_get = (\<lambda>_ _. fail NotFound),
     c_jobs_create = (\<lambda>_ _. fail NotFound),
     c_jobs_update = (\<lambda>_ _. ret ()),
     c_jobs_delete = (\<lambda>_ _. ret ()),
     c_pvs_get = (\<lambda>_. fail NotFound),
     c_pvs_list = (\<lambda>_ _. fail NotFound),
     c_pvcs_get = (\<lambda>_ _. fail NotFound),
     c_scs_get = (\<lambda>_. fail NotFound),
     c_scs_list = fail NotFound,
     c_owner_get = (\<lambda>_ _ _. ret ()),
     c_daemonsets_get = (\<lambda>_ _. fail NotFound),
     c_nodes_list = (\<lambda>_. fail NotFound),
     c_retry = (\<lambda>m. m),
     c_exec = (\<lambda>_ _ _ _ w. (([], [], None), w)),
     enableAPIServerListCache = False\<rparr>"

lemma bind_ret [simp]: "bind m ret = m"
  by (auto simp: go_step fun_eq_iff split: prod.split sum.split)

lemmas client_reads = GetPod_def ListPod_def ListNode_def GetPodLog_def GetSecret_def GetJob_def
  GetPersistentVolume_def ListPersistentVolumes_def ListStorageClasses_def
  GetPersistentVolumeClaim_def GetReplicaSet_def GetStatefulSet_def GetStorageClass_def GetDaemonSet_def

lemmas client_writes = CreatePod_def PatchPod_def UpdatePod_def DeletePod_def CreateSecret_def
  UpdateSecret_def DeleteSecret_def PatchSecret_def CreateJob_def UpdateJob_def DeleteJob_def

end
