(* ===== verification/Config.thy ===== *)
theory Config
  imports Kube
begin

text \<open>
  The globals and constants of src/pkg/config/config.go, the pod locks, and the mount
  pod patches of the configuration file. The variables that the two commands set from
  their flags and environment are the record \<open>globals\<close>; the ones no code assigns
  are constants.
\<close>

section \<open>Constants\<close>

definition PodMountBase :: string where "PodMountBase = ''/jfs''"
definition TmpPodMountBase :: string where "TmpPodMountBase = ''/tmp''"
definition MountBase :: string where "MountBase = ''/var/lib/jfs''"
definition FsType :: string where "FsType = ''juicefs''"
definition CliPath :: string where "CliPath = ''/usr/bin/juicefs''"
definition CeCliPath :: string where "CeCliPath = ''/usr/local/bin/juicefs''"
definition CeMountPath :: string where "CeMountPath = ''/bin/mount.juicefs''"
definition JfsMountPath :: string where "JfsMountPath = ''/sbin/mount.juicefs''"
definition DefaultClientConfPath :: string where "DefaultClientConfPath = ''/root/.juicefs''"
definition ROConfPath :: string where "ROConfPath = ''/etc/juicefs''"

definition CSINodeLabelKey :: string where "CSINodeLabelKey = ''app''"
definition CSINodeLabelValue :: string where "CSINodeLabelValue = ''juicefs-csi-node''"
definition PodTypeKey :: string where "PodTypeKey = ''app.kubernetes.io/name''"
definition PodTypeValue :: string where "PodTypeValue = ''juicefs-mount''"
definition PodUniqueIdLabelKey :: string where "PodUniqueIdLabelKey = ''volume-id''"
definition PodJuiceHashLabelKey :: string where "PodJuiceHashLabelKey = ''juicefs-hash''"
definition Finalizer :: string where "Finalizer = ''juicefs.com/finalizer''"
definition JuiceFSUUID :: string where "JuiceFSUUID = ''juicefs-uuid''"
definition UniqueIdKey :: string where "UniqueIdKey = ''juicefs-uniqueid''"
definition CleanCacheKey :: string where "CleanCacheKey = ''juicefs-clean-cache''"
definition MountContainerName :: string where "MountContainerName = ''jfs-mount''"
definition JobTypeValue :: string where "JobTypeValue = ''juicefs-job''"
definition JfsInsideContainer :: string where "JfsInsideContainer = ''JFS_INSIDE_CONTAINER''"

definition ProvisionerSecretName :: string where
  "ProvisionerSecretName = ''csi.storage.k8s.io/provisioner-secret-name''"
definition ProvisionerSecretNamespace :: string where
  "ProvisionerSecretNamespace = ''csi.storage.k8s.io/provisioner-secret-namespace''"
definition PublishSecretName :: string where
  "PublishSecretName = ''csi.storage.k8s.io/node-publish-secret-name''"
definition PublishSecretNamespace :: string where
  "PublishSecretNamespace = ''csi.storage.k8s.io/node-publish-secret-namespace''"
definition ControllerExpandSecretName :: string where
  "ControllerExpandSecretName = ''csi.storage.k8s.io/controller-expand-secret-name''"
definition ControllerExpandSecretNamespace :: string where
  "ControllerExpandSecretNamespace = ''csi.storage.k8s.io/controller-expand-secret-namespace''"

definition WebhookTrue :: string where "WebhookTrue = ''true''"
definition WebhookFalse :: string where "WebhookFalse = ''false''"
definition injectSidecar :: string where "injectSidecar = ''.sidecar'' @ ''.juicefs.com/inject''"
definition InjectSidecarDone :: string where "InjectSidecarDone = ''done'' @ injectSidecar"
definition InjectSidecarDisable :: string where "InjectSidecarDisable = ''disable'' @ injectSidecar"

definition MountPodCpuLimitKey :: string where "MountPodCpuLimitKey = ''juicefs/mount-cpu-limit''"
definition MountPodMemLimitKey :: string where "MountPodMemLimitKey = ''juicefs/mount-memory-limit''"
definition MountPodCpuRequestKey :: string where "MountPodCpuRequestKey = ''juicefs/mount-cpu-request''"
definition MountPodMemRequestKey :: string where "MountPodMemRequestKey = ''juicefs/mount-memory-request''"
definition mountPodLabelKey :: string where "mountPodLabelKey = ''juicefs/mount-labels''"
definition mountPodAnnotationKey :: string where "mountPodAnnotationKey = ''juicefs/mount-annotations''"
definition mountPodServiceAccount :: string where "mountPodServiceAccount = ''juicefs/mount-service-account''"
definition mountPodImageKey :: string where "mountPodImageKey = ''juicefs/mount-image''"
definition deleteDelay :: string where "deleteDelay = ''juicefs/mount-delete-delay''"
definition cleanCache :: string where "cleanCache = ''juicefs/clean-cache''"
definition cachePVC :: string where "cachePVC = ''juicefs/mount-cache-pvc''"
definition cacheEmptyDir :: string where "cacheEmptyDir = ''juicefs/mount-cache-emptydir''"
definition cacheInlineVolume :: string where "cacheInlineVolume = ''juicefs/mount-cache-inline-volume''"
definition mountPodHostPath :: string where "mountPodHostPath = ''juicefs/host-path''"
definition DeleteDelayTimeKey :: string where "DeleteDelayTimeKey = ''juicefs-delete-delay''"
definition DeleteDelayAtKey :: string where "DeleteDelayAtKey = ''juicefs-delete-at''"

definition DefaultMountPodCpuLimit :: string where "DefaultMountPodCpuLimit = ''2000m''"
definition DefaultMountPodMemLimit :: string where "DefaultMountPodMemLimit = ''5Gi''"
definition DefaultMountPodCpuRequest :: string where "DefaultMountPodCpuRequest = ''1000m''"
definition DefaultMountPodMemRequest :: string where "DefaultMountPodMemRequest = ''1Gi''"

section \<open>Mount pod patches\<close>

text \<open>The selector of a patch is opaque; matching it is a parameter.\<close>

record MountPodPatch =
  mpPVCSelector :: "string option"
  mpCEMountImage :: string
  mpEEMountImage :: string
  mpImage :: string
  mpLabels :: "smap option"
  mpAnnotations :: "smap option"
  mpHostNetwork :: "bool option"
  mpHostPID :: "bool option"
  mpLivenessProbe :: "string option"
  mpReadinessProbe :: "string option"
  mpStartupProbe :: "string option"
  mpLifecycle :: "Lifecycle option"
  mpResources :: "ResourceRequirements option"

definition zero_patch :: MountPodPatch where
  "zero_patch = \<lparr>mpPVCSelector = None, mpCEMountImage = [], mpEEMountImage = [], mpImage = [],
     mpLabels = None, mpAnnotations = None, mpHostNetwork = None, mpHostPID = None,
     mpLivenessProbe = None, mpReadinessProbe = None, mpStartupProbe = None, mpLifecycle = None,
     mpResources = None\<rparr>"

record ConfigFile =
  cfEnableNodeSelector :: bool
  cfMountPodPatch :: "MountPodPatch list"

text \<open>
  JSON of a patch, YAML of the configuration, and label selectors are third-party code.
\<close>

record patch_lib =
  pl_marshal :: "MountPodPatch \<Rightarrow> string"
  pl_unmarshal :: "MountPodPatch unmarshal"
  pl_selector :: "string \<Rightarrow> (smap \<Rightarrow> bool) res"
  pl_yaml_config :: "ConfigFile unmarshal"

definition deepCopy :: "patch_lib \<Rightarrow> MountPodPatch \<Rightarrow> MountPodPatch" where
  "deepCopy PL mpp = snd (pl_unmarshal PL (pl_marshal PL mpp) zero_patch)"

definition set_if :: "bool \<Rightarrow> 'a \<Rightarrow> 'a \<Rightarrow> 'a" where
  "set_if b new old = (if b then new else old)"

definition merge :: "MountPodPatch \<Rightarrow> MountPodPatch \<Rightarrow> MountPodPatch" where
  "merge mpp mp = mpp
     \<lparr>mpCEMountImage := set_if (mpCEMountImage mp \<noteq> []) (mpCEMountImage mp) (mpCEMountImage mpp),
      mpEEMountImage := set_if (mpEEMountImage mp \<noteq> []) (mpEEMountImage mp) (mpEEMountImage mpp),
      mpHostNetwork := set_if (mpHostNetwork mp \<noteq> None) (mpHostNetwork mp) (mpHostNetwork mpp),
      mpHostPID := set_if (mpHostPID mp \<noteq> None) (mpHostPID mp) (mpHostPID mpp),
      mpLivenessProbe := set_if (mpLivenessProbe mp \<noteq> None) (mpLivenessProbe mp) (mpLivenessProbe mpp),
      mpReadinessProbe := set_if (mpReadinessProbe mp \<noteq> None) (mpReadinessProbe mp) (mpReadinessProbe mpp),
      mpLifecycle := set_if (mpLifecycle mp \<noteq> None) (mpLifecycle mp) (mpLifecycle mpp),
      mpLabels := set_if (mpLabels mp \<noteq> None) (mpLabels mp) (mpLabels mpp),
      mpAnnotations := set_if (mpAnnotations mp \<noteq> None) (mpAnnotations mp) (mpAnnotations mpp),
      mpResources := set_if (mpResources mp \<noteq> None) (mpResources mp) (mpResources mpp)\<rparr>"

text \<open>The loop over the patches, given the labels of the claim when there is one.\<close>

definition patch_applies :: "patch_lib \<Rightarrow> smap option \<Rightarrow> MountPodPatch \<Rightarrow> bool" where
  "patch_applies PL pvcLabels mp =
     (case mpPVCSelector mp of None \<Rightarrow> True
      | Some sel \<Rightarrow> (case pvcLabels of None \<Rightarrow> False
          | Some ls \<Rightarrow> (case pl_selector PL sel of Inl _ \<Rightarrow> False | Inr matches \<Rightarrow> matches ls)))"

definition merge_patches :: "patch_lib \<Rightarrow> smap option \<Rightarrow> MountPodPatch list \<Rightarrow> MountPodPatch" where
  "merge_patches PL pvcLabels mps =
     foldl (\<lambda>patch mp. if patch_applies PL pvcLabels mp then merge patch (deepCopy PL mp) else patch)
       (zero_patch\<lparr>mpLabels := Some [], mpAnnotations := Some []\<rparr>) mps"

definition newCfg :: ConfigFile where
  "newCfg = \<lparr>cfEnableNodeSelector = False, cfMountPodPatch = []\<rparr>"

text \<open>The new global configuration; on an error the old one stays.\<close>

definition LoadConfig :: "patch_lib \<Rightarrow> 'w host \<Rightarrow> string \<Rightarrow> string \<Rightarrow> ('w, ConfigFile) io" where
  "LoadConfig PL H env configPath =
     tryE (h_read_file H configPath)
       (\<lambda>e. fail (Errorf ''fail to read config file %s: %v'' [configPath]))
       (\<lambda>data. case pl_yaml_config PL data (newCfg\<lparr>cfEnableNodeSelector := (env = ''1'')\<rparr>) of
          (Some e, _) \<Rightarrow> fail e
        | (None, cfg) \<Rightarrow> ret cfg)"

section \<open>Globals\<close>

record globals =
  ByProcess :: bool
  FormatInPod :: bool
  Provisioner :: bool
  CacheClientConf :: bool
  MountManager :: bool
  Webhook :: bool
  ValidatingWebhook :: bool
  Immutable :: bool
  DriverName :: string
  NodeName :: string
  Namespace :: string
  PodName :: string
  HostIp :: string
  KubeletPort :: string
  ReconcileTimeout :: int \<comment> \<open>nanoseconds, like every duration\<close>
  ReconcilerInterval :: int \<comment> \<open>seconds\<close>
  SecretReconcilerInterval :: int
  CSIPod :: Pod
  MountPointPath :: string
  JFSConfigPath :: string
  JFSMountPriorityName :: string
  JFSMountPreemptionPolicy :: string
  DefaultCEMountImage :: string
  DefaultEEMountImage :: string
  GlobalConfig :: ConfigFile

text \<open>The values the variables have before a command sets them.\<close>

definition initial_globals :: globals where
  "initial_globals = \<lparr>ByProcess = False, FormatInPod = False, Provisioner = False, CacheClientConf = False,
     MountManager = False, Webhook = False, ValidatingWebhook = False, Immutable = False,
     DriverName = ''csi.juicefs.com'', NodeName = [], Namespace = [], PodName = [], HostIp = [], KubeletPort = [],
     ReconcileTimeout = 5 * minute, ReconcilerInterval = 5, SecretReconcilerInterval = 1 * hour, CSIPod = zero_pod,
     MountPointPath = ''/var/lib/juicefs/volume'', JFSConfigPath = ''/var/lib/juicefs/config'',
     JFSMountPriorityName = ''system-node-critical'', JFSMountPreemptionPolicy = [],
     DefaultCEMountImage = ''juicedata/mount:ce-nightly'', DefaultEEMountImage = ''juicedata/mount:ee-nightly'',
     GlobalConfig = newCfg\<rparr>"

text \<open>
  The lock of a pod: one of 1024, chosen by the hash of its name. An \<open>int\<close> has 64 bits,
  so the conversion of the 32-bit hash is never negative.
\<close>

definition GetPodLock :: "string \<Rightarrow> nat" where
  "GetPodLock podName = unat (fnv32a podName) mod 1024"

definition with_lock :: "'w host \<Rightarrow> nat \<Rightarrow> ('w, 'a) io \<Rightarrow> ('w, 'a) io" where
  [go_step]: "with_lock H i m = (\<lambda>w. case m (h_lock H i w) of (r, w') \<Rightarrow> (r, h_unlock H i w'))"

definition MustGetWebPort :: "string option \<Rightarrow> int" where
  "MustGetWebPort env = (case env of None \<Rightarrow> 8080
     | Some value \<Rightarrow> (case Atoi value of Some port \<Rightarrow> port | None \<Rightarrow> 8080))"

section \<open>Lemmas\<close>

lemma keeps_with_lock [keeps_intro]:
  "(\<And>w. P w \<Longrightarrow> P (h_lock H i w)) \<Longrightarrow> (\<And>w. P w \<Longrightarrow> P (h_unlock H i w)) \<Longrightarrow> keeps P m \<Longrightarrow>
   keeps P (with_lock H i m)"
  by (auto simp: keeps_def with_lock_def split: prod.splits) (metis snd_conv)

text \<open>
  The last patch that applies and sets a field decides it. The general fact is about one
  optional field \<open>f\<close> that \<open>merge\<close> takes from its second argument when it is set.
\<close>

fun last_some :: "'a option \<Rightarrow> 'a option list \<Rightarrow> 'a option" where
  "last_some d [] = d"
| "last_some d (x # xs) = last_some (if x \<noteq> None then x else d) xs"

lemma last_some_filter_none: "(\<forall>x \<in> set xs. x = None) \<Longrightarrow> last_some d xs = d"
  by (induction xs) auto

lemma last_some_append_some: "(\<forall>x \<in> set ys. x = None) \<Longrightarrow> last_some d (xs @ Some v # ys) = Some v"
  by (induction xs arbitrary: d) (auto simp: last_some_filter_none)

lemma foldl_merge_field:
  assumes "\<And>a b. f (merge a b) = (if f b \<noteq> None then f b else f a)"
  shows "f (foldl (\<lambda>patch mp. if A mp then merge patch (D mp) else patch) p mps)
     = last_some (f p) (map (\<lambda>mp. f (D mp)) (filter A mps))"
  by (induction mps arbitrary: p) (auto simp: assms)

lemma merge_fields [simp]:
  "mpHostNetwork (merge a b) = (if mpHostNetwork b \<noteq> None then mpHostNetwork b else mpHostNetwork a)"
  "mpHostPID (merge a b) = (if mpHostPID b \<noteq> None then mpHostPID b else mpHostPID a)"
  "mpLabels (merge a b) = (if mpLabels b \<noteq> None then mpLabels b else mpLabels a)"
  "mpAnnotations (merge a b) = (if mpAnnotations b \<noteq> None then mpAnnotations b else mpAnnotations a)"
  "mpResources (merge a b) = (if mpResources b \<noteq> None then mpResources b else mpResources a)"
  "mpLivenessProbe (merge a b) = (if mpLivenessProbe b \<noteq> None then mpLivenessProbe b else mpLivenessProbe a)"
  "mpReadinessProbe (merge a b) = (if mpReadinessProbe b \<noteq> None then mpReadinessProbe b else mpReadinessProbe a)"
  "mpLifecycle (merge a b) = (if mpLifecycle b \<noteq> None then mpLifecycle b else mpLifecycle a)"
  "mpStartupProbe (merge a b) = mpStartupProbe a"
  "mpCEMountImage (merge a b) = (if mpCEMountImage b \<noteq> [] then mpCEMountImage b else mpCEMountImage a)"
  "mpEEMountImage (merge a b) = (if mpEEMountImage b \<noteq> [] then mpEEMountImage b else mpEEMountImage a)"
  by (simp_all add: merge_def set_if_def)

lemma merge_patches_field:
  assumes "\<And>a b. f (merge a b) = (if f b \<noteq> None then f b else f a)" "f (zero_patch\<lparr>mpLabels := Some [], mpAnnotations := Some []\<rparr>) = d"
  shows "f (merge_patches PL ls mps) = last_some d (map f (map (deepCopy PL) (filter (patch_applies PL ls) mps)))"
  unfolding merge_patches_def by (subst foldl_merge_field [of f, OF assms(1)]) (simp add: assms(2) comp_def)

lemma merge_patches_startup: "mpStartupProbe (merge_patches PL ls mps) = None"
proof -
  have "mpStartupProbe (foldl (\<lambda>patch mp. if A mp then merge patch (D mp) else patch) p mps) = mpStartupProbe p" for p A D
    by (induction mps arbitrary: p) auto
  then show ?thesis by (simp add: merge_patches_def zero_patch_def)
qed

section \<open>Properties\<close>


end
