(* ===== verification/Escape.thy ===== *)
theory Escape
  imports Go_Prelude
begin

text \<open>
  src/pkg/util/security/escape.go: quoting of values that go into the shell commands of
  mount pods, and a reader for the quoted form that defines what the quoting has to give
  back.
\<close>

abbreviation "quote_char \<equiv> CHR 0x27"
abbreviation "backslash \<equiv> CHR 0x5C"

definition containsOne :: "string \<Rightarrow> char list \<Rightarrow> bool" where
  "containsOne target chars = list_ex (\<lambda>s. s \<in> set chars) target"

definition bash_special :: "char list" where
  "bash_special = ''$`&;>|()''"

definition EscapeBashStr :: "string \<Rightarrow> string" where
  "EscapeBashStr s =
     (if \<not> containsOne s bash_special then s
      else ''$'' @ [quote_char]
        @ ReplaceChar quote_char [backslash, quote_char] (ReplaceChar backslash [backslash, backslash] s)
        @ [quote_char])"

text \<open>
  ANSI-C quoting of bash: \<open>read_ansi_c\<close> reads the text after the opening quote, up to a
  closing quote that must be the last byte; \<open>bash_word\<close> reads a word that is quoted as a
  whole.
\<close>

fun read_ansi_c :: "string \<Rightarrow> string option" where
  "read_ansi_c [] = None"
| "read_ansi_c (c # s) =
     (if c = quote_char then (if s = [] then Some [] else None)
      else if c = backslash then
        (case s of [] \<Rightarrow> None
         | d # t \<Rightarrow> if d = backslash \<or> d = quote_char then map_option (Cons d) (read_ansi_c t) else None)
      else map_option (Cons c) (read_ansi_c s))"

definition bash_word :: "string \<Rightarrow> string option" where
  "bash_word s = (case s of d # q # t \<Rightarrow> if d = CHR ''$'' \<and> q = quote_char then read_ansi_c t else None
     | _ \<Rightarrow> None)"

definition escape_body :: "string \<Rightarrow> string" where
  "escape_body s = ReplaceChar quote_char [backslash, quote_char] (ReplaceChar backslash [backslash, backslash] s)"

lemma escape_body_simps [simp]:
  "escape_body [] = []"
  "escape_body (c # s) = (if c = backslash then [backslash, backslash]
     else if c = quote_char then [backslash, quote_char] else [c]) @ escape_body s"
  by (simp_all add: escape_body_def)

lemma read_escape_body: "read_ansi_c (escape_body s @ [quote_char]) = Some s"
  by (induction s) auto

lemma bash_word_EscapeBashStr: "containsOne s bash_special \<Longrightarrow> bash_word (EscapeBashStr s) = Some s"
  by (simp add: EscapeBashStr_def bash_word_def read_escape_body [unfolded escape_body_def])

lemma containsOne_iff: "containsOne s cs \<longleftrightarrow> set s \<inter> set cs \<noteq> {}"
  by (auto simp: containsOne_def list_ex_iff)


end
