(* ===== verification/Settings.thy ===== *)
theory Settings
  imports Config Escape
begin

text \<open>
  src/pkg/config/setting.go: the setting of one volume, read from the secret, the volume
  context and the mount options, and the attributes of its mount pod.
\<close>

section \<open>Data\<close>

record CachePVC =
  cpvName :: string
  cpvPath :: string

record CacheEmptyDir =
  cedMedium :: string
  cedSizeLimit :: quantity
  cedPath :: string

record CacheInlineVolume =
  civCSI :: CSIVolumeSource
  civPath :: string

record PodAttr =
  aNamespace :: string
  aMountPointPath :: string
  aJFSConfigPath :: string
  aJFSMountPriorityName :: string
  aServiceAccountName :: string
  aResources :: ResourceRequirements
  aLabels :: smap
  aAnnotations :: smap
  aLivenessProbe :: "string option"
  aReadinessProbe :: "string option"
  aStartupProbe :: "string option"
  aLifecycle :: "Lifecycle option"
  aImage :: string
  aHostNetwork :: bool
  aHostAliases :: "string list"
  aHostPID :: bool
  aHostIPC :: bool
  aDNSConfig :: "string option"
  aDNSPolicy :: string
  aImagePullSecrets :: "string list"
  aPreemptionPolicy :: "string option"
  aTolerations :: "string list"

record AppInfo =
  aiName :: string
  aiNamespace :: string

record JfsSetting =
  sIsCe :: bool
  sUsePod :: bool
  sUUID :: string
  sName :: string
  sMetaUrl :: string
  sSource :: string
  sStorage :: string
  sFormatOptions :: string
  sCachePVCs :: "CachePVC list"
  sCacheEmptyDir :: "CacheEmptyDir option"
  sCacheInlineVolumes :: "CacheInlineVolume list"
  sCacheDirs :: "string list"
  sClientConfPath :: string
  sSecretKey :: string
  sSecretKey2 :: string
  sToken :: string
  sPassphrase :: string
  sEnvs :: smap
  sEncryptRsaKey :: string
  sInitConfig :: string
  sConfigs :: smap
  sDeletedDelay :: string
  sCleanCache :: bool
  sHostPath :: "string list"
  sVolumeId :: string
  sUniqueId :: string
  sMountPath :: string
  sTargetPath :: string
  sOptions :: "string list"
  sFormatCmd :: string
  sSubPath :: string
  sSecretName :: string
  sAttr :: "PodAttr option"
  sPV :: "PersistentVolume option"
  sPVC :: "PersistentVolumeClaim option"

definition zero_setting :: JfsSetting where
  "zero_setting = \<lparr>sIsCe = False, sUsePod = False, sUUID = [], sName = [], sMetaUrl = [], sSource = [],
     sStorage = [], sFormatOptions = [], sCachePVCs = [], sCacheEmptyDir = None, sCacheInlineVolumes = [],
     sCacheDirs = [], sClientConfPath = [], sSecretKey = [], sSecretKey2 = [], sToken = [],
     sPassphrase = [], sEnvs = [], sEncryptRsaKey = [], sInitConfig = [], sConfigs = [],
     sDeletedDelay = [], sCleanCache = False, sHostPath = [], sVolumeId = [], sUniqueId = [],
     sMountPath = [], sTargetPath = [], sOptions = [], sFormatCmd = [], sSubPath = [],
     sSecretName = [], sAttr = None, sPV = None, sPVC = None\<rparr>"

text \<open>The parsers for a whole setting are third-party code.\<close>

record setting_lib = lib +
  l_yaml_setting :: "JfsSetting unmarshal"
  l_json_setting :: "JfsSetting unmarshal"
  l_json_marshal_setting :: "JfsSetting \<Rightarrow> string res"
  l_patch :: patch_lib

section \<open>Format options\<close>

definition parse_option :: "string \<Rightarrow> string \<Rightarrow> (string \<times> string) option res" where
  "parse_option all option =
     (let pair = SplitN2 CHR ''='' (TrimSpace option) in
      if length pair = 2 \<and> pair ! 1 = [] then Inl (Errorf ''invalid format options: %s'' [all])
      else (let key = TrimSpace (pair ! 0) in
        if key = [] then Inr None
        else Inr (Some (key, if length pair = 1 then [] else TrimSpace (pair ! 1)))))"

fun parse_options :: "string \<Rightarrow> string list \<Rightarrow> (string \<times> string) list res" where
  "parse_options all [] = Inr []"
| "parse_options all (x # xs) =
     bind_res (parse_option all x) (\<lambda>p. bind_res (parse_options all xs) (\<lambda>ps.
       Inr (case p of None \<Rightarrow> ps | Some kv \<Rightarrow> kv # ps)))"

definition ParseFormatOptions :: "JfsSetting \<Rightarrow> (string \<times> string) list res" where
  "ParseFormatOptions s = parse_options (sFormatOptions s) (Split CHR '','' (sFormatOptions s))"

definition RepresentFormatOptions :: "(string \<times> string) list \<Rightarrow> string list" where
  "RepresentFormatOptions parsedOptions =
     map (\<lambda>(k, v). ''--'' @ (if v \<noteq> [] then EscapeBashStr k @ ''='' @ EscapeBashStr v else EscapeBashStr k))
       parsedOptions"

definition StripFormatOptions :: "(string \<times> string) list \<Rightarrow> string list \<Rightarrow> string list" where
  "StripFormatOptions parsedOptions strippedKeys =
     map (\<lambda>(k, v). ''--'' @
        (if v \<noteq> [] then
           (if k \<in> set strippedKeys then EscapeBashStr k @ ''=${'' @ k @ ''}''
            else EscapeBashStr k @ ''='' @ EscapeBashStr v)
         else EscapeBashStr k))
       parsedOptions"

section \<open>Resources\<close>

definition parseYamlOrJson :: "'a unmarshal \<Rightarrow> 'a unmarshal \<Rightarrow> string \<Rightarrow> 'a \<Rightarrow> 'a res" where
  "parseYamlOrJson yaml json source dst =
     (case yaml source dst of (None, d) \<Rightarrow> Inr d
      | (Some _, d) \<Rightarrow> (case json source d of (None, d') \<Rightarrow> Inr d'
          | (Some _, _) \<Rightarrow> Inl (GrpcStatus ''InvalidArgument'' ''Parse yaml or json error: %v'')))"

definition ResourceCPU :: string where "ResourceCPU = ''cpu''"
definition ResourceMemory :: string where "ResourceMemory = ''memory''"

definition MustParse :: "'x lib_scheme \<Rightarrow> string \<Rightarrow> quantity res" where
  "MustParse L s = (case l_parse_quantity L s of Inl _ \<Rightarrow> Inl (Panic ''cannot parse quantity'') | Inr q \<Rightarrow> Inr q)"

definition getDefaultResource :: "'x lib_scheme \<Rightarrow> ResourceRequirements res" where
  "getDefaultResource L =
     bind_res (MustParse L DefaultMountPodCpuLimit) (\<lambda>cl.
     bind_res (MustParse L DefaultMountPodMemLimit) (\<lambda>ml.
     bind_res (MustParse L DefaultMountPodCpuRequest) (\<lambda>cr.
     bind_res (MustParse L DefaultMountPodMemRequest) (\<lambda>mr.
       Inr \<lparr>rLimits = [(ResourceCPU, cl), (ResourceMemory, ml)],
            rRequests = [(ResourceCPU, cr), (ResourceMemory, mr)]\<rparr>))))"

text \<open>One of the four blocks: an empty string keeps the default, a quantity that is not positive removes it.\<close>

definition override_quantity ::
  "'x lib_scheme \<Rightarrow> string \<Rightarrow> string \<Rightarrow> (string \<times> quantity) list \<Rightarrow> (string \<times> quantity) list res" where
  "override_quantity L name v m =
     (if v = [] then Inr m
      else bind_res (l_parse_quantity L v) (\<lambda>q. Inr (if q \<le> 0 then mdel name m else mput name q m)))"

definition ParsePodResources ::
  "'x lib_scheme \<Rightarrow> string \<Rightarrow> string \<Rightarrow> string \<Rightarrow> string \<Rightarrow> ResourceRequirements res" where
  "ParsePodResources L cpuLimit memoryLimit cpuRequest memoryRequest =
     bind_res (getDefaultResource L) (\<lambda>d.
     bind_res (override_quantity L ResourceCPU cpuLimit (rLimits d)) (\<lambda>l1.
     bind_res (override_quantity L ResourceMemory memoryLimit l1) (\<lambda>l2.
     bind_res (override_quantity L ResourceCPU cpuRequest (rRequests d)) (\<lambda>r1.
     bind_res (override_quantity L ResourceMemory memoryRequest r1) (\<lambda>r2.
       Inr \<lparr>rLimits = l2, rRequests = r2\<rparr>)))))"

section \<open>Attributes of the mount pod\<close>

definition GenMountPodPatch :: "patch_lib \<Rightarrow> ConfigFile \<Rightarrow> JfsSetting \<Rightarrow> MountPodPatch" where
  "GenMountPodPatch PL c setting =
     (let p = merge_patches PL (map_option (\<lambda>pvc. omap (mLabels (pvcMeta pvc))) (sPVC setting)) (cfMountPodPatch c);
          patch = p\<lparr>mpImage := (if sIsCe setting then mpCEMountImage p else mpEEMountImage p)\<rparr>;
          s1 = ReplaceAll (pl_marshal PL patch) ''${MOUNT_POINT}'' (sMountPath setting);
          s2 = ReplaceAll s1 ''${VOLUME_ID}'' (sVolumeId setting);
          s3 = ReplaceAll s2 ''${SUB_PATH}'' (sSubPath setting)
      in snd (pl_unmarshal PL s3 patch))"

definition default_attr :: "'x lib_scheme \<Rightarrow> globals \<Rightarrow> bool \<Rightarrow> PodAttr res" where
  "default_attr L G isCe =
     bind_res (getDefaultResource L) (\<lambda>r. let sp = pSpec (CSIPod G) in
       Inr \<lparr>aNamespace = Namespace G, aMountPointPath = MountPointPath G, aJFSConfigPath = JFSConfigPath G,
            aJFSMountPriorityName = JFSMountPriorityName G, aServiceAccountName = psServiceAccountName sp,
            aResources = r, aLabels = [], aAnnotations = [], aLivenessProbe = None,
            aReadinessProbe = None, aStartupProbe = None, aLifecycle = None,
            aImage = (if isCe then DefaultCEMountImage G else DefaultEEMountImage G),
            aHostNetwork = psHostNetwork sp, aHostAliases = psHostAliases sp, aHostPID = psHostPID sp,
            aHostIPC = psHostIPC sp, aDNSConfig = psDNSConfig sp, aDNSPolicy = psDNSPolicy sp,
            aImagePullSecrets = psImagePullSecrets sp, aPreemptionPolicy = psPreemptionPolicy sp,
            aTolerations = psTolerations sp\<rparr>)"

text \<open>A map given as a string in the volume context, or none when the string is empty.\<close>

definition ctx_map :: "'x lib_scheme \<Rightarrow> string \<Rightarrow> smap res" where
  "ctx_map L v = (if v = [] then Inr [] else parseYamlOrJson (l_yaml_map L) (l_json_map L) v [])"

definition attr_from_ctx :: "'x lib_scheme \<Rightarrow> smap \<Rightarrow> PodAttr \<Rightarrow> PodAttr res" where
  "attr_from_ctx L ctx attr =
     (let image = mget ctx mountPodImageKey; sa = mget ctx mountPodServiceAccount in
      bind_res (ParsePodResources L (mget ctx MountPodCpuLimitKey) (mget ctx MountPodMemLimitKey)
                  (mget ctx MountPodCpuRequestKey) (mget ctx MountPodMemRequestKey)) (\<lambda>r.
      bind_res (ctx_map L (mget ctx mountPodLabelKey)) (\<lambda>ctxLabel.
      bind_res (ctx_map L (mget ctx mountPodAnnotationKey)) (\<lambda>ctxAnno.
        Inr (attr\<lparr>aImage := (if image \<noteq> [] then image else aImage attr),
                  aServiceAccountName := (if sa \<noteq> [] then sa else aServiceAccountName attr),
                  aResources := r,
                  aLabels := mputs ctxLabel (aLabels attr),
                  aAnnotations := mputs ctxAnno (aAnnotations attr)\<rparr>)))))"

definition attr_from_patch :: "MountPodPatch \<Rightarrow> PodAttr \<Rightarrow> PodAttr" where
  "attr_from_patch patch attr = attr
     \<lparr>aImage := (if mpImage patch \<noteq> [] then mpImage patch else aImage attr),
      aHostNetwork := (case mpHostNetwork patch of Some b \<Rightarrow> b | None \<Rightarrow> aHostNetwork attr),
      aHostPID := (case mpHostPID patch of Some b \<Rightarrow> b | None \<Rightarrow> aHostPID attr),
      aLabels := mputs (omap (mpLabels patch)) (aLabels attr),
      aAnnotations := mputs (omap (mpAnnotations patch)) (aAnnotations attr),
      aResources := (case mpResources patch of Some r \<Rightarrow> r | None \<Rightarrow> aResources attr),
      aLifecycle := mpLifecycle patch,
      aLivenessProbe := mpLivenessProbe patch,
      aReadinessProbe := mpReadinessProbe patch,
      aStartupProbe := mpStartupProbe patch\<rparr>"

definition GenPodAttrWithCfg ::
  "'x setting_lib_scheme \<Rightarrow> globals \<Rightarrow> JfsSetting \<Rightarrow> smap option \<Rightarrow> JfsSetting res" where
  "GenPodAttrWithCfg L G setting volCtx =
     bind_res (case sAttr setting of Some a \<Rightarrow> Inr a | None \<Rightarrow> default_attr L G (sIsCe setting)) (\<lambda>a0.
     let a1 = (if JFSMountPreemptionPolicy G \<noteq> [] then a0\<lparr>aPreemptionPolicy := Some (JFSMountPreemptionPolicy G)\<rparr> else a0) in
     bind_res (case volCtx of None \<Rightarrow> Inr a1 | Some ctx \<Rightarrow> attr_from_ctx L ctx a1) (\<lambda>a2.
     let patch = GenMountPodPatch (l_patch L) (GlobalConfig G) setting in
     Inr (setting\<lparr>sAttr := Some (attr_from_patch patch a2)\<rparr>)))"

section \<open>The setting\<close>

definition pvc_path :: "nat \<Rightarrow> string" where "pvc_path i = ''/var/jfsCache-'' @ decimal i"
definition emptydir_path :: string where "emptydir_path = ''/var/jfsCache-emptyDir''"
definition inline_path :: "nat \<Rightarrow> string" where "inline_path i = ''/var/jfsCache-inlineVolume-'' @ decimal i"

fun number_pvcs :: "nat \<Rightarrow> string list \<Rightarrow> CachePVC list" where
  "number_pvcs i [] = []"
| "number_pvcs i (pvc # rest) =
     (if pvc = [] then [] else [\<lparr>cpvName = pvc, cpvPath = pvc_path i\<rparr>]) @ number_pvcs (Suc i) rest"

definition parse_cache_pvcs :: "smap \<Rightarrow> CachePVC list" where
  "parse_cache_pvcs ctx = (if mget ctx cachePVC = [] then []
     else number_pvcs 0 (Split CHR '','' (TrimSpace (mget ctx cachePVC))))"

definition parse_cache_emptydir :: "'x lib_scheme \<Rightarrow> smap \<Rightarrow> CacheEmptyDir option res" where
  "parse_cache_emptydir L ctx =
     (if \<not> mhas ctx cacheEmptyDir then Inr None
      else (let parts = Split CHR '':'' (TrimSpace (mget ctx cacheEmptyDir));
                medium = (if length parts = 1 \<or> length parts = 2 then TrimSpace (parts ! 0) else []);
                sizeLimit = (if length parts = 2 then TrimSpace (parts ! 1) else [])
            in bind_res (if sizeLimit \<noteq> [] then l_parse_quantity L sizeLimit else Inr 0) (\<lambda>q.
                 Inr (Some \<lparr>cedMedium = medium, cedSizeLimit = q, cedPath = emptydir_path\<rparr>))))"

fun number_inline :: "nat \<Rightarrow> CSIVolumeSource list \<Rightarrow> CacheInlineVolume list" where
  "number_inline i [] = []"
| "number_inline i (v # vs) =
     \<lparr>civCSI = v, civPath = inline_path i\<rparr> # number_inline (Suc i) vs"

definition parse_cache_inline :: "'x lib_scheme \<Rightarrow> smap \<Rightarrow> CacheInlineVolume list option res" where
  "parse_cache_inline L ctx =
     (if \<not> mhas ctx cacheInlineVolume then Inr None
      else (case l_parse_csi_volumes L (mget ctx cacheInlineVolume) of
              Inl e \<Rightarrow> Inl (Errorf ''parse cache inline volume error: %v'' [])
            | Inr vs \<Rightarrow> Inr (Some (number_inline 0 vs))))"

text \<open>
  The search for the option cache-dir. The second result is the slice after
  \<open>append(options[:i], options[i+1:]...)\<close>. That call writes into the array that
  jfsSetting.Options still refers to: its first \<open>len\<close> cells then hold the shortened
  list and, once more, the old last element. The third result is that old view.
\<close>

definition is_cache_dir_option :: "string \<Rightarrow> bool" where
  "is_cache_dir_option opt = (HasPrefix opt ''cache-dir'' \<and> length (Split CHR ''='' opt) = 2)"

fun take_cache_dir :: "string list \<Rightarrow> string list \<Rightarrow> (string list \<times> string list \<times> string list)" where
  "take_cache_dir done [] = ([], done, done)"
| "take_cache_dir done (x # xs) =
     (if is_cache_dir_option x then
        (Split CHR '':'' (TrimSpace (Split CHR ''='' x ! 1)), done @ xs, done @ xs @ [last (x # xs)])
      else take_cache_dir (done @ [x]) xs)"

definition default_cache_dir :: string where "default_cache_dir = ''/var/jfsCache''"
definition memory_dir :: string where "memory_dir = ''memory''"

text \<open>From the directories of the volume context and the options: the options and the cache directories of the setting.\<close>

definition parse_cache_options :: "string list \<Rightarrow> string list \<Rightarrow> string list \<times> string list" where
  "parse_cache_options ctxDirs options =
     (let (cacheDirs, rest, old) = take_cache_dir [] options;
          dirs = ctxDirs @ cacheDirs;
          cacheDir = Join dirs '':'';
          opts = (if cacheDir \<noteq> [] then rest @ [''cache-dir='' @ cacheDir] else old);
          cds = (if dirs = [] then [default_cache_dir] else cacheDirs)
      in (opts, filter (\<lambda>d. d \<noteq> memory_dir) cds))"

definition parse_source :: "smap \<Rightarrow> JfsSetting \<Rightarrow> JfsSetting" where
  "parse_source secrets s =
     (case map_of secrets ''metaurl'' of
        None \<Rightarrow> s\<lparr>sSource := sName s\<rparr>
      | Some source \<Rightarrow> s\<lparr>sMetaUrl := source, sIsCe := True,
          sSource := (if Contains source ''://'' then source else ''redis://'' @ source)\<rparr>)"

definition parse_keys :: "smap \<Rightarrow> JfsSetting \<Rightarrow> JfsSetting" where
  "parse_keys secrets s = s
     \<lparr>sSecretKey := (if mget secrets ''secretkey'' \<noteq> [] then mget secrets ''secretkey'' else sSecretKey s),
      sSecretKey2 := (if mget secrets ''secretkey2'' \<noteq> [] then mget secrets ''secretkey2'' else sSecretKey2 s)\<rparr>"

definition parse_host_paths :: "string \<Rightarrow> string list" where
  "parse_host_paths v = filter (\<lambda>p. p \<noteq> []) (map TrimSpace (Split CHR '','' v))"

definition parse_vol_ctx :: "'x lib_scheme \<Rightarrow> smap \<Rightarrow> JfsSetting \<Rightarrow> JfsSetting res" where
  "parse_vol_ctx L ctx s =
     (let sub = mget ctx ''subPath''; delay = mget ctx deleteDelay; hp = mget ctx mountPodHostPath;
          s1 = s\<lparr>sSubPath := (if sub \<noteq> [] then sub else sSubPath s),
                 sCleanCache := (mget ctx cleanCache = ''true'' \<or> sCleanCache s)\<rparr>
      in bind_res (if delay = [] then Inr s1
           else (case l_parse_duration L delay of
                   Inl _ \<Rightarrow> Inl (Errorf ''can't parse delay time %s'' [delay])
                 | Inr _ \<Rightarrow> Inr (s1\<lparr>sDeletedDelay := delay\<rparr>))) (\<lambda>s2.
         Inr (if hp \<noteq> [] then s2\<lparr>sHostPath := parse_host_paths hp\<rparr> else s2)))"

text \<open>An error is wrapped in a new one; a panic passes through.\<close>

definition wrap_err :: "string \<Rightarrow> 'a res \<Rightarrow> 'a res" where
  "wrap_err fmt r = (case r of Inr x \<Rightarrow> Inr x | Inl (Panic p) \<Rightarrow> Inl (Panic p) | Inl _ \<Rightarrow> Inl (Errorf fmt []))"

text \<open>The names and the caches of the volume.\<close>

definition parse_caches ::
  "'x lib_scheme \<Rightarrow> smap \<Rightarrow> smap \<Rightarrow> string list \<Rightarrow> bool \<Rightarrow> PersistentVolume option
   \<Rightarrow> PersistentVolumeClaim option \<Rightarrow> JfsSetting \<Rightarrow> JfsSetting res" where
  "parse_caches L sec ctx options usePod pv pvc s =
     bind_res (parse_cache_emptydir L ctx) (\<lambda>ed.
     bind_res (parse_cache_inline L ctx) (\<lambda>inline.
     let pvcs = parse_cache_pvcs ctx;
         dirs = map cpvPath pvcs @ (case ed of None \<Rightarrow> [] | Some _ \<Rightarrow> [emptydir_path])
                  @ (case inline of None \<Rightarrow> [] | Some vs \<Rightarrow> map civPath vs);
         cache = parse_cache_options dirs options
     in Inr (s\<lparr>sName := mget sec ''name'', sStorage := mget sec ''storage'', sEnvs := [], sConfigs := [],
                sClientConfPath := DefaultClientConfPath, sCachePVCs := pvcs, sPV := pv, sPVC := pvc,
                sCacheEmptyDir := (case ed of None \<Rightarrow> sCacheEmptyDir s | Some d \<Rightarrow> Some d),
                sCacheInlineVolumes := (case inline of None \<Rightarrow> sCacheInlineVolumes s | Some vs \<Rightarrow> vs),
                sOptions := fst cache, sCacheDirs := snd cache, sUsePod := usePod\<rparr>)))"

definition parse_maps :: "'x lib_scheme \<Rightarrow> smap \<Rightarrow> JfsSetting \<Rightarrow> JfsSetting res" where
  "parse_maps L sec s =
     bind_res (if mget sec ''configs'' = [] then Inr (sConfigs s)
               else parseYamlOrJson (l_yaml_map L) (l_json_map L) (mget sec ''configs'') []) (\<lambda>configs.
     bind_res (if mget sec ''envs'' = [] then Inr (sEnvs s)
               else parseYamlOrJson (l_yaml_map L) (l_json_map L) (mget sec ''envs'') []) (\<lambda>env.
     Inr (s\<lparr>sConfigs := configs, sEnvs := env\<rparr>)))"

text \<open>
  Unmarshalling the secret, a map of strings, cannot set the slice jfsSetting.Options
  (a string in its place is an error), so after it the slice is still the one of the
  caller.
\<close>

definition ParseSetting ::
  "'x setting_lib_scheme \<Rightarrow> globals \<Rightarrow> smap option \<Rightarrow> smap option \<Rightarrow> string list \<Rightarrow> bool
   \<Rightarrow> PersistentVolume option \<Rightarrow> PersistentVolumeClaim option \<Rightarrow> JfsSetting res" where
  "ParseSetting L G secrets volCtx options usePod pv pvc =
     (case secrets of None \<Rightarrow> Inr (zero_setting\<lparr>sOptions := options\<rparr>)
      | Some sec \<Rightarrow>
     bind_res (parseYamlOrJson (l_yaml_setting L) (l_json_setting L) (l_json_marshal_map L sec)
                 (zero_setting\<lparr>sOptions := options\<rparr>)) (\<lambda>s0.
     if mget sec ''name'' = [] then Inl (GrpcStatus ''InvalidArgument'' ''Empty name'')
     else
     bind_res (parse_caches L sec (omap volCtx) options usePod pv pvc s0) (\<lambda>s1.
     bind_res (parse_maps L sec (parse_keys sec (parse_source sec s1))) (\<lambda>s2.
     bind_res (case volCtx of None \<Rightarrow> Inr s2 | Some ctx \<Rightarrow> parse_vol_ctx L ctx s2) (\<lambda>s3.
     wrap_err ''GenPodAttrWithCfg error: %v'' (GenPodAttrWithCfg L G s3 volCtx))))))"

definition podInfoName :: string where "podInfoName = ''csi.storage.k8s.io/pod.name''"
definition podInfoNamespace :: string where "podInfoNamespace = ''csi.storage.k8s.io/pod.namespace''"

definition ParseAppInfo :: "globals \<Rightarrow> 'w host \<Rightarrow> (string \<Rightarrow> int \<Rightarrow> ('w, unit) io) \<Rightarrow> smap option \<Rightarrow> ('w, AppInfo option) io" where
  "ParseAppInfo G H newKubeletClient volCtx =
     (let result = ret (map_option (\<lambda>c. \<lparr>aiName = mget c podInfoName, aiNamespace = mget c podInfoNamespace\<rparr>) volCtx) in
      if \<not> ByProcess G \<and> \<not> Webhook G \<and> KubeletPort G \<noteq> [] \<and> HostIp G \<noteq> [] then
        (case Atoi (KubeletPort G) of None \<Rightarrow> fail (OtherError ''strconv.Atoi'')
         | Some port \<Rightarrow> bind (newKubeletClient (HostIp G) port) (\<lambda>_.
             tryE (h_running_pods H)
               (\<lambda>_. if mget (omap volCtx) podInfoName = [] then
                      fail (Errorf ''can not connect to kubelet, please turn `podInfoOnMount` on in csiDriver, and fallback to apiServer'' [])
                    else result)
               (\<lambda>_. result)))
      else result)"

section \<open>Lemmas on format options\<close>

definition represent_options :: "(string \<times> string) list \<Rightarrow> string" where
  "represent_options kvs = Join (map (\<lambda>(k, v). if v = [] then k else k @ CHR ''='' # v) kvs) '',''"

definition wf_option :: "string \<times> string \<Rightarrow> bool" where
  "wf_option kv = (case kv of (k, v) \<Rightarrow> k \<noteq> [] \<and> CHR '','' \<notin> set k \<and> CHR ''='' \<notin> set k \<and> CHR '','' \<notin> set v
     \<and> \<not> is_space (hd k) \<and> \<not> is_space (last k) \<and> (v = [] \<or> \<not> is_space (hd v) \<and> \<not> is_space (last v)))"

lemma SplitN2_append: "c \<notin> set a \<Longrightarrow> SplitN2 c (a @ c # b) = [a, b]"
  by (induction a) auto

lemma SplitN2_notin: "c \<notin> set s \<Longrightarrow> SplitN2 c s = [s]"
  by (induction s) auto

lemma parse_option_print:
  assumes "wf_option (k, v)"
  shows "parse_option all (if v = [] then k else k @ CHR ''='' # v) = Inr (Some (k, v))"
proof (cases "v = []")
  case True
  with assms show ?thesis
    by (simp add: parse_option_def wf_option_def TrimSpace_id SplitN2_notin)
next
  case False
  from assms False have "TrimSpace (k @ CHR ''='' # v) = k @ CHR ''='' # v"
    by (intro TrimSpace_id) (auto simp: wf_option_def)
  moreover from assms False have "TrimSpace k = k" "TrimSpace v = v"
    by (auto simp: wf_option_def intro!: TrimSpace_id)
  ultimately show ?thesis using assms False
    by (simp add: parse_option_def wf_option_def SplitN2_append)
qed

lemma parse_options_print:
  "list_all wf_option kvs \<Longrightarrow>
   parse_options all (map (\<lambda>(k, v). if v = [] then k else k @ CHR ''='' # v) kvs) = Inr kvs"
proof (induction kvs)
  case (Cons kv kvs)
  obtain k v where kv: "kv = (k, v)" by fastforce
  with Cons parse_option_print [of k v all] show ?case by simp
qed simp

lemma parse_option_error_iff:
  "(\<exists>e. parse_option all x = Inl e) \<longleftrightarrow> (\<exists>a. TrimSpace x = a @ ''='' \<and> CHR ''='' \<notin> set a)"
  using SplitN2_cases [of "CHR ''=''" "TrimSpace x"]
proof (elim disjE exE conjE)
  assume "CHR ''='' \<notin> set (TrimSpace x)" "SplitN2 CHR ''='' (TrimSpace x) = [TrimSpace x]"
  then show ?thesis by (auto simp: parse_option_def Let_def)
next
  fix a b assume ab: "TrimSpace x = a @ CHR ''='' # b" "CHR ''='' \<notin> set a"
  have "(\<exists>a'. TrimSpace x = a' @ ''='' \<and> CHR ''='' \<notin> set a') \<longleftrightarrow> b = []"
    using ab SplitN2_append [of "CHR ''=''" _ "[]"] SplitN2_append [of "CHR ''=''" a b] by fastforce
  moreover have "(\<exists>e. parse_option all x = Inl e) \<longleftrightarrow> b = []"
    using ab by (auto simp: parse_option_def Let_def SplitN2_append)
  ultimately show ?thesis by simp
qed

lemma parse_options_error_iff:
  "(\<exists>e. parse_options all xs = Inl e) \<longleftrightarrow> (\<exists>x \<in> set xs. \<exists>a. TrimSpace x = a @ ''='' \<and> CHR ''='' \<notin> set a)"
proof (induction xs)
  case (Cons x xs)
  have "(\<exists>e. parse_option all x = Inl e) \<longleftrightarrow> (\<exists>a. TrimSpace x = a @ ''='' \<and> CHR ''='' \<notin> set a)"
    by (rule parse_option_error_iff)
  then show ?case using Cons
    by (cases "parse_option all x"; cases "parse_options all xs") auto
qed simp

text \<open>Two lists of options that differ only in the values of the stripped keys.\<close>

definition same_but_secret :: "string list \<Rightarrow> (string \<times> string) list \<Rightarrow> (string \<times> string) list \<Rightarrow> bool" where
  "same_but_secret keys = list_all2 (\<lambda>(k, v) (k', v').
     k = k' \<and> (v = v' \<or> k \<in> set keys \<and> v \<noteq> [] \<and> v' \<noteq> []))"

lemma StripFormatOptions_cong:
  "same_but_secret keys ps qs \<Longrightarrow> StripFormatOptions ps keys = StripFormatOptions qs keys"
  unfolding same_but_secret_def
  by (induction ps qs rule: list_all2_induct) (auto simp: StripFormatOptions_def)

section \<open>Lemmas on the cache directories\<close>

lemma take_cache_dir_none:
  "list_all (\<lambda>x. \<not> is_cache_dir_option x) xs \<Longrightarrow> take_cache_dir d xs = ([], d @ xs, d @ xs)"
  by (induction xs arbitrary: d) auto

lemma take_cache_dir_some:
  "list_all (\<lambda>x. \<not> is_cache_dir_option x) xs \<Longrightarrow> is_cache_dir_option x \<Longrightarrow>
   take_cache_dir d (xs @ x # ys) =
     (Split CHR '':'' (TrimSpace (Split CHR ''='' x ! 1)), d @ xs @ ys, d @ xs @ ys @ [last (x # ys)])"
  by (induction xs arbitrary: d) simp_all

lemma take_cache_dir_cases:
  obtains (none) "list_all (\<lambda>x. \<not> is_cache_dir_option x) options"
      "take_cache_dir [] options = ([], options, options)"
    | (found) xs x ys where "options = xs @ x # ys" "list_all (\<lambda>x. \<not> is_cache_dir_option x) xs"
      "is_cache_dir_option x"
      "take_cache_dir [] options =
         (Split CHR '':'' (TrimSpace (Split CHR ''='' x ! 1)), xs @ ys, xs @ ys @ [last (x # ys)])"
proof (cases "list_all (\<lambda>x. \<not> is_cache_dir_option x) options")
  case True
  with none take_cache_dir_none [OF True, of "[]"] show ?thesis by simp
next
  case False
  then have "\<exists>x \<in> set options. is_cache_dir_option x" by (auto simp: list_all_iff)
  from split_list_first_prop [OF this] obtain xs x ys where
    "options = xs @ x # ys" "is_cache_dir_option x" "\<forall>y \<in> set xs. \<not> is_cache_dir_option y" by blast
  with found take_cache_dir_some [of xs x "[]" ys] show ?thesis by (simp add: list_all_iff)
qed

lemma parse_cache_options_dirs:
  assumes "dirs \<noteq> []" "[] \<notin> set dirs"
  shows "\<exists>rest cds. parse_cache_options dirs options =
    (rest @ [''cache-dir='' @ Join (dirs @ cds) '':''], filter (\<lambda>d. d \<noteq> memory_dir) cds)"
proof -
  obtain cds rest old where t: "take_cache_dir [] options = (cds, rest, old)" by (cases "take_cache_dir [] options") auto
  have "Join (dirs @ cds) '':'' \<noteq> []"
    using assms Join_singleton_only [of "dirs @ cds" "'':''"] by (cases dirs) auto
  with t assms show ?thesis by (auto simp: parse_cache_options_def)
qed

lemma path_shapes [simp]:
  "pvc_path i = pvc_path j \<longleftrightarrow> i = j" "inline_path i = inline_path j \<longleftrightarrow> i = j"
  "pvc_path i \<noteq> []" "inline_path i \<noteq> []" "emptydir_path \<noteq> []"
  by (simp_all add: pvc_path_def inline_path_def emptydir_path_def decimal_inj)

lemma path_kinds [simp]:
  "pvc_path i \<noteq> emptydir_path" "inline_path i \<noteq> emptydir_path" "pvc_path i \<noteq> inline_path j"
  using decimal_hd_digit [of i]
  by (cases "decimal i"; simp add: pvc_path_def inline_path_def emptydir_path_def is_digit_def; fastforce)+

lemma path_ranges:
  "range pvc_path \<inter> range inline_path = {}" "emptydir_path \<notin> range pvc_path" "emptydir_path \<notin> range inline_path"
  "[] \<notin> range pvc_path" "[] \<notin> range inline_path"
  using path_kinds path_shapes by (metis IntE ex_in_conv rangeE)+

lemma number_pvcs_shape: "c \<in> set (number_pvcs i xs) \<Longrightarrow> \<exists>n. i \<le> n \<and> cpvPath c = pvc_path n"
  by (induction i xs rule: number_pvcs.induct) (fastforce split: if_splits dest: Suc_leD)+

lemma number_pvcs_distinct: "distinct (map cpvPath (number_pvcs i xs))"
proof (induction i xs rule: number_pvcs.induct)
  case (2 i pvc rest)
  have "pvc_path i \<notin> set (map cpvPath (number_pvcs (Suc i) rest))"
    using number_pvcs_shape [of _ "Suc i" rest] by fastforce
  with 2 show ?case by auto
qed simp

lemma number_inline_shape: "c \<in> set (number_inline i vs) \<Longrightarrow> \<exists>n. i \<le> n \<and> civPath c = inline_path n"
  by (induction i vs rule: number_inline.induct) (fastforce dest: Suc_leD)+

lemma number_inline_distinct: "distinct (map civPath (number_inline i vs))"
proof (induction i vs rule: number_inline.induct)
  case (2 i v vs)
  have "inline_path i \<notin> set (map civPath (number_inline (Suc i) vs))"
    using number_inline_shape [of _ "Suc i" vs] by fastforce
  with 2 show ?case by auto
qed simp

text \<open>The paths of the cache volumes of a setting, in the order of the cache-dir option.\<close>

definition cache_volume_paths :: "JfsSetting \<Rightarrow> string list" where
  "cache_volume_paths s = map cpvPath (sCachePVCs s)
     @ (case sCacheEmptyDir s of None \<Rightarrow> [] | Some d \<Rightarrow> [cedPath d]) @ map civPath (sCacheInlineVolumes s)"

text \<open>The fields of a setting that the later stages of ParseSetting leave alone.\<close>

definition cache_part :: "JfsSetting \<Rightarrow> _" where
  "cache_part s = (sCachePVCs s, sCacheEmptyDir s, sCacheInlineVolumes s, sOptions s, sCacheDirs s)"

lemma cache_part_source: "cache_part (parse_keys sec (parse_source sec s)) = cache_part s"
  by (simp add: cache_part_def parse_keys_def parse_source_def split: option.split)

lemma cache_part_vol_ctx: "parse_vol_ctx L ctx s = Inr t \<Longrightarrow> cache_part t = cache_part s"
  by (auto simp: cache_part_def parse_vol_ctx_def Let_def bind_res_Inr_iff split: if_splits sum.splits)

lemma cache_part_attr: "GenPodAttrWithCfg L G s ctx = Inr t \<Longrightarrow> cache_part t = cache_part s"
  by (auto simp: cache_part_def GenPodAttrWithCfg_def Let_def bind_res_Inr_iff)

lemma wrap_err_Inr [simp]: "wrap_err f r = Inr x \<longleftrightarrow> r = Inr x"
  by (auto simp: wrap_err_def split: sum.splits err.splits)

lemma cache_part_maps: "parse_maps L sec s = Inr t \<Longrightarrow> cache_part t = cache_part s"
  by (auto simp: cache_part_def parse_maps_def bind_res_Inr_iff)

lemma ParseSetting_cache_part:
  assumes "ParseSetting L G (Some sec) volCtx options usePod pv pvc = Inr s"
  obtains s0 s1 where
    "parseYamlOrJson (l_yaml_setting L) (l_json_setting L) (l_json_marshal_map L sec)
       (zero_setting\<lparr>sOptions := options\<rparr>) = Inr s0"
    "parse_caches L sec (omap volCtx) options usePod pv pvc s0 = Inr s1"
    "cache_part s = cache_part s1"
proof -
  from assms obtain s0 s1 s2 s3 where
    a: "parseYamlOrJson (l_yaml_setting L) (l_json_setting L) (l_json_marshal_map L sec)
          (zero_setting\<lparr>sOptions := options\<rparr>) = Inr s0"
      "parse_caches L sec (omap volCtx) options usePod pv pvc s0 = Inr s1"
    and b: "parse_maps L sec (parse_keys sec (parse_source sec s1)) = Inr s2"
      "(case volCtx of None \<Rightarrow> Inr s2 | Some ctx \<Rightarrow> parse_vol_ctx L ctx s2) = Inr s3"
      "GenPodAttrWithCfg L G s3 volCtx = Inr s"
    by (auto simp: ParseSetting_def bind_res_Inr_iff split: if_splits)
  have "cache_part s3 = cache_part s2"
    using b(2) cache_part_vol_ctx [of L _ s2 s3] by (cases volCtx) auto
  then have "cache_part s = cache_part s1"
    using cache_part_attr [OF b(3)] cache_part_maps [OF b(1)] by (simp add: cache_part_source)
  with a that show thesis by blast
qed

text \<open>What the caches of a parsed setting look like.\<close>

lemma parse_cache_emptydir_path: "parse_cache_emptydir L ctx = Inr (Some d) \<Longrightarrow> cedPath d = emptydir_path"
  by (auto simp: parse_cache_emptydir_def Let_def bind_res_Inr_iff split: if_splits)

lemma parse_cache_inline_shape: "parse_cache_inline L ctx = Inr (Some vs) \<Longrightarrow> \<exists>xs. vs = number_inline 0 xs"
  by (auto simp: parse_cache_inline_def split: if_splits sum.splits)

lemma parse_cache_pvcs_shape: "\<exists>xs. parse_cache_pvcs ctx = number_pvcs 0 xs"
  by (auto simp: parse_cache_pvcs_def intro: exI [of _ "[]"])

lemma parse_caches_paths:
  assumes "parse_caches L sec ctx options usePod pv pvc s0 = Inr s"
    and "sCacheEmptyDir s0 = None" "sCacheInlineVolumes s0 = []"
  shows "distinct (cache_volume_paths s)" "[] \<notin> set (cache_volume_paths s)"
    "(sOptions s, sCacheDirs s) = parse_cache_options (cache_volume_paths s) options"
proof -
  from assms(1) obtain ed inline where e: "parse_cache_emptydir L ctx = Inr ed"
    and i: "parse_cache_inline L ctx = Inr inline" by (auto simp: parse_caches_def bind_res_Inr_iff)
  obtain ps where ps: "parse_cache_pvcs ctx = number_pvcs 0 ps" using parse_cache_pvcs_shape by blast
  obtain vs where vs: "(case inline of None \<Rightarrow> [] | Some vs \<Rightarrow> vs) = number_inline 0 vs"
  proof (cases inline)
    case None
    then show thesis using that [of "[]"] by simp
  next
    case (Some x)
    with i parse_cache_inline_shape [of L ctx x] that show thesis by auto
  qed
  have p: "cache_volume_paths s = map cpvPath (number_pvcs 0 ps)
      @ (case ed of None \<Rightarrow> [] | Some _ \<Rightarrow> [emptydir_path]) @ map civPath (number_inline 0 vs)"
    using assms e i ps vs by (auto simp: parse_caches_def cache_volume_paths_def Let_def
        dest: parse_cache_emptydir_path split: option.splits)
  have r: "cpvPath ` set (number_pvcs 0 ps) \<subseteq> range pvc_path" "civPath ` set (number_inline 0 vs) \<subseteq> range inline_path"
    using number_pvcs_shape number_inline_shape by fast+
  have d: "distinct (map cpvPath (number_pvcs 0 ps))" "distinct (map civPath (number_inline 0 vs))"
    by (rule number_pvcs_distinct number_inline_distinct)+
  from r have "cpvPath ` set (number_pvcs 0 ps) \<inter> civPath ` set (number_inline 0 vs) = {}"
    "emptydir_path \<notin> cpvPath ` set (number_pvcs 0 ps)" "emptydir_path \<notin> civPath ` set (number_inline 0 vs)"
    using path_ranges by blast+
  with d show "distinct (cache_volume_paths s)" unfolding p by (cases ed) auto
  from r show "[] \<notin> set (cache_volume_paths s)" unfolding p using path_ranges path_shapes(5) [THEN not_sym] by (cases ed) auto
  have "(case inline of None \<Rightarrow> [] | Some vs \<Rightarrow> map civPath vs) = map civPath (number_inline 0 vs)"
    using vs by (cases inline) auto
  then show "(sOptions s, sCacheDirs s) = parse_cache_options (cache_volume_paths s) options"
    unfolding p using assms(1) e i ps by (auto simp: parse_caches_def Let_def)
qed

lemma override_quantity_cases:
  assumes "override_quantity L n v m = Inr m'"
  shows "m' = m \<and> v = [] \<or> (\<exists>q. l_parse_quantity L v = Inr q \<and> m' = (if q \<le> 0 then mdel n m else mput n q m))"
  using assms by (auto simp: override_quantity_def bind_res_Inr_iff split: if_splits)

lemma override_quantity_pos:
  "override_quantity L n v m = Inr m' \<Longrightarrow> \<forall>p \<in> set m. 0 < snd p \<Longrightarrow> \<forall>p \<in> set m'. 0 < snd p"
  using set_mput by (fastforce dest!: override_quantity_cases simp: mdel_def split: if_splits)

section \<open>A concrete library\<close>

text \<open>An instance of the parameters, for the witnesses: documents parse to nothing, a quantity is its length.\<close>

definition sample_patch_lib :: patch_lib where
  "sample_patch_lib = \<lparr>pl_marshal = (\<lambda>_. []), pl_unmarshal = (\<lambda>_ p. (None, p)),
     pl_selector = (\<lambda>_. Inr (\<lambda>_. True)), pl_yaml_config = (\<lambda>_ c. (None, c))\<rparr>"

definition sample_lib :: setting_lib where
  "sample_lib = \<lparr>l_sha256 = (\<lambda>s. s), l_parse_quantity = (\<lambda>s. Inr (int (length s))),
     l_quantity_value = (\<lambda>q. q), l_yaml_map = (\<lambda>_ m. (None, m)), l_json_map = (\<lambda>_ m. (None, m)),
     l_json_marshal_map = (\<lambda>_. []),
     l_vci_unmarshal = (\<lambda>_. Inr []), l_vci_marshal = (\<lambda>_. []), l_parse_csi_volumes = (\<lambda>_. Inr []),
     l_parse_duration = (\<lambda>s. Inr (int (length s))), l_format_time = FormatInt,
     l_parse_time = (\<lambda>s. case ParseInt 64 s of None \<Rightarrow> Inl (OtherError ''time'') | Some t \<Rightarrow> Inr t),
     l_local_offset = 0, l_yaml_setting = (\<lambda>_ s. (None, s)), l_json_setting = (\<lambda>_ s. (None, s)),
     l_json_marshal_setting = (\<lambda>s. Inr (sName s)),
     l_patch = sample_patch_lib\<rparr>"

definition sample_globals :: globals where
  "sample_globals = \<lparr>ByProcess = False, FormatInPod = False, Provisioner = False, CacheClientConf = False,
     MountManager = False, Webhook = False, ValidatingWebhook = False, Immutable = False,
     DriverName = ''csi.juicefs.com'', NodeName = ''node'', Namespace = ''kube-system'', PodName = [],
     HostIp = [], KubeletPort = [], ReconcileTimeout = 300000000000, ReconcilerInterval = 5,
     SecretReconcilerInterval = 3600000000000, CSIPod = zero_pod, MountPointPath = ''/var/lib/juicefs/volume'',
     JFSConfigPath = ''/var/lib/juicefs/config'', JFSMountPriorityName = [],
     JFSMountPreemptionPolicy = [], DefaultCEMountImage = ''ce'', DefaultEEMountImage = ''ee'',
     GlobalConfig = newCfg\<rparr>"

section \<open>Properties\<close>

text \<open>
  Parsing the printed form of well-formed format options gives the options back.
\<close>

theorem ParseFormatOptions_roundtrip:
  assumes "list_all wf_option kvs"
  shows "ParseFormatOptions (s\<lparr>sFormatOptions := represent_options kvs\<rparr>) = Inr kvs"
proof (cases "kvs = []")
  case True
  then show ?thesis by (simp add: ParseFormatOptions_def represent_options_def parse_option_def TrimSpace_def)
next
  case False
  let ?xs = "map (\<lambda>(k, v). if v = [] then k else k @ CHR ''='' # v) kvs"
  have "\<forall>x \<in> set ?xs. CHR '','' \<notin> set x"
    using assms by (auto simp: list_all_iff wf_option_def)
  with False have "Split CHR '','' (represent_options kvs) = ?xs"
    unfolding represent_options_def by (intro Split_Join) auto
  then show ?thesis using assms parse_options_print by (simp add: ParseFormatOptions_def)
qed

theorem ParseFormatOptions_roundtrip_witness:
  "ParseFormatOptions (zero_setting\<lparr>sFormatOptions := ''a,b=c d''\<rparr>) = Inr [(''a'', []), (''b'', ''c d'')]"
  using ParseFormatOptions_roundtrip [of "[(''a'', []), (''b'', ''c d'')]" zero_setting]
  by (simp add: wf_option_def is_space_def represent_options_def)

text \<open>
  Format options are rejected exactly when one of them, without its surrounding
  white space, is a key with an equals sign and nothing after it.
\<close>

theorem ParseFormatOptions_rejects:
  "(\<exists>e. ParseFormatOptions s = Inl e) \<longleftrightarrow>
   (\<exists>x \<in> set (Split CHR '','' (sFormatOptions s)). \<exists>a. TrimSpace x = a @ ''='' \<and> CHR ''='' \<notin> set a)"
  unfolding ParseFormatOptions_def by (rule parse_options_error_iff)

text \<open>A secret is a map of strings, so unmarshalling it cannot set the caches.\<close>

definition unmarshal_keeps_caches :: "'x setting_lib_scheme \<Rightarrow> bool" where
  "unmarshal_keeps_caches L \<longleftrightarrow> (\<forall>src s t. parseYamlOrJson (l_yaml_setting L) (l_json_setting L) src s = Inr t \<longrightarrow>
     sCacheEmptyDir t = sCacheEmptyDir s \<and> sCacheInlineVolumes t = sCacheInlineVolumes s)"



text \<open>
  When the cache-dir option is given without a value and no cache volume is
  configured, the setting keeps a corrupted list of options: the one after cache-dir is
  dropped from its place and the last one appears twice.
\<close>

theorem parse_cache_options_empty_value:
  assumes "list_all (\<lambda>x. \<not> is_cache_dir_option x) xs"
  shows "parse_cache_options [] (xs @ ''cache-dir='' # ys @ [z]) = (xs @ ys @ [z, z], [[]])"
  using take_cache_dir_some [OF assms, of "''cache-dir=''" "[]" "ys @ [z]"]
  by (simp add: parse_cache_options_def is_cache_dir_option_def TrimSpace_def memory_dir_def)

theorem parse_cache_options_empty_value_witness:
  "parse_cache_options [] [''cache-dir='', ''ro''] = ([''ro'', ''ro''], [[]])"
  using parse_cache_options_empty_value [of "[]" "[]" "''ro''"] by simp

text \<open>
  The resources of a mount pod: a string that does not parse is an error, and every
  quantity of the result is positive when the defaults are.
\<close>

theorem ParsePodResources_positive:
  assumes "ParsePodResources L cpuLimit memoryLimit cpuRequest memoryRequest = Inr r"
    and "getDefaultResource L = Inr d" "\<forall>p \<in> set (rLimits d) \<union> set (rRequests d). 0 < snd p"
  shows "(\<forall>p \<in> set (rLimits r) \<union> set (rRequests r). 0 < snd p)
    \<and> (\<forall>v \<in> {cpuLimit, memoryLimit, cpuRequest, memoryRequest}. v \<noteq> [] \<longrightarrow> (\<exists>q. l_parse_quantity L v = Inr q))"
proof -
  from assms obtain l1 r1 where
    o: "override_quantity L ResourceCPU cpuLimit (rLimits d) = Inr l1"
       "override_quantity L ResourceMemory memoryLimit l1 = Inr (rLimits r)"
       "override_quantity L ResourceCPU cpuRequest (rRequests d) = Inr r1"
       "override_quantity L ResourceMemory memoryRequest r1 = Inr (rRequests r)"
    by (auto simp: ParsePodResources_def bind_res_Inr_iff)
  from assms(3) have "\<forall>p \<in> set (rLimits r). 0 < snd p" "\<forall>p \<in> set (rRequests r). 0 < snd p"
    using override_quantity_pos [OF o(1)] override_quantity_pos [OF o(2)]
      override_quantity_pos [OF o(3)] override_quantity_pos [OF o(4)] by blast+
  then show ?thesis using o [THEN override_quantity_cases] by auto
qed

theorem ParsePodResources_positive_witness:
  "\<exists>r. ParsePodResources sample_lib [] ''3'' [] [] = Inr r \<and> (\<forall>p \<in> set (rLimits r) \<union> set (rRequests r). 0 < snd p)"
proof -
  obtain d where d: "getDefaultResource sample_lib = Inr d" "\<forall>p \<in> set (rLimits d) \<union> set (rRequests d). 0 < snd p"
    by (simp add: getDefaultResource_def MustParse_def sample_lib_def DefaultMountPodCpuLimit_def
      DefaultMountPodMemLimit_def DefaultMountPodCpuRequest_def DefaultMountPodMemRequest_def)
  then obtain r where "ParsePodResources sample_lib [] ''3'' [] [] = Inr r"
    by (auto simp: ParsePodResources_def override_quantity_def sample_lib_def)
  with ParsePodResources_positive [OF this d] show ?thesis by blast
qed

end
