(* ===== verification/Util.thy ===== *)
theory Util
  imports Config
begin

unbundle bit_operations_syntax

text \<open>
  src/pkg/util/util.go: paths and mount tables, reference keys, delayed deletion, shell and
  password helpers, device numbers, calls under a context. ParseToBytes is in JuiceFS.
  Left out is the Prometheus registry.
\<close>

section \<open>Paths\<close>

text \<open>filepath.Rel on Unix, over the components of the cleaned paths.\<close>

definition path_comps :: "string \<Rightarrow> string list" where
  "path_comps s = clean_stack (HasPrefix s ''/'') [] (Split CHR ''/'' s)"

fun strip_common :: "string list \<Rightarrow> string list \<Rightarrow> string list \<times> string list" where
  "strip_common (x # xs) (y # ys) = (if x = y then strip_common xs ys else (x # xs, y # ys))"
| "strip_common xs ys = (xs, ys)"

definition filepath_Rel :: "string \<Rightarrow> string \<Rightarrow> string res" where
  "filepath_Rel base targ =
     (if HasPrefix base ''/'' \<noteq> HasPrefix targ ''/'' then Inl (OtherError ''Rel: can't make relative'')
      else (case strip_common (path_comps base) (path_comps targ) of (b, t) \<Rightarrow>
        if b \<noteq> [] \<and> hd b = dotdot then Inl (OtherError ''Rel: can't make relative'')
        else if b = [] \<and> t = [] then Inr dot
        else Inr (Join (replicate (length b) dotdot @ t) ''/'')))"

definition filepath_Dir :: "string \<Rightarrow> string" where
  "filepath_Dir s = (case LastIndex s CHR ''/'' of None \<Rightarrow> path_Clean [] | Some i \<Rightarrow> path_Clean (take (Suc i) s))"

definition filepath_Base :: "string \<Rightarrow> string" where
  "filepath_Base s =
     (if s = [] then dot
      else (let t = rev (dropWhile (\<lambda>c. c = CHR ''/'') (rev s)) in
        if t = [] then ''/''
        else (case LastIndex t CHR ''/'' of None \<Rightarrow> t | Some i \<Rightarrow> drop (Suc i) t)))"

definition startsWithBackstep :: "string \<Rightarrow> bool" where
  "startsWithBackstep rel = (rel = dotdot \<or> HasPrefix rel (dotdot @ ''/''))"

definition pathWithinBase :: "string \<Rightarrow> string \<Rightarrow> bool" where
  "pathWithinBase fullPath basePath =
     (case filepath_Rel basePath fullPath of Inl _ \<Rightarrow> False | Inr rel \<Rightarrow> \<not> startsWithBackstep rel)"

text \<open>url.Parse of the endpoint is a parameter: scheme, host and path.\<close>

definition ParseEndpoint :: "(string \<Rightarrow> (string \<times> string \<times> string) res) \<Rightarrow> (string \<Rightarrow> string) \<Rightarrow> 'w host
    \<Rightarrow> string \<Rightarrow> ('w, string \<times> string) io" where
  "ParseEndpoint urlParse ToLower H endpoint =
     (case urlParse endpoint of
        Inl e \<Rightarrow> fail (Errorf ''could not parse endpoint: %v'' [])
      | Inr (sch, host, pth) \<Rightarrow>
          (let addr = path_Join [host, pth]; scheme = ToLower sch in
           if scheme = ''tcp'' then ret (scheme, addr)
           else if scheme = ''unix'' then
             (let addr' = path_Join [''/'', addr] in
              tryE (h_remove H addr')
                (\<lambda>e. if e = NotExist then ret (scheme, addr')
                     else fail (Errorf ''could not remove unix domain socket %q: %v'' [addr']))
                (\<lambda>_. ret (scheme, addr')))
           else fail (Errorf ''unsupported protocol: %s'' [scheme])))"

section \<open>The mount table\<close>

record mountInfo =
  mi_id :: int
  mi_parentID :: int
  mi_majorMinor :: string
  mi_root :: string
  mi_source :: string
  mi_mountPoint :: string
  mi_optionalFields :: "string list"
  mi_fsType :: string
  mi_mountOptions :: "string list"
  mi_superOptions :: "string list"

fun read_again :: "'w host \<Rightarrow> string \<Rightarrow> nat \<Rightarrow> string \<Rightarrow> nat \<Rightarrow> ('w, string) io" where
  "read_again H filename attempts oldContent 0 =
     fail (Errorf ''could not get consistent content of %s after %d attempts'' [filename, decimal attempts])"
| "read_again H filename attempts oldContent (Suc n) =
     bind (h_read_file H filename) (\<lambda>newContent.
       if oldContent = newContent then ret newContent else read_again H filename attempts newContent n)"

definition ConsistentRead :: "'w host \<Rightarrow> string \<Rightarrow> nat \<Rightarrow> ('w, string) io" where
  "ConsistentRead H filename attempts =
     bind (h_read_file H filename) (\<lambda>oldContent. read_again H filename attempts oldContent attempts)"

definition maxListTries :: nat where "maxListTries = 3"
definition expectedAtLeastNumFieldsPerMountInfo :: nat where "expectedAtLeastNumFieldsPerMountInfo = 10"
definition procMountInfoPath :: string where "procMountInfoPath = ''/proc/self/mountinfo''"

definition atoi_err :: "string \<Rightarrow> int res" where
  "atoi_err s = (case Atoi s of None \<Rightarrow> Inl (OtherError ''strconv.Atoi'') | Some i \<Rightarrow> Inr i)"

text \<open>One line of the file: the fields up to a dash are optional, then three more.\<close>

definition parse_mount_line :: "string \<Rightarrow> mountInfo res" where
  "parse_mount_line line =
     (let fields = Fields line in
      if length fields < expectedAtLeastNumFieldsPerMountInfo then
        Inl (Errorf ''wrong number of fields in (expected at least %d, got %d): %s''
          [decimal expectedAtLeastNumFieldsPerMountInfo, decimal (length fields), line])
      else
        bind_res (atoi_err (fields ! 0)) (\<lambda>i.
        bind_res (atoi_err (fields ! 1)) (\<lambda>parentID.
        let optional = takeWhile (\<lambda>f. f \<noteq> ''-'') (drop 6 fields);
            rest = drop (6 + length optional + 1) fields
        in if length rest < 3 then
             Inl (Errorf ''expect 3 fields in %s, got %d''
               [line, FormatInt (int (length fields) - int (6 + length optional + 1))])
           else Inr \<lparr>mi_id = i, mi_parentID = parentID, mi_majorMinor = fields ! 2, mi_root = fields ! 3,
                     mi_source = rest ! 1, mi_mountPoint = fields ! 4, mi_optionalFields = optional,
                     mi_fsType = rest ! 0, mi_mountOptions = Split CHR '','' (fields ! 5),
                     mi_superOptions = Split CHR '','' (rest ! 2)\<rparr>)))"

fun parse_mount_lines :: "string list \<Rightarrow> mountInfo list res" where
  "parse_mount_lines [] = Inr []"
| "parse_mount_lines (line # ls) =
     (if line = [] then parse_mount_lines ls
      else bind_res (parse_mount_line line) (\<lambda>mi. bind_res (parse_mount_lines ls) (\<lambda>mis. Inr (mi # mis))))"

definition parseMountInfo :: "'w host \<Rightarrow> string \<Rightarrow> ('w, mountInfo list) io" where
  "parseMountInfo H filename =
     bind (ConsistentRead H filename maxListTries) (\<lambda>content.
       lift_res (parse_mount_lines (Split CHR 0x0A content)))"

text \<open>The last entry whose mount point is the path or above it.\<close>

definition covering_mount :: "string \<Rightarrow> mountInfo list \<Rightarrow> mountInfo option" where
  "covering_mount hostSource mis =
     find (\<lambda>mi. hostSource = mi_mountPoint mi \<or> pathWithinBase hostSource (mi_mountPoint mi)) (rev mis)"

definition search_refs :: "string \<Rightarrow> mountInfo list \<Rightarrow> string list res" where
  "search_refs hostSource mis =
     (case covering_mount hostSource mis of
        None \<Rightarrow> Inl (Errorf ''failed to get root path and major:minor for %s'' [hostSource])
      | Some m \<Rightarrow>
          (let rootPath = path_Join [mi_root m, TrimPrefix hostSource (mi_mountPoint m)] in
           if rootPath = [] \<or> mi_majorMinor m = [] then
             Inl (Errorf ''failed to get root path and major:minor for %s'' [hostSource])
           else Inr (map mi_mountPoint (filter (\<lambda>mi. mi_id mi \<noteq> mi_id m \<and>
             mi_majorMinor mi = mi_majorMinor m \<and> mi_fsType mi = mi_fsType m) mis))))"

definition searchMountPoints :: "'w host \<Rightarrow> string \<Rightarrow> string \<Rightarrow> ('w, string list) io" where
  "searchMountPoints H hostSource mountInfoPath =
     bind (parseMountInfo H mountInfoPath) (\<lambda>mis. lift_res (search_refs hostSource mis))"

definition GetMountDeviceRefs :: "'w host \<Rightarrow> string \<Rightarrow> bool \<Rightarrow> ('w, string list) io" where
  "GetMountDeviceRefs H pathname corrupted =
     bind (if corrupted then
             (let p = TrimSuffix pathname ''/'' in
              bind (h_eval_symlinks H (filepath_Dir p)) (\<lambda>r. ret (path_Join [r, filepath_Base p])))
           else h_eval_symlinks H pathname)
       (\<lambda>realpath. searchMountPoints H realpath procMountInfoPath)"

section \<open>Strings\<close>

fun ContainsString :: "string list \<Rightarrow> string \<Rightarrow> bool" where
  "ContainsString [] s = False"
| "ContainsString (item # items) s = (if item = s then True else ContainsString items s)"

fun ContainsPrefix :: "string list \<Rightarrow> string \<Rightarrow> bool" where
  "ContainsPrefix [] s = False"
| "ContainsPrefix (item # items) s = (if HasPrefix item s then True else ContainsPrefix items s)"

text \<open>
  The digest has 64 hex digits, so the slice of the first 63 bytes is in range.
\<close>

definition ref_prefix :: string where "ref_prefix = ''juicefs-''"

definition GetReferenceKey :: "'x lib_scheme \<Rightarrow> string \<Rightarrow> string" where
  "GetReferenceKey L target = take 63 (ref_prefix @ l_sha256 L target)"

definition ParseMntPath :: "string \<Rightarrow> (string \<times> string) res" where
  "ParseMntPath cmd =
     (let mountCmd = last (Split CHR 0x0A cmd); args = Fields mountCmd in
      if length args < 3 \<or> \<not> HasPrefix (args ! 2) PodMountBase then Inl (Errorf ''err cmd:%s'' [cmd])
      else (let argSlice = Split CHR ''/'' (args ! 2) in
        if length argSlice < 3 then Inl (Errorf ''err mntPath:%s'' [args ! 2])
        else Inr (args ! 2, argSlice ! 2)))"

definition QuoteForShell :: "string \<Rightarrow> string" where
  "QuoteForShell cmd =
     (let c1 = (if Contains cmd ''('' then ReplaceChar CHR ''('' [CHR 0x5C, CHR ''(''] cmd else cmd)
      in if Contains c1 '')'' then ReplaceChar CHR '')'' [CHR 0x5C, CHR '')''] c1 else c1)"

definition StripReadonlyOption :: "string list \<Rightarrow> string list" where
  "StripReadonlyOption options = filter (\<lambda>opt. opt \<noteq> ''ro'' \<and> opt \<noteq> ''read-only'') options"

text \<open>
  The slice expressions panic out of range; with no ``://'' the index is -1 and the first
  slice starts at 2.
\<close>

definition StripPasswd :: "string \<Rightarrow> string res" where
  "StripPasswd uri =
     (case Index uri ''@'' of None \<Rightarrow> Inr uri
      | Some p \<Rightarrow>
          (let sp3 = (case Index uri ''://'' of None \<Rightarrow> 2 | Some sp \<Rightarrow> sp + 3) in
           if length uri < sp3 then Inl (Panic ''slice bounds out of range'')
           else (case Index (drop sp3 uri) '':'' of None \<Rightarrow> Inr uri
             | Some cp \<Rightarrow> if sp3 + cp > p then Inr uri else Inr (take (sp3 + cp) uri @ '':****'' @ drop p uri))))"

definition letterRunes :: string where "letterRunes = ''abcdefghijklmnopqrstuvwxyz''"

fun RandStringRunes :: "'w host \<Rightarrow> nat \<Rightarrow> 'w \<Rightarrow> string \<times> 'w" where
  "RandStringRunes H 0 w = ([], w)"
| "RandStringRunes H (Suc n) w =
     (case h_intn H (length letterRunes) w of (i, w1) \<Rightarrow>
        (case RandStringRunes H n w1 of (s, w2) \<Rightarrow> (letterRunes ! i # s, w2)))"

text \<open>The regular expression, not anchored, as a list of character classes.\<close>

definition is_word_char :: "char \<Rightarrow> bool" where
  "is_word_char c = (let n = (of_char c :: nat) in
     is_digit c \<or> c = CHR ''_'' \<or> (65 \<le> n \<and> n \<le> 90) \<or> (97 \<le> n \<and> n \<le> 122))"

definition dynamic_pv_pattern :: "(char \<Rightarrow> bool) list" where
  "dynamic_pv_pattern = map (\<lambda>c x. x = c) ''pvc-'' @ replicate 8 is_word_char
     @ concat (replicate 3 ((\<lambda>x. x = CHR ''-'') # replicate 4 is_word_char))
     @ (\<lambda>x. x = CHR ''-'') # replicate 12 is_word_char"

fun match_here :: "(char \<Rightarrow> bool) list \<Rightarrow> string \<Rightarrow> bool" where
  "match_here [] s = True"
| "match_here (p # ps) [] = False"
| "match_here (p # ps) (c # s) = (p c \<and> match_here ps s)"

fun CheckDynamicPV :: "string \<Rightarrow> bool" where
  "CheckDynamicPV [] = match_here dynamic_pv_pattern []"
| "CheckDynamicPV (c # s) = (match_here dynamic_pv_pattern (c # s) \<or> CheckDynamicPV s)"

text \<open>The output of umount is only logged.\<close>

definition UmountPath :: "'w host \<Rightarrow> string \<Rightarrow> ('w, unit) io" where
  "UmountPath H sourcePath = after (\<lambda>w. snd (h_umount_lazy H sourcePath w)) (ret ())"

definition CheckExpectValue :: "smap \<Rightarrow> string \<Rightarrow> string \<Rightarrow> bool" where
  "CheckExpectValue m key targetValue = (if m = [] then False
     else (case map_of m key of Some v \<Rightarrow> v = targetValue | None \<Rightarrow> False))"

definition ImageResol :: "string \<Rightarrow> bool \<times> bool" where
  "ImageResol img =
     (let images = Split CHR '':'' img in
      if length images < 2 then (True, False)
      else (let tag = images ! 1 in
        if tag = ''latest'' then (True, False)
        else if HasPrefix tag ''ee-'' then (False, True)
        else if HasPrefix tag ''ce-'' then (True, False)
        else (True, True)))"

section \<open>Numbers\<close>

definition GetDiskUsage :: "'w host \<Rightarrow> string \<Rightarrow> 'w \<Rightarrow> (64 word \<times> 64 word \<times> 64 word \<times> 64 word) \<times> 'w" where
  "GetDiskUsage H path w =
     (case h_statfs H path w of
        (Inr (bsize, blocks, bfree, files, ffree), w') \<Rightarrow> ((bsize * blocks, bsize * bfree, files, ffree), w')
      | (Inl _, w') \<Rightarrow> ((1, 1, 1, 1), w'))"

definition DevMinor :: "64 word \<Rightarrow> 32 word" where
  "DevMinor dev = ucast ((dev AND 0xff) OR (drop_bit 12 dev AND 0xffffff00))"

section \<open>Delayed deletion\<close>

text \<open>
  time.Now() carries the local zone, so Format prints local time; time.Parse reads the
  string as UTC.
\<close>

definition GetTimeAfterDelay :: "'x lib_scheme \<Rightarrow> int \<Rightarrow> string \<Rightarrow> string res" where
  "GetTimeAfterDelay L now delayStr =
     bind_res (l_parse_duration L delayStr) (\<lambda>delay. Inr (l_format_time L (now + delay + l_local_offset L)))"

definition GetTime :: "'x lib_scheme \<Rightarrow> string \<Rightarrow> int res" where
  "GetTime L str = l_parse_time L str"

section \<open>Lemmas\<close>

lemma strip_common_split:
  "strip_common xs ys = (b, t) \<Longrightarrow> \<exists>c. xs = c @ b \<and> ys = c @ t \<and> (b = [] \<or> t = [] \<or> hd b \<noteq> hd t)"
proof (induction xs ys rule: strip_common.induct)
  case (1 x xs y ys)
  show ?case
  proof (cases "x = y")
    case True
    with 1 obtain c where "xs = c @ b" "ys = c @ t" "b = [] \<or> t = [] \<or> hd b \<noteq> hd t" by auto
    with True show ?thesis by (intro exI [of _ "x # c"]) simp
  next
    case False
    with 1 show ?thesis by auto
  qed
qed auto

lemma strip_common_prefix: "strip_common xs ys = (b, t) \<Longrightarrow> b = [] \<longleftrightarrow> prefix xs ys"
  by (induction xs ys rule: strip_common.induct) (auto split: if_splits)

lemma path_comps_no_sep: "c \<in> set (path_comps s) \<Longrightarrow> CHR ''/'' \<notin> set c"
  using clean_stack_subset Split_no_sep by (fastforce simp: path_comps_def)

lemma path_comps_rooted: "HasPrefix s ''/'' \<Longrightarrow> c \<in> set (path_comps s) \<Longrightarrow> c \<noteq> [] \<and> c \<noteq> dotdot"
  using clean_stack_proper [of True "[]" "Split CHR ''/'' s"]
  by (auto simp: path_comps_def list_all_iff proper_comp_def)

lemma slash_notin_dots [simp]: "CHR ''/'' \<notin> set dotdot" "CHR ''/'' \<notin> set dot" "dot \<noteq> dotdot" "dotdot \<noteq> []"
  by (simp_all add: dot_def dotdot_def)

lemma startsWithBackstep_Join:
  assumes "cs \<noteq> []" "\<forall>c \<in> set cs. CHR ''/'' \<notin> set c"
  shows "startsWithBackstep (Join cs ''/'') \<longleftrightarrow> hd cs = dotdot"
proof
  assume a: "startsWithBackstep (Join cs ''/'')"
  have "\<exists>r. Split CHR ''/'' (Join cs ''/'') = dotdot # r"
    using a Split_append [of "CHR ''/''" dotdot]
    by (auto simp: startsWithBackstep_def HasPrefix_iff)
  then show "hd cs = dotdot" using Split_Join [OF assms] by auto
next
  assume "hd cs = dotdot"
  then show "startsWithBackstep (Join cs ''/'')" using assms(1)
    by (cases cs rule: remdups_adj.cases) (auto simp: startsWithBackstep_def HasPrefix_iff)
qed

lemma pathWithinBase_rooted:
  assumes "HasPrefix full ''/''" "HasPrefix base ''/''"
  shows "pathWithinBase full base \<longleftrightarrow> prefix (path_comps base) (path_comps full)"
proof -
  obtain b t where bt: "strip_common (path_comps base) (path_comps full) = (b, t)" by fastforce
  from strip_common_split [OF bt] have sub: "set b \<subseteq> set (path_comps base)" "set t \<subseteq> set (path_comps full)" by auto
  then have "b \<noteq> [] \<Longrightarrow> hd b \<noteq> dotdot" "t \<noteq> [] \<Longrightarrow> hd t \<noteq> dotdot"
    using path_comps_rooted [OF assms(1)] path_comps_rooted [OF assms(2)] by (metis hd_in_set subsetD)+
  moreover have "\<forall>c \<in> set (replicate (length b) dotdot @ t). CHR ''/'' \<notin> set c"
    using sub path_comps_no_sep by auto
  moreover have "\<not> startsWithBackstep dot"
    by (simp add: startsWithBackstep_def dot_def dotdot_def)
  ultimately show ?thesis
    using assms startsWithBackstep_Join [of "replicate (length b) dotdot @ t"]
    unfolding strip_common_prefix [OF bt, symmetric]
    by (cases "length b") (auto simp: pathWithinBase_def filepath_Rel_def bt)
qed

lemma read_again_twice:
  "read_again H f a old n w = (Inr c, w') \<Longrightarrow>
   \<exists>w1. h_read_file H f w1 = (Inr c, w') \<and> (c = old \<and> w1 = w \<or> (\<exists>w0. h_read_file H f w0 = (Inr c, w1)))"
proof (induction n arbitrary: old w)
  case (Suc n)
  then obtain new w1 where r: "h_read_file H f w = (Inr new, w1)"
    by (auto simp: go_step split: prod.splits sum.splits)
  show ?case
  proof (cases "old = new")
    case True
    with Suc.prems r show ?thesis by (auto simp: go_step)
  next
    case False
    with Suc.prems r have "read_again H f a new n w1 = (Inr c, w')" by (simp add: go_step)
    from Suc.IH [OF this] r show ?thesis by auto
  qed
qed (simp add: go_step)

lemma ConsistentRead_twice:
  "ConsistentRead H f a w = (Inr c, w') \<Longrightarrow>
   \<exists>w0 w1. h_read_file H f w0 = (Inr c, w1) \<and> h_read_file H f w1 = (Inr c, w')"
  by (auto simp: ConsistentRead_def go_step split: prod.splits sum.splits dest!: read_again_twice)

text \<open>The device number that the kernel gives a major and a minor number (makedev of the C library).\<close>

definition makedev :: "32 word \<Rightarrow> 32 word \<Rightarrow> 64 word" where
  "makedev major minor =
     ((ucast minor AND 0xff) OR push_bit 8 (ucast major AND 0xfff)
      OR push_bit 12 (ucast minor AND 0xffffff00)) OR push_bit 32 (ucast major AND 0xfffff000)"

lemma word_masks:
  "(0xff :: 64 word) = mask 8" "(0xfff :: 64 word) = mask 12"
  "(0xffffff00 :: 64 word) = push_bit 8 (mask 24)" "(0xfffff000 :: 64 word) = push_bit 12 (mask 20)"
  by (simp_all add: mask_eq_exp_minus_1 push_bit_eq_mult)

lemma DevMinor_makedev: "DevMinor (makedev major minor) = minor"
proof (rule bit_word_eqI)
  fix n assume "n < LENGTH(32)"
  then have n: "n < 32" by simp
  show "bit (DevMinor (makedev major minor)) n = bit minor n"
    using n unfolding DevMinor_def makedev_def word_masks
    by (cases "n < 8") (auto simp: bit_simps)
qed

lemma StripPasswd_hides:
  assumes "set user \<inter> {CHR '':'', CHR ''@''} = {}" "CHR ''@'' \<notin> set pw" "CHR ''@'' \<notin> set scheme" "CHR '':'' \<notin> set scheme"
  shows "StripPasswd (scheme @ ''://'' @ user @ '':'' @ pw @ ''@'' @ host) = Inr (scheme @ ''://'' @ user @ '':****@'' @ host)"
proof -
  have idx: "c \<notin> set a \<Longrightarrow> Index (a @ c # b) (c # p) = (if HasPrefix b p then Some (length a) else map_option (\<lambda>i. Suc (length a + i)) (Index b (c # p)))" for a b c p
    by (induction a) (auto simp: option.map_comp o_def)
  let ?u = "scheme @ ''://'' @ user @ '':'' @ pw @ ''@'' @ host"
  have p: "Index ?u ''@'' = Some (length scheme + 3 + length user + 1 + length pw)"
    using idx [of "CHR ''@''" "scheme @ ''://'' @ user @ '':'' @ pw" host "[]"] assms by simp
  have s: "Index ?u ''://'' = Some (length scheme)"
    using idx [of "CHR '':''" scheme "''//'' @ user @ '':'' @ pw @ ''@'' @ host" "''//''"] assms by simp
  have c: "Index (drop (length scheme + 3) ?u) '':'' = Some (length user)"
    using idx [of "CHR '':''" user "pw @ ''@'' @ host" "[]"] assms by simp
  show ?thesis unfolding StripPasswd_def p s using c by (simp add: numeral_eq_Suc)
qed

lemma search_refs_mem:
  assumes "search_refs host mis = Inr refs"
  obtains m where "covering_mount host mis = Some m"
    "set refs = mi_mountPoint ` {mi \<in> set mis. mi_id mi \<noteq> mi_id m \<and>
       mi_majorMinor mi = mi_majorMinor m \<and> mi_fsType mi = mi_fsType m}"
  using assms that by (auto simp: search_refs_def Let_def split: option.splits if_splits)

lemma find_rev_Some: "find P (rev xs) = Some x \<Longrightarrow> \<exists>a b. xs = a @ x # b \<and> P x \<and> (\<forall>y \<in> set b. \<not> P y)"
proof (induction xs rule: rev_induct)
  case (snoc y ys)
  then show ?case
  proof (cases "P y")
    case True
    with snoc.prems show ?thesis by (intro exI [of _ ys] exI [of _ "[]"]) auto
  next
    case False
    with snoc obtain a b where "ys = a @ x # b" "P x" "\<forall>y \<in> set b. \<not> P y" by auto
    with False show ?thesis by (intro exI [of _ a] exI [of _ "b @ [y]"]) auto
  qed
qed simp

text \<open>What the code relies on of SHA-256: 64 lower-case hex digits, and no collision among the targets in use.\<close>

definition is_hex :: "char \<Rightarrow> bool" where
  "is_hex c = (c \<in> set ''0123456789abcdef'')"

definition sha_wf :: "'x lib_scheme \<Rightarrow> bool" where
  "sha_wf L \<longleftrightarrow> (\<forall>t. length (l_sha256 L t) = 64 \<and> list_all is_hex (l_sha256 L t))"

lemma not_hex: "\<not> is_hex CHR ''/''" "\<not> is_hex CHR ''~''"
  by (simp_all add: is_hex_def)

lemma GetReferenceKey_shape:
  assumes "sha_wf L"
  shows "length (GetReferenceKey L t) = 63" "HasPrefix (GetReferenceKey L t) ref_prefix"
    "CHR ''/'' \<notin> set (GetReferenceKey L t)" "CHR ''~'' \<notin> set (GetReferenceKey L t)"
proof -
  have h: "list_all is_hex (l_sha256 L t)" "length (l_sha256 L t) = 64" using assms by (simp_all add: sha_wf_def)
  then show "length (GetReferenceKey L t) = 63" by (simp add: GetReferenceKey_def ref_prefix_def)
  show "HasPrefix (GetReferenceKey L t) ref_prefix" by (simp add: GetReferenceKey_def ref_prefix_def)
  have "set (GetReferenceKey L t) \<subseteq> set ref_prefix \<union> set (l_sha256 L t)"
    unfolding GetReferenceKey_def using set_take_subset by fastforce
  moreover have "CHR ''/'' \<notin> set (l_sha256 L t)" "CHR ''~'' \<notin> set (l_sha256 L t)"
    using h not_hex by (metis list_all_iff)+
  ultimately show "CHR ''/'' \<notin> set (GetReferenceKey L t)" "CHR ''~'' \<notin> set (GetReferenceKey L t)"
    by (auto simp: ref_prefix_def simp del: set_take_subset)
qed

lemma Split_append_sep: "Split c (a @ c # b) = Split c a @ Split c b"
  by (induction a) (auto split: list.splits)

lemma ParseMntPath_ok:
  assumes "CHR 0x0A \<notin> set line" "length (Fields line) \<ge> 3" "Fields line ! 2 = PodMountBase @ ''/'' @ rest"
  shows "ParseMntPath (pre @ CHR 0x0A # line) = Inr (PodMountBase @ ''/'' @ rest, hd (Split CHR ''/'' rest))"
proof -
  have l: "last (Split c (a @ c # line)) = line" if "c \<notin> set line" for a c
    using that by (simp add: Split_append_sep)
  obtain x xs where x: "Split CHR ''/'' rest = x # xs" by (cases "Split CHR ''/'' rest") auto
  have "Split CHR ''/'' (PodMountBase @ ''/'' @ rest) = [] # ''jfs'' # x # xs"
    by (simp add: PodMountBase_def x)
  then show ?thesis
    unfolding ParseMntPath_def Let_def l [OF assms(1)] assms(3) using assms(2) x by simp
qed

section \<open>Properties\<close>

text \<open>
  For absolute paths the test for a path below a mount point is exactly the prefix
  relation on the components of the cleaned paths.
\<close>

theorem pathWithinBase_descendant:
  assumes "HasPrefix full ''/''" "HasPrefix base ''/''"
  shows "pathWithinBase full base \<longleftrightarrow> prefix (path_comps base) (path_comps full)"
  using assms by (rule pathWithinBase_rooted)

theorem pathWithinBase_descendant_witness:
  "pathWithinBase ''/jfs/vol/../a'' ''/jfs'' \<and> \<not> pathWithinBase ''/jfsx'' ''/jfs''"
proof -
  have "prefix (path_comps ''/jfs'') (path_comps ''/jfs/vol/../a'')" "\<not> prefix (path_comps ''/jfs'') (path_comps ''/jfsx'')"
    by code_simp+
  then show ?thesis
    using pathWithinBase_descendant [of "''/jfs/vol/../a''" "''/jfs''"] pathWithinBase_descendant [of "''/jfsx''" "''/jfs''"]
    by simp
qed

text \<open>
  The references of a mount point: the table was read twice with the same content,
  and the result is the mount points of the entries with the device and the type of
  the last entry that covers the path, other than that entry.
\<close>

theorem searchMountPoints_refs:
  assumes "searchMountPoints H source file w = (Inr refs, w')"
  shows "\<exists>content w0 w1 a m b.
     h_read_file H file w0 = (Inr content, w1) \<and> h_read_file H file w1 = (Inr content, w') \<and>
     parse_mount_lines (Split CHR 0x0A content) = Inr (a @ m # b) \<and>
     (source = mi_mountPoint m \<or> pathWithinBase source (mi_mountPoint m)) \<and>
     (\<forall>mi \<in> set b. source \<noteq> mi_mountPoint mi \<and> \<not> pathWithinBase source (mi_mountPoint mi)) \<and>
     set refs = mi_mountPoint ` {mi \<in> set (a @ m # b). mi_id mi \<noteq> mi_id m \<and>
       mi_majorMinor mi = mi_majorMinor m \<and> mi_fsType mi = mi_fsType m}"
proof -
  from assms obtain content mis where
    c: "ConsistentRead H file maxListTries w = (Inr content, w')"
    and p: "parse_mount_lines (Split CHR 0x0A content) = Inr mis" and r: "search_refs source mis = Inr refs"
    by (auto simp: searchMountPoints_def parseMountInfo_def go_step split: prod.splits sum.splits)
  from r obtain m where m: "covering_mount source mis = Some m"
    and refs: "set refs = mi_mountPoint ` {mi \<in> set mis. mi_id mi \<noteq> mi_id m \<and>
       mi_majorMinor mi = mi_majorMinor m \<and> mi_fsType mi = mi_fsType m}" by (rule search_refs_mem)
  from find_rev_Some [OF m [unfolded covering_mount_def]] obtain a b where "mis = a @ m # b"
    "source = mi_mountPoint m \<or> pathWithinBase source (mi_mountPoint m)"
    "\<forall>mi \<in> set b. source \<noteq> mi_mountPoint mi \<and> \<not> pathWithinBase source (mi_mountPoint mi)" by auto
  with ConsistentRead_twice [OF c] p refs show ?thesis by blast
qed

definition sample_mountinfo :: string where
  "sample_mountinfo = ''1 0 0:50 / /a rw x - fuse s rw'' @ [CHR 0x0A] @ ''2 0 0:50 / /b rw x - fuse s rw'' @ [CHR 0x0A]"

theorem searchMountPoints_refs_witness:
  "\<exists>m :: mountInfo. pathWithinBase ''/a/x'' (mi_mountPoint m) \<and>
     searchMountPoints ((idle_host :: unit host)\<lparr>h_read_file := \<lambda>_. ret sample_mountinfo\<rparr>) ''/a/x'' [] () = (Inr [''/b''], ())"
proof -
  have s: "searchMountPoints ((idle_host :: unit host)\<lparr>h_read_file := \<lambda>_. ret sample_mountinfo\<rparr>) ''/a/x'' [] ()
      = (Inr [''/b''], ())"
    by code_simp
  from searchMountPoints_refs [OF s] obtain content a m b where
    c: "parse_mount_lines (Split CHR 0x0A content) = Inr (a @ m # b)"
    "''/a/x'' = mi_mountPoint m \<or> pathWithinBase ''/a/x'' (mi_mountPoint m)" by blast
  have "pathWithinBase ''/a/x'' ''/a/x''" by code_simp
  with c(2) have "pathWithinBase ''/a/x'' (mi_mountPoint m)" by auto
  with s show ?thesis by blast
qed

text \<open>
  DevMinor recovers the minor number from every device number, including minors of
  more than eight bits.
\<close>

theorem DevMinor_inverts_makedev: "DevMinor (makedev major minor) = minor"
  by (rule DevMinor_makedev)

text \<open>
  StripPasswd replaces the password of a URL by four stars and changes nothing
  else, when neither the user nor the password contains a separator.
\<close>

theorem StripPasswd_masks:
  assumes "set user \<inter> {CHR '':'', CHR ''@''} = {}" "CHR ''@'' \<notin> set pw"
    and "set scheme \<inter> {CHR '':'', CHR ''@''} = {}"
  shows "StripPasswd (scheme @ ''://'' @ user @ '':'' @ pw @ ''@'' @ host) = Inr (scheme @ ''://'' @ user @ '':****@'' @ host)"
  using assms by (intro StripPasswd_hides) auto

theorem StripPasswd_masks_witness:
  "StripPasswd ''redis://u:secret@h/1'' = Inr ''redis://u:****@h/1''"
  using StripPasswd_masks [of "''u''" "''secret''" "''redis''" "''h/1''"] by simp

text \<open>
  StripPasswd panics on exactly one argument, the string of an at sign alone: without
  ``://'' its slice starts at 2.
\<close>

theorem StripPasswd_panics:
  "(\<exists>e. StripPasswd uri = Inl e) \<longleftrightarrow> uri = ''@''"
proof -
  have iff: "length uri < (case Index uri ''://'' of None \<Rightarrow> 2 | Some sp \<Rightarrow> sp + 3) \<longleftrightarrow> uri = ''@''" if "CHR ''@'' \<in> set uri"
  proof (cases "Index uri ''://''")
    case None
    with that show ?thesis by (cases uri; cases "tl uri") auto
  next
    case (Some sp)
    with Index_Some [OF Some] show ?thesis by auto
  qed
  show ?thesis
  proof (cases "Index uri ''@''")
    case (Some p)
    then have "CHR ''@'' \<in> set uri" using Index_singleton_None [of uri "CHR ''@''"] by (metis option.distinct(1))
    with Some iff show ?thesis by (auto simp: StripPasswd_def Let_def split: option.splits if_splits)
  next
    case None
    then have "StripPasswd uri = Inr uri" unfolding StripPasswd_def by (simp only: option.case)
    with None show ?thesis by auto
  qed
qed

section \<open>Calls under a context\<close>

text \<open>
  DoWithContext: a goroutine runs the function and sends its result on a channel without a
  buffer; the caller takes the result or the error of the context, whichever select finds.
  The steps of the two for a function with result \<open>r\<close> and a context that may end with
  the error \<open>e\<close>. DoWithTimeout is the same with a context that ends at its deadline. The other theories
  take such a call for one step that may return a context error.
\<close>

datatype 'a worker = Working | Sending "'a res" | Finished
datatype 'a caller = Waiting | Returned "'a res"

record 'a call =
  clWorker :: "'a worker"
  clCaller :: "'a caller"
  clCtx :: "err option"

definition DoWithContext :: "'a call" where
  "DoWithContext = \<lparr>clWorker = Working, clCaller = Waiting, clCtx = None\<rparr>"

inductive call_step :: "'a res \<Rightarrow> err \<Rightarrow> 'a call \<Rightarrow> 'a call \<Rightarrow> bool" for r e where
  work: "clWorker s = Working \<Longrightarrow> call_step r e s (s\<lparr>clWorker := Sending r\<rparr>)"
| cancel: "clCtx s = None \<Longrightarrow> call_step r e s (s\<lparr>clCtx := Some e\<rparr>)"
| ctx_done: "clCaller s = Waiting \<Longrightarrow> clCtx s = Some e' \<Longrightarrow> call_step r e s (s\<lparr>clCaller := Returned (Inl e')\<rparr>)"
| receive: "clCaller s = Waiting \<Longrightarrow> clWorker s = Sending r' \<Longrightarrow>
    call_step r e s (s\<lparr>clWorker := Finished, clCaller := Returned r'\<rparr>)"

inductive_cases call_stepE: "call_step r e s s'"

definition call_inv :: "'a res \<Rightarrow> err \<Rightarrow> 'a call \<Rightarrow> bool" where
  "call_inv r e s \<longleftrightarrow> (clWorker s \<in> {Working, Sending r, Finished}) \<and> clCtx s \<in> {None, Some e} \<and>
     (clWorker s = Finished \<longrightarrow> clCaller s = Returned r) \<and>
     (clWorker s \<noteq> Finished \<longrightarrow> clCaller s \<in> {Waiting, Returned (Inl e)}) \<and>
     (clCaller s = Returned (Inl e) \<and> clWorker s \<noteq> Finished \<longrightarrow> clCtx s = Some e)"

lemma call_inv_step: "call_step r e s s' \<Longrightarrow> call_inv r e s \<Longrightarrow> call_inv r e s'"
  by (erule call_stepE) (auto simp: call_inv_def)

lemma call_inv_reachable: "(call_step r e)\<^sup>*\<^sup>* DoWithContext s \<Longrightarrow> call_inv r e s"
  by (induction rule: rtranclp_induct) (auto simp: call_inv_step, simp add: call_inv_def DoWithContext_def)

lemma returned_stays:
  "(call_step r e)\<^sup>*\<^sup>* s t \<Longrightarrow> clCaller s = Returned x \<Longrightarrow> clWorker s \<noteq> Finished \<Longrightarrow> clCaller t = Returned x \<and> clWorker t \<noteq> Finished"
  by (induction rule: rtranclp_induct) (auto elim!: call_stepE)

text \<open>
  C32: a call under a context returns the result of the function or the error of the ended
  context, and can return as soon as there is one of them. But when it returns the error of the context
  before the function has sent its result, the goroutine of the function never ends,
  whatever happens later: the send on the unbuffered channel has no receiver any more.
\<close>

theorem DoWithContext_leaks:
  assumes "(call_step r e)\<^sup>*\<^sup>* DoWithContext s"
  shows "(\<forall>x. clCaller s = Returned x \<longrightarrow> x = r \<or> x = Inl e \<and> clCtx s = Some e) \<and>
    (clCaller s = Waiting \<and> (clCtx s \<noteq> None \<or> clWorker s \<noteq> Working) \<longrightarrow> (\<exists>s' x. call_step r e s s' \<and> clCaller s' = Returned x)) \<and>
    (\<forall>x t. clCaller s = Returned x \<longrightarrow> clWorker s \<noteq> Finished \<longrightarrow> (call_step r e)\<^sup>*\<^sup>* s t \<longrightarrow> clWorker t \<noteq> Finished)"
proof (intro conjI allI impI)
  note i = call_inv_reachable [OF assms]
  show "x = r \<or> x = Inl e \<and> clCtx s = Some e" if "clCaller s = Returned x" for x
    using i that by (auto simp: call_inv_def)
  show "\<exists>s' x. call_step r e s s' \<and> clCaller s' = Returned x" if w: "clCaller s = Waiting \<and> (clCtx s \<noteq> None \<or> clWorker s \<noteq> Working)"
  proof (cases "clCtx s")
    case None
    with w i have "clWorker s = Sending r" by (auto simp: call_inv_def)
    with w show ?thesis using call_step.receive [of s r r e] by fastforce
  next
    case (Some e')
    with w show ?thesis using call_step.ctx_done [of s e' r e] by fastforce
  qed
  show "clWorker t \<noteq> Finished" if "clCaller s = Returned x" "clWorker s \<noteq> Finished" "(call_step r e)\<^sup>*\<^sup>* s t" for x t
    using returned_stays [OF that(3,1,2)] by simp
qed

text \<open>The timeout of a call that never gets its result in time.\<close>

definition timed_out :: "unit call" where
  "timed_out = \<lparr>clWorker = Sending (Inr ()), clCaller = Returned (Inl DeadlineExceeded), clCtx = Some DeadlineExceeded\<rparr>"

theorem DoWithContext_leaks_witness:
  "\<nexists>t. (call_step (Inr ()) DeadlineExceeded)\<^sup>*\<^sup>* timed_out t \<and> clWorker t = Finished"
proof -
  let ?s = "call_step (Inr ()) DeadlineExceeded"
  have "?s DoWithContext (DoWithContext\<lparr>clCtx := Some DeadlineExceeded\<rparr>)"
    by (rule call_step.cancel) (simp add: DoWithContext_def)
  moreover have "?s (DoWithContext\<lparr>clCtx := Some DeadlineExceeded\<rparr>)
      ((DoWithContext\<lparr>clCtx := Some DeadlineExceeded\<rparr>)\<lparr>clCaller := Returned (Inl DeadlineExceeded)\<rparr>)"
    by (rule call_step.ctx_done) (simp_all add: DoWithContext_def)
  moreover have "?s ((DoWithContext\<lparr>clCtx := Some DeadlineExceeded\<rparr>)\<lparr>clCaller := Returned (Inl DeadlineExceeded)\<rparr>) timed_out"
    using call_step.work [of "(DoWithContext\<lparr>clCtx := Some DeadlineExceeded\<rparr>)\<lparr>clCaller := Returned (Inl DeadlineExceeded)\<rparr>" "Inr ()" DeadlineExceeded]
    by (simp add: DoWithContext_def timed_out_def)
  ultimately have "?s\<^sup>*\<^sup>* DoWithContext timed_out" by (meson converse_rtranclp_into_rtranclp rtranclp.rtrancl_refl)
  from DoWithContext_leaks [OF this] show ?thesis by (auto simp: timed_out_def)
qed

section \<open>Images of a registry with a port\<close>

text \<open>
  The part after the first colon is taken for the tag. For an image of a registry with a port
  that is the port and the path, so such an image counts as one of both editions,
  whatever its tag says.
\<close>

lemma ImageResol_registry_port:
  assumes "CHR '':'' \<notin> set host" "CHR '':'' \<notin> set rest" "is_digit (hd rest)" "rest \<noteq> []"
  shows "ImageResol (host @ '':'' @ rest @ '':'' @ tag) = (True, True)"
proof -
  obtain c r where c: "rest = c # r" "is_digit c" using assms(3,4) by (cases rest) auto
  then have "c \<noteq> CHR ''l''" "c \<noteq> CHR ''e''" "c \<noteq> CHR ''c''" by (auto simp: is_digit_def)
  then have "rest \<noteq> ''latest''" "\<not> HasPrefix rest ''ee-''" "\<not> HasPrefix rest ''ce-''" using c by auto
  moreover have "Split CHR '':'' (host @ '':'' @ rest @ '':'' @ tag) = host # rest # Split CHR '':'' tag"
    using assms(1,2) Split_append [of "CHR '':''" host] Split_append [of "CHR '':''" rest] by simp
  ultimately show ?thesis by (simp add: ImageResol_def)
qed

end
