(* ===== verification/PodUtil.thy ===== *)
theory PodUtil
  imports Util Settings
begin

text \<open>
  src/pkg/util/pod.go and job.go, with ShouldDelay of util.go: the state of a pod or job,
  the patches of a pod, and the references that a mount pod keeps in its annotations.
  The references are stated as an interface (a set of targets with insertion and
  deletion) that the annotations implement.
\<close>

section \<open>State of a pod\<close>

definition ConditionTrue :: string where "ConditionTrue = ''True''"
definition ConditionFalse :: string where "ConditionFalse = ''False''"
definition ContainersReady :: string where "ContainersReady = ''ContainersReady''"
definition PodReady :: string where "PodReady = ''Ready''"
definition PodScheduled :: string where "PodScheduled = ''PodScheduled''"
definition PodReasonUnschedulable :: string where "PodReasonUnschedulable = ''Unschedulable''"
definition PodFailed :: string where "PodFailed = ''Failed''"
definition PodUnknown :: string where "PodUnknown = ''Unknown''"

definition IsPodReady :: "Pod \<Rightarrow> bool" where
  "IsPodReady pod = (length (filter (\<lambda>cond. cnStatus cond = ConditionTrue \<and>
     (cnType cond = ContainersReady \<or> cnType cond = PodReady)) (stConditions (pStatus pod))) = 2)"

definition containError :: "ContainerStatus list \<Rightarrow> bool" where
  "containError statuses = list_ex (\<lambda>status.
     (case csWaiting status of None \<Rightarrow> False | Some reason \<Rightarrow> reason \<noteq> ''ContainerCreating'') \<or>
     (case csTerminated status of None \<Rightarrow> False | Some (reason, code) \<Rightarrow> code \<noteq> 0)) statuses"

definition IsPodError :: "Pod \<Rightarrow> bool" where
  "IsPodError pod = (if stPhase (pStatus pod) = PodFailed \<or> stPhase (pStatus pod) = PodUnknown then True
     else containError (stContainerStatuses (pStatus pod)))"

definition IsPodResourceError :: "Pod \<Rightarrow> bool" where
  "IsPodResourceError pod =
     (let st = pStatus pod in
      if stPhase st = PodFailed \<and> Contains (stReason st) ''OutOf'' then True
      else if stPhase st = PodFailed \<and> stReason st = ''UnexpectedAdmissionError''
           \<and> Contains (stMessage st) ''to reclaim resources'' then True
      else list_ex (\<lambda>cond. cnStatus cond = ConditionFalse \<and> cnType cond = PodScheduled
             \<and> cnReason cond = PodReasonUnschedulable
             \<and> (Contains (cnMessage cond) ''Insufficient cpu'' \<or> Contains (cnMessage cond) ''Insufficient memory''))
           (stConditions st))"

definition DeleteResourceOfPod :: "Pod \<Rightarrow> Pod" where
  "DeleteResourceOfPod pod = set_spec_containers
     (map (\<lambda>c. c\<lparr>cResources := (cResources c)\<lparr>rRequests := [], rLimits := []\<rparr>\<rparr>) (psContainers (pSpec pod))) pod"

definition IsPodHasResource :: "Pod \<Rightarrow> bool" where
  "IsPodHasResource pod = list_ex (\<lambda>cn. rRequests (cResources cn) \<noteq> []) (psContainers (pSpec pod))"

definition GetMountPathOfPod :: "Pod \<Rightarrow> (string \<times> string) res" where
  "GetMountPathOfPod pod =
     (case psContainers (pSpec pod) of
        [] \<Rightarrow> Inl (Errorf ''pod %v has no container'' [pod_name pod])
      | c # _ \<Rightarrow> (let cmd = cCommand c in
          if length cmd < 3 then Inl (Errorf ''get error pod command:%v'' cmd)
          else ParseMntPath (cmd ! 2)))"

section \<open>State of a job\<close>

definition JobComplete :: string where "JobComplete = ''Complete''"
definition JobFailed :: string where "JobFailed = ''Failed''"

definition IsJobCompleted :: "Job \<Rightarrow> bool" where
  "IsJobCompleted job = list_ex (\<lambda>cond. cnStatus cond = ConditionTrue \<and> cnType cond = JobComplete) (jConditions job)"

definition IsJobFailed :: "Job \<Rightarrow> bool" where
  "IsJobFailed job = list_ex (\<lambda>cond. cnStatus cond = ConditionTrue \<and> cnType cond = JobFailed) (jConditions job)"

definition IsJobShouldBeRecycled :: "int \<Rightarrow> Job \<Rightarrow> bool" where
  "IsJobShouldBeRecycled now job =
     (if \<not> IsJobCompleted job \<and> \<not> IsJobFailed job then False
      else (case jTTLSecondsAfterFinished job of None \<Rightarrow> True
        | Some ttl \<Rightarrow> (case jCompletionTime job of None \<Rightarrow> False
            | Some t \<Rightarrow> t + ttl * second < now)))"

section \<open>Patches of a pod\<close>

text \<open>
  The loop of RemoveFinalizer drops every occurrence. The values marshalled here are
  plain strings, so json.Marshal does not fail.
\<close>

fun drop_finalizer :: "string \<Rightarrow> string list \<Rightarrow> string list" where
  "drop_finalizer finalizer [] = []"
| "drop_finalizer finalizer (x # f) =
     (if x = finalizer then drop_finalizer finalizer f else x # drop_finalizer finalizer f)"

definition RemoveFinalizer :: "'w K8sClient \<Rightarrow> Pod \<Rightarrow> string \<Rightarrow> ('w, unit) io" where
  "RemoveFinalizer K pod finalizer =
     PatchPod K (Some pod) (JSONPatch [ReplaceList ''/metadata/finalizers'' (drop_finalizer finalizer (mFinalizers (pMeta pod)))])"

definition AddPodLabel :: "'w K8sClient \<Rightarrow> Pod \<Rightarrow> smap \<Rightarrow> ('w, unit) io" where
  "AddPodLabel K pod addLabels = PatchPod K (Some pod) (MergeLabels addLabels)"

definition AddPodAnnotation :: "'w K8sClient \<Rightarrow> Pod \<Rightarrow> smap \<Rightarrow> ('w, unit) io" where
  "AddPodAnnotation K pod addAnnotations = PatchPod K (Some pod) (MergeAnnotations addAnnotations)"

definition annotation_path :: "string \<Rightarrow> string" where
  "annotation_path k = ''/metadata/annotations/'' @ k"

definition DelPodAnnotation :: "'w K8sClient \<Rightarrow> Pod \<Rightarrow> string list \<Rightarrow> ('w, unit) io" where
  "DelPodAnnotation K pod delAnnotations =
     PatchPod K (Some pod) (JSONPatch (map (\<lambda>k. Remove (annotation_path k)) delAnnotations))"

definition ReplacePodAnnotation :: "'w K8sClient \<Rightarrow> Pod \<Rightarrow> smap \<Rightarrow> ('w, unit) io" where
  "ReplacePodAnnotation K pod annotation =
     PatchPod K (Some pod) (JSONPatch [ReplaceMap ''/metadata/annotations'' annotation])"

definition GetAllRefKeys :: "'x lib_scheme \<Rightarrow> Pod \<Rightarrow> smap" where
  "GetAllRefKeys L pod = fold (\<lambda>(k, v) m. if k = GetReferenceKey L v then mput k v m else m) (annos pod) []"

section \<open>Waiting and delaying\<close>

fun wait_mount :: "'w host \<Rightarrow> nat \<Rightarrow> string \<Rightarrow> string \<Rightarrow> ('w, unit) io" where
  "wait_mount H 0 podName mntPath = fail OutOfFuel"
| "wait_mount H (Suc fuel) podName mntPath =
     tryE (h_stat H mntPath)
       (\<lambda>e. if e = Canceled \<or> e = DeadlineExceeded then
              fail (Errorf ''mount point %v is not ready, mountpod: %s'' [mntPath, podName])
            else after (h_sleep H 500000) (wait_mount H fuel podName mntPath))
       (\<lambda>st. if fiIno st = 1 then after (h_dev_minor_store H mntPath (DevMinor (fiDev st))) (ret ())
             else after (h_sleep H 500000) (wait_mount H fuel podName mntPath))"

text \<open>The context ends after 30 seconds and each round sleeps for half a second, so 61 rounds are enough.\<close>

definition mount_ready_rounds :: nat where "mount_ready_rounds = 61"

definition WaitUtilMountReady :: "'w host \<Rightarrow> string \<Rightarrow> string \<Rightarrow> ('w, unit) io" where
  "WaitUtilMountReady H podName mntPath = wait_mount H mount_ready_rounds podName mntPath"

definition ShouldDelay :: "'x lib_scheme \<Rightarrow> 'w host \<Rightarrow> 'w K8sClient \<Rightarrow> Pod \<Rightarrow> ('w, bool) io" where
  "ShouldDelay L H K pod =
     (case map_of (annos pod) DeleteDelayTimeKey of
        None \<Rightarrow> ret False
      | Some delayStr \<Rightarrow>
          (case map_of (annos pod) DeleteDelayAtKey of
             None \<Rightarrow> (\<lambda>w. (case GetTimeAfterDelay L (h_now H w) delayStr of
                 Inl _ \<Rightarrow> ret False
               | Inr d \<Rightarrow> bind (AddPodAnnotation K pod [(DeleteDelayAtKey, d)]) (\<lambda>_. ret True)) w)
           | Some delayAtStr \<Rightarrow>
               (case GetTime L delayAtStr of
                  Inl _ \<Rightarrow> ret False
                | Inr delayAt \<Rightarrow> (\<lambda>w. (Inr (h_now H w < delayAt), w)))))"

section \<open>Lemmas\<close>

lemma drop_finalizer_filter: "drop_finalizer f xs = filter (\<lambda>x. x \<noteq> f) xs"
  by (induction xs) auto

lemma DeleteResourceOfPod_has_none: "\<not> IsPodHasResource (DeleteResourceOfPod pod)"
  by (auto simp: IsPodHasResource_def DeleteResourceOfPod_def set_spec_containers_def list_ex_iff)

lemma GetAllRefKeys_filter:
  assumes "wf_map (annos pod)"
  shows "GetAllRefKeys L pod = filter (\<lambda>(k, v). k = GetReferenceKey L v) (annos pod)"
proof -
  have snoc: "k \<notin> fst ` set m \<Longrightarrow> mput k v m = m @ [(k, v)]" for k v and m :: smap
    by (induction m) auto
  have "wf_map (acc @ xs) \<Longrightarrow>
      fold (\<lambda>(k, v) m. if k = GetReferenceKey L v then mput k v m else m) xs acc
      = acc @ filter (\<lambda>(k, v). k = GetReferenceKey L v) xs" for xs acc
    by (induction xs arbitrary: acc) (auto simp: snoc)
  from this [of "[]" "annos pod"] assms show ?thesis by (simp add: GetAllRefKeys_def)
qed

text \<open>
  A clock that sleeping advances and that stat calls do not turn back, with a context that
  ends at \<open>deadline\<close>.
\<close>

definition clock_law :: "'w host \<Rightarrow> int \<Rightarrow> bool" where
  "clock_law H deadline \<longleftrightarrow>
     (\<forall>p w. h_now H w \<le> h_now H (snd (h_stat H p w)))
     \<and> (\<forall>d w. h_now H w + 1000 * d \<le> h_now H (h_sleep H d w))
     \<and> (\<forall>p w. deadline \<le> h_now H w \<longrightarrow> fst (h_stat H p w) = Inl DeadlineExceeded)"

lemma wait_mount_ends:
  assumes "clock_law H deadline" "deadline \<le> h_now H w + int n * 500000000"
  shows "fst (wait_mount H (Suc n) podName p w) \<noteq> Inl OutOfFuel"
  using assms(2)
proof (induction n arbitrary: w)
  case 0
  then have s: "fst (h_stat H p w) = Inl DeadlineExceeded" using assms(1) by (simp add: clock_law_def)
  then show ?case by (cases "h_stat H p w") (simp add: go_step)
next
  case (Suc n)
  obtain r w1 where s: "h_stat H p w = (r, w1)" by fastforce
  have "h_now H w \<le> h_now H w1" using assms(1) s by (metis clock_law_def snd_conv)
  moreover have "h_now H w1 + 1000 * 500000 \<le> h_now H (h_sleep H 500000 w1)"
    using assms(1) unfolding clock_law_def by blast
  ultimately have "deadline \<le> h_now H (h_sleep H 500000 w1) + int n * 500000000"
    using Suc.prems by (simp add: algebra_simps)
  from Suc.IH [OF this] have IH: "fst (wait_mount H (Suc n) podName p (h_sleep H 500000 w1)) \<noteq> Inl OutOfFuel" .
  show ?case
    using IH unfolding wait_mount.simps(2) [of H "Suc n"]
    by (cases r) (simp_all add: tryE_def after_def fail_def ret_def s del: wait_mount.simps)
qed

lemma ShouldDelay_cases:
  "ShouldDelay L H K pod w = (Inr b, w') \<Longrightarrow> b \<Longrightarrow> mhas (annos pod) DeleteDelayTimeKey"
  by (auto simp: ShouldDelay_def mhas_def go_step split: option.splits)

section \<open>Properties\<close>


text \<open>A host whose only state is its clock.\<close>

definition clock_host :: "int \<Rightarrow> int host" where
  "clock_host deadline = idle_host\<lparr>h_now := \<lambda>w. w, h_sleep := \<lambda>d w. w + 1000 * d,
     h_stat := \<lambda>_. \<lambda>w. if deadline \<le> w then (Inl DeadlineExceeded, w) else (Inl NotExist, w)\<rparr>"



definition delayed_pod :: Pod where
  "delayed_pod = set_annos (Some [(DeleteDelayTimeKey, ''7''), (DeleteDelayAtKey, FormatInt (6 + 3600 * second))]) zero_pod"


end
