(* ===== verification/Ref_Table.thy ===== *)
theory Ref_Table
  imports Main
begin

text \<open>
  The interface between the mounts and the references a mount pod keeps: a set of targets
  with insertion, deletion and a count. The clients of a pod add and remove their own
  target in any order; the lemmas say what the count tells about them.
\<close>

locale ref_table =
  fixes refs :: "'a \<Rightarrow> 't set"
    and add :: "'t \<Rightarrow> 'a \<Rightarrow> 'a"
    and del :: "'t \<Rightarrow> 'a \<Rightarrow> 'a"
    and count :: "'a \<Rightarrow> nat"
    and invar :: "'a \<Rightarrow> bool"
    and indep :: "'t set \<Rightarrow> bool"
  assumes refs_add: "invar a \<Longrightarrow> indep (insert t (refs a)) \<Longrightarrow> refs (add t a) = insert t (refs a)"
    and refs_del: "invar a \<Longrightarrow> indep (insert t (refs a)) \<Longrightarrow> refs (del t a) = refs a - {t}"
    and invar_add: "invar a \<Longrightarrow> invar (add t a)"
    and invar_del: "invar a \<Longrightarrow> invar (del t a)"
    and count_refs: "invar a \<Longrightarrow> count a = card (refs a)"
    and finite_refs: "invar a \<Longrightarrow> finite (refs a)"
    and indep_subset: "indep B \<Longrightarrow> A \<subseteq> B \<Longrightarrow> indep A"

text \<open>What the users of one mount pod do, and the set of targets in use.\<close>

datatype 't ref_event = Ref 't | Unref 't

fun targets :: "'t set \<Rightarrow> 't ref_event list \<Rightarrow> 't set" where
  "targets T [] = T"
| "targets T (Ref t # es) = targets (insert t T) es"
| "targets T (Unref t # es) = targets (T - {t}) es"

fun event_target :: "'t ref_event \<Rightarrow> 't" where
  "event_target (Ref t) = t"
| "event_target (Unref t) = t"

definition still_ref :: "'t \<Rightarrow> 't ref_event list \<Rightarrow> bool" where
  "still_ref t es \<longleftrightarrow> (\<exists>a b. es = a @ Ref t # b \<and> Unref t \<notin> set b)"

lemma still_ref_simps [simp]:
  "\<not> still_ref t []"
  "still_ref t (e # es) \<longleftrightarrow> (e = Ref t \<and> Unref t \<notin> set es) \<or> still_ref t es"
proof -
  show "\<not> still_ref t []" by (simp add: still_ref_def)
  show "still_ref t (e # es) \<longleftrightarrow> (e = Ref t \<and> Unref t \<notin> set es) \<or> still_ref t es"
    unfolding still_ref_def Cons_eq_append_conv by blast
qed

lemma targets_mem: "t \<in> targets T es \<longleftrightarrow> (t \<in> T \<and> Unref t \<notin> set es) \<or> still_ref t es"
  by (induction T es rule: targets.induct) auto

fun run_events :: "('t \<Rightarrow> 'a \<Rightarrow> 'a) \<Rightarrow> ('t \<Rightarrow> 'a \<Rightarrow> 'a) \<Rightarrow> 'a \<Rightarrow> 't ref_event list \<Rightarrow> 'a" where
  "run_events add del a [] = a"
| "run_events add del a (Ref t # es) = run_events add del (add t a) es"
| "run_events add del a (Unref t # es) = run_events add del (del t a) es"

context ref_table begin

abbreviation run :: "'a \<Rightarrow> 't ref_event list \<Rightarrow> 'a" where
  "run \<equiv> run_events add del"

lemma run_refs:
  assumes "invar a" "indep (refs a \<union> event_target ` set es)"
  shows "invar (run a es) \<and> refs (run a es) = targets (refs a) es"
  using assms
proof (induction es arbitrary: a)
  case (Cons e es)
  then show ?case
  proof (cases e)
    case (Ref t)
    have r: "refs (add t a) = insert t (refs a)"
      using Cons.prems Ref by (intro refs_add) (auto intro: indep_subset)
    have "indep (refs (add t a) \<union> event_target ` set es)"
      unfolding r using Cons.prems(2) Ref by (rule_tac indep_subset) auto
    with Cons.IH [OF invar_add [OF Cons.prems(1)]] Ref r show ?thesis by simp
  next
    case (Unref t)
    have r: "refs (del t a) = refs a - {t}"
      using Cons.prems Unref by (intro refs_del) (auto intro: indep_subset)
    have "indep (refs (del t a) \<union> event_target ` set es)"
      unfolding r using Cons.prems(2) Unref by (rule_tac indep_subset) auto
    with Cons.IH [OF invar_del [OF Cons.prems(1)]] Unref r show ?thesis by simp
  qed
qed simp

text \<open>The count is zero exactly when every target that was added has been removed since.\<close>

lemma run_count_zero:
  assumes "invar a" "refs a = {}" "indep (event_target ` set es)"
  shows "count (run a es) = 0 \<longleftrightarrow> (\<forall>t x y. es = x @ Ref t # y \<longrightarrow> Unref t \<in> set y)"
proof -
  have "invar (run a es)" "refs (run a es) = targets {} es"
    using run_refs [of a es] assms by auto
  then have "count (run a es) = 0 \<longleftrightarrow> targets {} es = {}"
    using count_refs [of "run a es"] finite_refs [of "run a es"] by simp
  also have "\<dots> \<longleftrightarrow> (\<forall>t. t \<notin> targets {} es)" by auto
  also have "\<dots> \<longleftrightarrow> (\<forall>t x y. es = x @ Ref t # y \<longrightarrow> Unref t \<in> set y)" by (auto simp: targets_mem still_ref_def)
  finally show ?thesis .
qed

end

end
