(* ===== verification/Builder.thy ===== *)
theory Builder
  imports PodUtil
begin

text \<open>
  src/pkg/juicefs/mount/builder: the mount pod, the sidecar containers of the four kinds
  of cluster, the jobs and the secret that the driver generates from the setting of a
  volume. A builder changes the setting it points to, so the generators return it. The
  field ImagePullPolicy of the abort job and the metadata of a job's pod template are
  not modelled.
\<close>

section \<open>Common part (common.go)\<close>

definition JfsDirName :: string where "JfsDirName = ''jfs-dir''"
definition UpdateDBDirName :: string where "UpdateDBDirName = ''updatedb''"
definition UpdateDBCfgFile :: string where "UpdateDBCfgFile = ''/etc/updatedb.conf''"

definition nl :: char where "nl = CHR 0x0A"

text \<open>The attributes are behind a pointer; reading a nil one panics.\<close>

definition with_attr :: "JfsSetting \<Rightarrow> (PodAttr \<Rightarrow> 'a) \<Rightarrow> 'a res" where
  "with_attr s f = (case sAttr s of None \<Rightarrow> Inl (Panic ''nil pointer dereference'') | Some a \<Rightarrow> Inr (f a))"

definition genPodTemplate :: "globals \<Rightarrow> JfsSetting \<Rightarrow> PodAttr \<Rightarrow> (PodAttr \<Rightarrow> Container) \<Rightarrow> Pod" where
  "genPodTemplate G s a baseCnGen = zero_pod
     \<lparr>pMeta := zero_meta\<lparr>mNamespace := aNamespace a,
        mLabels := Some [(PodTypeKey, PodTypeValue), (PodUniqueIdLabelKey, sUniqueId s)],
        mAnnotations := Some []\<rparr>,
      pSpec := zero_spec\<lparr>psContainers := [baseCnGen a], psNodeName := NodeName G,
        psHostNetwork := aHostNetwork a, psHostAliases := aHostAliases a, psHostPID := aHostPID a,
        psHostIPC := aHostIPC a, psDNSConfig := aDNSConfig a, psDNSPolicy := aDNSPolicy a,
        psServiceAccountName := aServiceAccountName a, psImagePullSecrets := aImagePullSecrets a,
        psPreemptionPolicy := aPreemptionPolicy a, psTolerations := aTolerations a\<rparr>\<rparr>"

definition gen_metadata :: "JfsSetting \<Rightarrow> PodAttr \<Rightarrow> smap \<times> smap" where
  "gen_metadata s a =
     (let labels = mputs (aLabels a) [(PodTypeKey, PodTypeValue), (PodUniqueIdLabelKey, sUniqueId s)];
          an0 = mputs (aAnnotations a) [];
          an1 = (if sDeletedDelay s \<noteq> [] then mput DeleteDelayTimeKey (sDeletedDelay s) an0 else an0);
          an2 = mput UniqueIdKey (sUniqueId s) (mput JuiceFSUUID (sUUID s) an1);
          an3 = (if sCleanCache s then mput CleanCacheKey ''true'' an2 else an2)
      in (labels, an3))"

definition plain_mount :: "string \<Rightarrow> string \<Rightarrow> VolumeMount" where
  "plain_mount name path = zero_mount\<lparr>vmName := name, vmMountPath := path\<rparr>"

fun config_volumes :: "nat \<Rightarrow> smap \<Rightarrow> Volume list \<times> VolumeMount list" where
  "config_volumes i [] = ([], [])"
| "config_volumes i ((k, v) # configs) =
     (let name = ''config-'' @ decimal i; (vs, ms) = config_volumes (Suc i) configs in
      (\<lparr>vName = name, vSource = SecretSource k [] None\<rparr> # vs, plain_mount name v # ms))"

definition genJuiceVolumes :: "JfsSetting \<Rightarrow> Volume list \<times> VolumeMount list" where
  "genJuiceVolumes s =
     (let rsa = (if sEncryptRsaKey s \<noteq> [] then
            ([\<lparr>vName = ''rsa-key'', vSource = SecretSource (sSecretName s) [(''encrypt_rsa_key'', ''rsa-key.pem'')] None\<rparr>],
             [plain_mount ''rsa-key'' ''/root/.rsa'']) else ([], []));
          ini = (if sInitConfig s \<noteq> [] then
            ([\<lparr>vName = ''init-config'', vSource = SecretSource (sSecretName s) [(''initconfig'', sName s @ ''.conf'')] None\<rparr>],
             [plain_mount ''init-config'' ROConfPath]) else ([], []));
          conf = config_volumes 1 (sConfigs s)
      in (fst rsa @ fst ini @ fst conf, snd rsa @ snd ini @ snd conf))"

text \<open>
  The port of the regular expression \<open>metrics=.*:([0-9]{1,6})\<close>: the star is greedy, so it is
  the last colon of the line that a digit follows.
\<close>

fun last_port :: "string \<Rightarrow> string option" where
  "last_port [] = None"
| "last_port (c # s) = (case last_port s of Some d \<Rightarrow> Some d
     | None \<Rightarrow> if c = CHR '':'' \<and> s \<noteq> [] \<and> is_digit (hd s) then Some (take 6 (takeWhile is_digit s)) else None)"

fun find_metrics_port :: "string \<Rightarrow> string option" where
  "find_metrics_port [] = None"
| "find_metrics_port (c # s) =
     (if HasPrefix (c # s) ''metrics='' then
        (case last_port (takeWhile (\<lambda>x. x \<noteq> nl) (drop 8 (c # s))) of
           Some d \<Rightarrow> Some d | None \<Rightarrow> find_metrics_port s)
      else find_metrics_port s)"

definition genMetricsPort :: "JfsSetting \<Rightarrow> int" where
  "genMetricsPort s = foldl (\<lambda>port option.
     if HasPrefix option ''metrics='' then
       (case find_metrics_port option of None \<Rightarrow> port
        | Some d \<Rightarrow> (case ParseInt 32 d of Some p \<Rightarrow> p | None \<Rightarrow> 0))
     else port) 9567 (sOptions s)"

definition default_lifecycle :: "JfsSetting \<Rightarrow> Lifecycle" where
  "default_lifecycle s = \<lparr>lcPostStart = None, lcPreStop = Some (Exec [''sh'', ''-c'', ''+e'',
     ''umount '' @ sMountPath s @ '' -l; rmdir '' @ sMountPath s @ ''; exit 0''])\<rparr>"

text \<open>controllerutil.AddFinalizer on a pod without finalizers.\<close>

definition common_pod :: "globals \<Rightarrow> JfsSetting \<Rightarrow> PodAttr \<Rightarrow> (PodAttr \<Rightarrow> Container) \<Rightarrow> Pod" where
  "common_pod G s a cnGen =
     (let pod = genPodTemplate G s a cnGen;
          metadata = gen_metadata s a;
          vm = genJuiceVolumes s;
          c = (cnGen a)\<lparr>cVolumeMounts := snd vm, cEnvFromSecret := [sSecretName s],
                cResources := aResources a,
                cLifecycle := Some (case aLifecycle a of None \<Rightarrow> default_lifecycle s | Some l \<Rightarrow> l),
                cStartupProbe := aStartupProbe a, cLivenessProbe := aLivenessProbe a,
                cReadinessProbe := aReadinessProbe a,
                cPorts := (if aHostNetwork a \<or> \<not> sIsCe s then [] else [(''metrics'', genMetricsPort s)])\<rparr>
      in pod\<lparr>pMeta := (pMeta pod)\<lparr>mLabels := Some (fst metadata), mAnnotations := Some (snd metadata), mFinalizers := [Finalizer]\<rparr>,
             pSpec := (pSpec pod)\<lparr>psServiceAccountName := aServiceAccountName a,
               psPriorityClassName := JFSMountPriorityName G, psRestartPolicy := ''Always'',
               psTerminationGracePeriodSeconds := Some 10, psVolumes := fst vm, psContainers := [c]\<rparr>\<rparr>)"

text \<open>When the attributes cannot be generated again, the old ones are used.\<close>

definition genCommonJuicePod ::
  "'x setting_lib_scheme \<Rightarrow> globals \<Rightarrow> (PodAttr \<Rightarrow> Container) \<Rightarrow> JfsSetting \<Rightarrow> (JfsSetting \<times> Pod) res" where
  "genCommonJuicePod L G cnGen s =
     (case GenPodAttrWithCfg L G s None of
        Inr s' \<Rightarrow> with_attr s' (\<lambda>a. (s', common_pod G s' a cnGen))
      | Inl (Panic p) \<Rightarrow> Inl (Panic p)
      | Inl _ \<Rightarrow> with_attr s (\<lambda>a. (s, common_pod G s a cnGen)))"

definition genMountCommand :: "JfsSetting \<Rightarrow> PodAttr \<Rightarrow> string" where
  "genMountCommand s a =
     (let options = sOptions s in
      QuoteForShell (if sIsCe s then
        (let options' = (if \<not> ContainsPrefix options ''metrics='' then
               options @ [if aHostNetwork a then ''metrics=0.0.0.0:0'' else ''metrics=0.0.0.0:9567''] else options)
         in Join [CeMountPath, ''${metaurl}'', EscapeBashStr (sMountPath s), ''-o'', EscapeBashStr (Join options' '','')] '' '')
      else
        (let mountOptions = [''foreground'', ''no-update''] @ (if sEncryptRsaKey s \<noteq> [] then [''rsa-key=/root/.rsa/rsa-key.pem''] else []) @ options
         in Join [JfsMountPath, EscapeBashStr (sSource s), EscapeBashStr (sMountPath s), ''-o'', EscapeBashStr (Join mountOptions '','')] '' '')))"

definition genInitCommand :: "JfsSetting \<Rightarrow> string" where
  "genInitCommand s =
     (let formatCmd = (if sEncryptRsaKey s \<noteq> [] \<and> sIsCe s then sFormatCmd s @ '' --encrypt-rsa-key=/root/.rsa/rsa-key.pem'' else sFormatCmd s) in
      if sInitConfig s \<noteq> [] then
        Join [Join [''cp'', path_Join [ROConfPath, sName s @ ''.conf''], sClientConfPath s] '' '', formatCmd] [nl]
      else formatCmd)"

definition getQuotaPath :: "JfsSetting \<Rightarrow> string" where
  "getQuotaPath s =
     (let subdir = foldl (\<lambda>d opt. let pair = Split CHR ''='' opt in
            if length pair \<noteq> 2 then d else if pair ! 0 = ''subdir'' then path_Join [''/'', pair ! 1] else d) [] (sOptions s)
      in path_Join [subdir, sSubPath s])"

text \<open>The loop over the options: the kept ones and the last subdirectory.\<close>

fun split_subdir :: "string \<Rightarrow> string list \<Rightarrow> string \<Rightarrow> string list \<times> string" where
  "split_subdir subPath [] subdir = ([], subdir)"
| "split_subdir subPath (option # options) subdir =
     (if HasPrefix option ''subdir='' then
        (let p = Split CHR ''='' option in
         if length p \<noteq> 2 then split_subdir subPath options subdir
         else split_subdir subPath options (if p ! 0 = ''subdir'' then path_Join [p ! 1, subPath] else subdir))
      else (let (os, d) = split_subdir subPath options subdir in (option # os, d)))"

definition overwriteSubdirWithSubPath :: "JfsSetting \<Rightarrow> JfsSetting" where
  "overwriteSubdirWithSubPath s =
     (if sSubPath s \<noteq> [] then
        (let (options, subdir) = split_subdir (sSubPath s) (sOptions s) (sSubPath s) in
         s\<lparr>sOptions := options @ [''subdir='' @ subdir]\<rparr>)
      else s)"

definition getJobCommand :: "JfsSetting \<Rightarrow> string" where
  "getJobCommand s =
     (let options = StripReadonlyOption (sOptions s) in
      QuoteForShell (if sIsCe s then
        Join ([CeMountPath, ''${metaurl}'', ''/mnt/jfs''] @ (if options \<noteq> [] then [''-o'', EscapeBashStr (Join options '','')] else [])) '' ''
      else
        (let options' = options @ (if sEncryptRsaKey s \<noteq> [] then [''rsa-key=/root/.rsa/rsa-key.pem''] else []) @ [''background'']
         in Join [JfsMountPath, EscapeBashStr (sSource s), ''/mnt/jfs'', ''-o'', EscapeBashStr (Join options' '','')] '' '')))"

section \<open>The secret (secret.go)\<close>

definition checkMountScriptName :: string where "checkMountScriptName = ''check_mount.sh''"
definition checkMountScriptPath :: string where "checkMountScriptPath = ''/'' @ checkMountScriptName"

text \<open>The script with the back quotes that the replacer puts in.\<close>

definition checkMountScriptContent :: string where
  "checkMountScriptContent = Join
     [''ConditionPathIsMountPoint='' @ [CHR 0x22] @ ''$1'' @ [CHR 0x22],
      ''count=0'',
      ''while ! mount | grep $ConditionPathIsMountPoint | grep JuiceFS'',
      ''do'',
      ''    sleep 3'',
      ''    count=`expr $count + 1`'',
      ''    if test $count -eq 10'',
      ''    then'',
      ''        echo '' @ [CHR 0x22] @ ''timed out!'' @ [CHR 0x22],
      ''        exit 1'',
      ''    fi'',
      ''done'',
      ''echo '' @ [CHR 0x22] @ ''$(date '' @ [CHR 0x22] @ ''+%Y-%m-%d %H:%M:%S'' @ [CHR 0x22] @ '')'' @ [CHR 0x22],
      ''echo '' @ [CHR 0x22] @ ''succeed in checking mount point $ConditionPathIsMountPoint'' @ [CHR 0x22],
      ''if [ -n '' @ [CHR 0x22] @ ''${subpath}'' @ [CHR 0x22] @ '' ]; then'',
      [CHR 0x09] @ ''if [ -n '' @ [CHR 0x22] @ ''${capacity}'' @ [CHR 0x22] @ '' ]; then'',
      [CHR 0x09] @ [CHR 0x09] @ ''if [ '' @ [CHR 0x22] @ ''${community}'' @ [CHR 0x22] @ '' == ce ]; then'',
      [CHR 0x09] @ [CHR 0x09] @ [CHR 0x09] @ ''echo '' @ [CHR 0x22] @ ''set quota in ${subpath}'' @ [CHR 0x22],
      [CHR 0x09] @ [CHR 0x09] @ [CHR 0x09] @ ''/usr/local/bin/juicefs quota > /dev/null; '',
      [CHR 0x09] @ [CHR 0x09] @ [CHR 0x09] @ ''if [ $? -eq 0 ]; then '',
      [CHR 0x09] @ [CHR 0x09] @ [CHR 0x09] @ [CHR 0x09] @ ''/usr/local/bin/juicefs quota set ${metaurl} --path ${quotaPath} --capacity ${capacity} &'',
      [CHR 0x09] @ [CHR 0x09] @ [CHR 0x09] @ ''fi '',
      [CHR 0x09] @ [CHR 0x09] @ ''fi'',
      [CHR 0x09] @ [CHR 0x09] @ ''if [ '' @ [CHR 0x22] @ ''${community}'' @ [CHR 0x22] @ '' == ee ]; then'',
      [CHR 0x09] @ [CHR 0x09] @ [CHR 0x09] @ ''echo '' @ [CHR 0x22] @ ''set quota in ${subpath}'' @ [CHR 0x22],
      [CHR 0x09] @ [CHR 0x09] @ [CHR 0x09] @ ''/usr/bin/juicefs quota > /dev/null; if [ $? -eq 0 ]; then /usr/bin/juicefs quota set ${name} --path ${quotaPath} --capacity ${capacity}; fi; '',
      [CHR 0x09] @ [CHR 0x09] @ ''fi'',
      [CHR 0x09] @ ''fi'',
      ''fi'',
      []] [nl]"

definition put_if :: "string \<Rightarrow> string \<Rightarrow> smap \<Rightarrow> smap" where
  "put_if k v m = (if v \<noteq> [] then mput k v m else m)"

definition NewSecret :: "JfsSetting \<Rightarrow> PodAttr \<Rightarrow> Secret" where
  "NewSecret s a =
     (let d1 = put_if ''initconfig'' (sInitConfig s) (put_if ''encrypt_rsa_key'' (sEncryptRsaKey s)
               (put_if ''passphrase'' (sPassphrase s) (put_if ''token'' (sToken s)
               (put_if ''secretkey2'' (sSecretKey2 s) (put_if ''secretkey'' (sSecretKey s)
               (put_if ''metaurl'' (sMetaUrl s) []))))));
          d2 = mput checkMountScriptName checkMountScriptContent d1;
          d3 = (case ParseFormatOptions s of Inl _ \<Rightarrow> d2
            | Inr options \<Rightarrow> fold (\<lambda>(k, v) m. if k = ''session-token'' then mput ''session-token'' v m else m) options d2);
          d4 = mputs (sEnvs s) d3
      in \<lparr>seMeta = zero_meta\<lparr>mNamespace := aNamespace a, mName := sSecretName s\<rparr>, seData = [], seStringData = d4, seOwner = None\<rparr>)"

definition SetPodAsOwner :: "Secret \<Rightarrow> Pod \<Rightarrow> Secret" where
  "SetPodAsOwner secret owner = secret\<lparr>seOwner := Some (''Pod'', pod_name owner, mUID (pMeta owner))\<rparr>"

definition SetPVCAsOwner :: "Secret \<Rightarrow> PersistentVolumeClaim \<Rightarrow> Secret" where
  "SetPVCAsOwner secret owner = secret\<lparr>seOwner := Some (''PersistentVolumeClaim'', mName (pvcMeta owner), mUID (pvcMeta owner))\<rparr>"

definition SetJobAsOwner :: "Secret \<Rightarrow> Job \<Rightarrow> Secret" where
  "SetJobAsOwner secret owner = secret\<lparr>seOwner := Some (''Job'', mName (jMeta owner), mUID (jMeta owner))\<rparr>"

section \<open>The mount pod (pod.go)\<close>

definition genCommonContainer :: "PodAttr \<Rightarrow> Container" where
  "genCommonContainer a = zero_container
     \<lparr>cName := MountContainerName, cImage := aImage a,
      cSecurityContext := Some \<lparr>scPrivileged = Some True, scRunAsUser = Some 0, scCapabilitiesAdd = []\<rparr>,
      cEnv := [(JfsInsideContainer, ''1'')]\<rparr>"

text \<open>A list of sources with their mount paths, named by a prefix and the position.\<close>

fun numbered_volumes :: "string \<Rightarrow> nat \<Rightarrow> (VolumeSource \<times> string) list \<Rightarrow> Volume list \<times> VolumeMount list" where
  "numbered_volumes pre i [] = ([], [])"
| "numbered_volumes pre i ((src, path) # xs) =
     (let name = pre @ decimal i; (vs, ms) = numbered_volumes pre (Suc i) xs in
      (\<lparr>vName = name, vSource = src\<rparr> # vs, plain_mount name path # ms))"

definition DirectoryOrCreate :: string where "DirectoryOrCreate = ''DirectoryOrCreate''"

definition genPvcCacheVolumes :: "JfsSetting \<Rightarrow> Volume list \<times> VolumeMount list" where
  "genPvcCacheVolumes s =
     (let pvcs = numbered_volumes ''cachedir-pvc-'' 0 (map (\<lambda>c. (ClaimSource (cpvName c) False, cpvPath c)) (sCachePVCs s));
          ed = (case sCacheEmptyDir s of None \<Rightarrow> ([], [])
            | Some e \<Rightarrow> ([\<lparr>vName = ''cachedir-empty-dir'', vSource = EmptyDir (cedMedium e) (Some (cedSizeLimit e))\<rparr>],
                         [plain_mount ''cachedir-empty-dir'' (cedPath e)]));
          inl = numbered_volumes ''cachedir-inline-volume-'' 0 (map (\<lambda>v. (CSISource (civCSI v), civPath v)) (sCacheInlineVolumes s))
      in (fst pvcs @ fst ed @ fst inl, snd pvcs @ snd ed @ snd inl))"

definition genCacheDirVolumes :: "JfsSetting \<Rightarrow> Volume list \<times> VolumeMount list" where
  "genCacheDirVolumes s =
     (let dirs = numbered_volumes ''cachedir-'' 0 (map (\<lambda>d. (HostPath d (Some DirectoryOrCreate), d)) (sCacheDirs s));
          rest = genPvcCacheVolumes s
      in (fst dirs @ fst rest, snd dirs @ snd rest))"

definition genHostPathVolumes :: "JfsSetting \<Rightarrow> Volume list \<times> VolumeMount list" where
  "genHostPathVolumes s = numbered_volumes ''hostpath-'' 0 (map (\<lambda>p. (HostPath p None, p)) (sHostPath s))"

definition jfs_dir_volume :: "globals \<Rightarrow> Volume" where
  "jfs_dir_volume G = \<lparr>vName = JfsDirName, vSource = HostPath (MountPointPath G) (Some DirectoryOrCreate)\<rparr>"

definition jfs_dir_mount :: VolumeMount where
  "jfs_dir_mount = (plain_mount JfsDirName PodMountBase)\<lparr>vmPropagation := Some ''Bidirectional''\<rparr>"

definition genPodVolumes :: "globals \<Rightarrow> Volume list \<times> VolumeMount list" where
  "genPodVolumes G =
     (let (vs, ms) = (if Immutable G then ([], [])
            else ([\<lparr>vName = UpdateDBDirName, vSource = HostPath UpdateDBCfgFile (Some ''FileOrCreate'')\<rparr>],
                  [plain_mount UpdateDBDirName UpdateDBCfgFile]))
      in (jfs_dir_volume G # vs, jfs_dir_mount # ms))"

definition add_volumes :: "Volume list \<times> VolumeMount list \<Rightarrow> Pod \<Rightarrow> Pod" where
  "add_volumes vm pod = set_spec_volumes (psVolumes (pSpec pod) @ fst vm)
     (set_spec_containers (case psContainers (pSpec pod) of [] \<Rightarrow> []
        | c # cs \<Rightarrow> c\<lparr>cVolumeMounts := cVolumeMounts c @ snd vm\<rparr> # cs) pod)"

definition upd_container :: "(Container \<Rightarrow> Container) \<Rightarrow> Pod \<Rightarrow> Pod" where
  "upd_container f pod = set_spec_containers (case psContainers (pSpec pod) of [] \<Rightarrow> [] | c # cs \<Rightarrow> f c # cs) pod"

text \<open>The command of the mount container; the init command comes first when there is one.\<close>

definition mount_script :: "JfsSetting \<Rightarrow> PodAttr \<Rightarrow> string" where
  "mount_script s a = (let initCmd = genInitCommand s in
     if initCmd \<noteq> [] then Join [initCmd, genMountCommand s a] [nl] else genMountCommand s a)"

definition NewMountPod :: "'x setting_lib_scheme \<Rightarrow> globals \<Rightarrow> string \<Rightarrow> JfsSetting \<Rightarrow> (JfsSetting \<times> Pod) res" where
  "NewMountPod L G podName s =
     bind_res (genCommonJuicePod L G genCommonContainer s) (\<lambda>(s', pod).
     bind_res (with_attr s' (mount_script s')) (\<lambda>cmd.
       let pod1 = pod\<lparr>pMeta := (pMeta pod)\<lparr>mName := podName\<rparr>\<rparr>;
           pod2 = upd_container (\<lambda>c. c\<lparr>cCommand := [''sh'', ''-c'', cmd], cEnv := [(''JFS_FOREGROUND'', ''1'')]\<rparr>) pod1
       in Inr (s', add_volumes (genHostPathVolumes s') (add_volumes (genCacheDirVolumes s') (add_volumes (genPodVolumes G) pod2)))))"

definition genCleanCachePod :: "JfsSetting \<Rightarrow> PodAttr \<Rightarrow> Pod" where
  "genCleanCachePod s a =
     (let named = zip (map (\<lambda>i. ''cachedir-'' @ decimal i) [0 ..< length (sCacheDirs s)]) (sCacheDirs s) in
      zero_pod\<lparr>pMeta := zero_meta\<lparr>mNamespace := aNamespace a, mLabels := Some [(PodTypeKey, PodTypeValue)], mAnnotations := Some []\<rparr>,
        pSpec := zero_spec
          \<lparr>psContainers := [zero_container\<lparr>cName := ''jfs-cache-clean'', cImage := aImage a,
              cCommand := [''sh'', ''-c'', ''rm -rf /var/jfsCache/*/chunks''],
              cVolumeMounts := map (\<lambda>(n, d). plain_mount n (path_Join [''/var/jfsCache'', n])) named\<rparr>],
           psVolumes := map (\<lambda>(n, d). \<lparr>vName = n, vSource = HostPath (path_Join [d, sUUID s, ''raw'']) (Some ''Directory'')\<rparr>) named\<rparr>\<rparr>)"

section \<open>Jobs (job.go)\<close>

definition DefaultJobTTLSecond :: int where "DefaultJobTTLSecond = 5"

text \<open>The digest has 64 digits, so the slice of 16 bytes is in range.\<close>

definition GenJobNameByVolumeId :: "'x lib_scheme \<Rightarrow> string \<Rightarrow> string" where
  "GenJobNameByVolumeId L volumeId = take 16 (''juicefs-'' @ l_sha256 L volumeId)"

definition make_job :: "string \<Rightarrow> PodAttr \<Rightarrow> PodSpec \<Rightarrow> Job" where
  "make_job jobName a spec =
     \<lparr>jMeta = zero_meta\<lparr>mName := jobName, mNamespace := aNamespace a, mLabels := Some [(PodTypeKey, JobTypeValue)]\<rparr>,
      jTemplate = spec, jTTLSecondsAfterFinished = Some DefaultJobTTLSecond, jConditions = [], jCompletionTime = None\<rparr>"

definition newJob :: "'x setting_lib_scheme \<Rightarrow> globals \<Rightarrow> string \<Rightarrow> JfsSetting \<Rightarrow> (JfsSetting \<times> Job) res" where
  "newJob L G jobName s =
     bind_res (genCommonJuicePod L G genCommonContainer (s\<lparr>sSecretName := jobName @ ''-secret''\<rparr>)) (\<lambda>(s', pod).
       let pod' = upd_container (\<lambda>c. c\<lparr>cLifecycle := Some \<lparr>lcPostStart = None,
             lcPreStop = Some (Exec [''sh'', ''-c'', ''umount /mnt/jfs -l && rmdir /mnt/jfs''])\<rparr>\<rparr>) pod
       in with_attr s' (\<lambda>a. (s', make_job jobName a ((pSpec pod')\<lparr>psNodeName := [], psPriorityClassName := [], psRestartPolicy := ''OnFailure''\<rparr>))))"

definition newCleanJob :: "globals \<Rightarrow> string \<Rightarrow> JfsSetting \<Rightarrow> Job res" where
  "newCleanJob G jobName s = with_attr s (\<lambda>a. make_job jobName a
     ((pSpec (genCleanCachePod s a))\<lparr>psRestartPolicy := ''Never'', psNodeName := NodeName G\<rparr>))"

definition set_job_command :: "string \<Rightarrow> Job \<Rightarrow> Job" where
  "set_job_command cmd job = job\<lparr>jTemplate := (jTemplate job)\<lparr>psContainers :=
     (case psContainers (jTemplate job) of [] \<Rightarrow> [] | c # cs \<Rightarrow> c\<lparr>cCommand := [''sh'', ''-c'', cmd]\<rparr> # cs)\<rparr>\<rparr>"

definition getCreateVolumeCmd :: "JfsSetting \<Rightarrow> string" where
  "getCreateVolumeCmd s = (let subpath = EscapeBashStr (sSubPath s) in
     getJobCommand s @ '' && if [ ! -d /mnt/jfs/'' @ subpath @ '' ]; then mkdir -m 777 /mnt/jfs/'' @ subpath @ ''; fi;'')"

definition getDeleteVolumeCmd :: "JfsSetting \<Rightarrow> string" where
  "getDeleteVolumeCmd s = (let subpath = EscapeBashStr (sSubPath s); jfsPath = (if sIsCe s then CeCliPath else CliPath) in
     getJobCommand s @ '' && if [ -d /mnt/jfs/'' @ subpath @ '' ]; then '' @ jfsPath @ '' rmr /mnt/jfs/'' @ subpath @ ''; fi;'')"

definition NewJobForCreateVolume :: "'x setting_lib_scheme \<Rightarrow> globals \<Rightarrow> JfsSetting \<Rightarrow> (JfsSetting \<times> Job) res" where
  "NewJobForCreateVolume L G s =
     bind_res (newJob L G (GenJobNameByVolumeId L (sVolumeId s) @ ''-createvol'') s) (\<lambda>(s', job).
       Inr (s', set_job_command (Join [genInitCommand s', getCreateVolumeCmd s'] [nl]) job))"

definition NewJobForDeleteVolume :: "'x setting_lib_scheme \<Rightarrow> globals \<Rightarrow> JfsSetting \<Rightarrow> (JfsSetting \<times> Job) res" where
  "NewJobForDeleteVolume L G s =
     bind_res (newJob L G (GenJobNameByVolumeId L (sVolumeId s) @ ''-delvol'') s) (\<lambda>(s', job).
       Inr (s', set_job_command (Join [genInitCommand s', getDeleteVolumeCmd s'] [nl]) job))"

definition NewJobForCleanCache :: "'x setting_lib_scheme \<Rightarrow> globals \<Rightarrow> 'w host \<Rightarrow> JfsSetting \<Rightarrow> ('w, Job) io" where
  "NewJobForCleanCache L G H s = (\<lambda>w. case RandStringRunes H 6 w of (r, w') \<Rightarrow>
     (newCleanJob G (GenJobNameByVolumeId L (sVolumeId s) @ ''-cleancache-'' @ r) s, w'))"

definition fuse_connections :: string where "fuse_connections = ''/sys/fs/fuse/connections''"

definition NewFuseAbortJob :: "'x lib_scheme \<Rightarrow> Pod \<Rightarrow> 32 word \<Rightarrow> Job res" where
  "NewFuseAbortJob L mountpod devMinor =
     (case psContainers (pSpec mountpod) of [] \<Rightarrow> Inl (Panic ''index out of range'')
      | c # _ \<Rightarrow> (let d = decimal (unat devMinor) in
        Inr \<lparr>jMeta = zero_meta\<lparr>mName := GenJobNameByVolumeId L (pod_name mountpod) @ ''-abort-fuse'', mNamespace := pod_ns mountpod\<rparr>,
             jTemplate = zero_spec
               \<lparr>psContainers := [zero_container\<lparr>cName := ''fuse-abort'', cImage := cImage c,
                  cCommand := [''sh'', ''-c'', ''if [ $(cat '' @ fuse_connections @ ''/'' @ d @ ''/waiting) -gt 0 ]; then echo 1 > ''
                     @ fuse_connections @ ''/'' @ d @ ''/abort; fi;''],
                  cSecurityContext := Some \<lparr>scPrivileged = Some True, scRunAsUser = None, scCapabilitiesAdd = []\<rparr>,
                  cVolumeMounts := [plain_mount ''fuse-connections'' fuse_connections]\<rparr>],
                psNodeName := psNodeName (pSpec mountpod), psRestartPolicy := ''Never'',
                psVolumes := [\<lparr>vName = ''fuse-connections'', vSource = HostPath fuse_connections None\<rparr>]\<rparr>,
             jTTLSecondsAfterFinished = Some DefaultJobTTLSecond, jConditions = [], jCompletionTime = None\<rparr>))"

section \<open>Lemmas\<close>

lemma GenPodAttr_None_err: "GenPodAttrWithCfg L G s None = Inl e \<Longrightarrow> \<exists>p. e = Panic p"
  by (auto simp: GenPodAttrWithCfg_def default_attr_def getDefaultResource_def MustParse_def Let_def bind_res_def
      split: sum.splits option.splits)

lemma GenPodAttr_only_attr: "GenPodAttrWithCfg L G s ctx = Inr s' \<Longrightarrow> \<exists>a. s' = s\<lparr>sAttr := Some a\<rparr>"
  by (auto simp: GenPodAttrWithCfg_def Let_def bind_res_Inr_iff)

lemma genCommonJuicePod_cases:
  assumes "genCommonJuicePod L G cn s = Inr (s', pod)"
  obtains a where "s' = s\<lparr>sAttr := Some a\<rparr>" "pod = common_pod G s' a cn"
proof -
  from assms have "GenPodAttrWithCfg L G s None = Inr s'"
    and w: "with_attr s' (\<lambda>a. (s', common_pod G s' a cn)) = Inr (s', pod)"
    using GenPodAttr_None_err [of L G s]
    by (auto simp: genCommonJuicePod_def with_attr_def split: sum.splits err.splits option.splits)
  with GenPodAttr_only_attr obtain a where "s' = s\<lparr>sAttr := Some a\<rparr>" by blast
  with w that show thesis by (simp add: with_attr_def)
qed

lemma common_pod_containers: "psContainers (pSpec (common_pod G s a cn)) \<noteq> []"
  by (simp add: common_pod_def Let_def)

text \<open>White space separates the fields of a command line.\<close>

definition no_space :: "string \<Rightarrow> bool" where
  "no_space s = list_all (\<lambda>c. \<not> is_space c) s"

lemma FieldsAcc_word: "no_space a \<Longrightarrow> FieldsAcc acc (a @ s) = FieldsAcc (acc @ a) s"
  by (induction a arbitrary: acc) (auto simp: no_space_def)

lemma Fields_word: "no_space a \<Longrightarrow> a \<noteq> [] \<Longrightarrow> Fields (a @ CHR '' '' # s) = a # Fields s"
  by (simp add: Fields_def FieldsAcc_word is_space_def)

lemma QuoteForShell_alt:
  "QuoteForShell s = ReplaceChar CHR '')'' [CHR 0x5C, CHR '')''] (ReplaceChar CHR ''('' [CHR 0x5C, CHR ''(''] s)"
  by (auto simp: QuoteForShell_def Let_def ReplaceChar_notin)

lemma QuoteForShell_append [simp]: "QuoteForShell (s @ t) = QuoteForShell s @ QuoteForShell t"
  by (simp add: QuoteForShell_alt)

lemma QuoteForShell_Cons [simp]: "QuoteForShell [] = []"
  "QuoteForShell (c # s) = (if c = CHR ''('' then [CHR 0x5C, c] else if c = CHR '')'' then [CHR 0x5C, c] else [c]) @ QuoteForShell s"
  by (simp_all add: QuoteForShell_alt)

lemma QuoteForShell_id: "set s \<inter> {CHR ''('', CHR '')''} = {} \<Longrightarrow> QuoteForShell s = s"
  by (induction s) auto

lemma QuoteForShell_set: "set (QuoteForShell s) \<subseteq> insert CHR 0x5C (set s)"
  by (induction s) auto

lemma QuoteForShell_Nil_iff: "QuoteForShell s = [] \<longleftrightarrow> s = []"
  by (cases s) auto

lemma EscapeBashStr_set: "set (EscapeBashStr s) \<subseteq> {CHR ''$'', quote_char, backslash} \<union> set s"
proof -
  have "set (escape_body s) \<subseteq> {quote_char, backslash} \<union> set s" by (induction s) auto
  then show ?thesis by (auto simp: EscapeBashStr_def escape_body_def)
qed

lemma EscapeBashStr_id: "set s \<inter> set bash_special = {} \<Longrightarrow> EscapeBashStr s = s"
  by (simp add: EscapeBashStr_def containsOne_iff)

lemma EscapeBashStr_Nil_iff: "EscapeBashStr s = [] \<longleftrightarrow> s = []"
  by (auto simp: EscapeBashStr_def containsOne_def)

lemma not_space_escapes: "\<not> is_space CHR ''$''" "\<not> is_space quote_char" "\<not> is_space backslash"
  by (simp_all add: is_space_def)

lemma no_space_word: "no_space s \<Longrightarrow> no_space (QuoteForShell (EscapeBashStr s))"
  using QuoteForShell_set [of "EscapeBashStr s"] EscapeBashStr_set [of s] not_space_escapes
  unfolding no_space_def list_all_iff by blast

lemma nl_word: "nl \<notin> set s \<Longrightarrow> nl \<notin> set (QuoteForShell (EscapeBashStr s))"
  using QuoteForShell_set [of "EscapeBashStr s"] EscapeBashStr_set [of s]
  by (force simp: nl_def)

lemma set_Join: "set (Join xs sep) \<subseteq> \<Union> (set ` set xs) \<union> set sep"
  by (induction xs sep rule: Join.induct) auto

lemma nl_Join: "\<forall>x \<in> set xs. nl \<notin> set x \<Longrightarrow> nl \<notin> set sep \<Longrightarrow> nl \<notin> set (Join xs sep)"
  using set_Join [of xs sep] by blast

lemma nl_space: "is_space nl" by (simp add: is_space_def nl_def)

lemma no_space_nl: "no_space s \<Longrightarrow> nl \<notin> set s"
  using nl_space by (auto simp: no_space_def list_all_iff)

text \<open>A mount path that the shell command keeps as it is.\<close>

definition plain_word :: "string \<Rightarrow> bool" where
  "plain_word s = (s \<noteq> [] \<and> no_space s \<and> set s \<inter> set bash_special = {})"

lemma plain_word_id: "plain_word s \<Longrightarrow> QuoteForShell (EscapeBashStr s) = s"
  by (auto simp: plain_word_def EscapeBashStr_id bash_special_def intro!: QuoteForShell_id)

definition mount_words_ok :: "JfsSetting \<Rightarrow> bool" where
  "mount_words_ok s = (plain_word (sMountPath s) \<and> (sIsCe s \<or> sSource s \<noteq> [] \<and> no_space (sSource s))
     \<and> list_all (\<lambda>opt. nl \<notin> set opt) (sOptions s))"

lemma const_words:
  "no_space CeMountPath" "CeMountPath \<noteq> []" "QuoteForShell CeMountPath = CeMountPath"
  "no_space JfsMountPath" "JfsMountPath \<noteq> []" "QuoteForShell JfsMountPath = JfsMountPath"
  "no_space ''${metaurl}''" "QuoteForShell ''${metaurl}'' = ''${metaurl}''"
  by (simp_all add: CeMountPath_def JfsMountPath_def no_space_def is_space_def)

text \<open>The words of the mount command: the program, the source, the mount path and the options.\<close>

lemma genMountCommand_words:
  assumes "mount_words_ok s"
  obtains p src opts where "genMountCommand s a = p @ CHR '' '' # src @ CHR '' '' # sMountPath s @ CHR '' '' # opts"
    "no_space p" "p \<noteq> []" "no_space src" "src \<noteq> []" "nl \<notin> set opts"
proof (cases "sIsCe s")
  case True
  let ?o = "if \<not> ContainsPrefix (sOptions s) ''metrics='' then
      sOptions s @ [if aHostNetwork a then ''metrics=0.0.0.0:0'' else ''metrics=0.0.0.0:9567''] else sOptions s"
  let ?opts = "''-o'' @ CHR '' '' # QuoteForShell (EscapeBashStr (Join ?o '',''))"
  have "nl \<notin> set (Join ?o '','')"
    using assms by (intro nl_Join) (auto simp: mount_words_ok_def list_all_iff nl_def)
  then have n: "nl \<notin> set ?opts" using nl_word by (auto simp: nl_def)
  have "genMountCommand s a = CeMountPath @ CHR '' '' # ''${metaurl}'' @ CHR '' '' # sMountPath s @ CHR '' '' # ?opts"
    using True assms plain_word_id [of "sMountPath s"] const_words
    by (simp add: genMountCommand_def Let_def mount_words_ok_def)
  from that [OF this const_words(1,2,7) _ n] show thesis by simp
next
  case False
  let ?o = "[''foreground'', ''no-update''] @ (if sEncryptRsaKey s \<noteq> [] then [''rsa-key=/root/.rsa/rsa-key.pem''] else []) @ sOptions s"
  let ?opts = "''-o'' @ CHR '' '' # QuoteForShell (EscapeBashStr (Join ?o '',''))"
  let ?src = "QuoteForShell (EscapeBashStr (sSource s))"
  have "nl \<notin> set (Join ?o '','')"
    using assms by (intro nl_Join) (auto simp: mount_words_ok_def list_all_iff nl_def)
  then have n: "nl \<notin> set ?opts" using nl_word by (auto simp: nl_def)
  have eq: "genMountCommand s a = JfsMountPath @ CHR '' '' # ?src @ CHR '' '' # sMountPath s @ CHR '' '' # ?opts"
    using False assms plain_word_id [of "sMountPath s"] const_words
    by (simp add: genMountCommand_def Let_def mount_words_ok_def)
  have src: "no_space ?src" "?src \<noteq> []"
    using False assms no_space_word by (auto simp: mount_words_ok_def QuoteForShell_Nil_iff EscapeBashStr_Nil_iff)
  from that [OF eq const_words(4,5) src n] show thesis .
qed

lemma ParseMntPath_command:
  assumes "mount_words_ok s" "sMountPath s = PodMountBase @ ''/'' @ rest"
  shows "ParseMntPath (genMountCommand s a) = Inr (sMountPath s, hd (Split CHR ''/'' rest))"
    and "ParseMntPath (pre @ nl # genMountCommand s a) = Inr (sMountPath s, hd (Split CHR ''/'' rest))"
proof -
  from genMountCommand_words [OF assms(1), of a] obtain p src opts where
    c: "genMountCommand s a = p @ CHR '' '' # src @ CHR '' '' # sMountPath s @ CHR '' '' # opts"
    and w: "no_space p" "p \<noteq> []" "no_space src" "src \<noteq> []" "nl \<notin> set opts" by blast
  have m: "no_space (sMountPath s)" "sMountPath s \<noteq> []" using assms(1) by (auto simp: mount_words_ok_def plain_word_def)
  have f: "Fields (genMountCommand s a) = p # src # sMountPath s # Fields opts"
    unfolding c using w m by (simp add: Fields_word)
  have n: "CHR 0x0A \<notin> set (genMountCommand s a)"
    unfolding c using w m no_space_nl [of p] no_space_nl [of src] no_space_nl [of "sMountPath s"] by (auto simp: nl_def)
  show 2: "ParseMntPath (pre @ nl # genMountCommand s a) = Inr (sMountPath s, hd (Split CHR ''/'' rest))" for pre
    using ParseMntPath_ok [OF n, of rest pre] f assms(2) by (simp add: nl_def)
  have "last (Split CHR 0x0A ([] @ CHR 0x0A # genMountCommand s a)) = genMountCommand s a" using n by simp
  moreover have "last (Split CHR 0x0A (genMountCommand s a)) = genMountCommand s a" using n by simp
  ultimately show "ParseMntPath (genMountCommand s a) = Inr (sMountPath s, hd (Split CHR ''/'' rest))"
    using 2 [of "[]"] unfolding ParseMntPath_def nl_def append_Nil by (simp only: Let_def) (auto split: if_splits)
qed

lemma mount_script_path:
  assumes "mount_words_ok s" "sMountPath s = PodMountBase @ ''/'' @ rest"
  shows "ParseMntPath (mount_script s a) = Inr (sMountPath s, hd (Split CHR ''/'' rest))"
  using ParseMntPath_command [OF assms] by (auto simp: mount_script_def Let_def)

lemma container_updates [simp]:
  "psContainers (pSpec (upd_container f pod)) = (case psContainers (pSpec pod) of [] \<Rightarrow> [] | c # cs \<Rightarrow> f c # cs)"
  "psContainers (pSpec (add_volumes vm pod)) =
     (case psContainers (pSpec pod) of [] \<Rightarrow> [] | c # cs \<Rightarrow> c\<lparr>cVolumeMounts := cVolumeMounts c @ snd vm\<rparr> # cs)"
  "psVolumes (pSpec (upd_container f pod)) = psVolumes (pSpec pod)"
  "psVolumes (pSpec (add_volumes vm pod)) = psVolumes (pSpec pod) @ fst vm"
  "pMeta (upd_container f pod) = pMeta pod" "pMeta (add_volumes vm pod) = pMeta pod"
  by (simp_all add: upd_container_def add_volumes_def set_spec_containers_def set_spec_volumes_def split: list.split)

text \<open>The parts of a mount pod.\<close>

lemma NewMountPod_cases:
  assumes "NewMountPod L G name s = Inr (s', pod)"
  obtains a c where "s' = s\<lparr>sAttr := Some a\<rparr>" "psContainers (pSpec pod) = [c]"
    "cCommand c = [''sh'', ''-c'', mount_script s' a]" "cName c = MountContainerName"
    "psVolumes (pSpec pod) = fst (genJuiceVolumes s') @ fst (genPodVolumes G) @ fst (genCacheDirVolumes s') @ fst (genHostPathVolumes s')"
    "cVolumeMounts c = snd (genJuiceVolumes s') @ snd (genPodVolumes G) @ snd (genCacheDirVolumes s') @ snd (genHostPathVolumes s')"
    "pMeta pod = (pMeta (common_pod G s' a genCommonContainer))\<lparr>mName := name\<rparr>"
    "cLifecycle c \<noteq> None"
proof -
  from assms obtain p0 where g: "genCommonJuicePod L G genCommonContainer s = Inr (s', p0)"
    by (auto simp: NewMountPod_def bind_res_Inr_iff Let_def)
  from genCommonJuicePod_cases [OF g] obtain a where a: "s' = s\<lparr>sAttr := Some a\<rparr>"
    and p0: "p0 = common_pod G s' a genCommonContainer" by blast
  have w: "with_attr s' (mount_script s') = Inr (mount_script s' a)" using a by (simp add: with_attr_def)
  have pod: "pod = add_volumes (genHostPathVolumes s') (add_volumes (genCacheDirVolumes s') (add_volumes (genPodVolumes G)
      (upd_container (\<lambda>c. c\<lparr>cCommand := [''sh'', ''-c'', mount_script s' a], cEnv := [(''JFS_FOREGROUND'', ''1'')]\<rparr>)
        (p0\<lparr>pMeta := (pMeta p0)\<lparr>mName := name\<rparr>\<rparr>))))"
    using assms g w by (simp add: NewMountPod_def Let_def)
  obtain c0 where c0: "psContainers (pSpec p0) = [c0]" "cVolumeMounts c0 = snd (genJuiceVolumes s')"
      "psVolumes (pSpec p0) = fst (genJuiceVolumes s')" "cLifecycle c0 \<noteq> None" "cName c0 = MountContainerName"
    unfolding p0 by (simp add: common_pod_def genCommonContainer_def Let_def)
  let ?c = "c0\<lparr>cCommand := [''sh'', ''-c'', mount_script s' a], cEnv := [(''JFS_FOREGROUND'', ''1'')],
    cVolumeMounts := snd (genJuiceVolumes s') @ snd (genPodVolumes G) @ snd (genCacheDirVolumes s') @ snd (genHostPathVolumes s')\<rparr>"
  show thesis
    by (rule that [OF a, of ?c]) (use c0(4) in \<open>simp_all add: pod c0(1,2,3,5) p0 [symmetric]\<close>)
qed

text \<open>
  The name of a volume without its number. Names with different bases differ.
\<close>

definition base_name :: "string \<Rightarrow> string" where
  "base_name s = rev (dropWhile is_digit (rev s))"

definition base_ok :: "string \<Rightarrow> bool" where
  "base_ok s = (s \<noteq> [] \<and> \<not> is_digit (last s))"

lemma dropWhile_append_all: "list_all P xs \<Longrightarrow> dropWhile P (xs @ ys) = dropWhile P ys"
  by (induction xs) auto

lemma dropWhile_rev_id: "s \<noteq> [] \<Longrightarrow> \<not> P (last s) \<Longrightarrow> dropWhile P (rev s) = rev s"
  by (cases s rule: rev_cases) auto

lemma base_name_numbered: "base_ok pre \<Longrightarrow> base_name (pre @ decimal i) = pre"
  using decimal_digits [of i]
  by (simp add: base_name_def dropWhile_append_all base_ok_def dropWhile_rev_id)

lemma base_name_id: "base_ok s \<Longrightarrow> base_name s = s"
  by (simp add: base_name_def base_ok_def dropWhile_rev_id)

definition group_ok :: "string \<times> string list \<Rightarrow> bool" where
  "group_ok g = (distinct (snd g) \<and> (\<forall>x \<in> set (snd g). base_name x = fst g))"

lemma group_ok_intros:
  "base_ok b \<Longrightarrow> group_ok (b, map (\<lambda>k. b @ decimal k) [i ..< j])"
  "base_ok b \<Longrightarrow> group_ok (b, if P then [b] else [])"
  "base_ok b \<Longrightarrow> group_ok (b, if P then [] else [b])"
  "base_ok b \<Longrightarrow> group_ok (b, [b])"
  "base_ok b \<Longrightarrow> group_ok (b, case opt of None \<Rightarrow> [] | Some _ \<Rightarrow> [b])"
  by (auto simp: group_ok_def base_name_numbered base_name_id distinct_map inj_on_def decimal_inj split: option.split)

lemma distinct_by_base:
  "distinct (map fst ps) \<Longrightarrow> list_all group_ok ps \<Longrightarrow>
   distinct (concat (map snd ps))"
proof (induction ps)
  case (Cons p ps)
  obtain b xs where p: "p = (b, xs)" by fastforce
  have "set xs \<inter> \<Union> (set ` snd ` set ps) = {}"
  proof (rule ccontr)
    assume "\<not> ?thesis"
    then obtain x b' ys where "x \<in> set xs" "(b', ys) \<in> set ps" "x \<in> set ys" by fastforce
    with Cons.prems(2) p have "b = b'" by (fastforce simp: list_all_iff group_ok_def)
    with Cons.prems(1) p \<open>(b', ys) \<in> set ps\<close> show False by (force simp: image_iff)
  qed
  with Cons p show ?case by (auto simp: image_image group_ok_def)
qed simp

lemma numbered_volumes_names:
  "map vName (fst (numbered_volumes pre i xs)) = map (\<lambda>k. pre @ decimal k) [i ..< i + length xs]"
  "map vmName (snd (numbered_volumes pre i xs)) = map (\<lambda>k. pre @ decimal k) [i ..< i + length xs]"
  by (induction pre i xs rule: numbered_volumes.induct)
    (simp_all add: Let_def plain_mount_def split_beta upt_conv_Cons del: upt_Suc)

lemma config_volumes_names:
  "map vName (fst (config_volumes i xs)) = map (\<lambda>k. ''config-'' @ decimal k) [i ..< i + length xs]"
  "map vmName (snd (config_volumes i xs)) = map (\<lambda>k. ''config-'' @ decimal k) [i ..< i + length xs]"
  by (induction i xs rule: config_volumes.induct)
    (simp_all add: Let_def plain_mount_def split_beta upt_conv_Cons del: upt_Suc)

text \<open>The names of the volumes of a mount pod, grouped by their base.\<close>

definition pod_volume_groups :: "globals \<Rightarrow> JfsSetting \<Rightarrow> (string \<times> string list) list" where
  "pod_volume_groups G s =
     [(''rsa-key'', if sEncryptRsaKey s \<noteq> [] then [''rsa-key''] else []),
      (''init-config'', if sInitConfig s \<noteq> [] then [''init-config''] else []),
      (''config-'', map (\<lambda>k. ''config-'' @ decimal k) [1 ..< 1 + length (sConfigs s)]),
      (JfsDirName, [JfsDirName]),
      (UpdateDBDirName, if Immutable G then [] else [UpdateDBDirName]),
      (''cachedir-'', map (\<lambda>k. ''cachedir-'' @ decimal k) [0 ..< length (sCacheDirs s)]),
      (''cachedir-pvc-'', map (\<lambda>k. ''cachedir-pvc-'' @ decimal k) [0 ..< length (sCachePVCs s)]),
      (''cachedir-empty-dir'', case sCacheEmptyDir s of None \<Rightarrow> [] | Some _ \<Rightarrow> [''cachedir-empty-dir'']),
      (''cachedir-inline-volume-'', map (\<lambda>k. ''cachedir-inline-volume-'' @ decimal k) [0 ..< length (sCacheInlineVolumes s)]),
      (''hostpath-'', map (\<lambda>k. ''hostpath-'' @ decimal k) [0 ..< length (sHostPath s)])]"

lemma pod_volume_names:
  "map vName (fst (genJuiceVolumes s) @ fst (genPodVolumes G) @ fst (genCacheDirVolumes s) @ fst (genHostPathVolumes s))
     = concat (map snd (pod_volume_groups G s))"
  "map vmName (snd (genJuiceVolumes s) @ snd (genPodVolumes G) @ snd (genCacheDirVolumes s) @ snd (genHostPathVolumes s))
     = concat (map snd (pod_volume_groups G s))"
  by (simp_all add: genJuiceVolumes_def genPodVolumes_def genCacheDirVolumes_def genHostPathVolumes_def
      genPvcCacheVolumes_def pod_volume_groups_def numbered_volumes_names config_volumes_names
      jfs_dir_volume_def jfs_dir_mount_def plain_mount_def Let_def split: option.split)

lemma bases_ok:
  "base_ok ''rsa-key''" "base_ok ''init-config''" "base_ok ''config-''" "base_ok JfsDirName"
  "base_ok UpdateDBDirName" "base_ok ''cachedir-''" "base_ok ''cachedir-pvc-''"
  "base_ok ''cachedir-empty-dir''" "base_ok ''cachedir-inline-volume-''" "base_ok ''hostpath-''"
  by (simp_all add: base_ok_def is_digit_def JfsDirName_def UpdateDBDirName_def)

lemma pod_volume_groups_distinct: "distinct (concat (map snd (pod_volume_groups G s)))"
proof (rule distinct_by_base)
  show "distinct (map fst (pod_volume_groups G s))"
    by (simp add: pod_volume_groups_def JfsDirName_def UpdateDBDirName_def)
  show "list_all group_ok (pod_volume_groups G s)"
    unfolding pod_volume_groups_def list.pred_inject
    by (intro conjI list.pred_inject(1) group_ok_intros bases_ok)
qed

lemma mount_script_attr_independent [simp]:
  "mount_words_ok (s\<lparr>sAttr := x\<rparr>) = mount_words_ok s"
  by (simp add: mount_words_ok_def)

lemma gen_metadata_annotations:
  "map_of (snd (gen_metadata s a)) UniqueIdKey = Some (sUniqueId s)"
  "map_of (snd (gen_metadata s a)) JuiceFSUUID = Some (sUUID s)"
  "sDeletedDelay s \<noteq> [] \<Longrightarrow> map_of (snd (gen_metadata s a)) DeleteDelayTimeKey = Some (sDeletedDelay s)"
  "sCleanCache s \<Longrightarrow> map_of (snd (gen_metadata s a)) CleanCacheKey = Some ''true''"
  by (simp_all add: gen_metadata_def Let_def UniqueIdKey_def JuiceFSUUID_def DeleteDelayTimeKey_def CleanCacheKey_def
      del: map_of_eq_Some_iff)

lemma digits_val_bound: "list_all is_digit ds \<Longrightarrow> digits_val ds < 10 ^ length ds"
proof (induction ds rule: rev_induct)
  case (snoc d ds)
  then have "digits_val ds < 10 ^ length ds" "digit_val d < 10" by (auto simp: is_digit_def digit_val_def)
  then have "10 * digits_val ds + digit_val d < 10 * 10 ^ length ds" by linarith
  then show ?case by (simp add: digits_val_def)
qed (simp add: digits_val_def)

lemma last_port_digits: "last_port s = Some d \<Longrightarrow> d \<noteq> [] \<and> list_all is_digit d \<and> length d \<le> 6"
proof (induction s)
  case (Cons c s)
  have "list_all is_digit (take 6 (takeWhile is_digit s))"
    by (auto simp: list_all_iff dest!: in_set_takeD set_takeWhileD)
  with Cons show ?case by (cases s) (auto split: option.splits if_splits)
qed simp

lemma find_metrics_port_digits: "find_metrics_port s = Some d \<Longrightarrow> d \<noteq> [] \<and> list_all is_digit d \<and> length d \<le> 6"
  by (induction s) (auto split: if_splits option.splits dest: last_port_digits)

lemma ParseInt_port:
  assumes "d \<noteq> []" "list_all is_digit d" "length d \<le> 6"
  shows "\<exists>p. ParseInt 32 d = Some p \<and> 0 \<le> p \<and> p < 1000000"
proof -
  have "digits_val d < 10 ^ 6"
    using digits_val_bound [OF assms(2)] power_increasing [OF assms(3), of "10 :: nat"] by linarith
  moreover have "\<not> HasPrefix d ''-''" "\<not> HasPrefix d ''+''"
    using assms by (cases d; auto simp: is_digit_def)+
  ultimately show ?thesis using assms by (simp add: ParseInt_def parse_nat_def Let_def)
qed

lemma genMetricsPort_range: "0 \<le> genMetricsPort s \<and> genMetricsPort s < 1000000"
proof -
  let ?f = "\<lambda>port option. if HasPrefix option ''metrics='' then
       (case find_metrics_port option of None \<Rightarrow> port
        | Some d \<Rightarrow> (case ParseInt 32 d of Some p \<Rightarrow> p | None \<Rightarrow> 0)) else port"
  have step: "0 \<le> ?f port opt \<and> ?f port opt < 1000000" if "0 \<le> port" "port < 1000000" for port :: int and opt
  proof (cases "find_metrics_port opt")
    case (Some d)
    with find_metrics_port_digits [of opt d] ParseInt_port [of d] obtain p where
      "ParseInt 32 d = Some p" "0 \<le> p" "p < 1000000" by auto
    with Some that show ?thesis by simp
  qed (use that in simp)
  have "0 \<le> foldl ?f port opts \<and> foldl ?f port opts < 1000000" if "0 \<le> port" "port < 1000000" for port opts
    using that
  proof (induction opts arbitrary: port)
    case (Cons x xs)
    from step [of port x] Cons show ?case unfolding foldl.simps by blast
  qed simp
  then show ?thesis unfolding genMetricsPort_def by simp
qed

text \<open>A mount pod can be built whenever the default resources parse.\<close>

lemma GenPodAttr_None_total:
  assumes "getDefaultResource L = Inr r"
  shows "\<exists>a. GenPodAttrWithCfg L G s None = Inr (s\<lparr>sAttr := Some a\<rparr>)"
  using assms by (cases "sAttr s") (auto simp: GenPodAttrWithCfg_def default_attr_def Let_def)

lemma NewMountPod_total:
  assumes "getDefaultResource L = Inr r"
  shows "\<exists>s' pod. NewMountPod L G name s = Inr (s', pod)"
  using GenPodAttr_None_total [OF assms, of G s]
  by (auto simp: NewMountPod_def genCommonJuicePod_def with_attr_def Let_def)

lemma sample_default_resource: "getDefaultResource sample_lib = Inr \<lparr>rLimits = [(ResourceCPU, 5), (ResourceMemory, 3)],
    rRequests = [(ResourceCPU, 5), (ResourceMemory, 3)]\<rparr>"
  by (simp add: getDefaultResource_def MustParse_def sample_lib_def DefaultMountPodCpuLimit_def
      DefaultMountPodMemLimit_def DefaultMountPodCpuRequest_def DefaultMountPodMemRequest_def)

section \<open>Properties\<close>


definition sample_setting :: JfsSetting where
  "sample_setting = zero_setting\<lparr>sIsCe := True, sSource := ''redis://h/1'', sMountPath := ''/jfs/vol-abcdef'',
     sOptions := [''cache-dir=/a(1)'', ''x y''], sFormatCmd := ''format'', sUniqueId := ''u'', sTargetPath := ''/t''\<rparr>"


text \<open>
  C12: a generated mount pod is well-formed: its volumes have distinct names, its one
  container mounts exactly these volumes, and it carries the finalizer.
\<close>

theorem NewMountPod_volumes:
  assumes "NewMountPod L G name s = Inr (s', pod)"
  shows "\<exists>c. psContainers (pSpec pod) = [c] \<and> distinct (map vName (psVolumes (pSpec pod)))
    \<and> map vmName (cVolumeMounts c) = map vName (psVolumes (pSpec pod))
    \<and> mFinalizers (pMeta pod) = [Finalizer]"
proof -
  from assms obtain a c where "psContainers (pSpec pod) = [c]"
    and v: "psVolumes (pSpec pod) = fst (genJuiceVolumes s') @ fst (genPodVolumes G) @ fst (genCacheDirVolumes s') @ fst (genHostPathVolumes s')"
    and m: "cVolumeMounts c = snd (genJuiceVolumes s') @ snd (genPodVolumes G) @ snd (genCacheDirVolumes s') @ snd (genHostPathVolumes s')"
    and "pMeta pod = (pMeta (common_pod G s' a genCommonContainer))\<lparr>mName := name\<rparr>"
    by (rule NewMountPod_cases)
  moreover have "mFinalizers (pMeta (common_pod G s' a genCommonContainer)) = [Finalizer]"
    by (simp add: common_pod_def Let_def)
  ultimately show ?thesis
    using pod_volume_names [of s' G] pod_volume_groups_distinct [of G s'] by (simp add: v m)
qed

theorem NewMountPod_volumes_witness:
  "\<exists>s' pod. NewMountPod sample_lib sample_globals ''p'' sample_setting = Inr (s', pod)
     \<and> distinct (map vName (psVolumes (pSpec pod)))"
proof -
  obtain s' pod where n: "NewMountPod sample_lib sample_globals ''p'' sample_setting = Inr (s', pod)"
    using NewMountPod_total [OF sample_default_resource] by blast
  with NewMountPod_volumes [OF n] show ?thesis by blast
qed

end
