(* ===== verification/Sidecar.thy ===== *)
theory Sidecar
  imports Builder
begin

text \<open>
  The sidecar builders of src/pkg/juicefs/mount/builder (container.go, serverless.go,
  vci-serverless.go, cci-serverless.go) and their interface (interface.go) as a locale that
  the four builders interpret.
\<close>

section \<open>Parts shared by the builders\<close>

text \<open>The command that checks the mount, the same text in the four builders.\<close>

definition post_start :: "JfsSetting \<Rightarrow> int \<Rightarrow> Handler" where
  "post_start s capacity = Exec [''bash'', ''-c'',
     ''time subpath='' @ EscapeBashStr (sSubPath s) @ '' name='' @ EscapeBashStr (sName s)
       @ '' capacity='' @ FormatInt capacity @ '' community='' @ (if sIsCe s then ''ce'' else ''ee'')
       @ '' quotaPath='' @ EscapeBashStr (getQuotaPath s) @ '' '' @ checkMountScriptPath
       @ '' '' @ [CHR 0x27] @ EscapeBashStr (sMountPath s) @ [CHR 0x27] @ '' >> /proc/1/fd/1'']"

text \<open>The lifecycle of a generated container is never nil, so setting PostStart is safe.\<close>

definition set_post_start :: "Handler \<Rightarrow> Container \<Rightarrow> Container" where
  "set_post_start h c = c\<lparr>cLifecycle := map_option (\<lambda>l. l\<lparr>lcPostStart := Some h\<rparr>) (cLifecycle c)\<rparr>"

definition no_metadata :: "Pod \<Rightarrow> Pod" where
  "no_metadata pod = pod\<lparr>pMeta := (pMeta pod)\<lparr>mAnnotations := Some [], mLabels := Some []\<rparr>\<rparr>"

definition check_mount_volume :: "JfsSetting \<Rightarrow> Volume" where
  "check_mount_volume s = \<lparr>vName = ''jfs-check-mount'', vSource = SecretSource (sSecretName s) [] (Some 493)\<rparr>"

definition check_mount_mount :: VolumeMount where
  "check_mount_mount = (plain_mount ''jfs-check-mount'' checkMountScriptPath)\<lparr>vmSubPath := checkMountScriptName\<rparr>"

definition set_command :: "string \<Rightarrow> Pod \<Rightarrow> Pod" where
  "set_command cmd = upd_container (\<lambda>c. c\<lparr>cCommand := [''sh'', ''-c'', cmd]\<rparr>)"

section \<open>Container (container.go)\<close>

definition genSidecarVolumes :: "JfsSetting \<Rightarrow> Volume list \<times> VolumeMount list" where
  "genSidecarVolumes s = ([check_mount_volume s], [check_mount_mount])"

definition Container_NewMountSidecar ::
  "'x setting_lib_scheme \<Rightarrow> globals \<Rightarrow> int \<Rightarrow> JfsSetting \<Rightarrow> (JfsSetting \<times> Pod) res" where
  "Container_NewMountSidecar L G capacity s =
     bind_res (NewMountPod L G [] s) (\<lambda>(s1, pod).
       let pod1 = add_volumes (genSidecarVolumes s1) (no_metadata pod);
           pod2 = upd_container (set_post_start (post_start s1 capacity)) pod1;
           s2 = overwriteSubdirWithSubPath s1
       in bind_res (with_attr s2 (mount_script s2)) (\<lambda>cmd. Inr (s2, set_command cmd pod2)))"

definition Container_OverwriteVolumeMounts :: "VolumeMount \<Rightarrow> VolumeMount" where
  "Container_OverwriteVolumeMounts mount = mount"

definition Container_OverwriteVolumes :: "globals \<Rightarrow> Volume \<Rightarrow> string \<Rightarrow> Volume" where
  "Container_OverwriteVolumes G volume mountPath =
     volume\<lparr>vSource := HostPath (path_Join [MountPointPath G, mountPath]) None\<rparr>"

section \<open>Serverless (serverless.go)\<close>

definition genServerlessVolumes :: "globals \<Rightarrow> JfsSetting \<Rightarrow> Volume list \<times> VolumeMount list" where
  "genServerlessVolumes G s = ([jfs_dir_volume G, check_mount_volume s], [jfs_dir_mount, check_mount_mount])"

definition Serverless_genCacheDirVolumes :: "JfsSetting \<Rightarrow> Volume list \<times> VolumeMount list" where
  "Serverless_genCacheDirVolumes s = genPvcCacheVolumes s"

text \<open>The end that the three serverless builders share; the init command may be empty here.\<close>

definition serverless_finish ::
  "Volume list \<times> VolumeMount list \<Rightarrow> JfsSetting \<Rightarrow> Pod \<Rightarrow> (JfsSetting \<times> Pod) res" where
  "serverless_finish volumes s pod =
     (let pod1 = add_volumes (Serverless_genCacheDirVolumes s) (add_volumes volumes pod);
          s2 = overwriteSubdirWithSubPath s
      in bind_res (with_attr s2 (genMountCommand s2)) (\<lambda>mountCmd.
           Inr (s2, set_command (Join [genInitCommand s2, mountCmd] [nl]) pod1)))"

definition Serverless_NewMountSidecar ::
  "'x setting_lib_scheme \<Rightarrow> globals \<Rightarrow> int \<Rightarrow> JfsSetting \<Rightarrow> (JfsSetting \<times> Pod) res" where
  "Serverless_NewMountSidecar L G capacity s =
     bind_res (genCommonJuicePod L G genCommonContainer s) (\<lambda>(s1, pod).
       serverless_finish (genServerlessVolumes G s1) s1
         (upd_container (\<lambda>c. (set_post_start (post_start s1 capacity) c)\<lparr>cEnv := [(''JFS_FOREGROUND'', ''1'')]\<rparr>)
           (no_metadata pod)))"

definition Serverless_OverwriteVolumes :: "globals \<Rightarrow> Volume \<Rightarrow> string \<Rightarrow> Volume" where
  "Serverless_OverwriteVolumes G volume mountPath =
     volume\<lparr>vSource := HostPath (path_Join [MountPointPath G, mountPath]) None\<rparr>"

definition Serverless_OverwriteVolumeMounts :: "VolumeMount \<Rightarrow> VolumeMount" where
  "Serverless_OverwriteVolumeMounts mount = mount"

section \<open>VCI (vci-serverless.go)\<close>

definition VCIPropagation :: string where
  "VCIPropagation = ''vci.vke.volcengine.com/config-bidirectional-mount-propagation''"
definition VCIPropagationConfig :: string where
  "VCIPropagationConfig = ''vke.al.vci-enable-bidirectional-mount-propagation''"
definition VCIPropagationConfigValue :: string where
  "VCIPropagationConfigValue = ''vke.al.vci-enable-bidirectional-mount-propagation''"
definition VCIANNOKey :: string where "VCIANNOKey = ''vke.volcengine.com/burst-to-vci''"
definition VCIANNOValue :: string where "VCIANNOValue = ''enforce''"

definition VCI_genMountContainerName :: "PersistentVolumeClaim \<Rightarrow> string" where
  "VCI_genMountContainerName pvc = MountContainerName @ ''-'' @ mName (pvcMeta pvc)"

definition VCI_genNonPrivilegedContainer :: "PodAttr \<Rightarrow> Container" where
  "VCI_genNonPrivilegedContainer a = zero_container
     \<lparr>cName := MountContainerName, cImage := aImage a,
      cSecurityContext := Some \<lparr>scPrivileged = None, scRunAsUser = Some 0, scCapabilitiesAdd = []\<rparr>,
      cEnv := [(JfsInsideContainer, ''1'')]\<rparr>"

definition genVCIServerlessVolumes :: "Pod \<Rightarrow> PersistentVolumeClaim \<Rightarrow> JfsSetting \<Rightarrow> Volume list \<times> VolumeMount list" where
  "genVCIServerlessVolumes app pvc s =
     (let sharedVolumeName = foldl (\<lambda>n volume. case vSource volume of
            ClaimSource claim _ \<Rightarrow> if claim = mName (pvcMeta pvc) then vName volume else n | _ \<Rightarrow> n) [] (psVolumes (pSpec app))
      in ([check_mount_volume s], [plain_mount sharedVolumeName (sMountPath s), check_mount_mount]))"

definition vci_propagations :: "'x lib_scheme \<Rightarrow> Pod \<Rightarrow> string \<Rightarrow> JfsSetting \<Rightarrow> (string \<times> string) list" where
  "vci_propagations L app name s = (name, sMountPath s) #
     (case map_of (annos app) VCIPropagation of None \<Rightarrow> []
      | Some v \<Rightarrow> (case l_vci_unmarshal L v of Inl _ \<Rightarrow> [] | Inr ps \<Rightarrow> ps))"

definition VCI_NewMountSidecar ::
  "'x setting_lib_scheme \<Rightarrow> globals \<Rightarrow> Pod \<Rightarrow> PersistentVolumeClaim \<Rightarrow> int \<Rightarrow> JfsSetting \<Rightarrow> (JfsSetting \<times> Pod) res" where
  "VCI_NewMountSidecar L G app pvc capacity s =
     bind_res (genCommonJuicePod L G VCI_genNonPrivilegedContainer s) (\<lambda>(s1, pod).
       let name = VCI_genMountContainerName pvc;
           annotations = mput VCIPropagation (l_vci_marshal L (vci_propagations L app name s1))
             (mput VCIPropagationConfig VCIPropagationConfigValue (annos pod));
           pod1 = upd_container (\<lambda>c. (set_post_start (post_start s1 capacity) c)
             \<lparr>cName := name, cEnv := cEnv c @ [(''JFS_NO_UMOUNT'', ''1''), (''JFS_FOREGROUND'', ''1'')]\<rparr>)
             (set_annos (Some annotations) pod)
       in serverless_finish (genVCIServerlessVolumes app pvc s1) s1 pod1)"

definition VCI_OverwriteVolumes :: "Volume \<Rightarrow> string \<Rightarrow> Volume" where
  "VCI_OverwriteVolumes volume mountPath = volume\<lparr>vSource := EmptyDir [] None\<rparr>"

definition VCI_OverwriteVolumeMounts :: "VolumeMount \<Rightarrow> VolumeMount" where
  "VCI_OverwriteVolumeMounts mount = mount\<lparr>vmPropagation := Some ''HostToContainer''\<rparr>"

section \<open>CCI (cci-serverless.go)\<close>

definition CCIANNOKey :: string where "CCIANNOKey = ''virtual-kubelet.io/burst-to-cci''"
definition CCIANNOValue :: string where "CCIANNOValue = ''enforce''"
definition CCIDriverName :: string where "CCIDriverName = ''juicefs.csi.everest.io''"
definition CCIDriverType :: string where "CCIDriverType = ''gpath''"

definition CCI_genNonPrivilegedContainer :: "PodAttr \<Rightarrow> Container" where
  "CCI_genNonPrivilegedContainer a = zero_container
     \<lparr>cName := MountContainerName, cImage := aImage a,
      cSecurityContext := Some \<lparr>scPrivileged = None, scRunAsUser = Some 0, scCapabilitiesAdd = [''SYS_ADMIN'', ''MKNOD'']\<rparr>,
      cEnv := [(JfsInsideContainer, ''1'')]\<rparr>"

definition genCCIServerlessVolumes :: "JfsSetting \<Rightarrow> Volume list \<times> VolumeMount list" where
  "genCCIServerlessVolumes s = ([check_mount_volume s], [check_mount_mount])"

definition CCI_NewMountSidecar ::
  "'x setting_lib_scheme \<Rightarrow> globals \<Rightarrow> int \<Rightarrow> JfsSetting \<Rightarrow> (JfsSetting \<times> Pod) res" where
  "CCI_NewMountSidecar L G capacity s =
     bind_res (genCommonJuicePod L G CCI_genNonPrivilegedContainer s) (\<lambda>(s1, pod).
       serverless_finish (genCCIServerlessVolumes s1) s1
         (upd_container (\<lambda>c. (set_post_start (post_start s1 capacity) c)
           \<lparr>cEnv := cEnv c @ [(''JFS_NO_UMOUNT'', ''1''), (''JFS_FOREGROUND'', ''1''),
              (''JUICEFS_CLIENT_SIDERCAR_CONTAINER'', ''true''), (''JUICEFS_CLIENT_PATH'', ''/jfs'')]\<rparr>) pod))"

definition CCI_OverwriteVolumes :: "Volume \<Rightarrow> string \<Rightarrow> Volume" where
  "CCI_OverwriteVolumes volume mountPath = volume\<lparr>vSource := CSISource
     \<lparr>csiDriver = CCIDriverName, csiFSType = Some CCIDriverType, csiAttributes = [(''mountpoint'', mountPath)]\<rparr>\<rparr>"

definition CCI_OverwriteVolumeMounts :: "VolumeMount \<Rightarrow> VolumeMount" where
  "CCI_OverwriteVolumeMounts mount = mount\<lparr>vmPropagation := Some ''None''\<rparr>"

section \<open>Overwriting the subdirectory\<close>

lemma Split_chars: "x \<in> set (Split c s) \<Longrightarrow> set x \<subseteq> set s"
proof (induction s arbitrary: x)
  case (Cons d s)
  then show ?case by (cases "Split c s") (fastforce split: if_splits)+
qed simp

lemma path_Clean_chars: "set (path_Clean s) \<subseteq> {CHR ''/'', CHR ''.''} \<union> set s"
proof -
  let ?cs = "clean_stack (HasPrefix s ''/'') [] (Split CHR ''/'' s)"
  have "set x \<subseteq> set s" if "x \<in> set ?cs" for x
    using clean_stack_subset [of _ "[]" "Split CHR ''/'' s"] Split_chars [of x] that by fastforce
  then have "set (Join ?cs ''/'') \<subseteq> {CHR ''/''} \<union> set s" using set_Join [of ?cs "''/''"] by auto
  moreover have "path_Clean s \<in> {CHR ''/'' # Join ?cs ''/'', ''.'', Join ?cs ''/''}" by (simp add: path_Clean_def Let_def)
  ultimately show ?thesis by (elim insertE emptyE) auto
qed

lemma path_Join_chars: "set (path_Join xs) \<subseteq> {CHR ''/'', CHR ''.''} \<union> \<Union> (set ` set xs)"
proof (cases "filter (\<lambda>x. x \<noteq> []) xs")
  case (Cons y ys)
  have u: "\<Union> (set ` set (y # ys)) \<subseteq> \<Union> (set ` set xs)" unfolding Cons [symmetric] by auto
  have "path_Join xs = path_Clean (Join (y # ys) ''/'')" unfolding path_Join_def Cons by simp
  then have "set (path_Join xs) \<subseteq> {CHR ''/'', CHR ''.''} \<union> set (Join (y # ys) ''/'')" using path_Clean_chars by metis
  also have "\<dots> \<subseteq> {CHR ''/'', CHR ''.''} \<union> (\<Union> (set ` set (y # ys)) \<union> set ''/'')" by (intro Un_mono order_refl set_Join)
  also have "\<dots> \<subseteq> {CHR ''/'', CHR ''.''} \<union> \<Union> (set ` set xs)" using u by auto
  finally show ?thesis .
qed (simp add: path_Join_def)

lemma split_subdir_no_nl:
  "split_subdir sub opts d = (os, d') \<Longrightarrow> nl \<notin> set sub \<Longrightarrow> nl \<notin> set d \<Longrightarrow> list_all (\<lambda>opt. nl \<notin> set opt) opts \<Longrightarrow>
   list_all (\<lambda>opt. nl \<notin> set opt) os \<and> nl \<notin> set d'"
proof (induction sub opts d arbitrary: os d' rule: split_subdir.induct)
  case (2 sub opt opts d)
  have "nl \<notin> set (path_Join [Split CHR ''='' opt ! 1, sub])" if "length (Split CHR ''='' opt) = 2"
    using path_Join_chars [of "[Split CHR ''='' opt ! 1, sub]"] Split_chars [of "Split CHR ''='' opt ! 1" "CHR ''=''" opt] that 2(5,7)
    by (auto simp: nl_def)
  with 2 show ?case by (auto simp: Let_def split: if_splits prod.splits)
qed simp

lemma overwriteSubdir_words:
  "mount_words_ok s \<Longrightarrow> nl \<notin> set (sSubPath s) \<Longrightarrow> mount_words_ok (overwriteSubdirWithSubPath s)"
  using split_subdir_no_nl [of "sSubPath s" "sOptions s" "sSubPath s"]
  by (auto simp: mount_words_ok_def overwriteSubdirWithSubPath_def list_all_append nl_def split: prod.split)

lemma overwriteSubdir_fields [simp]:
  "sAttr (overwriteSubdirWithSubPath s) = sAttr s" "sMountPath (overwriteSubdirWithSubPath s) = sMountPath s"
  by (simp_all add: overwriteSubdirWithSubPath_def split: prod.split)

section \<open>The interface of the builders (interface.go)\<close>

text \<open>
  What the webhook relies on: a sidecar pod with one container whose command mounts at the
  mount path of the setting and whose PostStart hook waits for the mount, and two overwriting operations that keep the names, so
  that the containers of the application still find their volumes, and replace the claim.
\<close>

definition is_claim :: "VolumeSource \<Rightarrow> bool" where
  "is_claim src = (case src of ClaimSource _ _ \<Rightarrow> True | _ \<Rightarrow> False)"

locale sidecar_builder =
  fixes new_sidecar :: "JfsSetting \<Rightarrow> (JfsSetting \<times> Pod) res"
    and overwrite_volume :: "Volume \<Rightarrow> string \<Rightarrow> Volume"
    and overwrite_mount :: "VolumeMount \<Rightarrow> VolumeMount"
    and capacity :: int
  assumes sidecar_shape: "new_sidecar s = Inr (s', pod) \<Longrightarrow> \<exists>a c pre. psContainers (pSpec pod) = [c] \<and>
      s' = overwriteSubdirWithSubPath (s\<lparr>sAttr := Some a\<rparr>) \<and>
      (cCommand c = [''sh'', ''-c'', genMountCommand s' a] \<or> cCommand c = [''sh'', ''-c'', pre @ nl # genMountCommand s' a]) \<and>
      map_option lcPostStart (cLifecycle c) = Some (Some (post_start s capacity))"
    and volume_name: "vName (overwrite_volume v path) = vName v"
    and volume_source: "\<not> is_claim (vSource (overwrite_volume v path))"
    and mount_name: "vmName (overwrite_mount m) = vmName m" "vmMountPath (overwrite_mount m) = vmMountPath m"
begin

lemma sidecar_path:
  assumes "new_sidecar s = Inr (s', pod)" "mount_words_ok s" "nl \<notin> set (sSubPath s)" "sMountPath s = PodMountBase @ ''/'' @ rest"
  shows "GetMountPathOfPod pod = Inr (sMountPath s, hd (Split CHR ''/'' rest))"
proof -
  from sidecar_shape [OF assms(1)] obtain a c pre where c: "psContainers (pSpec pod) = [c]"
    and s': "s' = overwriteSubdirWithSubPath (s\<lparr>sAttr := Some a\<rparr>)"
    and cmd: "cCommand c = [''sh'', ''-c'', genMountCommand s' a] \<or> cCommand c = [''sh'', ''-c'', pre @ nl # genMountCommand s' a]"
    by blast
  have "mount_words_ok s'" unfolding s' by (rule overwriteSubdir_words) (use assms(2,3) in simp_all)
  moreover have m: "sMountPath s' = sMountPath s" by (simp add: s')
  ultimately show ?thesis using ParseMntPath_command [of s' rest] c cmd assms(4) by (auto simp: GetMountPathOfPod_def)
qed

lemma sidecar_mounts:
  assumes "new_sidecar s = Inr (s', pod)" "mount_words_ok s" "nl \<notin> set (sSubPath s)" "sMountPath s = PodMountBase @ ''/'' @ rest"
  shows "GetMountPathOfPod pod = Inr (sMountPath s, hd (Split CHR ''/'' rest)) \<and>
    (\<exists>c. psContainers (pSpec pod) = [c] \<and> map_option lcPostStart (cLifecycle c) = Some (Some (post_start s capacity)))"
  using sidecar_path [OF assms] sidecar_shape [OF assms(1)] by fast

end

locale unprivileged_builder = sidecar_builder +
  assumes no_host: "new_sidecar s = Inr (s', pod) \<Longrightarrow> list_all (\<lambda>v. \<forall>p t. vSource v \<noteq> HostPath p t) (psVolumes (pSpec pod))"
    and no_privilege: "new_sidecar s = Inr (s', pod) \<Longrightarrow> c \<in> set (psContainers (pSpec pod)) \<Longrightarrow>
      map_option scPrivileged (cSecurityContext c) = Some None \<and> (''JFS_NO_UMOUNT'', ''1'') \<in> set (cEnv c) \<and>
      (\<forall>m \<in> set (cVolumeMounts c). vmPropagation m \<noteq> Some ''Bidirectional'')"
begin

lemma no_host_access:
  assumes "new_sidecar s = Inr (s', pod)"
  shows "list_all (\<lambda>v. \<forall>p t. vSource v \<noteq> HostPath p t) (psVolumes (pSpec pod)) \<and>
    (\<forall>c \<in> set (psContainers (pSpec pod)). map_option scPrivileged (cSecurityContext c) = Some None \<and>
      (''JFS_NO_UMOUNT'', ''1'') \<in> set (cEnv c) \<and>
      (\<forall>m \<in> set (cVolumeMounts c). vmPropagation m \<noteq> Some ''Bidirectional''))"
  by (intro conjI ballI no_host [OF assms] no_privilege [OF assms, THEN conjunct1] no_privilege [OF assms, THEN conjunct2, THEN conjunct1]
      no_privilege [OF assms, THEN conjunct2, THEN conjunct2, THEN bspec])

end

lemma post_start_attr [simp]: "post_start (s\<lparr>sAttr := x\<rparr>) capacity = post_start s capacity"
  by (simp add: post_start_def getQuotaPath_def)

lemma Join_pair: "Join [x, y] [nl] = x @ nl # y" by simp

lemma serverless_finish_cases:
  assumes "serverless_finish vm s pod = Inr (s', pod')" "psContainers (pSpec pod) = [c]" "sAttr s = Some a"
  shows "s' = overwriteSubdirWithSubPath s" 
    "psContainers (pSpec pod') = [c\<lparr>cVolumeMounts := cVolumeMounts c @ snd vm @ snd (Serverless_genCacheDirVolumes s),
       cCommand := [''sh'', ''-c'', genInitCommand s' @ nl # genMountCommand s' a]\<rparr>]"
    "psVolumes (pSpec pod') = psVolumes (pSpec pod) @ fst vm @ fst (Serverless_genCacheDirVolumes s)" "pMeta pod' = pMeta pod"
  using assms by (auto simp: serverless_finish_def with_attr_def Let_def set_command_def Join_pair simp del: Join.simps)

lemma common_pod_parts:
  "psContainers (pSpec (common_pod G s a cn)) = [(cn a)\<lparr>cVolumeMounts := snd (genJuiceVolumes s), cEnvFromSecret := [sSecretName s],
     cResources := aResources a, cLifecycle := Some (case aLifecycle a of None \<Rightarrow> default_lifecycle s | Some l \<Rightarrow> l),
     cStartupProbe := aStartupProbe a, cLivenessProbe := aLivenessProbe a, cReadinessProbe := aReadinessProbe a,
     cPorts := (if aHostNetwork a \<or> \<not> sIsCe s then [] else [(''metrics'', genMetricsPort s)])\<rparr>]"
  "psVolumes (pSpec (common_pod G s a cn)) = fst (genJuiceVolumes s)"
  by (simp_all add: common_pod_def Let_def)

text \<open>The three serverless builders share one shape: a container change on the common pod, then the common end.\<close>

lemma serverless_shape:
  assumes "bind_res (genCommonJuicePod L G cn s) (\<lambda>(s1, pod). serverless_finish (vm s1) s1 (upd_container (f s1) (g s1 pod))) = Inr (s', pod')"
    and "\<And>s1 pod. pSpec (g s1 pod) = pSpec pod"
  obtains a s1 c0 c where "s1 = s\<lparr>sAttr := Some a\<rparr>" "s' = overwriteSubdirWithSubPath s1" "psContainers (pSpec pod') = [c]"
    "cCommand c = [''sh'', ''-c'', genInitCommand s' @ nl # genMountCommand s' a]"
    "cLifecycle c = cLifecycle (f s1 c0)" "cSecurityContext c = cSecurityContext (f s1 c0)" "cEnv c = cEnv (f s1 c0)"
    "cVolumeMounts c = cVolumeMounts (f s1 c0) @ snd (vm s1) @ snd (genPvcCacheVolumes s1)"
    "cLifecycle c0 \<noteq> None" "cSecurityContext c0 = cSecurityContext (cn a)" "cVolumeMounts c0 = snd (genJuiceVolumes s1)"
    "psVolumes (pSpec pod') = fst (genJuiceVolumes s1) @ fst (vm s1) @ fst (genPvcCacheVolumes s1)"
proof -
  from assms(1) obtain s1 pod where g: "genCommonJuicePod L G cn s = Inr (s1, pod)"
    and f: "serverless_finish (vm s1) s1 (upd_container (f s1) (g s1 pod)) = Inr (s', pod')"
    by (auto simp: bind_res_Inr_iff)
  from g obtain a where a: "s1 = s\<lparr>sAttr := Some a\<rparr>" and p: "pod = common_pod G s1 a cn" by (rule genCommonJuicePod_cases)
  define c0 where "c0 = hd (psContainers (pSpec pod))"
  have c: "psContainers (pSpec (upd_container (f s1) (g s1 pod))) = [f s1 c0]" by (simp add: assms(2) p common_pod_parts c0_def)
  have at: "sAttr s1 = Some a" using a by simp
  note fin = serverless_finish_cases [OF f c at]
  have "psVolumes (pSpec (upd_container (f s1) (g s1 pod))) = fst (genJuiceVolumes s1)" by (simp add: assms(2) p common_pod_parts)
  moreover have "cLifecycle c0 \<noteq> None" "cSecurityContext c0 = cSecurityContext (cn a)" "cVolumeMounts c0 = snd (genJuiceVolumes s1)"
    by (simp_all add: c0_def p common_pod_parts)
  ultimately show thesis using that [OF a fin(1,2)] fin(3) by (simp add: Serverless_genCacheDirVolumes_def)
qed

definition mount_sources_plain :: "Volume list \<times> VolumeMount list \<Rightarrow> bool" where
  "mount_sources_plain vm = (list_all (\<lambda>v. \<forall>p t. vSource v \<noteq> HostPath p t) (fst vm) \<and> list_all (\<lambda>m. vmPropagation m = None) (snd vm))"

lemma numbered_volumes_plain: "list_all (\<lambda>(src, _). \<forall>p t. src \<noteq> HostPath p t) xs \<Longrightarrow> mount_sources_plain (numbered_volumes pre i xs)"
  by (induction pre i xs rule: numbered_volumes.induct)
    (auto simp: mount_sources_plain_def Let_def plain_mount_def zero_mount_def split: prod.split)

lemma config_volumes_plain: "mount_sources_plain (config_volumes i xs)"
  by (induction i xs rule: config_volumes.induct)
    (auto simp: mount_sources_plain_def Let_def plain_mount_def zero_mount_def split: prod.split)

lemma volumes_plain:
  "mount_sources_plain (genJuiceVolumes s)" "mount_sources_plain (genPvcCacheVolumes s)"
  "mount_sources_plain (genVCIServerlessVolumes app pvc s)" "mount_sources_plain (genCCIServerlessVolumes s)"
proof -
  show "mount_sources_plain (genJuiceVolumes s)"
    using config_volumes_plain [of 1 "sConfigs s"]
    by (auto simp: mount_sources_plain_def genJuiceVolumes_def Let_def plain_mount_def zero_mount_def)
  show "mount_sources_plain (genPvcCacheVolumes s)"
    using numbered_volumes_plain [of "map (\<lambda>c. (ClaimSource (cpvName c) False, cpvPath c)) (sCachePVCs s)" "''cachedir-pvc-''" 0]
      numbered_volumes_plain [of "map (\<lambda>v. (CSISource (civCSI v), civPath v)) (sCacheInlineVolumes s)" "''cachedir-inline-volume-''" 0]
    by (auto simp: mount_sources_plain_def genPvcCacheVolumes_def Let_def plain_mount_def zero_mount_def list_all_iff split: option.split)
  show "mount_sources_plain (genVCIServerlessVolumes app pvc s)" "mount_sources_plain (genCCIServerlessVolumes s)"
    by (simp_all add: mount_sources_plain_def genVCIServerlessVolumes_def genCCIServerlessVolumes_def check_mount_volume_def
        check_mount_mount_def plain_mount_def zero_mount_def Let_def)
qed

lemma set_post_start_fields [simp]:
  "cName (set_post_start h c) = cName c" "cEnv (set_post_start h c) = cEnv c" "cVolumeMounts (set_post_start h c) = cVolumeMounts c"
  "cSecurityContext (set_post_start h c) = cSecurityContext c"
  "map_option lcPostStart (cLifecycle (set_post_start h c)) = map_option (\<lambda>_. Some h) (cLifecycle c)"
  by (simp_all add: set_post_start_def option.map_comp comp_def)

lemma spec_of_meta [simp]: "pSpec (no_metadata pod) = pSpec pod" "pSpec (set_annos x pod) = pSpec pod"
  by (simp_all add: no_metadata_def set_annos_def)

lemma Container_shape:
  assumes "Container_NewMountSidecar L G capacity s = Inr (s', pod)"
  shows "\<exists>a c pre. psContainers (pSpec pod) = [c] \<and>
      s' = overwriteSubdirWithSubPath (s\<lparr>sAttr := Some a\<rparr>) \<and>
      (cCommand c = [''sh'', ''-c'', genMountCommand s' a] \<or> cCommand c = [''sh'', ''-c'', pre @ nl # genMountCommand s' a]) \<and>
      map_option lcPostStart (cLifecycle c) = Some (Some (post_start s capacity))"
proof -
  from assms obtain s1 pod1 where n: "NewMountPod L G [] s = Inr (s1, pod1)" and
    r: "bind_res (with_attr (overwriteSubdirWithSubPath s1) (mount_script (overwriteSubdirWithSubPath s1))) (\<lambda>cmd. Inr (overwriteSubdirWithSubPath s1,
      set_command cmd (upd_container (set_post_start (post_start s1 capacity)) (add_volumes (genSidecarVolumes s1) (no_metadata pod1))))) = Inr (s', pod)"
    by (auto simp: Container_NewMountSidecar_def bind_res_Inr_iff Let_def simp del: post_start_attr)
  from n obtain a c where a: "s1 = s\<lparr>sAttr := Some a\<rparr>" and c: "psContainers (pSpec pod1) = [c]" "cLifecycle c \<noteq> None"
    by (rule NewMountPod_cases)
  let ?c = "(set_post_start (post_start s1 capacity) (c\<lparr>cVolumeMounts := cVolumeMounts c @ snd (genSidecarVolumes s1)\<rparr>))\<lparr>cCommand := [''sh'', ''-c'', mount_script s' a]\<rparr>"
  have w: "with_attr (overwriteSubdirWithSubPath s1) f = Inr (f a)" for f :: "PodAttr \<Rightarrow> string" by (simp add: with_attr_def a)
  have s': "s' = overwriteSubdirWithSubPath s1" using r by (simp add: w)
  have "psContainers (pSpec pod) = [?c]" using r c(1) s' by (auto simp: w set_command_def)
  moreover have "map_option lcPostStart (cLifecycle ?c) = Some (Some (post_start s capacity))" using c(2) by (auto simp: a)
  moreover have "mount_script s' a = genMountCommand s' a \<or> mount_script s' a = genInitCommand s' @ nl # genMountCommand s' a"
    by (simp add: mount_script_def Let_def)
  ultimately show ?thesis using s' a by (intro exI [of _ a] exI [of _ ?c] exI [of _ "genInitCommand s'"]) auto
qed

lemma serverless_builder_shape:
  assumes "bind_res (genCommonJuicePod L G cn s) (\<lambda>(s1, pod). serverless_finish (vm s1) s1 (upd_container (f s1) (g s1 pod))) = Inr (s', pod')"
    and "\<And>s1 pod. pSpec (g s1 pod) = pSpec pod"
    and f: "\<And>s1 c. cLifecycle (f s1 c) = cLifecycle (set_post_start (post_start s1 capacity) c)"
  shows "\<exists>a c pre. psContainers (pSpec pod') = [c] \<and>
      s' = overwriteSubdirWithSubPath (s\<lparr>sAttr := Some a\<rparr>) \<and>
      (cCommand c = [''sh'', ''-c'', genMountCommand s' a] \<or> cCommand c = [''sh'', ''-c'', pre @ nl # genMountCommand s' a]) \<and>
      map_option lcPostStart (cLifecycle c) = Some (Some (post_start s capacity))"
proof -
  from assms(1,2) obtain a s1 c0 c1 where
    s1: "s1 = s\<lparr>sAttr := Some a\<rparr>" and s': "s' = overwriteSubdirWithSubPath s1" and c: "psContainers (pSpec pod') = [c1]"
    "cCommand c1 = [''sh'', ''-c'', genInitCommand s' @ nl # genMountCommand s' a]"
    "cLifecycle c1 = cLifecycle (f s1 c0)" "cSecurityContext c1 = cSecurityContext (f s1 c0)" "cEnv c1 = cEnv (f s1 c0)"
    "cVolumeMounts c1 = cVolumeMounts (f s1 c0) @ snd (vm s1) @ snd (genPvcCacheVolumes s1)"
    "cLifecycle c0 \<noteq> None" "cSecurityContext c0 = cSecurityContext (cn a)" "cVolumeMounts c0 = snd (genJuiceVolumes s1)"
    and v: "psVolumes (pSpec pod') = fst (genJuiceVolumes s1) @ fst (vm s1) @ fst (genPvcCacheVolumes s1)" by (rule serverless_shape [where f = f])
  have "map_option lcPostStart (cLifecycle c1) = Some (Some (post_start s capacity))" using c(3,7) f s1 by auto
  with c(1,2) s1 s' show ?thesis by (intro exI [of _ a] exI [of _ c1] exI [of _ "genInitCommand s'"]) simp
qed

lemmas sidecar_defs = Container_OverwriteVolumes_def Container_OverwriteVolumeMounts_def Serverless_OverwriteVolumes_def
  Serverless_OverwriteVolumeMounts_def VCI_OverwriteVolumes_def VCI_OverwriteVolumeMounts_def CCI_OverwriteVolumes_def
  CCI_OverwriteVolumeMounts_def is_claim_def

interpretation container_sidecar:
  sidecar_builder "Container_NewMountSidecar L G capacity" "Container_OverwriteVolumes G" Container_OverwriteVolumeMounts capacity
  for L :: "'x setting_lib_scheme" and G capacity
  by unfold_locales (erule Container_shape, simp_all add: sidecar_defs)

interpretation serverless_sidecar:
  sidecar_builder "Serverless_NewMountSidecar L G capacity" "Serverless_OverwriteVolumes G" Serverless_OverwriteVolumeMounts capacity
  for L :: "'x setting_lib_scheme" and G capacity
proof unfold_locales
  fix s s' pod assume "Serverless_NewMountSidecar L G capacity s = Inr (s', pod)"
  from serverless_builder_shape [OF this [unfolded Serverless_NewMountSidecar_def]]
  show "\<exists>a c pre. psContainers (pSpec pod) = [c] \<and> s' = overwriteSubdirWithSubPath (s\<lparr>sAttr := Some a\<rparr>) \<and>
      (cCommand c = [''sh'', ''-c'', genMountCommand s' a] \<or> cCommand c = [''sh'', ''-c'', pre @ nl # genMountCommand s' a]) \<and>
      map_option lcPostStart (cLifecycle c) = Some (Some (post_start s capacity))" by simp
qed (simp_all add: sidecar_defs)

text \<open>What an unprivileged serverless builder adds to the common pod.\<close>

lemma serverless_unprivileged:
  assumes "bind_res (genCommonJuicePod L G cn s) (\<lambda>(s1, pod). serverless_finish (vm s1) s1 (upd_container (f s1) (g s1 pod))) = Inr (s', pod')"
    and "\<And>s1 pod. pSpec (g s1 pod) = pSpec pod" "\<And>s1. mount_sources_plain (vm s1)"
    and f: "\<And>s1 c. cVolumeMounts (f s1 c) = cVolumeMounts c" "\<And>s1 c. cSecurityContext (f s1 c) = cSecurityContext c"
      "\<And>s1 c. (''JFS_NO_UMOUNT'', ''1'') \<in> set (cEnv (f s1 c))" "\<And>a. map_option scPrivileged (cSecurityContext (cn a)) = Some None"
  shows "list_all (\<lambda>v. \<forall>p t. vSource v \<noteq> HostPath p t) (psVolumes (pSpec pod'))"
    and "c \<in> set (psContainers (pSpec pod')) \<Longrightarrow> map_option scPrivileged (cSecurityContext c) = Some None \<and> (''JFS_NO_UMOUNT'', ''1'') \<in> set (cEnv c) \<and>
      (\<forall>m \<in> set (cVolumeMounts c). vmPropagation m \<noteq> Some ''Bidirectional'')"
proof -
  from assms(1,2) obtain a s1 c0 c1 where
    s1: "s1 = s\<lparr>sAttr := Some a\<rparr>" and s': "s' = overwriteSubdirWithSubPath s1" and c: "psContainers (pSpec pod') = [c1]"
    "cCommand c1 = [''sh'', ''-c'', genInitCommand s' @ nl # genMountCommand s' a]"
    "cLifecycle c1 = cLifecycle (f s1 c0)" "cSecurityContext c1 = cSecurityContext (f s1 c0)" "cEnv c1 = cEnv (f s1 c0)"
    "cVolumeMounts c1 = cVolumeMounts (f s1 c0) @ snd (vm s1) @ snd (genPvcCacheVolumes s1)"
    "cLifecycle c0 \<noteq> None" "cSecurityContext c0 = cSecurityContext (cn a)" "cVolumeMounts c0 = snd (genJuiceVolumes s1)"
    and v: "psVolumes (pSpec pod') = fst (genJuiceVolumes s1) @ fst (vm s1) @ fst (genPvcCacheVolumes s1)" by (rule serverless_shape [where f = f])
  note plain = volumes_plain(1,2) [of s1] assms(3) [of s1]
  show "list_all (\<lambda>v. \<forall>p t. vSource v \<noteq> HostPath p t) (psVolumes (pSpec pod'))"
    using plain by (simp add: v mount_sources_plain_def)
  have "list_all (\<lambda>m. vmPropagation m = None) (cVolumeMounts c1)" using plain by (simp add: c f mount_sources_plain_def)
  then show "c \<in> set (psContainers (pSpec pod')) \<Longrightarrow> map_option scPrivileged (cSecurityContext c) = Some None \<and> (''JFS_NO_UMOUNT'', ''1'') \<in> set (cEnv c) \<and>
      (\<forall>m \<in> set (cVolumeMounts c). vmPropagation m \<noteq> Some ''Bidirectional'')"
    using c f by (auto simp: list_all_iff)
qed

text \<open>The VCI builder in the shape of the other two.\<close>

lemma VCI_shape: "VCI_NewMountSidecar L G app pvc capacity s =
  bind_res (genCommonJuicePod L G VCI_genNonPrivilegedContainer s) (\<lambda>(s1, pod).
    serverless_finish (genVCIServerlessVolumes app pvc s1) s1
      (upd_container (\<lambda>c. (set_post_start (post_start s1 capacity) c)
         \<lparr>cName := VCI_genMountContainerName pvc, cEnv := cEnv c @ [(''JFS_NO_UMOUNT'', ''1''), (''JFS_FOREGROUND'', ''1'')]\<rparr>)
       (set_annos (Some (mput VCIPropagation (l_vci_marshal L (vci_propagations L app (VCI_genMountContainerName pvc) s1))
             (mput VCIPropagationConfig VCIPropagationConfigValue (annos pod)))) pod)))"
  by (simp add: VCI_NewMountSidecar_def Let_def)

interpretation vci_sidecar:
  unprivileged_builder "VCI_NewMountSidecar L G app pvc capacity" VCI_OverwriteVolumes VCI_OverwriteVolumeMounts capacity
  for L :: "'x setting_lib_scheme" and G app pvc capacity
proof unfold_locales
  fix s s' pod assume a: "VCI_NewMountSidecar L G app pvc capacity s = Inr (s', pod)"
  from serverless_builder_shape [OF a [unfolded VCI_shape]]
  show "\<exists>a c pre. psContainers (pSpec pod) = [c] \<and> s' = overwriteSubdirWithSubPath (s\<lparr>sAttr := Some a\<rparr>) \<and>
      (cCommand c = [''sh'', ''-c'', genMountCommand s' a] \<or> cCommand c = [''sh'', ''-c'', pre @ nl # genMountCommand s' a]) \<and>
      map_option lcPostStart (cLifecycle c) = Some (Some (post_start s capacity))" by simp
  note u = serverless_unprivileged [OF a [unfolded VCI_shape]]
  show "list_all (\<lambda>v. \<forall>p t. vSource v \<noteq> HostPath p t) (psVolumes (pSpec pod))"
    by (rule u(1)) (simp_all add: volumes_plain VCI_genNonPrivilegedContainer_def)
  show "map_option scPrivileged (cSecurityContext c) = Some None \<and> (''JFS_NO_UMOUNT'', ''1'') \<in> set (cEnv c) \<and>
      (\<forall>m \<in> set (cVolumeMounts c). vmPropagation m \<noteq> Some ''Bidirectional'')" if "c \<in> set (psContainers (pSpec pod))" for c
    by (rule u(2) [OF _ _ _ _ _ _ that]) (simp_all add: volumes_plain VCI_genNonPrivilegedContainer_def)
qed (simp_all add: sidecar_defs)

interpretation cci_sidecar:
  unprivileged_builder "CCI_NewMountSidecar L G capacity" CCI_OverwriteVolumes CCI_OverwriteVolumeMounts capacity
  for L :: "'x setting_lib_scheme" and G capacity
proof unfold_locales
  fix s s' pod assume a: "CCI_NewMountSidecar L G capacity s = Inr (s', pod)"
  have b: "bind_res (genCommonJuicePod L G CCI_genNonPrivilegedContainer s) (\<lambda>(s1, pod).
       serverless_finish (genCCIServerlessVolumes s1) s1
         (upd_container (\<lambda>c. (set_post_start (post_start s1 capacity) c)
           \<lparr>cEnv := cEnv c @ [(''JFS_NO_UMOUNT'', ''1''), (''JFS_FOREGROUND'', ''1''),
              (''JUICEFS_CLIENT_SIDERCAR_CONTAINER'', ''true''), (''JUICEFS_CLIENT_PATH'', ''/jfs'')]\<rparr>) ((\<lambda>_ p. p) s1 pod))) = Inr (s', pod)"
    using a by (simp add: CCI_NewMountSidecar_def)
  from serverless_builder_shape [where g = "\<lambda>_ p. p", OF b]
  show "\<exists>a c pre. psContainers (pSpec pod) = [c] \<and> s' = overwriteSubdirWithSubPath (s\<lparr>sAttr := Some a\<rparr>) \<and>
      (cCommand c = [''sh'', ''-c'', genMountCommand s' a] \<or> cCommand c = [''sh'', ''-c'', pre @ nl # genMountCommand s' a]) \<and>
      map_option lcPostStart (cLifecycle c) = Some (Some (post_start s capacity))" by simp
  note u = serverless_unprivileged [where g = "\<lambda>_ p. p", OF b]
  show "list_all (\<lambda>v. \<forall>p t. vSource v \<noteq> HostPath p t) (psVolumes (pSpec pod))"
    by (rule u(1)) (simp_all add: volumes_plain CCI_genNonPrivilegedContainer_def)
  show "map_option scPrivileged (cSecurityContext c) = Some None \<and> (''JFS_NO_UMOUNT'', ''1'') \<in> set (cEnv c) \<and>
      (\<forall>m \<in> set (cVolumeMounts c). vmPropagation m \<noteq> Some ''Bidirectional'')" if "c \<in> set (psContainers (pSpec pod))" for c
    by (rule u(2) [OF _ _ _ _ _ _ that]) (simp_all add: volumes_plain CCI_genNonPrivilegedContainer_def)
qed (simp_all add: sidecar_defs)

section \<open>Properties\<close>

text \<open>The serverless builders return a sidecar whenever the default resources parse.\<close>

lemma CCI_total:
  assumes "getDefaultResource L = Inr r"
  shows "\<exists>s' pod. CCI_NewMountSidecar L G capacity s = Inr (s', pod)"
  using GenPodAttr_None_total [OF assms, of G s]
  by (auto simp: CCI_NewMountSidecar_def genCommonJuicePod_def serverless_finish_def with_attr_def Let_def)



text \<open>
  Every sidecar builder makes one container that mounts at the mount path of the
  setting, after the subdirectory option has been rewritten, and whose PostStart hook
  checks that mount.
\<close>

theorem sidecar_mounts_path:
  assumes "Container_NewMountSidecar L G capacity s = Inr (s', pod) \<or> Serverless_NewMountSidecar L G capacity s = Inr (s', pod) \<or>
      VCI_NewMountSidecar L G app pvc capacity s = Inr (s', pod) \<or> CCI_NewMountSidecar L G capacity s = Inr (s', pod)"
    and "mount_words_ok s" "nl \<notin> set (sSubPath s)" "sMountPath s = PodMountBase @ ''/'' @ rest"
  shows "GetMountPathOfPod pod = Inr (sMountPath s, hd (Split CHR ''/'' rest)) \<and>
    (\<exists>c. psContainers (pSpec pod) = [c] \<and> map_option lcPostStart (cLifecycle c) = Some (Some (post_start s capacity)))"
  using assms(1)
  by (elim disjE) (rule container_sidecar.sidecar_mounts serverless_sidecar.sidecar_mounts vci_sidecar.sidecar_mounts
    cci_sidecar.sidecar_mounts; use assms(2-4) in blast)+

theorem sidecar_mounts_path_witness:
  "\<exists>s' pod. CCI_NewMountSidecar sample_lib sample_globals 1 (sample_setting\<lparr>sSubPath := ''a''\<rparr>) = Inr (s', pod)
     \<and> GetMountPathOfPod pod = Inr (''/jfs/vol-abcdef'', ''vol-abcdef'')"
proof -
  let ?s = "sample_setting\<lparr>sSubPath := ''a''\<rparr>"
  obtain s' pod where c: "CCI_NewMountSidecar sample_lib sample_globals 1 ?s = Inr (s', pod)"
    using CCI_total [OF sample_default_resource] by blast
  have "mount_words_ok ?s" "nl \<notin> set (sSubPath ?s)" by code_simp+
  moreover have m: "sMountPath ?s = PodMountBase @ ''/'' @ ''vol-abcdef''" by (simp add: sample_setting_def PodMountBase_def)
  ultimately have "GetMountPathOfPod pod = Inr (sMountPath ?s, hd (Split CHR ''/'' ''vol-abcdef''))"
    using sidecar_mounts_path [where s = ?s and L = sample_lib and G = sample_globals and capacity = 1, OF disjI2 [OF disjI2 [OF disjI2 [OF c]]]] by blast
  with c m show ?thesis by (simp add: PodMountBase_def)
qed

end
