(* ===== verification/PodMount.thy ===== *)
theory PodMount
  imports Builder Ref_Table
begin

text \<open>
  src/pkg/juicefs/mount/pod_mount.go: mounting with a mount pod. The pod is shared by the
  targets of one volume on a node; each target is a reference in the pod's annotations,
  and the pod is deleted when there is none left. The loops that wait have a bound on
  their rounds, from the timeout of their context and the time they sleep.
\<close>

section \<open>Names and hashes\<close>

definition GetRef :: "'x lib_scheme \<Rightarrow> Pod \<Rightarrow> nat" where
  "GetRef L pod = length (filter (\<lambda>(k, target). k = GetReferenceKey L target) (annos pod))"

definition GenPodNameByUniqueId :: "globals \<Rightarrow> 'w host \<Rightarrow> string \<Rightarrow> bool \<Rightarrow> 'w \<Rightarrow> string \<times> 'w" where
  "GenPodNameByUniqueId G H uniqueId withRandom w =
     (let name = ''juicefs-'' @ NodeName G @ ''-'' @ uniqueId in
      if \<not> withRandom then (name, w)
      else (case RandStringRunes H 6 w of (r, w') \<Rightarrow> (name @ ''-'' @ r, w')))"

definition GenHashOfSetting :: "'x setting_lib_scheme \<Rightarrow> JfsSetting \<Rightarrow> string res" where
  "GenHashOfSetting L setting =
     bind_res (l_json_marshal_setting L (setting\<lparr>sTargetPath := [], sVolumeId := [], sSubPath := []\<rparr>)) (\<lambda>settingStr.
       Inr (take 63 (l_sha256 L settingStr)))"

definition hostname_label :: string where "hostname_label = ''kubernetes.io/hostname''"

definition genMountPodName ::
  "'x setting_lib_scheme \<Rightarrow> globals \<Rightarrow> 'w host \<Rightarrow> 'w K8sClient \<Rightarrow> JfsSetting \<Rightarrow> ('w, string) io" where
  "genMountPodName L G H K s =
     bind (lift_res (GenHashOfSetting L s)) (\<lambda>hashVal.
     bind (ListPod K (Namespace G) (Some \<lparr>selMatchLabels = [(PodTypeKey, PodTypeValue),
             (PodUniqueIdLabelKey, sUniqueId s), (PodJuiceHashLabelKey, hashVal)], selExists = []\<rparr>) None) (\<lambda>pods.
       case find (\<lambda>pod. mDeletionTimestamp (pMeta pod) = None \<and>
             (psNodeName (pSpec pod) = NodeName G \<or> mget (psNodeSelector (pSpec pod)) hostname_label = NodeName G)) pods of
         Some pod \<Rightarrow> ret (pod_name pod)
       | None \<Rightarrow> (\<lambda>w. case GenPodNameByUniqueId G H (sUniqueId s) True w of (n, w') \<Rightarrow> (Inr n, w'))))"

section \<open>References\<close>

definition add_ref :: "'x lib_scheme \<Rightarrow> string \<Rightarrow> smap \<Rightarrow> smap" where
  "add_ref L target annotation = mdel DeleteDelayAtKey (mput (GetReferenceKey L target) target annotation)"

text \<open>The function that AddRefOfMount gives to RetryOnConflict.\<close>

definition addref_attempt ::
  "'x lib_scheme \<Rightarrow> globals \<Rightarrow> 'w K8sClient \<Rightarrow> string \<Rightarrow> string \<Rightarrow> ('w, unit) io" where
  "addref_attempt L G K target podName =
     bind (GetPod K podName (Namespace G)) (\<lambda>exist.
       if mDeletionTimestamp (pMeta exist) \<noteq> None then
         fail (Errorf ''addRefOfMount: Mount pod [%s] has been deleted'' [podName])
       else if mhas (annos exist) (GetReferenceKey L target) then ret ()
       else ReplacePodAnnotation K exist (add_ref L target (annos exist)))"

definition AddRefOfMount ::
  "'x lib_scheme \<Rightarrow> globals \<Rightarrow> 'w K8sClient \<Rightarrow> string \<Rightarrow> string \<Rightarrow> ('w, unit) io" where
  "AddRefOfMount L G K target podName = c_retry K (addref_attempt L G K target podName)"

definition GetMountRef :: "'x lib_scheme \<Rightarrow> globals \<Rightarrow> 'w K8sClient \<Rightarrow> string \<Rightarrow> ('w, nat) io" where
  "GetMountRef L G K podName =
     tryE (GetPod K podName (Namespace G))
       (\<lambda>e. if e = NotFound then ret 0 else fail e)
       (\<lambda>pod. ret (GetRef L pod))"

text \<open>The loop around umount -l: it runs until umount fails, and only some failures are errors.\<close>

definition not_mounted_output :: "string \<Rightarrow> bool" where
  "not_mounted_output out = (Contains out ''not mounted'' \<or> Contains out ''mountpoint not found''
     \<or> Contains out ''no mount point specified'')"

fun umount_until :: "'w host \<Rightarrow> nat \<Rightarrow> string \<Rightarrow> ('w, unit) io" where
  "umount_until H 0 target = fail OutOfFuel"
| "umount_until H (Suc fuel) target = (\<lambda>w.
     case h_umount_lazy H target w of
       ((out, None), w') \<Rightarrow> umount_until H fuel target w'
     | ((out, Some e), w') \<Rightarrow> if \<not> not_mounted_output out then (Inl e, w') else (Inr (), w'))"

text \<open>The functions that UmountTarget and JUmount give to RetryOnConflict.\<close>

definition unref_attempt :: "'x lib_scheme \<Rightarrow> 'w K8sClient \<Rightarrow> string \<Rightarrow> Pod \<Rightarrow> ('w, unit) io" where
  "unref_attempt L K target pod =
     bind (GetPod K (pod_name pod) (pod_ns pod)) (\<lambda>po.
       if \<not> mhas (annos po) (GetReferenceKey L target) then ret ()
       else DelPodAnnotation K pod [GetReferenceKey L target])"

definition UmountTarget ::
  "'x lib_scheme \<Rightarrow> globals \<Rightarrow> 'w host \<Rightarrow> 'w K8sClient \<Rightarrow> nat \<Rightarrow> string \<Rightarrow> string \<Rightarrow> ('w, unit) io" where
  "UmountTarget L G H K fuel target podName =
     bind (umount_until H fuel target) (\<lambda>_.
     bind (h_cleanup_mount_point H target) (\<lambda>_.
       if podName = [] then ret ()
       else tryE (GetPod K podName (Namespace G))
         (\<lambda>e. if e = NotFound then ret () else fail e)
         (\<lambda>pod. c_retry K (unref_attempt L K target pod))))"

definition jumount_attempt ::
  "'x lib_scheme \<Rightarrow> globals \<Rightarrow> 'w host \<Rightarrow> 'w K8sClient \<Rightarrow> string \<Rightarrow> ('w, unit) io" where
  "jumount_attempt L G H K podName =
     tryE (GetPod K podName (Namespace G))
       (\<lambda>e. if e = NotFound then ret () else fail e)
       (\<lambda>po. if GetRef L po \<noteq> 0 then ret ()
         else bind (ShouldDelay L H K po) (\<lambda>shouldDelay.
           if shouldDelay then ret ()
           else bind (DeletePod K (Some po)) (\<lambda>_.
             ignore_err (DeleteSecret K (pod_name po @ ''-secret'') (pod_ns po)))))"

definition JUmount ::
  "'x lib_scheme \<Rightarrow> globals \<Rightarrow> 'w host \<Rightarrow> 'w K8sClient \<Rightarrow> string \<Rightarrow> ('w, unit) io" where
  "JUmount L G H K podName = c_retry K (jumount_attempt L G H K podName)"

section \<open>Secrets and labels\<close>

definition createOrUpdateSecret :: "globals \<Rightarrow> 'w K8sClient \<Rightarrow> Secret \<Rightarrow> ('w, unit) io" where
  "createOrUpdateSecret G K secret = c_retry K (
     tryE (GetSecret K (mName (seMeta secret)) (Namespace G))
       (\<lambda>e. if e = NotFound then bind (CreateSecret K (Some secret)) (\<lambda>_. ret ()) else fail e)
       (\<lambda>oldSecret. UpdateSecret K (Some (oldSecret\<lparr>seStringData := seStringData secret\<rparr>))))"

definition setUUIDAnnotation :: "globals \<Rightarrow> 'w K8sClient \<Rightarrow> string \<Rightarrow> string \<Rightarrow> ('w, unit) io" where
  "setUUIDAnnotation G K podName uuid =
     bind (GetPod K podName (Namespace G)) (\<lambda>pod. AddPodAnnotation K pod [(JuiceFSUUID, uuid)])"

definition setMountLabel :: "'w K8sClient \<Rightarrow> string \<Rightarrow> string \<Rightarrow> ('w, unit) io" where
  "setMountLabel K podName podNamespace =
     bind (GetPod K podName podNamespace) (\<lambda>pod. AddPodLabel K pod [(UniqueIdKey, [])])"

section \<open>Logs\<close>

definition container_log :: "'w K8sClient \<Rightarrow> Pod \<Rightarrow> (ContainerStatus \<Rightarrow> bool) \<Rightarrow> ('w, string) io" where
  "container_log K pod bad =
     (case find bad (stInitContainerStatuses (pStatus pod) @ stContainerStatuses (pStatus pod)) of
        Some cn \<Rightarrow> GetPodLog K (pod_name pod) (pod_ns pod) (csName cn)
      | None \<Rightarrow> ret [])"

definition getErrContainerLog :: "globals \<Rightarrow> 'w K8sClient \<Rightarrow> string \<Rightarrow> ('w, string) io" where
  "getErrContainerLog G K podName =
     bind (GetPod K podName (Namespace G)) (\<lambda>pod. container_log K pod (\<lambda>cn. \<not> csReady cn))"

definition getNotCompleteCnLog :: "globals \<Rightarrow> 'w K8sClient \<Rightarrow> string \<Rightarrow> ('w, string) io" where
  "getNotCompleteCnLog G K podName =
     bind (GetPod K podName (Namespace G)) (\<lambda>pod. container_log K pod
       (\<lambda>cn. case csTerminated cn of None \<Rightarrow> True | Some (reason, _) \<Rightarrow> reason \<noteq> ''Completed''))"

text \<open>The panic of StripPasswd inside the message is a panic of the caller.\<close>

definition fail_with_source :: "string \<Rightarrow> string \<Rightarrow> string list \<Rightarrow> ('w, 'a) io" where
  "fail_with_source fmt source args =
     (case StripPasswd source of Inl p \<Rightarrow> fail p | Inr u \<Rightarrow> fail (Errorf fmt (u # args)))"

definition waitUtilMountReady :: "globals \<Rightarrow> 'w host \<Rightarrow> 'w K8sClient \<Rightarrow> JfsSetting \<Rightarrow> string \<Rightarrow> ('w, unit) io" where
  "waitUtilMountReady G H K s podName =
     tryE (WaitUtilMountReady H podName (sMountPath s))
       (\<lambda>_. tryE (getErrContainerLog G K podName)
          (\<lambda>_. fail_with_source ''mount %v at %v failed: mount isn't ready in 30 seconds'' (sSource s) [sMountPath s])
          (\<lambda>log. fail_with_source ''mount %v at %v failed, mountpod: %s, failed log: %v'' (sSource s) [sMountPath s, podName, log]))
       ret"

section \<open>Jobs\<close>

text \<open>
  The context ends after 40 seconds. The first result tells whether the loop was left by
  the break.
\<close>

fun wait_job :: "globals \<Rightarrow> 'w host \<Rightarrow> 'w K8sClient \<Rightarrow> nat \<Rightarrow> string \<Rightarrow> ('w, bool) io" where
  "wait_job G H K 0 jobName = fail OutOfFuel"
| "wait_job G H K (Suc fuel) jobName =
     tryE (GetJob K jobName (Namespace G))
       (\<lambda>e. if e = NotFound then ret False
            else (\<lambda>w. if h_ctx_err H w = Some DeadlineExceeded \<or> h_ctx_err H w = Some Canceled then (Inr True, w)
                      else (Inl (Errorf ''waitUtilJobCompleted: Get job %v failed: %v'' [jobName]), w)))
       (\<lambda>job. if IsJobCompleted job then
            (\<lambda>w. (if IsJobShouldBeRecycled (h_now H w) job then
                    bind (ignore_err (DeleteJob K jobName (Namespace G))) (\<lambda>_. ret False) else ret False) w)
          else after (h_sleep H 500000) (wait_job G H K fuel jobName))"

definition job_rounds :: nat where "job_rounds = 81"

definition waitUtilJobCompleted :: "globals \<Rightarrow> 'w host \<Rightarrow> 'w K8sClient \<Rightarrow> string \<Rightarrow> ('w, unit) io" where
  "waitUtilJobCompleted G H K jobName =
     bind (wait_job G H K job_rounds jobName) (\<lambda>timedout.
       if \<not> timedout then ret ()
       else tryE (ListPod K (Namespace G) (Some \<lparr>selMatchLabels = [(''job-name'', jobName)], selExists = []\<rparr>) None)
         (\<lambda>_. fail (Errorf ''waitUtilJobCompleted: get pod from job %s error %v'' [jobName]))
         (\<lambda>pods. case pods of [] \<Rightarrow> fail (Errorf ''waitUtilJobCompleted: get pod from job %s error %v'' [jobName])
            | pod # _ \<Rightarrow> tryE (getNotCompleteCnLog G K (pod_name pod))
                (\<lambda>_. fail (Errorf ''waitUtilJobCompleted: get pod %s log error %v'' [pod_name pod]))
                (\<lambda>log. fail (Errorf ''waitUtilJobCompleted: job %s isn't completed: %v'' [jobName, log]))))"

text \<open>
  The part after the job is built, the same in JCreateVolume and JDeleteVolume; a job that
  does not complete is deleted and its error returned.
\<close>

definition run_volume_job :: "globals \<Rightarrow> 'w host \<Rightarrow> 'w K8sClient \<Rightarrow> JfsSetting \<Rightarrow> Job \<Rightarrow> ('w, unit) io" where
  "run_volume_job G H K s job =
     bind (tryE (GetJob K (mName (jMeta job)) (mNamespace (jMeta job)))
             (\<lambda>e. if e = NotFound then bind (CreateJob K (Some job)) (\<lambda>j.
                  case j of Some created \<Rightarrow> ret created | None \<Rightarrow> fail (Panic ''nil pointer dereference'')) else fail e) ret) (\<lambda>exist.
     bind (lift_res (with_attr s (NewSecret s))) (\<lambda>secret.
     bind (createOrUpdateSecret G K (SetJobAsOwner secret exist)) (\<lambda>_.
       tryE (waitUtilJobCompleted G H K (mName (jMeta job)))
         (\<lambda>e. bind (ignore_err (DeleteJob K (mName (jMeta job)) (mNamespace (jMeta job)))) (\<lambda>_. fail e))
         ret)))"

definition JCreateVolume ::
  "'x setting_lib_scheme \<Rightarrow> globals \<Rightarrow> 'w host \<Rightarrow> 'w K8sClient \<Rightarrow> JfsSetting \<Rightarrow> ('w, unit) io" where
  "JCreateVolume L G H K s =
     bind (lift_res (NewJobForCreateVolume L G s)) (\<lambda>(s', job). run_volume_job G H K s' job)"

definition JDeleteVolume ::
  "'x setting_lib_scheme \<Rightarrow> globals \<Rightarrow> 'w host \<Rightarrow> 'w K8sClient \<Rightarrow> JfsSetting \<Rightarrow> ('w, unit) io" where
  "JDeleteVolume L G H K s =
     bind (lift_res (NewJobForDeleteVolume L G s)) (\<lambda>(s', job). run_volume_job G H K s' job)"

definition CleanCache ::
  "'x setting_lib_scheme \<Rightarrow> globals \<Rightarrow> 'w host \<Rightarrow> 'w K8sClient \<Rightarrow> string \<Rightarrow> string \<Rightarrow> string \<Rightarrow> string list \<Rightarrow> ('w, unit) io" where
  "CleanCache L G H K image_name uuid volumeId cacheDirs =
     bind (lift_res (ParseSetting L G (Some [(''name'', uuid)]) None [] True None None)) (\<lambda>s0.
     bind (lift_res (with_attr s0 (\<lambda>a. a\<lparr>aImage := image_name\<rparr>))) (\<lambda>a.
     let s = s0\<lparr>sAttr := Some a, sVolumeId := volumeId, sCacheDirs := cacheDirs, sUUID := uuid\<rparr> in
     bind (NewJobForCleanCache L G H s) (\<lambda>job.
     bind (tryE (GetJob K (mName (jMeta job)) (mNamespace (jMeta job)))
             (\<lambda>e. if e = NotFound then bind (CreateJob K (Some job)) (\<lambda>_. ret ()) else fail e) (\<lambda>_. ret ())) (\<lambda>_.
       tryE (waitUtilJobCompleted G H K (mName (jMeta job)))
         (\<lambda>e. ignore_err (DeleteJob K (mName (jMeta job)) (mNamespace (jMeta job)))) ret))))"

section \<open>Mounting\<close>

text \<open>The node selector of a new pod, when the configuration asks for one.\<close>

definition place_pod :: "'w K8sClient \<Rightarrow> AppInfo option \<Rightarrow> Pod \<Rightarrow> ('w, Pod) io" where
  "place_pod K appinfo newPod =
     (let nodeName = psNodeName (pSpec newPod); nodeSelector = [(hostname_label, nodeName)] in
      tryE (ListNode K (Some \<lparr>selMatchLabels = nodeSelector, selExists = []\<rparr>)) (\<lambda>_. ret newPod) (\<lambda>nodes.
        if length nodes \<noteq> 1 \<or> mName (nMeta (nodes ! 0)) \<noteq> nodeName then ret newPod
        else (let p1 = newPod\<lparr>pSpec := (pSpec newPod)\<lparr>psNodeName := [], psNodeSelector := nodeSelector\<rparr>\<rparr> in
          case appinfo of None \<Rightarrow> ret p1
          | Some ai \<Rightarrow> if aiName ai = [] then ret p1
              else tryE (GetPod K (aiName ai) (aiNamespace ai)) (\<lambda>_. ret p1) (\<lambda>appPod.
                ret (p1\<lparr>pSpec := (pSpec p1)\<lparr>psAffinity := psAffinity (pSpec appPod),
                  psSchedulerName := psSchedulerName (pSpec appPod), psTolerations := psTolerations (pSpec appPod)\<rparr>\<rparr>)))))"

definition set_label :: "string \<Rightarrow> string \<Rightarrow> Pod \<Rightarrow> Pod" where
  "set_label k v pod = pod\<lparr>pMeta := (pMeta pod)\<lparr>mLabels := Some (mput k v (plabels pod))\<rparr>\<rparr>"

text \<open>The branch of createOrAddRef for a pod that does not exist.\<close>

definition create_mount_pod ::
  "'x setting_lib_scheme \<Rightarrow> globals \<Rightarrow> 'w K8sClient \<Rightarrow> string \<Rightarrow> string \<Rightarrow> AppInfo option \<Rightarrow> Secret \<Rightarrow> JfsSetting \<Rightarrow> ('w, JfsSetting) io" where
  "create_mount_pod L G K podName hashVal appinfo secret s =
     bind (lift_res (NewMountPod L G podName s)) (\<lambda>(s', pod).
     let newPod = set_label PodJuiceHashLabelKey hashVal
           (set_annos (Some (mput (GetReferenceKey L (sTargetPath s)) (sTargetPath s) (annos pod))) pod) in
     bind (if cfEnableNodeSelector (GlobalConfig G) then place_pod K appinfo newPod else ret newPod) (\<lambda>newPod'.
     bind (createOrUpdateSecret G K secret) (\<lambda>_.
     bind (CreatePod K (Some newPod')) (\<lambda>_. ret s'))))"

fun create_or_add ::
  "'x setting_lib_scheme \<Rightarrow> globals \<Rightarrow> 'w host \<Rightarrow> 'w K8sClient \<Rightarrow> nat \<Rightarrow> string \<Rightarrow> string \<Rightarrow> AppInfo option \<Rightarrow> Secret \<Rightarrow> JfsSetting \<Rightarrow> ('w, JfsSetting) io" where
  "create_or_add L G H K 0 podName hashVal appinfo secret s = fail OutOfFuel"
| "create_or_add L G H K (Suc fuel) podName hashVal appinfo secret s =
     tryE (GetPod K podName (Namespace G))
       (\<lambda>e. if e = NotFound then create_mount_pod L G K podName hashVal appinfo secret s
            else if e = Timeout then
              fail (Errorf ''mount %v failed: mount pod %s deleting timeout'' [sVolumeId s, podName])
            else fail e)
       (\<lambda>oldPod. if mDeletionTimestamp (pMeta oldPod) \<noteq> None then
            after (h_sleep H 500000) (create_or_add L G H K fuel podName hashVal appinfo secret s)
          else bind (createOrUpdateSecret G K secret) (\<lambda>_.
               bind (AddRefOfMount L G K (sTargetPath s) podName) (\<lambda>_. ret s)))"

definition create_rounds :: nat where "create_rounds = 121"

definition createOrAddRef ::
  "'x setting_lib_scheme \<Rightarrow> globals \<Rightarrow> 'w host \<Rightarrow> 'w K8sClient \<Rightarrow> string \<Rightarrow> JfsSetting \<Rightarrow> AppInfo option \<Rightarrow> ('w, JfsSetting) io" where
  "createOrAddRef L G H K podName s appinfo =
     bind (lift_res (GenHashOfSetting L s)) (\<lambda>hashVal.
       if length podName < 7 then fail (Panic ''slice bounds out of range'')
       else
         (let s1 = s\<lparr>sMountPath := sMountPath s @ drop (length podName - 7) podName\<rparr>;
              s2 = s1\<lparr>sSecretName := podName @ ''-secret''\<rparr>
          in with_lock H (GetPodLock podName) (
            bind (lift_res (with_attr s2 (NewSecret s2))) (\<lambda>secret.
              create_or_add L G H K create_rounds podName hashVal appinfo secret s2))))"

text \<open>
  The result of juicefs status: the text between the quotes after the key UUID, where the
  line has a closing quote (regular expression \<open>"UUID": "(.*)"\<close>).
\<close>

definition uuid_prefix :: string where
  "uuid_prefix = [CHR 0x22] @ ''UUID'' @ [CHR 0x22] @ '': '' @ [CHR 0x22]"

fun find_uuid :: "string \<Rightarrow> string option" where
  "find_uuid [] = None"
| "find_uuid (c # s) =
     (let line = takeWhile (\<lambda>x. x \<noteq> nl) (drop (length uuid_prefix) (c # s)) in
      if HasPrefix (c # s) uuid_prefix \<and> CHR 0x22 \<in> set line then Some (takeWhile (\<lambda>x. x \<noteq> CHR 0x22) line)
      else find_uuid s)"

definition GetJfsVolUUID :: "'w host \<Rightarrow> string \<Rightarrow> ('w, string) io" where
  "GetJfsVolUUID H name = (\<lambda>w.
     case h_command H CeCliPath [''status'', name] [] w of
       ((stdout, Some e), w') \<Rightarrow>
         if h_ctx_err H w' = Some DeadlineExceeded then (Inl (Errorf ''juicefs status %s timed out'' []), w')
         else (Inl (Errorf ''%s: %v'' [stdout]), w')
     | ((stdout, None), w') \<Rightarrow>
         (case find_uuid stdout of
            None \<Rightarrow> (Inl (Errorf ''get uuid of %s error'' [name]), w')
          | Some uuid \<Rightarrow> (Inr uuid, w')))"

definition JMount ::
  "'x setting_lib_scheme \<Rightarrow> globals \<Rightarrow> 'w host \<Rightarrow> 'w K8sClient \<Rightarrow> AppInfo option \<Rightarrow> JfsSetting \<Rightarrow> ('w, JfsSetting) io" where
  "JMount L G H K appInfo s =
     bind (genMountPodName L G H K s) (\<lambda>podName.
     bind (case appInfo of None \<Rightarrow> ret ()
           | Some ai \<Rightarrow> if aiName ai \<noteq> [] \<and> aiNamespace ai \<noteq> [] then setMountLabel K (aiName ai) (aiNamespace ai) else ret ()) (\<lambda>_.
     bind (createOrAddRef L G H K podName s appInfo) (\<lambda>s'.
     bind (waitUtilMountReady G H K s' podName) (\<lambda>_.
       if sCleanCache s' \<and> sUUID s' = [] then
         bind (GetJfsVolUUID H (sSource s')) (\<lambda>uuid.
         bind (setUUIDAnnotation G K podName uuid) (\<lambda>_. ret s'))
       else ret s'))))"

section \<open>The references as a table\<close>

definition refs_of :: "'x lib_scheme \<Rightarrow> smap \<Rightarrow> string set" where
  "refs_of L m = {t. map_of m (GetReferenceKey L t) = Some t}"

definition table_add :: "'x lib_scheme \<Rightarrow> string \<Rightarrow> smap \<Rightarrow> smap" where
  "table_add L t m = (if mhas m (GetReferenceKey L t) then m else add_ref L t m)"

definition table_del :: "'x lib_scheme \<Rightarrow> string \<Rightarrow> smap \<Rightarrow> smap" where
  "table_del L t m = mdel (GetReferenceKey L t) m"

definition count_refs :: "'x lib_scheme \<Rightarrow> smap \<Rightarrow> nat" where
  "count_refs L m = length (filter (\<lambda>(k, target). k = GetReferenceKey L target) m)"

text \<open>An annotation whose name is a reference key holds a target of that key.\<close>

definition ref_invar :: "'x lib_scheme \<Rightarrow> smap \<Rightarrow> bool" where
  "ref_invar L m \<longleftrightarrow> sha_wf L \<and> wf_map m \<and>
     (\<forall>k v. map_of m k = Some v \<longrightarrow> (\<exists>t. k = GetReferenceKey L t) \<longrightarrow> k = GetReferenceKey L v)"

lemma GetRef_count: "GetRef L pod = count_refs L (annos pod)"
  by (simp add: GetRef_def count_refs_def)

lemma key_not_delete_at: "sha_wf L \<Longrightarrow> GetReferenceKey L t \<noteq> DeleteDelayAtKey"
  using GetReferenceKey_shape(1) [of L t] by (auto simp: DeleteDelayAtKey_def)

lemma table_add_lookup:
  "sha_wf L \<Longrightarrow> k = GetReferenceKey L u \<Longrightarrow> \<not> mhas m (GetReferenceKey L t) \<Longrightarrow>
   map_of (table_add L t m) k = (if k = GetReferenceKey L t then Some t else map_of m k)"
  using key_not_delete_at [of L u] by (auto simp: table_add_def add_ref_def)

lemma refs_of_add:
  assumes "ref_invar L m" "inj_on (GetReferenceKey L) (insert t (refs_of L m))"
  shows "refs_of L (table_add L t m) = insert t (refs_of L m)"
proof (cases "mhas m (GetReferenceKey L t)")
  case True
  then obtain v where v: "map_of m (GetReferenceKey L t) = Some v" by (auto simp: mhas_def)
  with assms(1) have kv: "GetReferenceKey L t = GetReferenceKey L v" unfolding ref_invar_def by blast
  with v have "v \<in> refs_of L m" by (simp add: refs_of_def)
  with assms(2) kv have "v = t" by (auto dest: inj_onD)
  with v True show ?thesis by (auto simp: table_add_def refs_of_def)
next
  case False
  have sha: "sha_wf L" using assms(1) by (simp add: ref_invar_def)
  have "u \<in> refs_of L (table_add L t m) \<longleftrightarrow> u \<in> insert t (refs_of L m)" for u
    using table_add_lookup [OF sha refl False, of u] False assms(2)
    by (cases "GetReferenceKey L u = GetReferenceKey L t") (auto simp: refs_of_def mhas_def)
  then show ?thesis by blast
qed

lemma refs_of_del:
  assumes "ref_invar L m" "inj_on (GetReferenceKey L) (insert t (refs_of L m))"
  shows "refs_of L (table_del L t m) = refs_of L m - {t}"
proof -
  have "GetReferenceKey L u = GetReferenceKey L t \<Longrightarrow> u \<in> refs_of L m \<Longrightarrow> u = t" for u
    using inj_onD [OF assms(2), of u t] by auto
  then show ?thesis by (auto simp: refs_of_def table_del_def)
qed

lemma ref_invar_add: "ref_invar L m \<Longrightarrow> ref_invar L (table_add L t m)"
  by (auto simp: ref_invar_def table_add_def add_ref_def simp del: map_of_eq_Some_iff split: if_splits)

lemma ref_invar_del: "ref_invar L m \<Longrightarrow> ref_invar L (table_del L t m)"
  by (auto simp: ref_invar_def table_del_def simp del: map_of_eq_Some_iff split: if_splits)

lemma refs_of_image:
  assumes "wf_map m"
  shows "refs_of L m = snd ` set (filter (\<lambda>(k, target). k = GetReferenceKey L target) m)"
  using assms by (force simp: refs_of_def)

lemma finite_refs_of: "wf_map m \<Longrightarrow> finite (refs_of L m)"
  by (simp add: refs_of_image)

lemma count_refs_card:
  assumes "wf_map m"
  shows "count_refs L m = card (refs_of L m)"
proof -
  let ?f = "filter (\<lambda>(k, target). k = GetReferenceKey L target) m"
  have "distinct ?f" using assms by (simp add: distinct_map)
  moreover have "inj_on snd (set ?f)" by (auto simp: inj_on_def)
  ultimately show ?thesis
    unfolding refs_of_image [OF assms] count_refs_def by (simp only: card_image distinct_card)
qed

interpretation pod_refs: ref_table "refs_of L" "table_add L" "table_del L" "count_refs L" "ref_invar L"
  "inj_on (GetReferenceKey L)" for L :: "'x lib_scheme"
proof unfold_locales
  fix a t
  show "ref_invar L a \<Longrightarrow> inj_on (GetReferenceKey L) (insert t (refs_of L a)) \<Longrightarrow> refs_of L (table_add L t a) = insert t (refs_of L a)"
    by (rule refs_of_add)
  show "ref_invar L a \<Longrightarrow> inj_on (GetReferenceKey L) (insert t (refs_of L a)) \<Longrightarrow> refs_of L (table_del L t a) = refs_of L a - {t}"
    by (rule refs_of_del)
  show "ref_invar L a \<Longrightarrow> ref_invar L (table_add L t a)" by (rule ref_invar_add)
  show "ref_invar L a \<Longrightarrow> ref_invar L (table_del L t a)" by (rule ref_invar_del)
  show "ref_invar L a \<Longrightarrow> count_refs L a = card (refs_of L a)" by (simp add: count_refs_card ref_invar_def)
  show "ref_invar L a \<Longrightarrow> finite (refs_of L a)" by (simp add: finite_refs_of ref_invar_def)
qed (rule inj_on_subset)

section \<open>The API server\<close>

text \<open>
  What the patches mean on the stored pod: a merge patch puts the entries of a map, a JSON
  patch replaces a list or map or removes one annotation. The key after the pointer of a
  removal is literal when it has no slash and no tilde.
\<close>

definition pointer_key :: "string \<Rightarrow> string option" where
  "pointer_key path = (let pre = annotation_path []; key = drop (length pre) path in
     if HasPrefix path pre \<and> CHR ''/'' \<notin> set key \<and> CHR ''~'' \<notin> set key then Some key else None)"

fun apply_op :: "PatchOp \<Rightarrow> Pod \<Rightarrow> Pod" where
  "apply_op (ReplaceList path xs) pod = (if path = ''/metadata/finalizers'' then pod\<lparr>pMeta := (pMeta pod)\<lparr>mFinalizers := xs\<rparr>\<rparr> else pod)"
| "apply_op (ReplaceMap path m) pod = (if path = ''/metadata/annotations'' then set_annos (Some m) pod else pod)"
| "apply_op (Remove path) pod = (case pointer_key path of Some k \<Rightarrow> set_annos (Some (mdel k (annos pod))) pod | None \<Rightarrow> pod)"

fun apply_patch :: "Patch \<Rightarrow> Pod \<Rightarrow> Pod" where
  "apply_patch (JSONPatch ops) pod = fold apply_op ops pod"
| "apply_patch (MergeLabels m) pod = pod\<lparr>pMeta := (pMeta pod)\<lparr>mLabels := Some (mputs m (plabels pod))\<rparr>\<rparr>"
| "apply_patch (MergeAnnotations m) pod = set_annos (Some (mputs m (annos pod))) pod"

type_synonym pod_map = "string \<times> string \<Rightarrow> Pod option"

text \<open>
  A sequentially consistent pod store behind the client, as a view of the world. Every
  call may fail; a read that succeeds returns what is stored, a patch that succeeds has
  its effect on the one pod, and a deletion removes the pod or, with a finalizer, marks it.
\<close>

definition deleted :: "Pod option \<Rightarrow> bool" where
  "deleted x = (case x of None \<Rightarrow> True | Some p \<Rightarrow> mDeletionTimestamp (pMeta p) \<noteq> None)"

definition get_law :: "'w K8sClient \<Rightarrow> ('w \<Rightarrow> pod_map) \<Rightarrow> bool" where
  "get_law K pods \<longleftrightarrow> (\<forall>ns n w r w'. c_pods_get K ns n w = (r, w') \<longrightarrow> pods w' = pods w \<and>
     (r = Inl NotFound \<longrightarrow> pods w (ns, n) = None) \<and>
     (\<forall>p. r = Inr p \<longrightarrow> pods w (ns, n) = Some p \<and> pod_ns p = ns \<and> pod_name p = n))"

definition patch_law :: "'w K8sClient \<Rightarrow> ('w \<Rightarrow> pod_map) \<Rightarrow> bool" where
  "patch_law K pods \<longleftrightarrow> (\<forall>ns n pt w r w'. c_pods_patch K ns n pt w = (r, w') \<longrightarrow>
     (case r of Inl _ \<Rightarrow> pods w' = pods w
      | Inr _ \<Rightarrow> \<exists>p. pods w (ns, n) = Some p \<and> pods w' = (pods w)((ns, n) \<mapsto> apply_patch pt p)))"

definition delete_law :: "'w K8sClient \<Rightarrow> ('w \<Rightarrow> pod_map) \<Rightarrow> bool" where
  "delete_law K pods \<longleftrightarrow> (\<forall>ns n w r w'. c_pods_delete K ns n w = (r, w') \<longrightarrow>
     (case r of Inl _ \<Rightarrow> pods w' = pods w
      | Inr _ \<Rightarrow> \<exists>x. deleted x \<and> pods w' = (pods w)((ns, n) := x)))"

definition pod_store :: "'w K8sClient \<Rightarrow> ('w \<Rightarrow> pod_map) \<Rightarrow> bool" where
  "pod_store K pods \<longleftrightarrow> get_law K pods \<and> patch_law K pods \<and> delete_law K pods
     \<and> (\<forall>ns n w. pods (snd (c_secrets_delete K ns n w)) = pods w)"

text \<open>The last attempt is the result, and only attempts that met a conflict come before it.\<close>

definition retry_law :: "'w K8sClient \<Rightarrow> bool" where
  "retry_law K \<longleftrightarrow> (\<forall>P fn w r w'. c_retry K fn w = (r, w') \<longrightarrow> P w \<longrightarrow>
     (\<forall>w1. P w1 \<longrightarrow> fst (fn w1) = Inl Conflict \<longrightarrow> P (snd (fn w1))) \<longrightarrow> (\<exists>w1. P w1 \<and> fn w1 = (r, w')))"

lemma pod_store_get:
  assumes "pod_store K pods" "c_pods_get K ns n w = (r, w')"
  shows "pods w' = pods w" "r = Inl NotFound \<Longrightarrow> pods w (ns, n) = None"
    "r = Inr p \<Longrightarrow> pods w (ns, n) = Some p" "r = Inr p \<Longrightarrow> pod_ns p = ns" "r = Inr p \<Longrightarrow> pod_name p = n"
proof -
  have "get_law K pods" using assms(1) by (simp add: pod_store_def)
  from this [unfolded get_law_def, rule_format, OF assms(2)]
  show "pods w' = pods w" "r = Inl NotFound \<Longrightarrow> pods w (ns, n) = None"
    "r = Inr p \<Longrightarrow> pods w (ns, n) = Some p" "r = Inr p \<Longrightarrow> pod_ns p = ns" "r = Inr p \<Longrightarrow> pod_name p = n" by simp_all
qed

lemma pod_store_patch:
  assumes "pod_store K pods" "c_pods_patch K ns n pt w = (r, w')"
  shows "r = Inl e \<Longrightarrow> pods w' = pods w"
    "r = Inr u \<Longrightarrow> \<exists>p. pods w (ns, n) = Some p \<and> pods w' = (pods w)((ns, n) \<mapsto> apply_patch pt p)"
proof -
  have "patch_law K pods" using assms(1) by (simp add: pod_store_def)
  from this [unfolded patch_law_def, rule_format, OF assms(2)]
  show "r = Inl e \<Longrightarrow> pods w' = pods w"
    "r = Inr u \<Longrightarrow> \<exists>p. pods w (ns, n) = Some p \<and> pods w' = (pods w)((ns, n) \<mapsto> apply_patch pt p)" by simp_all
qed

lemma pod_store_delete:
  assumes "pod_store K pods" "c_pods_delete K ns n w = (r, w')"
  shows "r = Inl e \<Longrightarrow> pods w' = pods w"
    "r = Inr u \<Longrightarrow> \<exists>x. deleted x \<and> pods w' = (pods w)((ns, n) := x)"
proof -
  have "delete_law K pods" using assms(1) by (simp add: pod_store_def)
  from this [unfolded delete_law_def, rule_format, OF assms(2)]
  show "r = Inl e \<Longrightarrow> pods w' = pods w"
    "r = Inr u \<Longrightarrow> \<exists>x. deleted x \<and> pods w' = (pods w)((ns, n) := x)" by simp_all
qed

lemma pod_store_secret: "pod_store K pods \<Longrightarrow> pods (snd (c_secrets_delete K ns n w)) = pods w"
  by (simp add: pod_store_def)

text \<open>An attempt that fails leaves the pods as they are, so the last one starts from them.\<close>

definition fails_clean :: "('w \<Rightarrow> pod_map) \<Rightarrow> ('w, 'a) io \<Rightarrow> bool" where
  "fails_clean pods fn \<longleftrightarrow> (\<forall>w e w'. fn w = (Inl e, w') \<longrightarrow> pods w' = pods w)"

lemma retry_pods:
  assumes "retry_law K" "c_retry K fn w = (r, w')" "fails_clean pods fn"
  obtains w1 where "pods w1 = pods w" "fn w1 = (r, w')"
proof -
  have "\<forall>w1. pods w1 = pods w \<longrightarrow> fst (fn w1) = Inl Conflict \<longrightarrow> pods (snd (fn w1)) = pods w"
    using assms(3) unfolding fails_clean_def by (metis prod.collapse)
  from assms(1) [unfolded retry_law_def, rule_format, of fn w r w' "\<lambda>x. pods x = pods w", OF assms(2) refl] this
  obtain w1 where "pods w1 = pods w" "fn w1 = (r, w')" by blast
  with that show thesis by blast
qed

lemma set_annos_simps [simp]: "annos (set_annos (Some m) p) = m" "mDeletionTimestamp (pMeta (set_annos x p)) = mDeletionTimestamp (pMeta p)"
  "pod_ns (set_annos x p) = pod_ns p" "pod_name (set_annos x p) = pod_name p"
  by (simp_all add: set_annos_def)

lemma ShouldDelay_fail_pods:
  assumes "pod_store K pods" "ShouldDelay L H K po w = (Inl e, w')"
  shows "pods w' = pods w"
  using assms pod_store_patch(1) [OF assms(1)]
  by (auto simp: ShouldDelay_def AddPodAnnotation_def PatchPod_def go_step split: option.splits sum.splits prod.splits)

lemma ShouldDelay_false_world:
  "ShouldDelay L H K po w = (Inr False, w') \<Longrightarrow> w' = w"
  by (auto simp: ShouldDelay_def go_step split: option.splits sum.splits prod.splits)

lemma GetPod_eq [simp]: "GetPod K n ns = c_pods_get K ns n"
  by (simp add: GetPod_def)

lemma jumount_attempt_fail_pods:
  assumes st: "pod_store K pods" and "jumount_attempt L G H K n w = (Inl e, w')"
  shows "pods w' = pods w"
proof -
  obtain r w1 where g: "c_pods_get K (Namespace G) n w = (r, w1)" by fastforce
  note get = pod_store_get [OF st g]
  show ?thesis
  proof (cases r)
    case (Inl e')
    with assms(2) g get(1) show ?thesis by (auto simp: jumount_attempt_def go_step split: if_splits)
  next
    case (Inr po)
    with assms(2) g have z: "GetRef L po = 0" by (auto simp: jumount_attempt_def go_step split: if_splits)
    obtain d w2 where sd: "ShouldDelay L H K po w1 = (d, w2)" by fastforce
    show ?thesis
    proof (cases d)
      case (Inl e'')
      then have "pods w2 = pods w1" using ShouldDelay_fail_pods [OF st, of L H po w1 e'' w2] sd by simp
      with assms(2) g Inr z sd Inl get(1) show ?thesis by (auto simp: jumount_attempt_def go_step)
    next
      case (Inr b)
      with assms(2) g \<open>r = Inr po\<close> z sd have b: "\<not> b" by (auto simp: jumount_attempt_def go_step split: if_splits)
      with sd Inr have w2: "w2 = w1" using ShouldDelay_false_world by fastforce
      obtain dr w3 where dp: "c_pods_delete K (pod_ns po) (pod_name po) w1 = (dr, w3)" by fastforce
      with assms(2) g \<open>r = Inr po\<close> z sd Inr b w2 have "dr = Inl e \<and> w' = w3"
        by (cases dr) (auto simp: jumount_attempt_def go_step DeletePod_def)
      with pod_store_delete(1) [OF st dp] get(1) show ?thesis by simp
    qed
  qed
qed

lemma jumount_attempt_refs:
  assumes st: "pod_store K pods" and "pods w (Namespace G, n) = Some p" "GetRef L p \<noteq> 0"
  shows "pods (snd (jumount_attempt L G H K n w)) = pods w"
proof -
  obtain r w1 where g: "c_pods_get K (Namespace G) n w = (r, w1)" by fastforce
  note get = pod_store_get [OF st g]
  show ?thesis
  proof (cases r)
    case (Inl e')
    with g get(1) show ?thesis by (simp add: jumount_attempt_def go_step)
  next
    case (Inr po)
    with get(3) [OF Inr] assms have "GetRef L po \<noteq> 0" by simp
    with g get(1) Inr show ?thesis by (simp add: jumount_attempt_def go_step)
  qed
qed

lemma jumount_attempt_deletes:
  assumes st: "pod_store K pods" and "pods w (Namespace G, n) = Some p" "GetRef L p = 0"
    and "\<not> mhas (annos p) DeleteDelayTimeKey" "jumount_attempt L G H K n w = (Inr (), w')"
  shows "\<exists>x. deleted x \<and> pods w' = (pods w)((Namespace G, n) := x)"
proof -
  obtain r w1 where g: "c_pods_get K (Namespace G) n w = (r, w1)" by fastforce
  note get = pod_store_get [OF st g]
  have "r \<noteq> Inl e" for e
    using assms(2,5) g get(2) by (auto simp: jumount_attempt_def go_step split: if_splits)
  then obtain po where r: "r = Inr po" by (cases r) auto
  have po: "po = p" "pod_ns po = Namespace G" "pod_name po = n" using get(3-5) [OF r] assms(2) by auto
  have sd: "ShouldDelay L H K po w1 = (Inr False, w1)"
    using assms(4) po by (simp add: ShouldDelay_def mhas_def go_step)
  obtain dr w3 where dp: "c_pods_delete K (Namespace G) n w1 = (dr, w3)" by fastforce
  obtain u where dr: "dr = Inr u"
    using assms(3,5) g r sd dp po by (cases dr) (auto simp: jumount_attempt_def go_step DeletePod_def)
  have "w' = snd (c_secrets_delete K (Namespace G) (n @ ''-secret'') w3)"
    using assms(3,5) g r sd dp po dr by (auto simp: jumount_attempt_def go_step DeletePod_def DeleteSecret_def)
  then have "pods w' = pods w3" using pod_store_secret [OF st] by simp
  with pod_store_delete(2) [OF st dp dr] get(1) show ?thesis by simp
qed

text \<open>Adding and removing a reference implement the operations of the table.\<close>

lemma apply_replace_annos: "apply_patch (JSONPatch [ReplaceMap ''/metadata/annotations'' m]) p = set_annos (Some m) p"
  by simp

lemma apply_remove_key:
  "sha_wf L \<Longrightarrow> apply_patch (JSONPatch [Remove (annotation_path (GetReferenceKey L t))]) p
     = set_annos (Some (table_del L t (annos p))) p"
  using GetReferenceKey_shape [of L t]
  by (simp add: pointer_key_def annotation_path_def table_del_def)

lemma addref_attempt_cases:
  assumes st: "pod_store K pods" and a: "addref_attempt L G K t n w = (r, w')"
  shows "r = Inl e \<Longrightarrow> pods w' = pods w"
    "r = Inr u \<Longrightarrow> \<exists>p x. pods w (Namespace G, n) = Some p \<and> mDeletionTimestamp (pMeta p) = None \<and>
       annos (set_annos x p) = table_add L t (annos p) \<and> pods w' = (pods w)((Namespace G, n) \<mapsto> set_annos x p)"
proof -
  obtain gr w1 where g: "c_pods_get K (Namespace G) n w = (gr, w1)" by fastforce
  note get = pod_store_get [OF st g]
  have "(\<forall>e. r = Inl e \<longrightarrow> pods w' = pods w) \<and> (\<forall>u. r = Inr u \<longrightarrow> (\<exists>p x. pods w (Namespace G, n) = Some p \<and>
       mDeletionTimestamp (pMeta p) = None \<and> annos (set_annos x p) = table_add L t (annos p) \<and>
       pods w' = (pods w)((Namespace G, n) \<mapsto> set_annos x p)))"
  proof (cases gr)
    case (Inl e')
    with a g get(1) show ?thesis by (auto simp: addref_attempt_def go_step)
  next
    case (Inr p)
    note po = get(3-5) [OF Inr]
    consider (del) "mDeletionTimestamp (pMeta p) \<noteq> None"
      | (has) "mDeletionTimestamp (pMeta p) = None" "mhas (annos p) (GetReferenceKey L t)"
      | (add) "mDeletionTimestamp (pMeta p) = None" "\<not> mhas (annos p) (GetReferenceKey L t)" by blast
    then show ?thesis
    proof cases
      case del
      with a g Inr get(1) show ?thesis by (auto simp: addref_attempt_def go_step)
    next
      case has
      have "set_annos (mAnnotations (pMeta p)) p = p" by (simp add: set_annos_def)
      then show ?thesis using has a g Inr get(1) po
        by (auto simp: addref_attempt_def go_step table_add_def intro!: exI [of _ "mAnnotations (pMeta p)"])
    next
      case add
      with a g Inr po have "c_pods_patch K (Namespace G) n
          (JSONPatch [ReplaceMap ''/metadata/annotations'' (add_ref L t (annos p))]) w1 = (r, w')"
        by (simp add: addref_attempt_def go_step ReplacePodAnnotation_def PatchPod_def)
      note patch = pod_store_patch [OF st this, unfolded apply_replace_annos]
      show ?thesis
      proof (cases r)
        case (Inr u)
        with patch(2) obtain p' where "pods w1 (Namespace G, n) = Some p'"
          "pods w' = (pods w1)((Namespace G, n) \<mapsto> set_annos (Some (add_ref L t (annos p))) p')" by blast
        with get(1) po add Inr show ?thesis
          by (auto simp: table_add_def intro!: exI [of _ "Some (add_ref L t (annos p))"])
      qed (use patch(1) get(1) in auto)
    qed
  qed
  then show "r = Inl e \<Longrightarrow> pods w' = pods w"
    "r = Inr u \<Longrightarrow> \<exists>p x. pods w (Namespace G, n) = Some p \<and> mDeletionTimestamp (pMeta p) = None \<and>
       annos (set_annos x p) = table_add L t (annos p) \<and> pods w' = (pods w)((Namespace G, n) \<mapsto> set_annos x p)" by blast+
qed

lemma AddRefOfMount_refines:
  assumes "pod_store K pods" "retry_law K" "AddRefOfMount L G K t n w = (Inr u, w')"
  shows "\<exists>p x. pods w (Namespace G, n) = Some p \<and> mDeletionTimestamp (pMeta p) = None \<and>
     annos (set_annos x p) = table_add L t (annos p) \<and> pods w' = (pods w)((Namespace G, n) \<mapsto> set_annos x p)"
proof -
  have f: "fails_clean pods (addref_attempt L G K t n)"
    unfolding fails_clean_def using addref_attempt_cases(1) [OF assms(1)] by blast
  from retry_pods [where pods = pods, OF assms(2) assms(3) [unfolded AddRefOfMount_def] f]
  obtain w1 where "pods w1 = pods w" "addref_attempt L G K t n w1 = (Inr u, w')" by blast
  with addref_attempt_cases(2) [OF assms(1), of L G t n w1 "Inr u" w' u] show ?thesis by simp
qed

text \<open>Unmounting does not touch the pods of the cluster.\<close>

definition host_keeps_pods :: "'w host \<Rightarrow> ('w \<Rightarrow> pod_map) \<Rightarrow> bool" where
  "host_keeps_pods H pods \<longleftrightarrow>
     (\<forall>t w. pods (snd (h_umount_lazy H t w)) = pods w \<and> pods (snd (h_cleanup_mount_point H t w)) = pods w)"

lemma umount_until_pods: "host_keeps_pods H pods \<Longrightarrow> pods (snd (umount_until H fuel t w)) = pods w"
proof (induction fuel arbitrary: w)
  case (Suc fuel)
  obtain out e w1 where u: "h_umount_lazy H t w = ((out, e), w1)" by (metis prod.collapse)
  with Suc.prems have "pods w1 = pods w" unfolding host_keeps_pods_def by (metis snd_conv)
  with Suc u show ?case by (cases e) auto
qed (simp add: go_step)

lemma unref_attempt_cases:
  assumes st: "pod_store K pods" and sha: "sha_wf L" and a: "unref_attempt L K t pod w = (r, w')"
  shows "r = Inl e \<Longrightarrow> pods w' = pods w"
    "r = Inr u \<Longrightarrow> \<exists>p x. pods w (pod_ns pod, pod_name pod) = Some p \<and> annos (set_annos x p) = table_del L t (annos p) \<and>
       pods w' = (pods w)((pod_ns pod, pod_name pod) \<mapsto> set_annos x p)"
proof -
  let ?k = "(pod_ns pod, pod_name pod)"
  obtain gr w1 where g: "c_pods_get K (pod_ns pod) (pod_name pod) w = (gr, w1)" by fastforce
  note get = pod_store_get [OF st g]
  have "(\<forall>e. r = Inl e \<longrightarrow> pods w' = pods w) \<and> (\<forall>u. r = Inr u \<longrightarrow> (\<exists>p x. pods w ?k = Some p \<and>
       annos (set_annos x p) = table_del L t (annos p) \<and> pods w' = (pods w)(?k \<mapsto> set_annos x p)))"
  proof (cases gr)
    case (Inl e')
    with a g get(1) show ?thesis by (auto simp: unref_attempt_def go_step)
  next
    case (Inr p)
    note po = get(3-5) [OF Inr]
    show ?thesis
    proof (cases "mhas (annos p) (GetReferenceKey L t)")
      case False
      then have "table_del L t (annos p) = annos p"
        by (auto simp: table_del_def mdel_def mhas_def filter_id_conv) (metis map_of_eq_None_iff image_eqI fst_conv option.distinct(1))
      moreover have "set_annos (mAnnotations (pMeta p)) p = p" by (simp add: set_annos_def)
      ultimately show ?thesis using False a g Inr get(1) po
        by (auto simp: unref_attempt_def go_step intro!: exI [of _ "mAnnotations (pMeta p)"])
    next
      case True
      with a g Inr po have "c_pods_patch K (pod_ns pod) (pod_name pod)
          (JSONPatch [Remove (annotation_path (GetReferenceKey L t))]) w1 = (r, w')"
        by (simp add: unref_attempt_def go_step DelPodAnnotation_def PatchPod_def)
      note patch = pod_store_patch [OF st this, unfolded apply_remove_key [OF sha]]
      show ?thesis
      proof (cases r)
        case (Inr u)
        with patch(2) obtain p' where "pods w1 ?k = Some p'"
          "pods w' = (pods w1)(?k \<mapsto> set_annos (Some (table_del L t (annos p'))) p')" by blast
        with get(1) po Inr show ?thesis
          by (auto intro!: exI [of _ "Some (table_del L t (annos p))"])
      qed (use patch(1) get(1) in auto)
    qed
  qed
  then show "r = Inl e \<Longrightarrow> pods w' = pods w"
    "r = Inr u \<Longrightarrow> \<exists>p x. pods w ?k = Some p \<and> annos (set_annos x p) = table_del L t (annos p) \<and>
       pods w' = (pods w)(?k \<mapsto> set_annos x p)" by blast+
qed

lemma UmountTarget_refines:
  assumes st: "pod_store K pods" and "retry_law K" "host_keeps_pods H pods" "sha_wf L" "n \<noteq> []"
    and u: "UmountTarget L G H K fuel t n w = (Inr u, w')"
  shows "pods w' = pods w \<and> pods w (Namespace G, n) = None \<or>
    (\<exists>p x. pods w (Namespace G, n) = Some p \<and> annos (set_annos x p) = table_del L t (annos p) \<and>
       pods w' = (pods w)((Namespace G, n) \<mapsto> set_annos x p))"
proof -
  obtain r1 w1 where u1: "umount_until H fuel t w = (r1, w1)" by fastforce
  with u have "\<exists>v. r1 = Inr v" by (cases r1) (auto simp: UmountTarget_def go_step)
  then obtain r2 w2 where u2: "h_cleanup_mount_point H t w1 = (r2, w2)" by fastforce
  with u u1 \<open>\<exists>v. r1 = Inr v\<close> have "\<exists>v. r2 = Inr v" by (cases r2) (auto simp: UmountTarget_def go_step)
  obtain gr w3 where g: "c_pods_get K (Namespace G) n w2 = (gr, w3)" by fastforce
  note get = pod_store_get [OF st g]
  have p12: "pods w1 = pods w" "pods w2 = pods w1"
    using umount_until_pods [OF assms(3), of fuel t w] u1 assms(3) u2 unfolding host_keeps_pods_def by (metis snd_conv)+
  show ?thesis
  proof (cases gr)
    case (Inl e)
    with u u1 u2 g \<open>\<exists>v. r1 = Inr v\<close> \<open>\<exists>v. r2 = Inr v\<close> assms(5) have "e = NotFound \<and> w' = w3"
      by (auto simp: UmountTarget_def go_step split: if_splits)
    with Inl get(1,2) p12 show ?thesis by auto
  next
    case (Inr pod)
    with u u1 u2 g \<open>\<exists>v. r1 = Inr v\<close> \<open>\<exists>v. r2 = Inr v\<close> assms(5)
    have c: "c_retry K (unref_attempt L K t pod) w3 = (Inr u, w')" by (auto simp: UmountTarget_def go_step)
    have f: "fails_clean pods (unref_attempt L K t pod)"
      unfolding fails_clean_def using unref_attempt_cases(1) [OF st assms(4)] by blast
    from retry_pods [where pods = pods, OF assms(2) c f] obtain w4 where w4: "pods w4 = pods w3" "unref_attempt L K t pod w4 = (Inr u, w')" by blast
    have "pod_ns pod = Namespace G" "pod_name pod = n" using get(4,5) [OF Inr] by auto
    with unref_attempt_cases(2) [OF st assms(4) w4(2) refl] w4(1) get(1) p12 show ?thesis by auto
  qed
qed

text \<open>The users of one mount pod: each adds its target and later unmounts it.\<close>

fun use_pod :: "'x lib_scheme \<Rightarrow> globals \<Rightarrow> 'w host \<Rightarrow> 'w K8sClient \<Rightarrow> nat \<Rightarrow> string \<Rightarrow> string ref_event list \<Rightarrow> ('w, unit) io" where
  "use_pod L G H K fuel n [] = ret ()"
| "use_pod L G H K fuel n (Ref t # es) = bind (AddRefOfMount L G K t n) (\<lambda>_. use_pod L G H K fuel n es)"
| "use_pod L G H K fuel n (Unref t # es) = bind (UmountTarget L G H K fuel t n) (\<lambda>_. use_pod L G H K fuel n es)"

lemma use_pod_runs:
  assumes st: "pod_store K pods" "retry_law K" "host_keeps_pods H pods" "sha_wf L" "n \<noteq> []"
    and "use_pod L G H K fuel n es w = (Inr (), w')" "pods w (Namespace G, n) = Some p"
  shows "\<exists>p'. pods w' (Namespace G, n) = Some p' \<and> annos p' = run_events (table_add L) (table_del L) (annos p) es"
  using assms(6,7)
proof (induction es arbitrary: w p)
  case Nil
  then show ?case by (auto simp: go_step)
next
  case (Cons e es)
  show ?case
  proof (cases e)
    case (Ref t)
    obtain r w1 where a: "AddRefOfMount L G K t n w = (r, w1)" by fastforce
    with Cons.prems(1) Ref obtain u where r: "r = Inr u" by (cases r) (auto simp: go_step)
    from AddRefOfMount_refines [OF st(1,2) a [unfolded r]] Cons.prems(2) obtain x where
      x: "annos (set_annos x p) = table_add L t (annos p)" "pods w1 (Namespace G, n) = Some (set_annos x p)" by auto
    from Cons.prems(1) Ref a r have "use_pod L G H K fuel n es w1 = (Inr (), w')" by (simp add: go_step)
    from Cons.IH [OF this x(2)] x(1) Ref show ?thesis by simp
  next
    case (Unref t)
    obtain r w1 where a: "UmountTarget L G H K fuel t n w = (r, w1)" by fastforce
    with Cons.prems(1) Unref obtain u where r: "r = Inr u" by (cases r) (auto simp: go_step)
    from UmountTarget_refines [OF st a [unfolded r]] Cons.prems(2) obtain x where
      x: "annos (set_annos x p) = table_del L t (annos p)" "pods w1 (Namespace G, n) = Some (set_annos x p)" by auto
    from Cons.prems(1) Unref a r have "use_pod L G H K fuel n es w1 = (Inr (), w')" by (simp add: go_step)
    from Cons.IH [OF this x(2)] x(1) Unref show ?thesis by simp
  qed
qed

section \<open>A store in memory\<close>

text \<open>An instance of the services, for the witnesses.\<close>

definition mem_client :: "pod_map K8sClient" where
  "mem_client = idle_client
     \<lparr>c_pods_get := \<lambda>ns n w. (case w (ns, n) of None \<Rightarrow> Inl NotFound
        | Some p \<Rightarrow> if pod_ns p = ns \<and> pod_name p = n then Inr p else Inl (OtherError ''corrupt''), w),
      c_pods_patch := \<lambda>ns n pt w. (case w (ns, n) of None \<Rightarrow> (Inl NotFound, w)
        | Some p \<Rightarrow> (Inr (), w((ns, n) \<mapsto> apply_patch pt p))),
      c_pods_delete := \<lambda>ns n w. (Inr (), w((ns, n) := None))\<rparr>"

definition mem_host :: "pod_map host" where
  "mem_host = idle_host\<lparr>h_umount_lazy := \<lambda>_ w. ((''not mounted'', Some (OtherError ''exit status 1'')), w)\<rparr>"

definition hex_lib :: setting_lib where
  "hex_lib = sample_lib\<lparr>l_sha256 := \<lambda>s. replicate 64 (if s = ''/a'' then CHR ''a'' else CHR ''b'')\<rparr>"

definition mem_pod :: Pod where
  "mem_pod = zero_pod\<lparr>pMeta := zero_meta\<lparr>mName := ''pod-abcdef'', mNamespace := Namespace sample_globals\<rparr>\<rparr>"

definition mem_world :: pod_map where
  "mem_world = (\<lambda>_. None)((Namespace sample_globals, ''pod-abcdef'') \<mapsto> mem_pod)"

lemma mem_laws: "pod_store mem_client (\<lambda>w. w)" "retry_law mem_client" "host_keeps_pods mem_host (\<lambda>w. w)" "sha_wf hex_lib"
proof -
  show "pod_store mem_client (\<lambda>w. w)"
    by (auto simp: pod_store_def get_law_def patch_law_def delete_law_def mem_client_def idle_client_def deleted_def go_step
        split: option.splits if_splits)
  show "retry_law mem_client" by (auto simp: retry_law_def mem_client_def idle_client_def)
  show "host_keeps_pods mem_host (\<lambda>w. w)" by (simp add: host_keeps_pods_def mem_host_def idle_host_def go_step)
  show "sha_wf hex_lib" by (simp add: sha_wf_def hex_lib_def is_hex_def list_all_iff)
qed

section \<open>Properties\<close>

text \<open>
  C1: the reference counting of a mount pod is exact. From a pod without references, after
  any sequence of successful AddRefOfMount and UmountTarget calls for targets whose keys
  do not collide, GetRef of the stored pod is zero exactly when every target that was
  added has been unmounted since.
\<close>

theorem refcount_exact:
  assumes "pod_store K pods" "retry_law K" "host_keeps_pods H pods" "n \<noteq> []"
    and "use_pod L G H K fuel n es w = (Inr (), w')" "pods w (Namespace G, n) = Some p"
    and "ref_invar L (annos p)" "refs_of L (annos p) = {}" "inj_on (GetReferenceKey L) (event_target ` set es)"
  shows "\<exists>p'. pods w' (Namespace G, n) = Some p' \<and>
    (GetRef L p' = 0 \<longleftrightarrow> (\<forall>t x y. es = x @ Ref t # y \<longrightarrow> Unref t \<in> set y))"
proof -
  have "sha_wf L" using assms(7) by (simp add: ref_invar_def)
  from use_pod_runs [OF assms(1-3) this assms(4-6)] obtain p' where
    "pods w' (Namespace G, n) = Some p'" "annos p' = run_events (table_add L) (table_del L) (annos p) es" by blast
  with pod_refs.run_count_zero [OF assms(7-9)] show ?thesis by (auto simp: GetRef_count)
qed

definition mem_events :: "string ref_event list" where
  "mem_events = [Ref ''/a'', Ref ''/b'', Unref ''/a'']"

theorem refcount_exact_witness:
  "\<exists>w' p'. use_pod hex_lib sample_globals mem_host mem_client 1 ''pod-abcdef'' mem_events mem_world = (Inr (), w')
     \<and> w' (Namespace sample_globals, ''pod-abcdef'') = Some p' \<and> GetRef hex_lib p' \<noteq> 0"
proof -
  have "fst (use_pod hex_lib sample_globals mem_host mem_client 1 ''pod-abcdef'' mem_events mem_world) = Inr ()"
    by code_simp
  then obtain w' where u: "use_pod hex_lib sample_globals mem_host mem_client 1 ''pod-abcdef'' mem_events mem_world = (Inr (), w')"
    by (metis prod.collapse)
  have ne: "''pod-abcdef'' \<noteq> []" by simp
  have p: "mem_world (Namespace sample_globals, ''pod-abcdef'') = Some mem_pod" by (simp add: mem_world_def)
  have i: "ref_invar hex_lib (annos mem_pod)" "refs_of hex_lib (annos mem_pod) = {}"
    using mem_laws(4) by (simp_all add: ref_invar_def refs_of_def mem_pod_def zero_defs)
  have j: "inj_on (GetReferenceKey hex_lib) (event_target ` set mem_events)"
    by (auto simp: inj_on_def mem_events_def GetReferenceKey_def hex_lib_def ref_prefix_def)
  obtain p' where p': "w' (Namespace sample_globals, ''pod-abcdef'') = Some p' \<and>
      (GetRef hex_lib p' = 0 \<longleftrightarrow> (\<forall>t x y. mem_events = x @ Ref t # y \<longrightarrow> Unref t \<in> set y))"
    using refcount_exact [where pods = "\<lambda>w. w", OF mem_laws(1-3) ne u p i j] by (rule exE)
  have "mem_events = [Ref ''/a''] @ Ref ''/b'' # [Unref ''/a'']" by (simp add: mem_events_def)
  moreover have "Unref ''/b'' \<notin> set [Unref ''/a'']" by simp
  ultimately have "GetRef hex_lib p' \<noteq> 0" using p' by blast
  with p' u show ?thesis by blast
qed

text \<open>
  C2: JUmount never removes a mount pod that is in use: when the stored pod has a
  reference, the pods of the cluster are unchanged whatever the call returns.
\<close>

theorem JUmount_keeps_referenced:
  assumes "pod_store K pods" "retry_law K" "pods w (Namespace G, n) = Some p" "GetRef L p \<noteq> 0"
  shows "pods (snd (JUmount L G H K n w)) = pods w"
proof -
  obtain r w' where j: "c_retry K (jumount_attempt L G H K n) w = (r, w')" by fastforce
  have f: "fails_clean pods (jumount_attempt L G H K n)"
    unfolding fails_clean_def using jumount_attempt_fail_pods [OF assms(1)] by blast
  from retry_pods [where pods = pods, OF assms(2) j f] obtain w1 where
    w1: "pods w1 = pods w" "jumount_attempt L G H K n w1 = (r, w')" by blast
  from jumount_attempt_refs [OF assms(1), of w1 G n p L H] assms(3,4) w1 have "pods w' = pods w" by simp
  with j show ?thesis by (simp add: JUmount_def)
qed

definition mem_used_pod :: Pod where
  "mem_used_pod = set_annos (Some [(GetReferenceKey hex_lib ''/a'', ''/a'')]) mem_pod"

theorem JUmount_keeps_referenced_witness:
  "snd (JUmount hex_lib sample_globals mem_host mem_client ''pod-abcdef''
     (mem_world((Namespace sample_globals, ''pod-abcdef'') \<mapsto> mem_used_pod))) (Namespace sample_globals, ''pod-abcdef'') = Some mem_used_pod"
proof -
  have "GetRef hex_lib mem_used_pod \<noteq> 0" by (simp add: GetRef_def mem_used_pod_def set_annos_def)
  from JUmount_keeps_referenced [where pods = "\<lambda>w. w", OF mem_laws(1,2) _ this, of _ sample_globals "''pod-abcdef''"] show ?thesis by simp
qed

text \<open>
  A JUmount that returns no error for a pod without references and without a delay
  has deleted it: the pod is gone or marked for deletion, and no other pod has changed.
\<close>

theorem JUmount_deletes_unused:
  assumes "pod_store K pods" "retry_law K" "pods w (Namespace G, n) = Some p" "GetRef L p = 0"
    and "\<not> mhas (annos p) DeleteDelayTimeKey" "JUmount L G H K n w = (Inr (), w')"
  shows "\<exists>x. deleted x \<and> pods w' = (pods w)((Namespace G, n) := x)"
proof -
  have f: "fails_clean pods (jumount_attempt L G H K n)"
    unfolding fails_clean_def using jumount_attempt_fail_pods [OF assms(1)] by blast
  from retry_pods [where pods = pods, OF assms(2) assms(6) [unfolded JUmount_def] f] obtain w1 where
    w1: "pods w1 = pods w" "jumount_attempt L G H K n w1 = (Inr (), w')" by blast
  from jumount_attempt_deletes [OF assms(1) _ assms(4,5) w1(2)] assms(3) w1(1) show ?thesis by simp
qed

section \<open>Mounting adds the reference\<close>

lemma retry_keeps: "retry_law K \<Longrightarrow> keeps P fn \<Longrightarrow> keeps P (c_retry K fn)"
proof (rule keepsI)
  fix w assume a: "retry_law K" "keeps P fn" "P w"
  obtain r w' where c: "c_retry K fn w = (r, w')" by fastforce
  have "\<forall>w1. P w1 \<longrightarrow> fst (fn w1) = Inl Conflict \<longrightarrow> P (snd (fn w1))" using a(2) by (simp add: keeps_def)
  with a(1) [unfolded retry_law_def, rule_format, of fn w r w' P, OF c a(3)] obtain w1 where
    "P w1" "fn w1 = (r, w')" by blast
  with a(2) c show "P (snd (c_retry K fn w))" using keepsD [of P fn w1] by simp
qed

definition create_law :: "'w K8sClient \<Rightarrow> ('w \<Rightarrow> pod_map) \<Rightarrow> bool" where
  "create_law K pods \<longleftrightarrow> (\<forall>ns p w r w'. c_pods_create K ns p w = (r, w') \<longrightarrow>
     (case r of Inl _ \<Rightarrow> pods w' = pods w | Inr _ \<Rightarrow> pods w' = (pods w)((ns, pod_name p) \<mapsto> p)))"

text \<open>Calls that do not touch the pods.\<close>

definition quiet_calls :: "'w host \<Rightarrow> 'w K8sClient \<Rightarrow> ('w \<Rightarrow> pod_map) \<Rightarrow> bool" where
  "quiet_calls H K pods \<longleftrightarrow> (\<forall>w. (\<forall>ns n. pods (snd (c_secrets_get K ns n w)) = pods w)
     \<and> (\<forall>ns s. pods (snd (c_secrets_create K ns s w)) = pods w)
     \<and> (\<forall>ns s. pods (snd (c_secrets_update K ns s w)) = pods w)
     \<and> (\<forall>s. pods (snd (c_nodes_list K s w)) = pods w)
     \<and> (\<forall>i. pods (h_lock H i w) = pods w) \<and> (\<forall>i. pods (h_unlock H i w) = pods w)
     \<and> (\<forall>d. pods (h_sleep H d w) = pods w))"

lemma quiet_keeps:
  assumes "quiet_calls H K pods"
  shows "keeps (\<lambda>w. pods w = m) (GetSecret K n ns)" "keeps (\<lambda>w. pods w = m) (CreateSecret K s)"
    "keeps (\<lambda>w. pods w = m) (UpdateSecret K s)" "keeps (\<lambda>w. pods w = m) (ListNode K sel)"
  using assms
  by (auto simp: quiet_calls_def keeps_def client_reads client_writes go_step split: option.splits prod.splits sum.splits)
    (metis snd_conv)+

lemma createOrUpdateSecret_keeps:
  assumes "quiet_calls H K pods" "retry_law K"
  shows "keeps (\<lambda>w. pods w = m) (createOrUpdateSecret G K secret)"
  unfolding createOrUpdateSecret_def
  by (intro retry_keeps keeps_intro assms quiet_keeps [OF assms(1)])

lemma get_keeps: "pod_store K pods \<Longrightarrow> keeps (\<lambda>w. pods w = m) (GetPod K n ns)"
  unfolding keeps_def GetPod_eq using pod_store_get(1) by (metis prod.collapse)

lemma place_pod_keeps:
  assumes "quiet_calls H K pods" "pod_store K pods"
  shows "keeps (\<lambda>w. pods w = m) (place_pod K ai p)"
  unfolding place_pod_def Let_def
  by (intro keeps_intro quiet_keeps [OF assms(1)] get_keeps assms)

lemma place_pod_meta: "place_pod K ai p w = (Inr q, w') \<Longrightarrow> pMeta q = pMeta p"
  by (auto simp: place_pod_def Let_def go_step split: prod.splits sum.splits if_splits option.splits)

lemma bind_Inr: "bind m f w = (Inr y, w') \<longleftrightarrow> (\<exists>x w1. m w = (Inr x, w1) \<and> f x w1 = (Inr y, w'))"
  by (auto simp: go_step split: prod.splits sum.splits)

lemma GenPodAttr_namespace:
  "GenPodAttrWithCfg L G s None = Inr s' \<Longrightarrow> sAttr s = Some a0 \<Longrightarrow> map_option aNamespace (sAttr s') = Some (aNamespace a0)"
  by (auto simp: GenPodAttrWithCfg_def attr_from_patch_def Let_def)

lemma NewMountPod_meta:
  assumes "NewMountPod L G name s = Inr (s', pod)" "sAttr s = Some a0"
  shows "pod_ns pod = aNamespace a0" "pod_name pod = name" "sMountPath s' = sMountPath s" "sTargetPath s' = sTargetPath s"
proof -
  from assms(1) obtain a where a: "s' = s\<lparr>sAttr := Some a\<rparr>"
    and m: "pMeta pod = (pMeta (common_pod G s' a genCommonContainer))\<lparr>mName := name\<rparr>" by (rule NewMountPod_cases)
  have "GenPodAttrWithCfg L G s None = Inr s'"
    using assms(1) GenPodAttr_None_err [of L G s]
    by (auto simp: NewMountPod_def genCommonJuicePod_def bind_res_Inr_iff with_attr_def Let_def split: sum.splits err.splits option.splits)
  from GenPodAttr_namespace [OF this assms(2)] a have "aNamespace a = aNamespace a0" by simp
  with a m show "pod_ns pod = aNamespace a0" "pod_name pod = name" "sMountPath s' = sMountPath s" "sTargetPath s' = sTargetPath s"
    by (simp_all add: common_pod_def genPodTemplate_def Let_def)
qed

lemma create_mount_pod_ref:
  assumes st: "pod_store K pods" "retry_law K" "create_law K pods" "quiet_calls H K pods"
    and ns: "sAttr s = Some a" "aNamespace a = Namespace G"
    and c: "create_mount_pod L G K n hash ai secret s w = (Inr s', w')"
  shows "sMountPath s' = sMountPath s \<and> (\<exists>p. pods w' (Namespace G, n) = Some p \<and>
    map_of (annos p) (GetReferenceKey L (sTargetPath s)) = Some (sTargetPath s))"
proof -
  from c obtain pod q w1 w2 u where n: "NewMountPod L G n s = Inr (s', pod)"
    and p: "(if cfEnableNodeSelector (GlobalConfig G) then place_pod K ai
        (set_label PodJuiceHashLabelKey hash (set_annos (Some (mput (GetReferenceKey L (sTargetPath s)) (sTargetPath s) (annos pod))) pod))
      else ret (set_label PodJuiceHashLabelKey hash (set_annos (Some (mput (GetReferenceKey L (sTargetPath s)) (sTargetPath s) (annos pod))) pod))) w = (Inr q, w1)"
    and sec: "createOrUpdateSecret G K secret w1 = (Inr u, w2)"
    and cr: "bind (CreatePod K (Some q)) (\<lambda>_. ret s') w2 = (Inr s', w')"
    by (auto simp: create_mount_pod_def bind_Inr lift_res_def Let_def ret_def)
  have q: "pMeta q = pMeta (set_label PodJuiceHashLabelKey hash
      (set_annos (Some (mput (GetReferenceKey L (sTargetPath s)) (sTargetPath s) (annos pod))) pod))"
    using p place_pod_meta by (auto simp: ret_def split: if_splits)
  note meta = NewMountPod_meta [OF n ns(1)]
  from cr obtain x where "c_pods_create K (pod_ns q) q w2 = (Inr x, w')"
    by (auto simp: bind_Inr CreatePod_def ret_def)
  with st(3) [unfolded create_law_def, rule_format, OF this] have "pods w' = (pods w2)((pod_ns q, pod_name q) \<mapsto> q)" by simp
  moreover have "pod_ns q = Namespace G" "pod_name q = n" using q meta ns(2) by (simp_all add: set_label_def set_annos_def)
  moreover have "annos q = mput (GetReferenceKey L (sTargetPath s)) (sTargetPath s) (annos pod)"
    using q by (simp add: set_label_def set_annos_def)
  ultimately show ?thesis using meta(3) by (simp del: map_of_eq_Some_iff)
qed

text \<open>No two live targets of a pod share a key.\<close>

definition key_free :: "'x lib_scheme \<Rightarrow> string \<Rightarrow> Pod option \<Rightarrow> bool" where
  "key_free L t x \<longleftrightarrow> (\<forall>p v. x = Some p \<longrightarrow> map_of (annos p) (GetReferenceKey L t) = Some v \<longrightarrow> v = t)"

lemma table_add_has:
  "sha_wf L \<Longrightarrow> key_free L t (Some p) \<Longrightarrow> map_of (table_add L t (annos p)) (GetReferenceKey L t) = Some t"
  using table_add_lookup [of L "GetReferenceKey L t" t "annos p" t]
  by (cases "mhas (annos p) (GetReferenceKey L t)") (auto simp: key_free_def table_add_def mhas_def simp del: map_of_eq_Some_iff)

lemma create_or_add_ref:
  assumes st: "pod_store K pods" "retry_law K" "create_law K pods" "quiet_calls H K pods" "sha_wf L"
    and ns: "sAttr s = Some a" "aNamespace a = Namespace G"
    and k: "key_free L (sTargetPath s) (pods w (Namespace G, n))"
    and c: "create_or_add L G H K fuel n hash ai secret s w = (Inr s', w')"
  shows "sMountPath s' = sMountPath s \<and> (\<exists>p. pods w' (Namespace G, n) = Some p \<and>
    map_of (annos p) (GetReferenceKey L (sTargetPath s)) = Some (sTargetPath s))"
  using k c
proof (induction fuel arbitrary: w)
  case (Suc fuel)
  obtain r w1 where g: "c_pods_get K (Namespace G) n w = (r, w1)" by fastforce
  note get = pod_store_get [OF st(1) g]
  show ?case
  proof (cases r)
    case (Inl e)
    with Suc.prems(2) g have "create_mount_pod L G K n hash ai secret s w1 = (Inr s', w')"
      by (auto simp: go_step split: if_splits)
    with create_mount_pod_ref [OF st(1-4) ns] show ?thesis by blast
  next
    case (Inr po)
    show ?thesis
    proof (cases "mDeletionTimestamp (pMeta po) = None")
      case False
      with Suc.prems(2) g Inr have "create_or_add L G H K fuel n hash ai secret s (h_sleep H 500000 w1) = (Inr s', w')"
        by (auto simp: go_step)
      moreover have "pods (h_sleep H 500000 w1) = pods w" using st(4) get(1) by (simp add: quiet_calls_def)
      ultimately show ?thesis using Suc.IH [of "h_sleep H 500000 w1"] Suc.prems(1) by simp
    next
      case True
      with Suc.prems(2) g Inr obtain u w2 v where
        sec: "createOrUpdateSecret G K secret w1 = (Inr u, w2)"
        and add: "AddRefOfMount L G K (sTargetPath s) n w2 = (Inr v, w')" and s': "s' = s"
        by (auto simp: bind_Inr tryE_def ret_def)
      have "pods w2 = pods w"
        using keepsD [OF createOrUpdateSecret_keeps [OF st(4,2), of "pods w" G secret], of w1] sec get(1) by simp
      with AddRefOfMount_refines [OF st(1,2) add] obtain p x where
        "pods w (Namespace G, n) = Some p" "annos (set_annos x p) = table_add L (sTargetPath s) (annos p)"
        "pods w' = (pods w)((Namespace G, n) \<mapsto> set_annos x p)" by auto
      with table_add_has [OF st(5)] Suc.prems(1) s' show ?thesis by auto
    qed
  qed
qed (simp add: go_step)

definition racing_client :: "pod_map K8sClient" where
  "racing_client = mem_client\<lparr>c_pods_get := \<lambda>ns n w. (fst (c_pods_get mem_client ns n w),
     case w (ns, n) of None \<Rightarrow> w | Some p \<Rightarrow> w((ns, n) \<mapsto> set_annos (Some (add_ref hex_lib ''/b'' (annos p))) p))\<rparr>"


text \<open>
  A successful createOrAddRef leaves the mount pod of that name in the store with the
  reference of the target, whether it created the pod or found it, and extends the
  mount path by the last seven characters of the pod's name.
\<close>

theorem createOrAddRef_adds_ref:
  assumes "pod_store K pods" "retry_law K" "create_law K pods" "quiet_calls H K pods" "sha_wf L"
    and "sAttr s = Some a" "aNamespace a = Namespace G" "key_free L (sTargetPath s) (pods w (Namespace G, n))"
    and "createOrAddRef L G H K n s ai w = (Inr s', w')"
  shows "sMountPath s' = sMountPath s @ drop (length n - 7) n \<and> (\<exists>p. pods w' (Namespace G, n) = Some p \<and>
    map_of (annos p) (GetReferenceKey L (sTargetPath s)) = Some (sTargetPath s))"
proof -
  let ?s = "s\<lparr>sMountPath := sMountPath s @ drop (length n - 7) n, sSecretName := n @ ''-secret''\<rparr>"
  from assms(9) obtain hash secret w1 where
    c: "create_or_add L G H K create_rounds n hash ai secret ?s (h_lock H (GetPodLock n) w) = (Inr s', w1)"
    and w': "w' = h_unlock H (GetPodLock n) w1"
    by (auto simp: createOrAddRef_def bind_Inr with_lock_def lift_res_def fail_def Let_def split: if_splits prod.splits)
  have "pods (h_lock H (GetPodLock n) w) = pods w" "pods w' = pods w1" using assms(4) w' by (simp_all add: quiet_calls_def)
  with create_or_add_ref [OF assms(1-5) _ assms(7) _ c] assms(6,8) show ?thesis by simp
qed

definition mem_client_full :: "pod_map K8sClient" where
  "mem_client_full = mem_client\<lparr>c_pods_create := \<lambda>ns p w. (Inr p, w((ns, pod_name p) \<mapsto> p)),
     c_secrets_create := \<lambda>_ s. ret s\<rparr>"

lemma mem_full_laws:
  "pod_store mem_client_full (\<lambda>w. w)" "retry_law mem_client_full" "create_law mem_client_full (\<lambda>w. w)"
  "quiet_calls mem_host mem_client_full (\<lambda>w. w)"
proof -
  show "pod_store mem_client_full (\<lambda>w. w)" "retry_law mem_client_full"
    using mem_laws(1,2) by (simp_all add: mem_client_full_def pod_store_def get_law_def patch_law_def delete_law_def retry_law_def)
  show "create_law mem_client_full (\<lambda>w. w)" by (simp add: create_law_def mem_client_full_def)
  show "quiet_calls mem_host mem_client_full (\<lambda>w. w)"
    by (simp add: quiet_calls_def mem_client_full_def mem_client_def mem_host_def idle_host_def idle_client_def ret_def fail_def)
qed

text \<open>The existing, live pod is found in the first round.\<close>

lemma create_or_add_live:
  "GetPod K n (Namespace G) w = (Inr p, w1) \<Longrightarrow> mDeletionTimestamp (pMeta p) = None \<Longrightarrow> 0 < fuel \<Longrightarrow>
   create_or_add L G H K fuel n hash ai secret s w
     = bind (createOrUpdateSecret G K secret) (\<lambda>_. bind (AddRefOfMount L G K (sTargetPath s) n) (\<lambda>_. ret s)) w1"
  by (cases fuel) (simp_all add: tryE_def)

end
