(* ===== verification/ProcessMount.thy ===== *)
theory ProcessMount
  imports PodMount
begin

text \<open>
  Mounting by a process on the node (src/pkg/juicefs/mount/process_mount.go), the second
  provider of the mount interface. DoWithTimeout around a call is the call itself. The
  mount command is started in the background: its effect on the world is the one of the
  command, its output is dropped.
\<close>

section \<open>Mounting\<close>

text \<open>The loop that waits for the root inode; a context error leaves it by the break.\<close>

fun wait_root :: "'w host \<Rightarrow> nat \<Rightarrow> string \<Rightarrow> ('w, bool) io" where
  "wait_root H 0 mountPath = fail OutOfFuel"
| "wait_root H (Suc fuel) mountPath =
     tryE (h_stat H mountPath)
       (\<lambda>e. if e = DeadlineExceeded \<or> e = Canceled then ret False
            else after (h_sleep H 500000) (wait_root H fuel mountPath))
       (\<lambda>finfo. if fiIno finfo = 1 then ret True
                else after (h_sleep H 500000) (wait_root H fuel mountPath))"

definition wrapf :: "string \<Rightarrow> string list \<Rightarrow> ('w, 'a) io \<Rightarrow> ('w, 'a) io" where
  "wrapf fmt args m = tryE m (\<lambda>e. case e of Panic p \<Rightarrow> fail e | OutOfFuel \<Rightarrow> fail e | _ \<Rightarrow> fail (Errorf fmt args)) ret"

definition jmount ::
  "'w host \<Rightarrow> string \<Rightarrow> string \<Rightarrow> string \<Rightarrow> string list \<Rightarrow> smap \<Rightarrow> ('w, unit) io" where
  "jmount H source mountPath storage options extraEnvs =
     (if \<not> Contains source ''://'' then
        wrapf ''could not mount %q at %q: %v'' [source, mountPath] (h_mount H source mountPath FsType options)
      else
        (let mountArgs = [source, mountPath] @ (if options \<noteq> [] then [''-o'', Join options '',''] else []) in
         bind (lift_res (StripPasswd source)) (\<lambda>shown.
         bind (wrapf ''could not check existence of dir %q: %v'' [mountPath] (h_path_exists H mountPath)) (\<lambda>exist.
         bind (if exist then ret () else wrapf ''could not create dir %q: %v'' [mountPath] (h_mkdir_all H mountPath 493)) (\<lambda>_.
         bind (wrapf ''could not check existence of dir %q: %v'' [mountPath] (h_is_likely_not_mount_point H mountPath)) (\<lambda>notMounted.
         bind (if notMounted then ret () else h_unmount H mountPath) (\<lambda>_.
           after (\<lambda>w. snd (h_command H CeMountPath mountArgs ((''JFS_FOREGROUND'', ''1'') # extraEnvs) w))
             (bind (wait_root H mount_ready_rounds mountPath) (\<lambda>ready.
                if ready then ret ()
                else fail (Errorf ''mount %v at %v failed: mount isn't ready in 30 seconds'' [shown, mountPath]))))))))))"

text \<open>Making the directory of a volume, shared with jfs.CreateVol of juicefs.go.\<close>

definition make_volume_dir :: "'w host \<Rightarrow> string \<Rightarrow> ('w, unit) io" where
  "make_volume_dir H volPath =
     bind (wrapf ''could not check volume path %q exists: %v'' [volPath] (h_path_exists H volPath)) (\<lambda>exists.
       if exists then ret ()
       else
         bind (wrapf ''could not make directory for meta %q: %v'' [volPath] (h_mkdir_all H volPath 511)) (\<lambda>_.
         bind (wrapf ''could not stat directory %s: %q'' [volPath] (h_stat H volPath)) (\<lambda>fi.
           if fiPerm fi \<noteq> 511 then wrapf ''could not chmod directory %s: %q'' [volPath] (h_chmod H volPath 511)
           else ret ())))"

definition Process_JCreateVolume :: "'w host \<Rightarrow> JfsSetting \<Rightarrow> ('w, unit) io" where
  "Process_JCreateVolume H s =
     bind (wrapf ''could not mount juicefs: %v'' []
       (jmount H (sSource s) (sMountPath s) (sStorage s) (StripReadonlyOption (sOptions s)) (sEnvs s))) (\<lambda>_.
     bind (make_volume_dir H (path_Join [sMountPath s, sSubPath s])) (\<lambda>_.
       wrapf ''could not unmount %q: %v'' [sMountPath s] (h_unmount H (sMountPath s))))"

definition RmrDir :: "'w host \<Rightarrow> string \<Rightarrow> bool \<Rightarrow> 'w \<Rightarrow> (string \<times> err option) \<times> 'w" where
  "RmrDir H directory isCeMount = h_command H (if isCeMount then CeCliPath else CliPath) [''rmr'', directory] []"

definition Process_JDeleteVolume :: "'w host \<Rightarrow> JfsSetting \<Rightarrow> ('w, unit) io" where
  "Process_JDeleteVolume H s =
     (let volPath = path_Join [sMountPath s, sSubPath s] in
      bind (wrapf ''could not mount juicefs: %v'' []
        (jmount H (sSource s) (sMountPath s) (sStorage s) (sOptions s) (sEnvs s))) (\<lambda>_.
      bind (wrapf ''could not check volume path %q exists: %v'' [volPath] (h_path_exists H volPath)) (\<lambda>existed.
      bind (if existed then (\<lambda>w. case RmrDir H volPath (sIsCe s) w of
                ((out, Some e), w') \<Rightarrow> (Inl (Errorf ''could not delete volume path %q: %v'' [volPath]), w')
              | ((out, None), w') \<Rightarrow> (Inr (), w')) else ret ()) (\<lambda>_.
        wrapf ''could not unmount volume %q: %v'' [sSubPath s] (h_unmount H (sMountPath s))))))"

definition Process_JMount :: "'w host \<Rightarrow> AppInfo option \<Rightarrow> JfsSetting \<Rightarrow> ('w, unit) io" where
  "Process_JMount H appInfo s =
     bind (if sSubPath s \<noteq> [] \<and> (ContainsString (sOptions s) ''read-only'' \<or> ContainsString (sOptions s) ''ro'')
           then Process_JCreateVolume H s else ret ()) (\<lambda>_.
       jmount H (sSource s) (sMountPath s) (sStorage s) (sOptions s) (sEnvs s))"

section \<open>References and unmounting\<close>

text \<open>
  The part that GetMountRef and JUmount share: None when there is nothing to unmount, else
  the mount points of the same device.
\<close>

definition device_refs :: "'w host \<Rightarrow> string \<Rightarrow> ('w, string list option) io" where
  "device_refs H target =
     (let refs = (\<lambda>corrupted. bind (wrapf ''fail to get mount device refs: %q'' [] (GetMountDeviceRefs H target corrupted))
                     (\<lambda>rs. ret (Some rs)))
      in tryE (h_path_exists H target)
           (\<lambda>e. if e \<noteq> Corrupted then fail (Errorf ''check path %s failed: %q'' [target]) else refs True)
           (\<lambda>exists. if \<not> exists then ret None
              else bind (wrapf ''check target path is mountpoint failed: %q'' [] (h_is_not_mount_point H target)) (\<lambda>notMnt.
                if notMnt then ret None else refs False)))"

definition Process_GetMountRef :: "'w host \<Rightarrow> string \<Rightarrow> ('w, nat) io" where
  "Process_GetMountRef H target =
     bind (device_refs H target) (\<lambda>r. ret (case r of None \<Rightarrow> 0 | Some rs \<Rightarrow> length rs))"

definition Process_UmountTarget :: "'w host \<Rightarrow> string \<Rightarrow> ('w, unit) io" where
  "Process_UmountTarget H target = ret ()"

definition Process_JUmount :: "'w host \<Rightarrow> string \<Rightarrow> ('w, unit) io" where
  "Process_JUmount H target =
     bind (device_refs H target) (\<lambda>r. case r of None \<Rightarrow> ret ()
       | Some refs \<Rightarrow>
           bind (wrapf ''could not unmount %q: %v'' [target] (h_unmount H target)) (\<lambda>_.
             if length refs = 1 then h_unmount H (refs ! 0) else ret ()))"

definition Process_AddRefOfMount :: "string \<Rightarrow> string \<Rightarrow> ('w, unit) io" where
  "Process_AddRefOfMount target podName = fail (Panic ''implement me'')"

fun Process_CleanCache :: "'w host \<Rightarrow> string \<Rightarrow> string list \<Rightarrow> ('w, unit) io" where
  "Process_CleanCache H i [] = ret ()"
| "Process_CleanCache H i (cacheDir # cacheDirs) =
     (let rawPath = path_Join [cacheDir, i, ''raw'', ''chunks''] in
      bind (h_path_exists H rawPath) (\<lambda>existed.
      bind (if existed then h_remove_all H rawPath else ret ()) (\<lambda>_.
        Process_CleanCache H i cacheDirs)))"

section \<open>The mount table of the node\<close>

text \<open>
  What the kernel promises of the mount table: reading the file shows it, queries keep it
  and an unmount removes the topmost entry of its path.
\<close>

definition table_law :: "'w host \<Rightarrow> ('w \<Rightarrow> mountInfo list) \<Rightarrow> bool" where
  "table_law H table \<longleftrightarrow>
     (\<forall>w. \<exists>c. h_read_file H procMountInfoPath w = (Inr c, w) \<and> parse_mount_lines (Split CHR 0x0A c) = Inr (table w))
     \<and> (\<forall>p w. table (snd (h_path_exists H p w)) = table w)
     \<and> (\<forall>p w. table (snd (h_is_not_mount_point H p w)) = table w)
     \<and> (\<forall>p w. table (snd (h_eval_symlinks H p w)) = table w)
     \<and> (\<forall>p w w'. h_unmount H p w = (Inr (), w') \<longrightarrow>
          (\<exists>a m b. table w = a @ m # b \<and> mi_mountPoint m = p \<and> p \<notin> mi_mountPoint ` set b \<and> table w' = a @ b))"

definition same_device :: "mountInfo \<Rightarrow> mountInfo \<Rightarrow> bool" where
  "same_device m mi = (mi_majorMinor mi = mi_majorMinor m \<and> mi_fsType mi = mi_fsType m)"

lemma parseMountInfo_table:
  assumes "table_law H table"
  shows "parseMountInfo H procMountInfoPath w = (Inr (table w), w)"
proof -
  obtain c where "h_read_file H procMountInfoPath w = (Inr c, w)" "parse_mount_lines (Split CHR 0x0A c) = Inr (table w)"
    using assms unfolding table_law_def by blast
  then show ?thesis
    by (simp add: parseMountInfo_def ConsistentRead_def maxListTries_def numeral_3_eq_3 bind_eq ret_def lift_res_def)
qed

lemma GetMountDeviceRefs_table:
  assumes "table_law H table" "GetMountDeviceRefs H t corrupted w = (Inr rs, w')"
  shows "table w' = table w \<and> (\<exists>real. search_refs real (table w) = Inr rs \<and> (corrupted \<or> h_eval_symlinks H t w = (Inr real, w')))"
proof -
  have k: "h_eval_symlinks H p w = (r, w1) \<Longrightarrow> table w1 = table w" for p r w1
    using assms(1) unfolding table_law_def by (metis snd_conv)
  from assms(2) obtain real where "search_refs real (table w') = Inr rs" "table w' = table w"
    "corrupted \<or> h_eval_symlinks H t w = (Inr real, w')"
    by (auto simp: GetMountDeviceRefs_def bind_eq searchMountPoints_def parseMountInfo_table [OF assms(1)] ret_def lift_res_def Let_def
        split: prod.splits sum.splits if_splits dest: k)
  then show ?thesis by auto
qed

lemma wrapf_Inr: "wrapf fmt args m w = (Inr x, w') \<longleftrightarrow> m w = (Inr x, w')"
  by (auto simp: wrapf_def go_step split: prod.splits sum.splits err.splits)

lemma search_refs_entry:
  assumes "search_refs t (a @ m # b) = Inr rs" "mi_mountPoint m = t" "distinct (map mi_mountPoint (a @ m # b))"
    and "covering_mount t (a @ m # b) = Some m" "distinct (map mi_id (a @ m # b))"
  shows "rs = map mi_mountPoint (filter (same_device m) (a @ b))"
proof -
  have "rs = map mi_mountPoint (filter (\<lambda>mi. mi_id mi \<noteq> mi_id m \<and> mi_majorMinor mi = mi_majorMinor m \<and> mi_fsType mi = mi_fsType m) (a @ m # b))"
    using assms(1,4) by (auto simp: search_refs_def Let_def split: if_splits)
  moreover have "filter (\<lambda>mi. mi_id mi \<noteq> mi_id m \<and> mi_majorMinor mi = mi_majorMinor m \<and> mi_fsType mi = mi_fsType m) xs = filter (same_device m) xs"
    if "mi_id m \<notin> mi_id ` set xs" for xs
    by (intro filter_cong refl) (metis that image_eqI same_device_def)
  ultimately show ?thesis using assms(5) by simp
qed

lemma split_at_point:
  assumes "distinct (map mi_mountPoint (a @ m # b))" "a @ m # b = a' @ m' # b'" "mi_mountPoint m' = mi_mountPoint m"
  shows "a' = a \<and> m' = m \<and> b' = b"
proof -
  have "m' = m"
    using assms(2,3) inj_onD [OF iffD1 [OF distinct_map, THEN conjunct2, OF assms(1)], of m m'] by (metis in_set_conv_decomp)
  moreover have "m \<notin> set a" "m \<notin> set b" using assms(1) by auto
  ultimately show ?thesis using assms(2) by (metis append_Cons_eq_iff)
qed


text \<open>A node with a file system at /a and one target at /b, for the witness.\<close>

definition line_a :: string where "line_a = ''1 0 0:50 / /a rw x - fuse s rw''"
definition line_b :: string where "line_b = ''2 0 0:50 / /b rw x - fuse s rw''"

definition two_mounts :: "bool \<times> bool \<Rightarrow> string list" where
  "two_mounts w = (if fst w then [line_a] else []) @ (if snd w then [line_b] else [])"

definition mounts_host :: "(bool \<times> bool) host" where
  "mounts_host = idle_host
     \<lparr>h_read_file := \<lambda>_ w. (Inr (Join (two_mounts w) [CHR 0x0A]), w), h_path_exists := \<lambda>_. ret True,
      h_is_not_mount_point := \<lambda>_. ret False, h_eval_symlinks := ret,
      h_unmount := \<lambda>p w. if p = ''/a'' \<and> fst w then (Inr (), (False, snd w))
        else if p = ''/b'' \<and> snd w then (Inr (), (fst w, False)) else (Inl (OtherError ''not mounted''), w)\<rparr>"

definition mount_a :: mountInfo where
  "mount_a = \<lparr>mi_id = 1, mi_parentID = 0, mi_majorMinor = ''0:50'', mi_root = ''/'', mi_source = ''s'', mi_mountPoint = ''/a'',
     mi_optionalFields = [''x''], mi_fsType = ''fuse'', mi_mountOptions = [''rw''], mi_superOptions = [''rw'']\<rparr>"

definition mount_b :: mountInfo where "mount_b = mount_a\<lparr>mi_id := 2, mi_mountPoint := ''/b''\<rparr>"

definition two_table :: "bool \<times> bool \<Rightarrow> mountInfo list" where
  "two_table w = (if fst w then [mount_a] else []) @ (if snd w then [mount_b] else [])"

lemma two_table_read: "parse_mount_lines (Split CHR 0x0A (Join (two_mounts (x, y)) [CHR 0x0A])) = Inr (two_table (x, y))"
proof (cases x; cases y)
  assume "x" "y" then show ?thesis by (simp only:) code_simp
next
  assume "x" "\<not> y" then show ?thesis by (simp only: not_True_eq_False eq_False) code_simp
next
  assume "\<not> x" "y" then show ?thesis by (simp only: eq_False) code_simp
next
  assume "\<not> x" "\<not> y" then show ?thesis by (simp only: eq_False) code_simp
qed

lemma mounts_host_law: "table_law mounts_host two_table"
proof -
  have "\<exists>c. h_read_file mounts_host procMountInfoPath w = (Inr c, w) \<and> parse_mount_lines (Split CHR 0x0A c) = Inr (two_table w)" for w
    using two_table_read [of "fst w" "snd w"] by (simp add: mounts_host_def)
  moreover have "\<exists>a m b. two_table w = a @ m # b \<and> mi_mountPoint m = p \<and> p \<notin> mi_mountPoint ` set b \<and> two_table w' = a @ b"
    if "h_unmount mounts_host p w = (Inr (), w')" for p w w'
  proof -
    have "(p = ''/a'' \<and> fst w \<and> w' = (False, snd w)) \<or> (p = ''/b'' \<and> snd w \<and> w' = (fst w, False))"
      using that by (auto simp: mounts_host_def split: if_splits)
    then show ?thesis
    proof
      assume "p = ''/a'' \<and> fst w \<and> w' = (False, snd w)"
      then show ?thesis
        by (intro exI [of _ "[]"] exI [of _ mount_a] exI [of _ "if snd w then [mount_b] else []"])
          (cases "snd w"; simp add: two_table_def mount_a_def mount_b_def)
    next
      assume "p = ''/b'' \<and> snd w \<and> w' = (fst w, False)"
      then show ?thesis
        by (intro exI [of _ "if fst w then [mount_a] else []"] exI [of _ mount_b] exI [of _ "[]"])
          (simp add: two_table_def mount_a_def mount_b_def)
    qed
  qed
  ultimately show ?thesis by (simp add: table_law_def) (simp add: mounts_host_def ret_def)
qed


end
