(* ===== verification/JuiceFS.thy ===== *)
theory JuiceFS
  imports ProcessMount
begin

text \<open>
  The provider of src/pkg/juicefs/juicefs.go: volume settings, format and auth commands,
  mounting, binding, unmounting, quotas and versions. Goroutines started and not awaited run
  at the point where they are started; a select between a result and a context is decided
  by the context error of the world after the command.
\<close>

section \<open>Sizes (util.ParseToBytes)\<close>

text \<open>
  A float64: the finite value \<open>m * 2 ^ e\<close>, the infinities and NaN. strconv.ParseFloat rounds
  to the nearest float64 and is a parameter, and so is the conversion to uint64 of a value
  out of range, which the language leaves to the implementation.
\<close>

datatype float64 = Fin int int | Inf bool | NaN

record jfs_lib = setting_lib +
  l_parse_float :: "string \<Rightarrow> float64 option"
  l_uint64_out_of_range :: "float64 \<Rightarrow> 64 word"

definition float_scale :: "nat \<Rightarrow> float64 \<Rightarrow> float64" where
  "float_scale shift v = (case v of
     Fin m e \<Rightarrow> if (1024 \<le> e + int shift \<and> m \<noteq> 0) \<or> (0 \<le> e + int shift \<and> e + int shift < 1024 \<and> \<bar>m\<bar> * 2 ^ nat (e + int shift) \<ge> 2 ^ 1024)
               then Inf (0 < m) else Fin m (e + int shift)
   | _ \<Rightarrow> v)"

definition float_trunc :: "int \<Rightarrow> int \<Rightarrow> int" where
  "float_trunc m e = (if 0 \<le> e then m * 2 ^ nat e else sgn m * (\<bar>m\<bar> div 2 ^ nat (- e)))"

definition float_to_uint64 :: "'x jfs_lib_scheme \<Rightarrow> float64 \<Rightarrow> 64 word" where
  "float_to_uint64 L v = (case v of
     Fin m e \<Rightarrow> if 0 \<le> float_trunc m e \<and> float_trunc m e < 2 ^ 64 then word_of_int (float_trunc m e) else l_uint64_out_of_range L v
   | _ \<Rightarrow> l_uint64_out_of_range L v)"

definition unit_shift :: "char \<Rightarrow> nat option" where
  "unit_shift c =
     (if c \<in> {CHR ''k'', CHR ''K''} then Some 10 else if c \<in> {CHR ''m'', CHR ''M''} then Some 20
      else if c \<in> {CHR ''g'', CHR ''G''} then Some 30 else if c \<in> {CHR ''t'', CHR ''T''} then Some 40
      else if c \<in> {CHR ''p'', CHR ''P''} then Some 50 else if c \<in> {CHR ''e'', CHR ''E''} then Some 60 else None)"

definition ParseToBytes :: "'x jfs_lib_scheme \<Rightarrow> string \<Rightarrow> 64 word res" where
  "ParseToBytes L v =
     (if v = [] then Inr 0
      else (let (u, s) = (if is_digit (last v) then (CHR ''M'', v) else (last v, butlast v)) in
        case l_parse_float L s of None \<Rightarrow> Inl (Errorf ''cannot parse %s to bytes'' [v])
        | Some x \<Rightarrow> (case unit_shift u of None \<Rightarrow> Inl (Errorf ''cannot parse %s to bytes, invalid unit'' [v])
            | Some shift \<Rightarrow> Inr (float_to_uint64 L (float_scale shift x)))))"

section \<open>Versions\<close>

record clientVersion =
  vMajor :: int
  vMinor :: int
  vPatch :: int
  vTag :: string

text \<open>
  The groups of the regular expression \<open>^(\d+)\.(\d+)\.(\d+)(?:[+-](.+))?$\<close>; without flags the
  dot matches no newline and the dollar only the end of the text.
\<close>

definition match_version :: "string \<Rightarrow> (string \<times> string \<times> string \<times> string) option" where
  "match_version s =
     (let (a, r1) = (takeWhile is_digit s, dropWhile is_digit s);
          (b, r2) = (takeWhile is_digit (tl r1), dropWhile is_digit (tl r1));
          (c, r3) = (takeWhile is_digit (tl r2), dropWhile is_digit (tl r2))
      in if a = [] \<or> r1 = [] \<or> hd r1 \<noteq> CHR ''.'' \<or> b = [] \<or> r2 = [] \<or> hd r2 \<noteq> CHR ''.'' \<or> c = [] then None
         else if r3 = [] then Some (a, b, c, [])
         else if hd r3 \<in> {CHR ''+'', CHR ''-''} \<and> tl r3 \<noteq> [] \<and> nl \<notin> set (tl r3) then Some (a, b, c, tl r3)
         else None)"

definition parseVersion :: "string \<Rightarrow> clientVersion res" where
  "parseVersion version =
     (case match_version (TrimSpace version) of
        None \<Rightarrow> Inl (Errorf ''invalid version string: %s'' [version])
      | Some (a, b, c, t) \<Rightarrow>
          (case Atoi a of None \<Rightarrow> Inl (Errorf ''invalid major version: %s'' [a]) | Some major \<Rightarrow>
          (case Atoi b of None \<Rightarrow> Inl (Errorf ''invalid minor version: %s'' [b]) | Some minor \<Rightarrow>
          (case Atoi c of None \<Rightarrow> Inl (Errorf ''invalid patch version: %s'' [c]) | Some patch \<Rightarrow>
             Inr \<lparr>vMajor = major, vMinor = minor, vPatch = patch, vTag = t\<rparr>))))"

definition parseRawVersion :: "string \<Rightarrow> clientVersion res" where
  "parseRawVersion rawVersion =
     (let parts = Split CHR '' '' rawVersion in
      if length parts < 3 then Inl (Errorf ''invalid version string: %s'' [rawVersion]) else parseVersion (parts ! 2))"

definition version_String :: "clientVersion \<Rightarrow> string" where
  "version_String v =
     FormatInt (vMajor v) @ ''.'' @ FormatInt (vMinor v) @ ''.'' @ FormatInt (vPatch v) @ (if vTag v \<noteq> [] then ''-'' @ vTag v else [])"

definition Approximate :: "clientVersion \<Rightarrow> clientVersion \<Rightarrow> bool" where
  "Approximate v other = (vMajor v = vMajor other \<and> vMinor v = vMinor other \<and> vPatch v = vPatch other)"

definition LessThan :: "clientVersion \<Rightarrow> clientVersion \<Rightarrow> bool" where
  "LessThan v other =
     (if vMajor v < vMajor other then True else if vMajor v > vMajor other then False
      else if vMinor v < vMinor other then True else if vMinor v > vMinor other then False
      else vPatch v < vPatch other)"

section \<open>The provider\<close>

text \<open>
  The struct \<open>juicefs\<close>: its client, which may be nil, the maps it keeps for process mounts as
  parts of the world, the environment, the kubelet client of ParseAppInfo, and the bound of
  the unmount loop.
\<close>

record 'w juicefs =
  j_client :: "'w K8sClient option"
  j_env :: "string \<Rightarrow> string option"
  j_UUIDMaps :: "'w \<Rightarrow> smap"
  j_set_UUIDMaps :: "smap \<Rightarrow> 'w \<Rightarrow> 'w"
  j_CacheDirMaps :: "'w \<Rightarrow> (string \<times> string list) list"
  j_set_CacheDirMaps :: "(string \<times> string list) list \<Rightarrow> 'w \<Rightarrow> 'w"
  j_kubelet :: "string \<Rightarrow> int \<Rightarrow> ('w, unit) io"
  j_fuel :: nat

definition with_client :: "'w juicefs \<Rightarrow> ('w K8sClient \<Rightarrow> ('w, 'a) io) \<Rightarrow> ('w, 'a) io" where
  "with_client J f = (case j_client J of None \<Rightarrow> fail (Panic ''nil pointer dereference'') | Some K \<Rightarrow> f K)"

record jfs =
  jfName :: string
  jfMountPath :: string
  jfOptions :: "string list"
  jfSetting :: JfsSetting

definition CreateVol :: "'w host \<Rightarrow> jfs \<Rightarrow> string \<Rightarrow> ('w, string) io" where
  "CreateVol H fs subPath =
     (let volPath = path_Join [jfMountPath fs, subPath] in
      bind (make_volume_dir H volPath) (\<lambda>_. ret volPath))"

text \<open>
  The address taken of the loop variable is the same in every round (the module is built
  with Go 1.19), so after the loop it shows the last entry of the table.
\<close>

definition BindTarget :: "'w host \<Rightarrow> jfs \<Rightarrow> string \<Rightarrow> string \<Rightarrow> ('w, unit) io" where
  "BindTarget H fs bindSource target =
     bind (h_mount_infos H) (\<lambda>mountInfos.
       let mountMinor = foldl (\<lambda>m mi. if miMountPoint mi = jfMountPath fs then Some (miMinor mi) else m) None mountInfos;
           targetMinor = (if list_ex (\<lambda>mi. miMountPoint mi = target) mountInfos then Some (miMinor (last mountInfos)) else None);
           bind_it = tryE (h_mount H bindSource target ''none'' [''bind''])
             (\<lambda>e. bind (ignore_err (h_remove H target)) (\<lambda>_. fail e)) ret
       in case mountMinor of None \<Rightarrow> fail (Errorf ''BindTarget: mountPath %s not mounted'' [jfMountPath fs])
          | Some mm \<Rightarrow> (case targetMinor of None \<Rightarrow> bind_it
              | Some tm \<Rightarrow> if tm = mm then ret () else bind (UmountPath H target) (\<lambda>_. bind_it)))"

section \<open>Commands\<close>

text \<open>A command with its output; a context past its deadline gives the timeout message.\<close>

definition run_command :: "'w host \<Rightarrow> string \<Rightarrow> string \<Rightarrow> string list \<Rightarrow> smap \<Rightarrow> ('w, string) io" where
  "run_command H timeout_msg path args envs = (\<lambda>w.
     case h_command H path args envs w of
       ((res, None), w') \<Rightarrow> (Inr res, w')
     | ((res, Some e), w') \<Rightarrow>
         if h_ctx_err H w' = Some DeadlineExceeded then (Inl (Errorf timeout_msg []), w')
         else (Inl (Errorf ''%s: %v'' [res]), w'))"

definition escaped_envs :: "smap \<Rightarrow> smap" where
  "escaped_envs envs = map (\<lambda>(k, v). (EscapeBashStr k, EscapeBashStr v)) envs"

definition compat_keys :: "(string \<times> string) list" where
  "compat_keys = [(''accesskey'', ''access-key''), (''accesskey2'', ''access-key2''),
     (''secretkey'', ''secret-key''), (''secretkey2'', ''secret-key2'')]"

definition transform_keys :: "smap \<Rightarrow> smap" where
  "transform_keys secrets = fold (\<lambda>(compatible, real) m.
     case map_of m compatible of None \<Rightarrow> m | Some v \<Rightarrow> mdel compatible (mput real v m)) compat_keys secrets"

definition flag :: "string \<Rightarrow> string \<Rightarrow> string" where
  "flag k v = ''--'' @ k @ ''='' @ v"

definition plain_flags :: "string list \<Rightarrow> smap \<Rightarrow> string list" where
  "plain_flags keys secrets = map (\<lambda>k. flag k (EscapeBashStr (mget secrets k))) (filter (\<lambda>k. mget secrets k \<noteq> []) keys)"

text \<open>A stripped key shows the name of the environment variable that holds its value.\<close>

definition stripped_flags :: "(string \<times> string) list \<Rightarrow> smap \<Rightarrow> string list" where
  "stripped_flags keys secrets =
     map (\<lambda>(k, var). flag k (''${'' @ var @ ''}'')) (filter (\<lambda>(k, _). mget secrets k \<noteq> []) keys)"

definition format_option_flags :: "JfsSetting \<Rightarrow> (string list \<times> string list) res" where
  "format_option_flags s =
     (if sFormatOptions s = [] then Inr ([], [])
      else (case ParseFormatOptions s of
        Inl _ \<Rightarrow> Inl (GrpcStatus ''InvalidArgument'' ''Parse format options error: %v'')
      | Inr options \<Rightarrow> Inr (RepresentFormatOptions options, StripFormatOptions options [''session-token''])))"

definition auth_keys :: "string list" where
  "auth_keys = [''access-key'', ''access-key2'', ''bucket'', ''bucket2'', ''subdir'']"

definition auth_stripped :: "(string \<times> string) list" where
  "auth_stripped = [(''token'', ''token''), (''secret-key'', ''secretkey''), (''secret-key2'', ''secretkey2''), (''passphrase'', ''passphrase'')]"

definition AuthFs ::
  "globals \<Rightarrow> 'w host \<Rightarrow> 'w juicefs \<Rightarrow> smap option \<Rightarrow> JfsSetting \<Rightarrow> bool \<Rightarrow> ('w, string) io" where
  "AuthFs G H J secrets s force =
     (case secrets of None \<Rightarrow> fail (GrpcStatus ''InvalidArgument'' ''Nil secrets'')
      | Some sec0 \<Rightarrow>
        if mget sec0 ''name'' = [] then fail (GrpcStatus ''InvalidArgument'' ''Empty name'')
        else
          (let sec = transform_keys sec0;
               name = EscapeBashStr (mget sec0 ''name'');
               noUpdate = (j_env J ''JFS_NO_UPDATE_CONFIG'' = Some ''enabled'');
               upd = (if noUpdate then [''--no-update''] else []);
               conf = (if sClientConfPath s \<noteq> [] then [''--conf-dir='' @ sClientConfPath s] else []);
               confPath = path_Join [sClientConfPath s, mget sec ''name'' @ ''.conf'']
           in
           if noUpdate \<and> mget sec ''bucket'' = [] then
             fail (Errorf ''bucket argument is required when --no-update option is provided'' [])
           else
             bind (if noUpdate \<and> ByProcess G \<and> mget sec ''initconfig'' \<noteq> [] then
                     tryE (h_stat H confPath)
                       (\<lambda>e. if e = NotExist then
                              tryE (h_write_file H confPath (mget sec ''initconfig''))
                                (\<lambda>_. fail (Errorf ''create config file %q failed: %v'' [confPath])) ret
                            else ret ())
                       (\<lambda>_. ret ())
                   else ret ()) (\<lambda>_.
             bind (lift_res (format_option_flags s)) (\<lambda>(shown, stripped).
               if \<not> force \<and> \<not> ByProcess G then
                 ret (Join ([CliPath, ''auth'', name] @ plain_flags auth_keys sec @ stripped_flags auth_stripped sec
                   @ upd @ stripped @ conf) '' '')
               else
                 run_command H ''juicefs auth %s timed out'' CliPath
                   ([''auth'', name] @ plain_flags auth_keys sec @ plain_flags (map fst auth_stripped) sec @ upd @ shown @ conf)
                   (escaped_envs (sEnvs s) @ [(''JFS_NO_CHECK_OBJECT_STORAGE'', ''1'')])))))"

definition format_keys :: "string list" where
  "format_keys = [''storage'', ''bucket'', ''access-key'', ''block-size'', ''compress'', ''trash-days'', ''capacity'', ''inodes'', ''shards'']"

definition format_stripped :: "(string \<times> string) list" where
  "format_stripped = [(''secret-key'', ''secretkey'')]"

definition ceFormat ::
  "globals \<Rightarrow> 'w host \<Rightarrow> smap option \<Rightarrow> bool \<Rightarrow> JfsSetting \<Rightarrow> ('w, string) io" where
  "ceFormat G H secrets noUpdate s =
     (case secrets of None \<Rightarrow> fail (GrpcStatus ''InvalidArgument'' ''Nil secrets'')
      | Some sec \<Rightarrow>
        if mget sec ''name'' = [] then fail (GrpcStatus ''InvalidArgument'' ''Empty name'')
        else if mget sec ''metaurl'' = [] then fail (GrpcStatus ''InvalidArgument'' ''Empty metaurl'')
        else
          (let upd = (if noUpdate then [''--no-update''] else []) in
           bind (lift_res (format_option_flags s)) (\<lambda>(shown, stripped).
             if \<not> ByProcess G then
               ret (Join ([CeCliPath, ''format''] @ upd @ plain_flags format_keys sec @ stripped_flags format_stripped sec
                 @ [''${metaurl}'', mget sec ''name''] @ stripped) '' '')
             else
               run_command H ''juicefs format %s timed out'' CeCliPath
                 ([''format''] @ upd @ plain_flags format_keys sec @ plain_flags (map fst format_stripped) sec
                   @ [EscapeBashStr (mget sec ''metaurl''), EscapeBashStr (mget sec ''name'')] @ shown)
                 (escaped_envs (sEnvs s)
                   @ (if mget sec ''storage'' = ''ceph'' \<or> mget sec ''storage'' = ''gs'' then [(''JFS_NO_CHECK_OBJECT_STORAGE'', ''1'')] else [])))))"

definition juicefs_GetJfsVolUUID :: "'w host \<Rightarrow> string \<Rightarrow> ('w, string) io" where
  "juicefs_GetJfsVolUUID H name = (\<lambda>w.
     case h_command H CeCliPath [''status'', name] [] w of
       ((stdout, Some e), w') \<Rightarrow>
         if Contains stdout ''database is not formatted'' then (Inr [], w')
         else if h_ctx_err H w' = Some DeadlineExceeded then (Inl (Errorf ''juicefs status %s timed out'' []), w')
         else (Inl (Errorf ''%s: %v'' [stdout]), w')
     | ((stdout, None), w') \<Rightarrow>
         (case find_uuid stdout of
            None \<Rightarrow> (Inl (Errorf ''get uuid of %s error'' [name]), w')
          | Some uuid \<Rightarrow> (Inr uuid, w')))"

definition wrapSetQuotaErr :: "string \<Rightarrow> err option \<Rightarrow> unit res" where
  "wrapSetQuotaErr res e = (case e of None \<Rightarrow> Inr ()
     | Some x \<Rightarrow> if Contains res ''invalid command: quota'' \<or> Contains res (''No help topic for '' @ [CHR 0x27] @ ''quota'' @ [CHR 0x27])
                then Inr () else Inl (Errorf ''%s: %v'' [res]))"

definition wrapStatusErr :: "string \<Rightarrow> err option \<Rightarrow> unit res" where
  "wrapStatusErr res e = (case e of None \<Rightarrow> Inr ()
     | Some x \<Rightarrow> if Contains res ''database is not formatted'' then Inr () else Inl (Errorf ''%s: %v'' [res]))"

text \<open>
  For a capacity below zero the quotient of Go is rounded to zero and the one here down;
  both are refused.
\<close>

definition SetQuota ::
  "globals \<Rightarrow> 'w host \<Rightarrow> 'w juicefs \<Rightarrow> smap option \<Rightarrow> JfsSetting \<Rightarrow> string \<Rightarrow> int \<Rightarrow> ('w, unit) io" where
  "SetQuota G H J secrets s quotaPath capacity =
     (let cap = capacity div 1024 div 1024 div 1024; sec = omap secrets;
          tail = [''--path'', quotaPath, ''--capacity'', FormatInt cap];
          envs = escaped_envs (sEnvs s)
      in if cap \<le> 0 then fail (Errorf ''capacity %d is too small, at least 1GiB for quota'' [FormatInt capacity])
         else if \<not> sIsCe s then
           tryE (AuthFs G H J secrets s True) (\<lambda>e. case e of Panic _ \<Rightarrow> fail e | _ \<Rightarrow> fail (Errorf ''%s: %v'' [])) (\<lambda>_ w.
             case h_command H CliPath ([''quota'', ''set'', mget sec ''name''] @ tail) envs w of
               ((res, e), w') \<Rightarrow> (wrapSetQuotaErr res e, w'))
         else (\<lambda>w. case h_command H CeCliPath ([''quota'', ''set'', mget sec ''metaurl''] @ tail) envs w of
               ((res, e), w') \<Rightarrow> if h_ctx_err H w' \<noteq> None then (Inr (), w') else (wrapSetQuotaErr res e, w')))"

definition juicefs_Status :: "'w host \<Rightarrow> string \<Rightarrow> ('w, unit) io" where
  "juicefs_Status H metaUrl = (\<lambda>w. case h_command H CeCliPath [''status'', metaUrl] [] w of
     ((res, e), w') \<Rightarrow> if h_ctx_err H w' \<noteq> None then (Inl (Errorf ''juicefs status %s timed out'' []), w')
       else (wrapStatusErr res e, w'))"

definition client_version :: "'w host \<Rightarrow> JfsSetting \<Rightarrow> ('w, clientVersion) io" where
  "client_version H s = (\<lambda>w. case h_command H (if sIsCe s then CeCliPath else CliPath) [''version''] [] w of
     ((res, Some e), w') \<Rightarrow> (Inl (Errorf ''%s: %v'' [res]), w')
   | ((res, None), w') \<Rightarrow> (parseRawVersion res, w'))"

definition Upgrade :: "'w host \<Rightarrow> 'w juicefs \<Rightarrow> ('w, unit) io" where
  "Upgrade H J = (if j_env J ''JFS_AUTO_UPGRADE'' \<noteq> Some ''enabled'' then ret ()
     else (\<lambda>w. (Inr (), snd (h_command H CliPath [''version'', ''-u''] [] w))))"

section \<open>Targets and options\<close>

definition kubelet_dir :: "globals \<Rightarrow> string res" where
  "kubelet_dir G = (case find (\<lambda>v. vName v = ''kubelet-dir'') (psVolumes (pSpec (CSIPod G))) of
     None \<Rightarrow> Inr ''/var/lib/kubelet''
   | Some v \<Rightarrow> (case vSource v of HostPath p _ \<Rightarrow> Inr p | _ \<Rightarrow> Inl (Panic ''nil pointer dereference'')))"

definition validTarget :: "globals \<Rightarrow> string \<Rightarrow> unit res" where
  "validTarget G target =
     (if Contains target ''../'' \<or> Contains target ''/..'' \<or> Contains target ''..''
      then Inl (Errorf ''Path %s has illegal access.'' [target])
      else if Contains target ''./'' \<or> Contains target ''/.'' then Inl (Errorf ''Path %s has illegal access.'' [target])
      else if ByProcess G then Inr ()
      else bind_res (kubelet_dir G) (\<lambda>kubeletDir.
        let dirs = SplitStr ''/pods/'' [] target in
        if kubeletDir \<noteq> dirs ! 0 then
          Inl (Errorf ''target kubelet rootdir %s is not equal csi mounted kubelet root-dir %s'' [dirs ! 0, kubeletDir])
        else Inr ()))"

text \<open>The check of one mount option; the memory limit is compared as unsigned numbers of 64 bits.\<close>

definition valid_option :: "'x jfs_lib_scheme \<Rightarrow> smap \<Rightarrow> string \<Rightarrow> string res" where
  "valid_option L volCtx option =
     (let mountOption = TrimSpace option; ops = Split CHR ''='' mountOption in
      if length ops > 2 then Inl (Errorf ''invalid mount option: %s'' [mountOption])
      else
        (let mountOption' = (if length ops = 2 then TrimSpace (ops ! 0) @ ''='' @ TrimSpace (ops ! 1) else mountOption) in
         if length ops = 2 \<and> ops ! 0 = ''buffer-size'' then
           (let rs = mget volCtx MountPodMemLimitKey; rs' = (if rs = [] then DefaultMountPodMemLimit else rs) in
            case l_parse_quantity L rs' of Inl _ \<Rightarrow> Inl (Errorf ''invalid memory limit: %s'' [rs])
            | Inr memLimit \<Rightarrow> (case ParseToBytes L (ops ! 1) of Inl _ \<Rightarrow> Inl (Errorf ''invalid mount option: %s'' [mountOption'])
                | Inr bufferSize \<Rightarrow>
                    if (word_of_int (l_quantity_value L memLimit) :: 64 word) < bufferSize then
                      Inl (Errorf ''buffer-size %s MiB is greater than pod memory limit %s'' [ops ! 1])
                    else Inr mountOption'))
         else Inr mountOption'))"

fun validOptions :: "'x jfs_lib_scheme \<Rightarrow> smap \<Rightarrow> string list \<Rightarrow> string list res" where
  "validOptions L volCtx [] = Inr []"
| "validOptions L volCtx (option # options) =
     bind_res (valid_option L volCtx option) (\<lambda>opt.
     bind_res (validOptions L volCtx options) (\<lambda>opts. Inr (opt # opts)))"

section \<open>Settings\<close>

text \<open>The annotations of the claim that the driver owns overwrite the volume context.\<close>

definition overwrite_ctx :: "smap option \<Rightarrow> PersistentVolumeClaim option \<Rightarrow> smap option" where
  "overwrite_ctx volCtx pvc = (case pvc of None \<Rightarrow> volCtx
     | Some c \<Rightarrow> Some (mputs (filter (\<lambda>(k, _). HasPrefix k ''juicefs'') (omap (mAnnotations (pvcMeta c)))) (omap volCtx)))"

definition lookup_pv ::
  "'w juicefs \<Rightarrow> string \<Rightarrow> ('w, PersistentVolume option \<times> PersistentVolumeClaim option) io" where
  "lookup_pv J volumeID = (case j_client J of None \<Rightarrow> ret (None, None)
     | Some K \<Rightarrow> tryE (GetPersistentVolume K volumeID) (\<lambda>_. ret (None, None)) (\<lambda>pv.
         case pvClaimRef pv of None \<Rightarrow> fail (Panic ''nil pointer dereference'')
         | Some (name, ns) \<Rightarrow> tryE (GetPersistentVolumeClaim K name ns) (\<lambda>_. ret (Some pv, None)) (\<lambda>pvc. ret (Some pv, Some pvc))))"

definition fail_as :: "string \<Rightarrow> ('w, 'a) io \<Rightarrow> ('w, 'a) io" where
  "fail_as fmt m = wrapf fmt [] m"

definition juicefs_Settings ::
  "'x jfs_lib_scheme \<Rightarrow> globals \<Rightarrow> 'w host \<Rightarrow> 'w juicefs \<Rightarrow> string \<Rightarrow> smap option \<Rightarrow> smap option \<Rightarrow> string list \<Rightarrow> ('w, JfsSetting) io" where
  "juicefs_Settings L G H J volumeID secrets volCtx options =
     bind (lift_res (validOptions L (omap volCtx) options)) (\<lambda>mountOptions.
     bind (lookup_pv J volumeID) (\<lambda>(pv, pvc).
     bind (lift_res (ParseSetting L G secrets (overwrite_ctx volCtx pvc) mountOptions (\<not> ByProcess G) pv pvc)) (\<lambda>s0.
       let s = s0\<lparr>sVolumeId := volumeID\<rparr>; sec = omap secrets in
       if \<not> sIsCe s then
         bind (if mget sec ''token'' = [] then ret s
               else bind (fail_as ''juicefs auth error: %v'' (AuthFs G H J secrets s False)) (\<lambda>res. ret (s\<lparr>sFormatCmd := res\<rparr>))) (\<lambda>s1.
           ret (s1\<lparr>sUUID := mget sec ''name'', sInitConfig := mget sec ''initconfig''\<rparr>))
       else
         bind (fail_as ''juicefs format error: %v''
                 (ceFormat G H secrets (mget sec ''storage'' = [] \<or> mget sec ''bucket'' = []) s)) (\<lambda>res.
           ret (s\<lparr>sFormatCmd := res\<rparr>)))))"

definition getUniqueId :: "globals \<Rightarrow> 'w juicefs \<Rightarrow> string \<Rightarrow> ('w, string) io" where
  "getUniqueId G J volumeId =
     (if j_env J ''STORAGE_CLASS_SHARE_MOUNT'' = Some ''true'' \<and> \<not> ByProcess G then
        with_client J (\<lambda>K. tryE (GetPersistentVolume K volumeId)
          (\<lambda>e. if e = NotFound then ret volumeId else fail e)
          (\<lambda>pv. ret (if pvStorageClassName pv \<noteq> [] then pvStorageClassName pv else volumeId)))
      else ret volumeId)"

definition genJfsSettings ::
  "'x jfs_lib_scheme \<Rightarrow> globals \<Rightarrow> 'w host \<Rightarrow> 'w juicefs \<Rightarrow> string \<Rightarrow> string \<Rightarrow> smap option \<Rightarrow> smap option \<Rightarrow> string list \<Rightarrow> ('w, JfsSetting) io" where
  "genJfsSettings L G H J volumeID target secrets volCtx options =
     bind (juicefs_Settings L G H J volumeID secrets volCtx options) (\<lambda>s0.
     bind (getUniqueId G J volumeID) (\<lambda>uniqueId.
       let s = s0\<lparr>sTargetPath := target, sUniqueId := uniqueId\<rparr> in
       if sCleanCache s then
         bind (if sIsCe s then juicefs_GetJfsVolUUID H (sSource s) else ret (sName s)) (\<lambda>uuid.
           let s1 = s\<lparr>sUUID := uuid\<rparr> in
           (if ByProcess G then
              after (\<lambda>w. j_set_CacheDirMaps J (mput uniqueId (sCacheDirs s1) (j_CacheDirMaps J w))
                       (j_set_UUIDMaps J (mput uniqueId uuid (j_UUIDMaps J w)) w)) (ret s1)
            else ret s1))
       else ret s))"

section \<open>Mounting and volumes\<close>

definition MountFs ::
  "'x jfs_lib_scheme \<Rightarrow> globals \<Rightarrow> 'w host \<Rightarrow> 'w juicefs \<Rightarrow> AppInfo option \<Rightarrow> JfsSetting \<Rightarrow> ('w, JfsSetting) io" where
  "MountFs L G H J appInfo s =
     (if sUsePod s then
        with_client J (\<lambda>K. JMount L G H K appInfo (s\<lparr>sMountPath := path_Join [PodMountBase, sUniqueId s]\<rparr>))
      else (let s1 = s\<lparr>sMountPath := path_Join [MountBase, sUniqueId s]\<rparr> in
        bind (Process_JMount H appInfo s1) (\<lambda>_. ret s1)))"

definition JfsMount ::
  "'x jfs_lib_scheme \<Rightarrow> globals \<Rightarrow> 'w host \<Rightarrow> 'w juicefs \<Rightarrow> string \<Rightarrow> string \<Rightarrow> smap option \<Rightarrow> smap option \<Rightarrow> string list \<Rightarrow> ('w, jfs) io" where
  "JfsMount L G H J volumeID target secrets volCtx options =
     bind (lift_res (validTarget G target)) (\<lambda>_.
     bind (genJfsSettings L G H J volumeID target secrets volCtx options) (\<lambda>s.
     bind (ParseAppInfo G H (j_kubelet J) volCtx) (\<lambda>appInfo.
     bind (MountFs L G H J appInfo s) (\<lambda>s'.
     bind (lift_res (StripPasswd (sSource s'))) (\<lambda>_.
       ret \<lparr>jfName = mget (omap secrets) ''name'', jfMountPath = sMountPath s', jfOptions = options, jfSetting = s'\<rparr>)))))"

definition JfsCleanupMountPoint :: "'w host \<Rightarrow> string \<Rightarrow> ('w, unit) io" where
  "JfsCleanupMountPoint H mountPath = h_cleanup_mount_point H mountPath"

definition JfsCreateVol ::
  "'x jfs_lib_scheme \<Rightarrow> globals \<Rightarrow> 'w host \<Rightarrow> 'w juicefs \<Rightarrow> string \<Rightarrow> string \<Rightarrow> smap option \<Rightarrow> smap option \<Rightarrow> ('w, unit) io" where
  "JfsCreateVol L G H J volumeID subPath secrets volCtx =
     bind (genJfsSettings L G H J volumeID [] secrets volCtx []) (\<lambda>s0.
       let s = s0\<lparr>sSubPath := subPath, sMountPath := path_Join [TmpPodMountBase, sVolumeId s0]\<rparr> in
       if \<not> ByProcess G then with_client J (\<lambda>K. JCreateVolume L G H K s) else Process_JCreateVolume H s)"

definition JfsDeleteVol ::
  "'x jfs_lib_scheme \<Rightarrow> globals \<Rightarrow> 'w host \<Rightarrow> 'w juicefs \<Rightarrow> string \<Rightarrow> string \<Rightarrow> smap option \<Rightarrow> smap option \<Rightarrow> string list \<Rightarrow> ('w, unit) io" where
  "JfsDeleteVol L G H J volumeID subPath secrets volCtx options =
     bind (if \<not> ByProcess G then with_client J (\<lambda>K. bind (GetPersistentVolume K volumeID) (\<lambda>pv.
              case pvCSI pv of None \<Rightarrow> fail (Panic ''nil pointer dereference'')
              | Some csi \<Rightarrow> ret (Some (cpVolumeAttributes csi), pvMountOptions pv)))
           else ret (volCtx, options)) (\<lambda>(ctx, opts).
     bind (genJfsSettings L G H J volumeID [] secrets ctx opts) (\<lambda>s0.
       let s = s0\<lparr>sSubPath := subPath, sMountPath := path_Join [TmpPodMountBase, sVolumeId s0]\<rparr> in
       bind (if \<not> ByProcess G then with_client J (\<lambda>K. JDeleteVolume L G H K s) else Process_JDeleteVolume H s) (\<lambda>_.
         JfsCleanupMountPoint H (sMountPath s))))"

definition GetSubPath :: "globals \<Rightarrow> 'w juicefs \<Rightarrow> string \<Rightarrow> ('w, string) io" where
  "GetSubPath G J volumeID =
     (if Provisioner G then with_client J (\<lambda>K. bind (GetPersistentVolume K volumeID) (\<lambda>pv.
        case pvCSI pv of None \<Rightarrow> fail (Panic ''nil pointer dereference'')
        | Some csi \<Rightarrow> ret (mget (cpVolumeAttributes csi) ''subPath'')))
      else ret volumeID)"

text \<open>A corrupted mount is unmounted and looked at again, for as long as it stays corrupted.\<close>

fun create_target :: "'w host \<Rightarrow> nat \<Rightarrow> string \<Rightarrow> ('w, unit) io" where
  "create_target H 0 target = fail OutOfFuel"
| "create_target H (Suc fuel) target =
     tryE (h_path_exists H target)
       (\<lambda>e. if e = Corrupted then bind (UmountPath H target) (\<lambda>_. create_target H fuel target) else fail e)
       (\<lambda>_. h_mkdir_all H target 493)"

definition CreateTarget :: "'w host \<Rightarrow> 'w juicefs \<Rightarrow> string \<Rightarrow> ('w, unit) io" where
  "CreateTarget H J target = create_target H (j_fuel J) target"

section \<open>Unmounting\<close>

text \<open>
  Process mode: the reference count is read before the target is unmounted, and the cache
  is cleaned with the last one.
\<close>

definition process_unmount :: "globals \<Rightarrow> 'w host \<Rightarrow> 'w juicefs \<Rightarrow> string \<Rightarrow> string \<Rightarrow> ('w, unit) io" where
  "process_unmount G H J uniqueId mountPath =
     bind (tryE (Process_GetMountRef H mountPath) (\<lambda>_. ret 0) ret) (\<lambda>refs w.
       case Process_JUmount H mountPath w of (r, w1) \<Rightarrow>
         if refs \<noteq> 1 then (r, w1)
         else (let uuid = mget (j_UUIDMaps J w1) uniqueId;
                   cacheDirs = (case map_of (j_CacheDirMaps J w1) uniqueId of None \<Rightarrow> [] | Some ds \<Rightarrow> ds)
               in if uuid = [] \<and> cacheDirs = [] then (r, w1)
                  else (r, snd (Process_CleanCache H uuid cacheDirs
                     (j_set_CacheDirMaps J (mdel uniqueId (j_CacheDirMaps J w1))
                       (j_set_UUIDMaps J (mdel uniqueId (j_UUIDMaps J w1)) w1))))))"

definition find_mount_pod :: "'x lib_scheme \<Rightarrow> string \<Rightarrow> Pod list \<Rightarrow> string" where
  "find_mount_pod L mountPath pods = (case find (\<lambda>po. mhas (annos po) (GetReferenceKey L mountPath)) pods of
     None \<Rightarrow> [] | Some po \<Rightarrow> pod_name po)"

definition mount_pod_selector :: "string \<Rightarrow> Selector" where
  "mount_pod_selector uniqueId = \<lparr>selMatchLabels = [(PodTypeKey, PodTypeValue), (PodUniqueIdLabelKey, uniqueId)], selExists = []\<rparr>"

text \<open>With the lock of the pod: the target goes, and the pod with its last reference.\<close>

definition release_target ::
  "'x lib_scheme \<Rightarrow> globals \<Rightarrow> 'w host \<Rightarrow> 'w K8sClient \<Rightarrow> nat \<Rightarrow> string \<Rightarrow> string \<Rightarrow> ('w, unit) io" where
  "release_target L G H K fuel mountPath podName =
     with_lock H (GetPodLock podName) (
       bind (UmountTarget L G H K fuel mountPath podName) (\<lambda>_.
         if podName = [] then ret ()
         else bind (GetMountRef L G K podName) (\<lambda>refs.
           if refs = 0 then JUmount L G H K podName else ret ())))"

definition JfsUnmount ::
  "'x jfs_lib_scheme \<Rightarrow> globals \<Rightarrow> 'w host \<Rightarrow> 'w juicefs \<Rightarrow> string \<Rightarrow> string \<Rightarrow> ('w, unit) io" where
  "JfsUnmount L G H J volumeId mountPath =
     bind (getUniqueId G J volumeId) (\<lambda>uniqueId.
       if ByProcess G then process_unmount G H J uniqueId mountPath
       else with_client J (\<lambda>K w0. case GenPodNameByUniqueId G H uniqueId False w0 of (oldPodName, w1) \<Rightarrow>
         bind (tryE (GetPod K oldPodName (Namespace G))
                 (\<lambda>e. if e = NotFound then ret [] else fail e) (\<lambda>pod. ret [pod])) (\<lambda>exact.
         bind (ListPod K (Namespace G) (Some (mount_pod_selector uniqueId)) (Some [(''spec.nodeName'', NodeName G)])) (\<lambda>pods.
           release_target L G H K (j_fuel J) mountPath (find_mount_pod L mountPath (exact @ pods)))) w1))"

section \<open>References of other targets are kept\<close>

text \<open>The pod at \<open>k\<close> is stored and carries the reference of the target \<open>t\<close>.\<close>

definition in_use :: "'x lib_scheme \<Rightarrow> ('w \<Rightarrow> pod_map) \<Rightarrow> string \<times> string \<Rightarrow> string \<Rightarrow> 'w \<Rightarrow> bool" where
  "in_use L pods k t w \<longleftrightarrow> (\<exists>p. pods w k = Some p \<and> map_of (annos p) (GetReferenceKey L t) = Some t)"

lemma in_use_pods: "in_use L pods k t w \<Longrightarrow> pods w' = pods w \<Longrightarrow> in_use L pods k t w'"
  by (simp add: in_use_def)

lemma in_use_other: "in_use L pods k t w \<Longrightarrow> pods w' = (pods w)(k' := x) \<Longrightarrow> k \<noteq> k' \<Longrightarrow> in_use L pods k t w'"
  by (simp add: in_use_def)

lemma in_use_annos:
  assumes "in_use L pods k t w" "pods w k' = Some p" "pods w' = (pods w)(k' \<mapsto> q)"
    and "map_of (annos q) (GetReferenceKey L t) = map_of (annos p) (GetReferenceKey L t)"
  shows "in_use L pods k t w'"
  using assms by (cases "k = k'") (auto simp: in_use_def simp del: map_of_eq_Some_iff)

lemma in_use_GetRef: "map_of (annos p) (GetReferenceKey L t) = Some t \<Longrightarrow> GetRef L p \<noteq> 0"
  using map_of_SomeD [of "annos p" "GetReferenceKey L t" t]
  by (force simp: GetRef_count count_refs_def filter_empty_conv simp del: map_of_eq_Some_iff)

lemma keeps_in_use:
  assumes "\<And>w. pods (snd (m w)) = pods w"
  shows "keeps (in_use L pods k t) m"
  by (rule keepsI) (erule in_use_pods, rule assms)

lemma get_in_use: "pod_store K pods \<Longrightarrow> keeps (in_use L pods k t) (c_pods_get K ns n)"
  by (rule keeps_in_use) (erule pod_store_get(1), rule prod.collapse [symmetric])

lemma unref_in_use:
  assumes "pod_store K pods" "sha_wf L" "GetReferenceKey L t \<noteq> GetReferenceKey L t'"
  shows "keeps (in_use L pods k t) (unref_attempt L K t' pod)"
proof (rule keepsI)
  fix w assume u: "in_use L pods k t w"
  obtain r w' where a: "unref_attempt L K t' pod w = (r, w')" by fastforce
  note cases = unref_attempt_cases [OF assms(1,2) a]
  show "in_use L pods k t (snd (unref_attempt L K t' pod w))"
  proof (cases r)
    case (Inl e)
    with cases(1) a in_use_pods [OF u, of w'] show ?thesis by simp
  next
    case (Inr v)
    from cases(2) [OF Inr] obtain p x where "pods w (pod_ns pod, pod_name pod) = Some p"
      "annos (set_annos x p) = table_del L t' (annos p)" "pods w' = (pods w)((pod_ns pod, pod_name pod) \<mapsto> set_annos x p)" by blast
    moreover have "map_of (table_del L t' (annos p)) (GetReferenceKey L t) = map_of (annos p) (GetReferenceKey L t)"
      using assms(3) by (simp add: table_del_def)
    ultimately show ?thesis using in_use_annos [OF u] a by simp
  qed
qed

lemma ShouldDelay_in_use:
  assumes "pod_store K pods" "sha_wf L"
  shows "keeps (in_use L pods k t) (ShouldDelay L H K po)"
proof -
  have "keeps (in_use L pods k t) (AddPodAnnotation K po [(DeleteDelayAtKey, d)])" for d
  proof (rule keepsI)
    fix w assume u: "in_use L pods k t w"
    obtain r w' where a: "c_pods_patch K (pod_ns po) (pod_name po) (MergeAnnotations [(DeleteDelayAtKey, d)]) w = (r, w')" by fastforce
    note patch = pod_store_patch [OF assms(1) a]
    have "in_use L pods k t w'"
    proof (cases r)
      case (Inl e)
      with patch(1) in_use_pods [OF u, of w'] show ?thesis by simp
    next
      case (Inr v)
      from patch(2) [OF Inr] obtain p where
        "pods w (pod_ns po, pod_name po) = Some p" "pods w' = (pods w)((pod_ns po, pod_name po) \<mapsto> set_annos (Some (mputs [(DeleteDelayAtKey, d)] (annos p))) p)" by auto
      with in_use_annos [OF u this] key_not_delete_at [OF assms(2), of t] show ?thesis by (simp add: map_of_mputs)
    qed
    with a show "in_use L pods k t (snd (AddPodAnnotation K po [(DeleteDelayAtKey, d)] w))" by (simp add: AddPodAnnotation_def PatchPod_def)
  qed
  then show ?thesis
    unfolding ShouldDelay_def keeps_def by (auto simp: go_step split: option.splits sum.splits prod.splits) (metis snd_conv)+
qed

text \<open>An attempt of JUmount deletes at most the pod it was called for, and not one in use.\<close>

lemma jumount_in_use:
  assumes st: "pod_store K pods" "sha_wf L"
  shows "keeps (in_use L pods k t) (jumount_attempt L G H K n)"
proof (rule keepsI)
  fix w assume u: "in_use L pods k t w"
  obtain r w1 where g: "c_pods_get K (Namespace G) n w = (r, w1)" by fastforce
  note get = pod_store_get [OF st(1) g]
  have u1: "in_use L pods k t w1" using in_use_pods [OF u get(1)] .
  show "in_use L pods k t (snd (jumount_attempt L G H K n w))"
  proof (cases r)
    case (Inl e)
    with g u1 show ?thesis by (simp add: jumount_attempt_def go_step)
  next
    case (Inr po)
    note po = get(3-5) [OF Inr]
    show ?thesis
    proof (cases "GetRef L po = 0")
      case False
      with g u1 Inr show ?thesis by (simp add: jumount_attempt_def go_step)
    next
      case True
      have ne: "k \<noteq> (Namespace G, n)" using u po(1) in_use_GetRef [of po L t] True by (auto simp: in_use_def)
      obtain d w2 where sd: "ShouldDelay L H K po w1 = (d, w2)" by fastforce
      have u2: "in_use L pods k t w2" using keepsD [OF ShouldDelay_in_use [OF st] u1] sd by (metis snd_conv)
      obtain dr w3 where dp: "c_pods_delete K (Namespace G) n w2 = (dr, w3)" by fastforce
      have u3: "in_use L pods k t w3"
        using pod_store_delete [OF st(1) dp] in_use_pods [OF u2, of w3] in_use_other [OF u2 _ ne, of w3] by (cases dr) auto
      have u4: "in_use L pods k t (snd (c_secrets_delete K ns m w3))" for ns m
        by (rule in_use_pods [OF u3 pod_store_secret [OF st(1)]])
      show ?thesis using g Inr True sd dp u2 u3 u4 po
        by (cases d; cases dr) (auto simp: jumount_attempt_def go_step DeletePod_def DeleteSecret_def)
    qed
  qed
qed

text \<open>The calls that only look, and the locks.\<close>

definition quiet_lookups :: "'w host \<Rightarrow> 'w K8sClient \<Rightarrow> ('w \<Rightarrow> pod_map) \<Rightarrow> bool" where
  "quiet_lookups H K pods \<longleftrightarrow> (\<forall>w. (\<forall>n. pods (snd (c_pvs_get K n w)) = pods w)
     \<and> (\<forall>ns rv s f. pods (snd (c_pods_list K ns rv s f w)) = pods w)
     \<and> (\<forall>i. pods (h_lock H i w) = pods w) \<and> (\<forall>i. pods (h_unlock H i w) = pods w))"

lemma release_target_in_use:
  assumes "pod_store K pods" "retry_law K" "host_keeps_pods H pods" "sha_wf L" "quiet_lookups H K pods"
    and "GetReferenceKey L t \<noteq> GetReferenceKey L t'"
  shows "keeps (in_use L pods k t) (release_target L G H K fuel t' n)"
proof -
  have host: "keeps (in_use L pods k t) (umount_until H fuel t')" "keeps (in_use L pods k t) (h_cleanup_mount_point H t')"
    using umount_until_pods [OF assms(3)] assms(3) by (auto intro!: keeps_in_use simp: host_keeps_pods_def)
  have lock: "in_use L pods k t w \<Longrightarrow> in_use L pods k t (h_lock H i w)" "in_use L pods k t w \<Longrightarrow> in_use L pods k t (h_unlock H i w)" for i w
    using assms(5) by (auto simp: quiet_lookups_def elim!: in_use_pods)
  show ?thesis
    unfolding release_target_def UmountTarget_def GetMountRef_def JUmount_def GetPod_eq
    by (intro keeps_intro lock host retry_keeps get_in_use unref_in_use jumount_in_use assms)
qed

text \<open>
  C7: unmounting one target never takes the mount pod away from another: in pod mode,
  whatever JfsUnmount returns, a pod that carries the reference of another target is still
  stored and still carries it.
\<close>

theorem JfsUnmount_keeps_shared:
  assumes "pod_store K pods" "retry_law K" "host_keeps_pods H pods" "sha_wf L" "quiet_lookups H K pods"
    and "j_client J = Some K" "\<not> ByProcess G" "GetReferenceKey L t \<noteq> GetReferenceKey L target"
    and "pods w k = Some p" "map_of (annos p) (GetReferenceKey L t) = Some t"
    and "JfsUnmount L G H J volumeId target w = (r, w')"
  shows "\<exists>p'. pods w' k = Some p' \<and> map_of (annos p') (GetReferenceKey L t) = Some t"
proof -
  have q: "keeps (in_use L pods k t) (c_pvs_get K n)" "keeps (in_use L pods k t) (c_pods_list K ns rv s f)" for n ns rv s f
    using assms(5) by (auto intro!: keeps_in_use simp: quiet_lookups_def)
  note rel = release_target_in_use [OF assms(1-5,8)]
  have unique: "keeps (in_use L pods k t) (getUniqueId G J volumeId)"
    unfolding getUniqueId_def with_client_def assms(6) option.case GetPersistentVolume_def bind_ret
    by (intro keeps_intro q)
  have name_of: "GenPodNameByUniqueId G H u False w0 = (''juicefs-'' @ NodeName G @ ''-'' @ u, w0)" for u w0
    by (simp add: GenPodNameByUniqueId_def)
  have "keeps (in_use L pods k t) (JfsUnmount L G H J volumeId target)"
    unfolding JfsUnmount_def with_client_def assms(6) option.case name_of
    by (simp only: prod.case GetPod_eq ListPod_def bind_ret, intro keeps_intro unique q get_in_use assms(1) rel) (simp add: assms(7))
  from keepsD [OF this, of w] assms(9-11) show ?thesis by (auto simp: in_use_def)
qed

definition mem_juicefs :: "pod_map juicefs" where
  "mem_juicefs = \<lparr>j_client = Some mem_client, j_env = (\<lambda>_. None), j_UUIDMaps = (\<lambda>_. []), j_set_UUIDMaps = (\<lambda>_ w. w),
     j_CacheDirMaps = (\<lambda>_. []), j_set_CacheDirMaps = (\<lambda>_ w. w), j_kubelet = (\<lambda>_ _. ret ()), j_fuel = 1\<rparr>"

definition hex_jfs_lib :: jfs_lib where
  "hex_jfs_lib = setting_lib.extend hex_lib \<lparr>l_parse_float = (\<lambda>_. Some (Fin 1 0)), l_uint64_out_of_range = (\<lambda>_. 0)\<rparr>"

text \<open>A mount pod with two targets, found by its exact name.\<close>

definition shared_pod :: Pod where
  "shared_pod = set_annos (Some [(GetReferenceKey hex_lib ''/a'', ''/a''), (GetReferenceKey hex_lib ''/b'', ''/b'')])
     (zero_pod\<lparr>pMeta := zero_meta\<lparr>mName := ''juicefs-node-v'', mNamespace := Namespace sample_globals\<rparr>\<rparr>)"

definition shared_world :: pod_map where
  "shared_world = (\<lambda>_. None)((Namespace sample_globals, ''juicefs-node-v'') \<mapsto> shared_pod)"

theorem JfsUnmount_keeps_shared_witness:
  "case JfsUnmount hex_jfs_lib (sample_globals\<lparr>NodeName := ''node''\<rparr>) mem_host mem_juicefs ''v'' ''/b'' shared_world of (r, w') \<Rightarrow>
     \<exists>p'. w' (Namespace sample_globals, ''juicefs-node-v'') = Some p' \<and> map_of (annos p') (GetReferenceKey hex_lib ''/a'') = Some ''/a''"
proof -
  let ?G = "sample_globals\<lparr>NodeName := ''node''\<rparr>"
  obtain r w' where u: "JfsUnmount hex_jfs_lib ?G mem_host mem_juicefs ''v'' ''/b'' shared_world = (r, w')" by fastforce
  have k: "GetReferenceKey hex_jfs_lib t = GetReferenceKey hex_lib t" for t
    by (simp add: GetReferenceKey_def hex_jfs_lib_def hex_lib_def setting_lib.defs sample_lib_def)
  have sha: "sha_wf hex_jfs_lib"
    using mem_laws(4) by (simp add: sha_wf_def hex_jfs_lib_def hex_lib_def setting_lib.defs sample_lib_def)
  have q: "quiet_lookups mem_host mem_client (\<lambda>w. w)"
    by (simp add: quiet_lookups_def mem_client_def mem_host_def idle_host_def idle_client_def ret_def fail_def)
  have ne: "GetReferenceKey hex_lib ''/a'' \<noteq> GetReferenceKey hex_lib ''/b''"
    by (simp add: GetReferenceKey_def hex_lib_def ref_prefix_def)
  have "j_client mem_juicefs = Some mem_client" "\<not> ByProcess ?G" by (simp_all add: mem_juicefs_def sample_globals_def)
  moreover have "shared_world (Namespace sample_globals, ''juicefs-node-v'') = Some shared_pod" by (simp add: shared_world_def)
  moreover have "map_of (annos shared_pod) (GetReferenceKey hex_jfs_lib ''/a'') = Some ''/a''" by (simp add: shared_pod_def k)
  moreover have "GetReferenceKey hex_jfs_lib ''/a'' \<noteq> GetReferenceKey hex_jfs_lib ''/b''" using ne by (simp add: k)
  ultimately have "\<exists>p'. w' (Namespace sample_globals, ''juicefs-node-v'') = Some p' \<and> map_of (annos p') (GetReferenceKey hex_jfs_lib ''/a'') = Some ''/a''"
    using JfsUnmount_keeps_shared [where pods = "\<lambda>w. w", OF mem_laws(1-3) sha q _ _ _ _ _ u] by blast
  with u show ?thesis by (simp add: k)
qed

section \<open>Secrets do not reach the command line\<close>

text \<open>Two secrets that differ in the values of hidden keys only; which of these are given is public.\<close>

definition same_public :: "string set \<Rightarrow> smap \<Rightarrow> smap \<Rightarrow> bool" where
  "same_public hidden a b \<longleftrightarrow> (\<forall>k. if k \<in> hidden then rel_option (\<lambda>x y. (x = []) = (y = [])) (map_of a k) (map_of b k)
     else map_of a k = map_of b k)"

definition hidden_keys :: "string set" where
  "hidden_keys = {''token'', ''secret-key'', ''secret-key2'', ''passphrase'', ''secretkey'', ''secretkey2'', ''metaurl''}"

lemma same_public_mget:
  assumes "same_public hidden a b"
  shows "k \<notin> hidden \<Longrightarrow> mget a k = mget b k" "(mget a k = []) = (mget b k = [])"
  using assms [unfolded same_public_def, rule_format, of k]
  by (auto simp: mget_def split: option.splits if_splits simp del: map_of_eq_Some_iff)

lemma transform_step_public:
  assumes "same_public hidden a b" "c \<in> hidden \<longleftrightarrow> r \<in> hidden"
  shows "same_public hidden (case map_of a c of None \<Rightarrow> a | Some v \<Rightarrow> mdel c (mput r v a))
    (case map_of b c of None \<Rightarrow> b | Some v \<Rightarrow> mdel c (mput r v b))"
proof -
  have c: "if c \<in> hidden then rel_option (\<lambda>x y. (x = []) = (y = [])) (map_of a c) (map_of b c) else map_of a c = map_of b c"
    using assms(1) by (simp add: same_public_def)
  then consider "map_of a c = None" "map_of b c = None"
    | x y where "map_of a c = Some x" "map_of b c = Some y" "c \<in> hidden \<Longrightarrow> (x = []) = (y = [])" "c \<notin> hidden \<Longrightarrow> x = y"
    by (cases "map_of a c"; cases "map_of b c") (auto split: if_splits simp del: map_of_eq_Some_iff)
  then show ?thesis
  proof cases
    case 1
    with assms(1) show ?thesis by simp
  next
    case 2
    with assms show ?thesis by (auto simp: same_public_def simp del: map_of_eq_Some_iff)
  qed
qed

lemma transform_keys_public: "same_public hidden_keys a b \<Longrightarrow> same_public hidden_keys (transform_keys a) (transform_keys b)"
  unfolding transform_keys_def compat_keys_def
  by (simp only: fold.simps comp_apply prod.case id_apply)
    (intro transform_step_public; simp add: hidden_keys_def)

lemma plain_flags_public:
  assumes "same_public hidden a b" "set keys \<inter> hidden = {}"
  shows "plain_flags keys a = plain_flags keys b"
proof -
  have "mget a k = mget b k" if "k \<in> set keys" for k
    using same_public_mget(1) [OF assms(1), of k] assms(2) that by blast
  then show ?thesis by (induction keys) (auto simp: plain_flags_def)
qed

lemma stripped_flags_public: "same_public hidden a b \<Longrightarrow> stripped_flags keys a = stripped_flags keys b"
  using same_public_mget(2) [of hidden a b] by (simp add: stripped_flags_def)

lemma bind_ret_left: "bind (ret x) f = f x"
  by (simp add: bind_eq ret_def fun_eq_iff)

text \<open>Format options that differ in the session token only.\<close>

definition same_format :: "JfsSetting \<Rightarrow> JfsSetting \<Rightarrow> bool" where
  "same_format s s' \<longleftrightarrow> sClientConfPath s = sClientConfPath s' \<and> (sFormatOptions s = [] \<longleftrightarrow> sFormatOptions s' = []) \<and>
     (case (ParseFormatOptions s, ParseFormatOptions s') of
        (Inr ps, Inr qs) \<Rightarrow> same_but_secret [''session-token''] ps qs | (Inl _, Inl _) \<Rightarrow> True | _ \<Rightarrow> False)"

lemma format_option_flags_public:
  assumes "same_format s s'"
  shows "map_sum id snd (format_option_flags s) = map_sum id snd (format_option_flags s')"
  using assms StripFormatOptions_cong [of "[''session-token'']"]
  by (auto simp: format_option_flags_def same_format_def split: sum.splits)

text \<open>
  C21: the commands that go into the specification of a mount pod do not depend on the
  secrets: in pod mode the format and the auth command are the same for two secrets that
  differ in the values of the keys, the token, the passphrase and the metadata address, and
  for format options that differ in the session token.
\<close>

theorem commands_hide_secrets:
  assumes "\<not> ByProcess G" "same_public hidden_keys a b" "same_format s s'"
  shows "ceFormat G H (Some a) noUpdate s w = ceFormat G H (Some b) noUpdate s' w \<and>
    AuthFs G H J (Some a) s False w = AuthFs G H J (Some b) s' False w"
proof -
  note pub = same_public_mget [OF assms(2)] same_public_mget [OF transform_keys_public [OF assms(2)]]
  have h: "''name'' \<notin> hidden_keys" "''bucket'' \<notin> hidden_keys" "''initconfig'' \<notin> hidden_keys"
    "set format_keys \<inter> hidden_keys = {}" "set auth_keys \<inter> hidden_keys = {}"
    by (simp_all add: hidden_keys_def format_keys_def auth_keys_def)
  have conf: "sClientConfPath s = sClientConfPath s'" using assms(3) by (simp add: same_format_def)
  have f: "bind (lift_res (format_option_flags s)) (\<lambda>(shown, stripped). ret (g stripped)) w
      = bind (lift_res (format_option_flags s')) (\<lambda>(shown, stripped). ret (g stripped)) w" for g :: "string list \<Rightarrow> string" and w
    using format_option_flags_public [OF assms(3)]
    by (cases "format_option_flags s"; cases "format_option_flags s'") (auto simp: bind_eq lift_res_def split_beta)
  have p: "plain_flags format_keys a = plain_flags format_keys b" "stripped_flags format_stripped a = stripped_flags format_stripped b"
    "plain_flags auth_keys (transform_keys a) = plain_flags auth_keys (transform_keys b)"
    "stripped_flags auth_stripped (transform_keys a) = stripped_flags auth_stripped (transform_keys b)"
    using plain_flags_public [OF assms(2)] plain_flags_public [OF transform_keys_public [OF assms(2)]]
      stripped_flags_public [OF assms(2)] stripped_flags_public [OF transform_keys_public [OF assms(2)]] h by blast+
  have "ceFormat G H (Some a) noUpdate s w = ceFormat G H (Some b) noUpdate s' w"
    using assms(1) by (simp add: ceFormat_def Let_def p pub(1) [OF h(1)] pub(2) [of "''metaurl''"] f)
  moreover have "AuthFs G H J (Some a) s False w = AuthFs G H J (Some b) s' False w"
    using assms(1) by (simp add: AuthFs_def Let_def p pub(1) [OF h(1)] pub(3) [OF h(2)] conf f bind_ret_left)
  ultimately show ?thesis ..
qed

theorem commands_hide_secrets_witness:
  "ceFormat sample_globals (idle_host :: unit host) (Some [(''name'', ''v''), (''metaurl'', ''redis://:p@h/1''), (''secret-key'', ''x'')]) True sample_setting ()
   = ceFormat sample_globals idle_host (Some [(''name'', ''v''), (''metaurl'', ''redis://:q@h/1''), (''secret-key'', ''y'')]) True sample_setting ()"
proof -
  have "same_public hidden_keys [(''name'', ''v''), (''metaurl'', ''redis://:p@h/1''), (''secret-key'', ''x'')]
      [(''name'', ''v''), (''metaurl'', ''redis://:q@h/1''), (''secret-key'', ''y'')]"
    by (simp add: same_public_def hidden_keys_def)
  moreover have "same_but_secret ks ps ps" for ks ps by (simp add: same_but_secret_def list_all2_same split_beta)
  then have "same_format sample_setting sample_setting" by (simp add: same_format_def split: sum.split)
  moreover have "\<not> ByProcess sample_globals" by (simp add: sample_globals_def)
  ultimately show ?thesis by (intro commands_hide_secrets [THEN conjunct1])
qed

section \<open>Targets\<close>

lemma SplitStr_head:
  "sep \<noteq> [] \<Longrightarrow> hd (SplitStr sep acc s) = acc @ s \<or> (\<exists>t. acc @ s = hd (SplitStr sep acc s) @ sep @ t)"
proof (induction sep acc s rule: SplitStr.induct)
  case (1 sep acc s)
  show ?case
  proof (cases "s = []")
    case True
    then show ?thesis by (subst SplitStr.simps) simp
  next
    case False
    show ?thesis
    proof (cases "HasPrefix s sep")
      case True
      then have "SplitStr sep acc s = acc # SplitStr sep [] (drop (length sep) s)"
        using False 1(3) by (subst SplitStr.simps) simp
      moreover have "s = sep @ drop (length sep) s" using True by (simp add: HasPrefix_def) (metis append_take_drop_id)
      ultimately show ?thesis by (metis list.sel(1))
    next
      case no: False
      then have "SplitStr sep acc s = SplitStr sep (acc @ [hd s]) (tl s)"
        using False by (subst SplitStr.simps) simp
      with 1(2) [OF _ _ 1(3)] False no show ?thesis by (simp add: hd_Cons_tl)
    qed
  qed
qed



section \<open>Versions\<close>

definition wf_version :: "clientVersion \<Rightarrow> bool" where
  "wf_version v = (0 \<le> vMajor v \<and> vMajor v < 2 ^ 63 \<and> 0 \<le> vMinor v \<and> vMinor v < 2 ^ 63 \<and> 0 \<le> vPatch v \<and> vPatch v < 2 ^ 63
     \<and> nl \<notin> set (vTag v) \<and> (vTag v = [] \<or> \<not> is_space (last (vTag v))))"

lemma digits_prefix:
  "list_all is_digit d \<Longrightarrow> r = [] \<or> \<not> is_digit (hd r) \<Longrightarrow> takeWhile is_digit (d @ r) = d \<and> dropWhile is_digit (d @ r) = r"
proof (induction d)
  case Nil
  then show ?case by (cases r) auto
qed auto

lemma match_version_parts:
  assumes "list_all is_digit a" "a \<noteq> []" "list_all is_digit b" "b \<noteq> []" "list_all is_digit c" "c \<noteq> []"
    and "t = [] \<or> (nl \<notin> set t)"
  shows "match_version (a @ ''.'' @ b @ ''.'' @ c @ (if t \<noteq> [] then ''-'' @ t else [])) = Some (a, b, c, t)"
proof -
  have nd: "\<not> is_digit CHR ''.''" "\<not> is_digit CHR ''-''" by (simp_all add: is_digit_def)
  let ?r = "if t \<noteq> [] then ''-'' @ t else []"
  have "takeWhile is_digit (a @ ''.'' @ b @ ''.'' @ c @ ?r) = a \<and> dropWhile is_digit (a @ ''.'' @ b @ ''.'' @ c @ ?r) = ''.'' @ b @ ''.'' @ c @ ?r"
    "takeWhile is_digit (b @ ''.'' @ c @ ?r) = b \<and> dropWhile is_digit (b @ ''.'' @ c @ ?r) = ''.'' @ c @ ?r"
    "takeWhile is_digit (c @ ?r) = c \<and> dropWhile is_digit (c @ ?r) = ?r"
    using assms nd by (intro digits_prefix; simp)+
  then show ?thesis using assms nd by (auto simp: match_version_def Let_def)
qed

text \<open>
  Printing and parsing a client version are inverse for every version whose numbers
  fit in 64 bits and whose tag has no newline and does not end in white space.
\<close>

theorem parseVersion_roundtrip:
  assumes "wf_version v"
  shows "parseVersion (version_String v) = Inr v"
proof -
  let ?a = "decimal (nat (vMajor v))" and ?b = "decimal (nat (vMinor v))" and ?c = "decimal (nat (vPatch v))"
  have f: "FormatInt (vMajor v) = ?a" "FormatInt (vMinor v) = ?b" "FormatInt (vPatch v) = ?c"
    using assms by (simp_all add: FormatInt_def wf_version_def)
  have at: "Atoi ?a = Some (vMajor v)" "Atoi ?b = Some (vMinor v)" "Atoi ?c = Some (vPatch v)"
    unfolding f [symmetric] Atoi_def using assms by (intro ParseInt_FormatInt; simp add: wf_version_def)+
  have m: "match_version (version_String v) = Some (?a, ?b, ?c, vTag v)"
    unfolding version_String_def f using assms
    by (intro match_version_parts) (simp_all add: decimal_digits wf_version_def)
  have "\<not> is_space (hd (version_String v))" "\<not> is_space (last (version_String v))"
  proof -
    have digit: "is_digit x \<Longrightarrow> \<not> is_space x" for x by (auto simp: is_digit_def is_space_def)
    show "\<not> is_space (hd (version_String v))"
      using digit [OF decimal_hd_digit] by (simp add: version_String_def f)
    have "is_digit (last ?c)" using decimal_digits [of "nat (vPatch v)"] by (simp add: list_all_iff)
    then show "\<not> is_space (last (version_String v))" using assms digit by (auto simp: version_String_def f wf_version_def)
  qed
  then have "TrimSpace (version_String v) = version_String v" by (simp add: TrimSpace_id)
  then show ?thesis by (simp add: parseVersion_def m at)
qed

theorem parseVersion_roundtrip_witness:
  "parseVersion ''1.2.10-beta+x'' = Inr \<lparr>vMajor = 1, vMinor = 2, vPatch = 10, vTag = ''beta+x''\<rparr>"
proof -
  let ?v = "\<lparr>vMajor = 1, vMinor = 2, vPatch = 10, vTag = ''beta+x''\<rparr>"
  have "wf_version ?v" "version_String ?v = ''1.2.10-beta+x''" by code_simp+
  with parseVersion_roundtrip [of ?v] show ?thesis by simp
qed

text \<open>
  LessThan is the lexicographic order of the three numbers, the tag apart.
\<close>

theorem LessThan_lex:
  "LessThan a b \<longleftrightarrow> ((vMajor a, vMinor a, vPatch a), (vMajor b, vMinor b, vPatch b))
     \<in> {(x, y). x < y} <*lex*> {(x, y). x < y} <*lex*> {(x, y). x < y}"
  by (auto simp: LessThan_def)

section \<open>Binding\<close>

lemma foldl_last_match:
  assumes "xs = ys @ m # zs" "P m" "\<forall>z \<in> set zs. \<not> P z"
  shows "foldl (\<lambda>a x. if P x then Some (f x) else a) None xs = Some (f m)"
proof -
  have "foldl (\<lambda>a x. if P x then Some (f x) else a) a zs = a" for a
    using assms(3) by (induction zs) auto
  with assms(1,2) show ?thesis by simp
qed

text \<open>
  C25: BindTarget can leave a target on a foreign file system and report success: the
  minor number it compares for the target is the one of the last entry of the mount
  table, so when that entry belongs to the mount path, a target that is mounted from
  elsewhere counts as bound and nothing is mounted.
\<close>

theorem BindTarget_stale_target:
  assumes "h_mount_infos H w = (Inr (ys @ m # zs), w')" "miMountPoint m = jfMountPath fs" "\<forall>z \<in> set zs. miMountPoint z \<noteq> jfMountPath fs"
    and "mi \<in> set (ys @ m # zs)" "miMountPoint mi = target" "miMinor mi \<noteq> miMinor m"
    and "miMinor (last (m # zs)) = miMinor m"
  shows "BindTarget H fs bindSource target w = (Inr (), w')"
proof -
  have "foldl (\<lambda>a x. if miMountPoint x = jfMountPath fs then Some (miMinor x) else a) None (ys @ m # zs) = Some (miMinor m)"
    using foldl_last_match [of "ys @ m # zs" ys m zs "\<lambda>x. miMountPoint x = jfMountPath fs" miMinor] assms(2,3) by simp
  moreover have "list_ex (\<lambda>mi. miMountPoint mi = target) (ys @ m # zs)" using assms(4,5) unfolding list_ex_iff by blast
  ultimately show ?thesis using assms(1,7) by (simp add: BindTarget_def bind_eq Let_def ret_def)
qed

definition stale_table :: "MountInfo list" where
  "stale_table = [\<lparr>miMinor = 7, miRoot = ''/'', miMountPoint = ''/target''\<rparr>, \<lparr>miMinor = 3, miRoot = ''/'', miMountPoint = ''/jfs/v''\<rparr>]"

theorem BindTarget_stale_target_witness:
  "BindTarget ((idle_host :: unit host)\<lparr>h_mount_infos := ret stale_table\<rparr>)
     \<lparr>jfName = [], jfMountPath = ''/jfs/v'', jfOptions = [], jfSetting = sample_setting\<rparr> ''/jfs/v'' ''/target'' () = (Inr (), ())"
  by (rule BindTarget_stale_target [where ys = "take 1 stale_table" and m = "stale_table ! 1" and zs = "[]" and mi = "stale_table ! 0"])
    (simp_all add: stale_table_def ret_def)

end
