(* ===== verification/VolumeUtil.thy ===== *)
theory VolumeUtil
  imports PodUtil Settings
begin

text \<open>
  The volumes of a pod and the templates of a storage class: src/pkg/util/volume.go,
  namespace.go and pvc.go. The finalizer functions of controller-runtime are a parameter.
\<close>

section \<open>Volumes of a pod (volume.go, namespace.go)\<close>

record PVPair =
  ppPV :: PersistentVolume
  ppPVC :: PersistentVolumeClaim

definition is_juicefs_pv :: "globals \<Rightarrow> PersistentVolume \<Rightarrow> bool" where
  "is_juicefs_pv G pv = (case pvCSI pv of None \<Rightarrow> False | Some csi \<Rightarrow> cpDriver csi = DriverName G)"

fun checkOwner :: "'w K8sClient \<Rightarrow> (string \<times> string) list \<Rightarrow> string \<Rightarrow> ('w, unit) io" where
  "checkOwner K [] namespace = fail (Errorf ''no owner found'' [])"
| "checkOwner K ((kind, name) # owner) namespace =
     (if kind = ''ReplicaSet'' then GetReplicaSet K name namespace
      else if kind = ''StatefulSet'' then GetStatefulSet K name namespace
      else if kind = ''DaemonSet'' then bind (GetDaemonSet K name namespace) (\<lambda>_. ret ())
      else if kind = ''Job'' then bind (GetJob K name namespace) (\<lambda>_. ret ())
      else checkOwner K owner namespace)"

text \<open>
  The namespaces of the claims that bind a JuiceFS volume and carry a name of the pod's
  claims, in the order of the two loops; the first one that has the owner is taken.
\<close>

fun owner_namespace :: "'w K8sClient \<Rightarrow> (string \<times> string) list \<Rightarrow> string list \<Rightarrow> ('w, string) io" where
  "owner_namespace K owner [] = ret []"
| "owner_namespace K owner (ns # nss) =
     tryE (checkOwner K owner ns)
       (\<lambda>e. if e = NotFound then owner_namespace K owner nss else fail e)
       (\<lambda>_. ret ns)"

definition claim_names :: "Pod \<Rightarrow> string list" where
  "claim_names pod = concat (map (\<lambda>v. case vSource v of ClaimSource c _ \<Rightarrow> [c] | _ \<Rightarrow> []) (psVolumes (pSpec pod)))"

definition GetNamespace :: "globals \<Rightarrow> 'w K8sClient \<Rightarrow> Pod \<Rightarrow> ('w, string) io" where
  "GetNamespace G K pod =
     (if pod_ns pod \<noteq> [] then ret (pod_ns pod)
      else (case mOwnerReferences (pMeta pod) of None \<Rightarrow> ret ''default''
        | Some owner \<Rightarrow>
            bind (ListPersistentVolumes K None None) (\<lambda>pvs.
              let refs = concat (map (\<lambda>pv. if is_juicefs_pv G pv then (case pvClaimRef pv of None \<Rightarrow> [] | Some r \<Rightarrow> [r]) else []) pvs)
              in owner_namespace K owner
                   (concat (map (\<lambda>c. map snd (filter (\<lambda>(name, _). name = c) refs)) (claim_names pod))))))"

text \<open>
  The error variable is a named result of the function: what a storage class lookup leaves
  in it is returned at the end unless a later call overwrites it.
\<close>

fun get_vol ::
  "globals \<Rightarrow> 'w K8sClient \<Rightarrow> string \<Rightarrow> Volume list \<Rightarrow> PVPair list \<Rightarrow> err option \<Rightarrow> ('w, PVPair list) io" where
  "get_vol G K namespace [] got err = (case err of None \<Rightarrow> ret got | Some e \<Rightarrow> fail e)"
| "get_vol G K namespace (volume # volumes) got err =
     (case vSource volume of
        ClaimSource claimName _ \<Rightarrow>
          bind (GetPersistentVolumeClaim K claimName namespace) (\<lambda>pvc.
          bind (case pvcStorageClassName pvc of None \<Rightarrow> ret (False, None)
                | Some sc \<Rightarrow> if sc = [] then ret (False, None)
                    else tryE (GetStorageClass K sc)
                      (\<lambda>e. if e = NotFound then ret (False, Some e) else fail e)
                      (\<lambda>c. ret (sclProvisioner c = DriverName G, None))) (\<lambda>(used, err').
            if pvcVolumeName pvc = [] then
              (if used then fail (Errorf ''pvc %s is not bound'' [mName (pvcMeta pvc)])
               else get_vol G K namespace volumes got err')
            else bind (GetPersistentVolume K (pvcVolumeName pvc)) (\<lambda>pv.
              get_vol G K namespace volumes
                (if is_juicefs_pv G pv then got @ [\<lparr>ppPV = pv, ppPVC = pvc\<rparr>] else got) None)))
      | _ \<Rightarrow> get_vol G K namespace volumes got err)"

definition getVol :: "globals \<Rightarrow> 'w K8sClient \<Rightarrow> Pod \<Rightarrow> string \<Rightarrow> ('w, PVPair list) io" where
  "getVol G K pod namespace = get_vol G K namespace (psVolumes (pSpec pod)) [] None"

text \<open>The namespace that is found is stored in the pod.\<close>

definition GetVolumes :: "globals \<Rightarrow> 'w K8sClient \<Rightarrow> Pod \<Rightarrow> ('w, bool \<times> PVPair list \<times> Pod) io" where
  "GetVolumes G K pod =
     bind (GetNamespace G K pod) (\<lambda>namespace.
       let pod' = pod\<lparr>pMeta := (pMeta pod)\<lparr>mNamespace := namespace\<rparr>\<rparr> in
       bind (getVol G K pod' namespace) (\<lambda>pairs. ret (pairs \<noteq> [], pairs, pod')))"

section \<open>Volume locks (volume.go)\<close>

type_synonym VolumeLocks = "string list"

definition NewVolumeLocks :: VolumeLocks where "NewVolumeLocks = []"

definition TryAcquire :: "VolumeLocks \<Rightarrow> string \<Rightarrow> bool \<times> VolumeLocks" where
  "TryAcquire locks volumeID = (if volumeID \<in> set locks then (False, locks) else (True, volumeID # locks))"

definition Release :: "VolumeLocks \<Rightarrow> string \<Rightarrow> VolumeLocks" where
  "Release locks volumeID = removeAll volumeID locks"

section \<open>Templates (pvc.go)\<close>

record objectMetadata =
  omData :: smap
  omLabels :: smap
  omAnnotations :: smap

record TemplateMeta =
  tmPvc :: objectMetadata
  tmNode :: objectMetadata

definition NewObjectMeta :: "PersistentVolumeClaim \<Rightarrow> Node option \<Rightarrow> TemplateMeta" where
  "NewObjectMeta pvc node = \<lparr>
     tmPvc = \<lparr>omData = [(''name'', mName (pvcMeta pvc)), (''namespace'', mNamespace (pvcMeta pvc))],
       omLabels = omap (mLabels (pvcMeta pvc)), omAnnotations = omap (mAnnotations (pvcMeta pvc))\<rparr>,
     tmNode = (case node of None \<Rightarrow> \<lparr>omData = [], omLabels = [], omAnnotations = []\<rparr>
       | Some n \<Rightarrow> \<lparr>omData = [(''name'', mName (nMeta n)), (''podCIDR'', nPodCIDR n)],
           omLabels = omap (mLabels (nMeta n)), omAnnotations = omap (mAnnotations (nMeta n))\<rparr>)\<rparr>"

text \<open>
  The groups of the regular expression
  \<open>\${\.(PVC|pvc|node)\.((labels|annotations)\.(.*?)|.*?)}\<close>: the shortest text up to a closing
  brace, with no newline, and when it starts so, its parts.
\<close>

record submatch =
  smWhole :: string
  smObject :: string
  smContent :: string
  smSection :: string
  smKey :: string

definition match_content :: "string \<Rightarrow> string option" where
  "match_content s = (let c = takeWhile (\<lambda>x. x \<noteq> CHR ''}'' \<and> x \<noteq> CHR 0x0A) s in
     if length c < length s \<and> s ! length c = CHR ''}'' then Some c else None)"

definition match_object :: "string \<Rightarrow> string \<Rightarrow> submatch option" where
  "match_object obj s =
     (let start = ''${.'' @ obj @ ''.'' in
      if \<not> HasPrefix s start then None
      else (case match_content (drop (length start) s) of None \<Rightarrow> None
        | Some c \<Rightarrow> (let sect = (if HasPrefix c ''labels.'' then ''labels'' else if HasPrefix c ''annotations.'' then ''annotations'' else [])
            in Some \<lparr>smWhole = start @ c @ ''}'', smObject = obj, smContent = c, smSection = sect,
                  smKey = (if sect = [] then [] else drop (length sect + 1) c)\<rparr>)))"

definition match_template :: "string \<Rightarrow> submatch option" where
  "match_template s = (case match_object ''PVC'' s of Some m \<Rightarrow> Some m
     | None \<Rightarrow> (case match_object ''pvc'' s of Some m \<Rightarrow> Some m | None \<Rightarrow> match_object ''node'' s))"

lemma match_template_whole: "match_template s = Some m \<Longrightarrow> smWhole m \<noteq> []"
  by (auto simp: match_template_def match_object_def Let_def split: option.splits if_splits)

function FindAllStringSubmatch :: "string \<Rightarrow> submatch list" where
  "FindAllStringSubmatch s =
     (if s = [] then []
      else (case match_template s of
        None \<Rightarrow> FindAllStringSubmatch (tl s)
      | Some m \<Rightarrow> m # FindAllStringSubmatch (drop (length (smWhole m)) s)))"
  by pat_completeness auto
termination
  by (relation "measure length") (auto dest: match_template_whole)

declare FindAllStringSubmatch.simps [simp del]

definition stringParser :: "objectMetadata \<Rightarrow> string \<Rightarrow> submatch \<Rightarrow> string" where
  "stringParser meta str m = ReplaceAll str (smWhole m)
     (if smSection m = ''labels'' then mget (omLabels meta) (smKey m)
      else if smSection m = ''annotations'' then mget (omAnnotations meta) (smKey m)
      else mget (omData meta) (smContent m))"

definition StringParser :: "TemplateMeta \<Rightarrow> string \<Rightarrow> string" where
  "StringParser meta str = foldl (\<lambda>s m.
     if smObject m = ''PVC'' \<or> smObject m = ''pvc'' then stringParser (tmPvc meta) s m
     else if smObject m = ''node'' then stringParser (tmNode meta) s m else s)
   str (FindAllStringSubmatch str)"

text \<open>os.Expand and its reader of shell names.\<close>

definition isShellSpecialVar :: "char \<Rightarrow> bool" where
  "isShellSpecialVar c = (c \<in> set ''*#$@!?-0123456789'')"

definition isAlphaNum :: "char \<Rightarrow> bool" where
  "isAlphaNum c = is_word_char c"

definition getShellName :: "string \<Rightarrow> string \<times> nat" where
  "getShellName s =
     (if hd s = CHR ''{'' then
        (if length s > 2 \<and> isShellSpecialVar (s ! 1) \<and> s ! 2 = CHR ''}'' then ([s ! 1], 3)
         else (let name = takeWhile (\<lambda>x. x \<noteq> CHR ''}'') (tl s) in
           if length name + 1 < length s then (if name = [] then ([], 2) else (name, length name + 2)) else ([], 1)))
      else if isShellSpecialVar (hd s) then ([hd s], 1)
      else (let name = takeWhile isAlphaNum s in (name, length name)))"

function os_Expand :: "(string \<Rightarrow> string) \<Rightarrow> string \<Rightarrow> string" where
  "os_Expand mapping s =
     (if s = [] then []
      else if hd s = CHR ''$'' \<and> tl s \<noteq> [] then
        (case getShellName (tl s) of (name, n) \<Rightarrow>
           (if name = [] \<and> 0 < n then [] else if name = [] then ''$'' else mapping name) @ os_Expand mapping (drop n (tl s)))
      else hd s # os_Expand mapping (tl s))"
  by pat_completeness auto
termination
  by (relation "measure (\<lambda>(_, s). length s)") (auto simp: less_Suc_eq_le diff_le_self le_imp_less_Suc Suc_diff_le split: list.splits)

declare os_Expand.simps [simp del]

definition ResolveSecret :: "TemplateMeta \<Rightarrow> string \<Rightarrow> string \<Rightarrow> string" where
  "ResolveSecret meta str pvName = os_Expand (\<lambda>k.
     if k = ''pvc.name'' then mget (omData (tmPvc meta)) ''name''
     else if k = ''pvc.namespace'' then mget (omData (tmPvc meta)) ''namespace''
     else if k = ''pv.name'' then pvName
     else (case find (\<lambda>(ak, _). k = ''pvc.annotations['' @ [CHR 0x27] @ ak @ [CHR 0x27] @ '']'') (omAnnotations (tmPvc meta)) of
         None \<Rightarrow> [] | Some (_, av) \<Rightarrow> av)) str"

section \<open>Volumes that share a path or a secret (pvc.go)\<close>

definition pv_attr :: "PersistentVolume \<Rightarrow> string \<Rightarrow> string res" where
  "pv_attr pv key = (case pvCSI pv of None \<Rightarrow> Inl (Panic ''nil pointer dereference'') | Some csi \<Rightarrow> Inr (mget (cpVolumeAttributes csi) key))"

text \<open>A volume the two loops skip: the volume itself, one being deleted, another class.\<close>

definition skipped :: "PersistentVolume \<Rightarrow> PersistentVolume \<Rightarrow> bool" where
  "skipped volume pv = (mName (pvMeta pv) = mName (pvMeta volume) \<or> mDeletionTimestamp (pvMeta pv) \<noteq> None
     \<or> pvStorageClassName pv \<noteq> pvStorageClassName volume)"

fun none_shares :: "PersistentVolume \<Rightarrow> (string \<times> string) list \<Rightarrow> PersistentVolume list \<Rightarrow> bool res" where
  "none_shares volume attrs [] = Inr True"
| "none_shares volume attrs (pv # pvs) =
     (if skipped volume pv then none_shares volume attrs pvs
      else (case pvCSI pv of None \<Rightarrow> Inl (Panic ''nil pointer dereference'')
        | Some csi \<Rightarrow> if list_all (\<lambda>(k, v). mget (cpVolumeAttributes csi) k = v) attrs then Inr False
            else none_shares volume attrs pvs))"

definition CheckForSubPath :: "'w K8sClient \<Rightarrow> PersistentVolume \<Rightarrow> string \<Rightarrow> ('w, bool) io" where
  "CheckForSubPath K volume pathPattern =
     (if pathPattern = [] then ret True
      else bind (lift_res (pv_attr volume ''subPath'')) (\<lambda>nowSubPath.
        if pvStorageClassName volume = [] then ret False
        else bind (ListPersistentVolumes K None None) (\<lambda>pvs.
          lift_res (none_shares volume [(''subPath'', nowSubPath)] pvs))))"

definition CheckForSecretFinalizer :: "'w K8sClient \<Rightarrow> PersistentVolume \<Rightarrow> ('w, bool) io" where
  "CheckForSecretFinalizer K volume =
     bind (lift_res (pv_attr volume ProvisionerSecretNamespace)) (\<lambda>secretNamespace.
     bind (lift_res (pv_attr volume ProvisionerSecretName)) (\<lambda>secretName.
       if pvStorageClassName volume = [] \<or> secretNamespace = [] \<or> secretName = [] then ret False
       else bind (ListPersistentVolumes K None None) (\<lambda>pvs.
         lift_res (none_shares volume [(ProvisionerSecretNamespace, secretNamespace), (ProvisionerSecretName, secretName)] pvs))))"

text \<open>ContainsFinalizer, AddFinalizer and RemoveFinalizer of controller-runtime, on the list of finalizers.\<close>

record finalizer_lib =
  fl_contains :: "string list \<Rightarrow> string \<Rightarrow> bool"
  fl_add :: "string list \<Rightarrow> string \<Rightarrow> string list"
  fl_remove :: "string list \<Rightarrow> string \<Rightarrow> string list"

definition patchSecretFinalizer :: "'w K8sClient \<Rightarrow> Secret \<Rightarrow> ('w, unit) io" where
  "patchSecretFinalizer K secret =
     PatchSecret K (Some secret) (JSONPatch [ReplaceList ''/metadata/finalizers'' (mFinalizers (seMeta secret))])"

definition set_finalizers :: "string list \<Rightarrow> Secret \<Rightarrow> Secret" where
  "set_finalizers f secret = secret\<lparr>seMeta := (seMeta secret)\<lparr>mFinalizers := f\<rparr>\<rparr>"

definition AddSecretFinalizer :: "finalizer_lib \<Rightarrow> 'w K8sClient \<Rightarrow> Secret \<Rightarrow> string \<Rightarrow> ('w, unit) io" where
  "AddSecretFinalizer F K secret finalizer =
     (let f = mFinalizers (seMeta secret) in
      if fl_contains F f finalizer then ret () else patchSecretFinalizer K (set_finalizers (fl_add F f finalizer) secret))"

definition RemoveSecretFinalizer :: "finalizer_lib \<Rightarrow> 'w K8sClient \<Rightarrow> Secret \<Rightarrow> string \<Rightarrow> ('w, unit) io" where
  "RemoveSecretFinalizer F K secret finalizer =
     (let f = mFinalizers (seMeta secret) in
      if \<not> fl_contains F f finalizer then ret () else patchSecretFinalizer K (set_finalizers (fl_remove F f finalizer) secret))"

section \<open>Templates are resolved piece by piece\<close>

text \<open>A template string as its writer sees it: literal text and references to the fields of an object.\<close>

datatype piece = Lit string | Tpl string string

fun show_piece :: "piece \<Rightarrow> string" where
  "show_piece (Lit s) = s"
| "show_piece (Tpl obj c) = ''${.'' @ obj @ ''.'' @ c @ ''}''"

fun wf_piece :: "piece \<Rightarrow> bool" where
  "wf_piece (Lit s) = (CHR ''$'' \<notin> set s)"
| "wf_piece (Tpl obj c) = (obj \<in> {''PVC'', ''pvc'', ''node''} \<and> CHR ''}'' \<notin> set c \<and> CHR 0x0A \<notin> set c \<and> CHR ''$'' \<notin> set c)"

definition field_value :: "objectMetadata \<Rightarrow> string \<Rightarrow> string" where
  "field_value meta c =
     (if HasPrefix c ''labels.'' then mget (omLabels meta) (TrimPrefix c ''labels.'')
      else if HasPrefix c ''annotations.'' then mget (omAnnotations meta) (TrimPrefix c ''annotations.'')
      else mget (omData meta) c)"

fun piece_value :: "TemplateMeta \<Rightarrow> piece \<Rightarrow> string" where
  "piece_value meta (Lit s) = s"
| "piece_value meta (Tpl obj c) = field_value (if obj = ''node'' then tmNode meta else tmPvc meta) c"

lemma SplitStr_acc: "SplitStr sep acc s = (acc @ hd (SplitStr sep [] s)) # tl (SplitStr sep [] s)"
proof (induction s arbitrary: acc rule: length_induct)
  case (1 s)
  show ?case
  proof (cases "s = [] \<or> sep \<noteq> [] \<and> HasPrefix s sep")
    case True
    then show ?thesis by (subst (1 2 3) SplitStr.simps) auto
  next
    case False
    then have step: "SplitStr sep a s = SplitStr sep (a @ [hd s]) (tl s)" for a
      by (subst SplitStr.simps) auto
    have ih: "SplitStr sep a (tl s) = (a @ hd (SplitStr sep [] (tl s))) # tl (SplitStr sep [] (tl s))" for a
      using 1 [rule_format, of "tl s" a] False by (cases s) auto
    show ?thesis using ih [of "acc @ [hd s]"] ih [of "[hd s]"] by (simp add: step)
  qed
qed

lemma SplitStr_ne [simp]: "SplitStr sep acc s \<noteq> []"
  by (subst SplitStr_acc) simp

lemma ReplaceAll_Nil [simp]: "ReplaceAll [] w v = []"
  by (simp add: ReplaceAll_def SplitStr.simps)

lemma Join_Cons: "xs \<noteq> [] \<Longrightarrow> Join (x # xs) v = x @ v @ Join xs v"
  by (cases xs) auto

lemma ReplaceAll_prefix: "w \<noteq> [] \<Longrightarrow> ReplaceAll (w @ s) w v = v @ ReplaceAll s w v"
  unfolding ReplaceAll_def by (subst SplitStr.simps) (simp add: Join_Cons)

lemma ReplaceAll_step:
  assumes "\<not> HasPrefix (x # s) w"
  shows "ReplaceAll (x # s) w v = x # ReplaceAll s w v"
proof -
  have "SplitStr w [] (x # s) = SplitStr w [x] s" using assms by (subst SplitStr.simps) simp
  also have "\<dots> = (x # hd (SplitStr w [] s)) # tl (SplitStr w [] s)" by (subst SplitStr_acc) simp
  finally show ?thesis
    unfolding ReplaceAll_def by (cases "SplitStr w [] s"; cases "tl (SplitStr w [] s)") auto
qed

text \<open>Text without the first character of the pattern is passed over.\<close>

lemma ReplaceAll_skip: "c \<notin> set a \<Longrightarrow> ReplaceAll (a @ s) (c # w) v = a @ ReplaceAll s (c # w) v"
  by (induction a) (auto simp: ReplaceAll_step)

lemma prefix_up_to:
  "x \<notin> set a \<Longrightarrow> x \<notin> set b \<Longrightarrow> HasPrefix (a @ x # s) (b @ [x]) \<longleftrightarrow> a = b"
proof (induction a arbitrary: b)
  case Nil
  then show ?case by (cases b) auto
next
  case (Cons y a)
  then show ?case by (cases b) auto
qed

abbreviation tpl :: "string \<Rightarrow> bool" where
  "tpl t \<equiv> (\<exists>b. t = CHR ''$'' # b @ ''}'' \<and> CHR ''$'' \<notin> set b \<and> CHR ''}'' \<notin> set b)"

lemma ReplaceAll_other:
  assumes "tpl t" "tpl w" "t \<noteq> w"
  shows "ReplaceAll (t @ s) w v = t @ ReplaceAll s w v"
proof -
  obtain a b where t: "t = CHR ''$'' # a @ ''}''" "CHR ''$'' \<notin> set a" "CHR ''}'' \<notin> set a"
    and w: "w = CHR ''$'' # b @ ''}''" "CHR ''$'' \<notin> set b" "CHR ''}'' \<notin> set b" using assms(1,2) by auto
  have "\<not> HasPrefix (t @ s) w" using prefix_up_to [of "CHR ''}''" a b s] t w assms(3) by simp
  then have "ReplaceAll (t @ s) w v = CHR ''$'' # ReplaceAll ((a @ ''}'') @ s) w v"
    using t by (simp add: ReplaceAll_step)
  also have "\<dots> = CHR ''$'' # (a @ ''}'') @ ReplaceAll s w v"
    using t(2) w(1) ReplaceAll_skip [of "CHR ''$''" "a @ ''}''"] by simp
  finally show ?thesis using t by simp
qed

lemma ReplaceAll_pieces:
  assumes "tpl w" "\<forall>t \<in> set ts. CHR ''$'' \<notin> set t \<or> tpl t"
  shows "ReplaceAll (concat ts) w v = concat (map (\<lambda>t. if t = w then v else t) ts)"
  using assms(2)
proof (induction ts)
  case (Cons t ts)
  then have ih: "ReplaceAll (concat ts) w v = concat (map (\<lambda>t. if t = w then v else t) ts)" by simp
  consider "CHR ''$'' \<notin> set t" | "tpl t" "t = w" | "tpl t" "t \<noteq> w" using Cons.prems by auto
  then show ?case
  proof cases
    case 1
    moreover have "w \<noteq> []" "t \<noteq> w" using 1 assms(1) by auto
    moreover obtain b where "w = CHR ''$'' # b" using assms(1) by auto
    ultimately show ?thesis using ih ReplaceAll_skip [of "CHR ''$''" t] by simp
  next
    case 2
    then show ?thesis using ih assms(1) ReplaceAll_prefix [of w] by auto
  next
    case 3
    then show ?thesis using ih ReplaceAll_other [OF 3(1) assms(1)] by simp
  qed
qed simp

lemma show_tpl: "wf_piece p \<Longrightarrow> CHR ''$'' \<notin> set (show_piece p) \<or> tpl (show_piece p)"
proof (cases p)
  case (Tpl obj c)
  moreover assume "wf_piece p"
  ultimately have "show_piece p = CHR ''$'' # (''{.'' @ obj @ ''.'' @ c) @ ''}''" "CHR ''$'' \<notin> set (''{.'' @ obj @ ''.'' @ c)"
    "CHR ''}'' \<notin> set (''{.'' @ obj @ ''.'' @ c)" by auto
  then show ?thesis by blast
qed auto

fun piece_match :: "piece \<Rightarrow> submatch list" where
  "piece_match (Lit s) = []"
| "piece_match (Tpl obj c) =
     (let sect = (if HasPrefix c ''labels.'' then ''labels'' else if HasPrefix c ''annotations.'' then ''annotations'' else [])
      in [\<lparr>smWhole = show_piece (Tpl obj c), smObject = obj, smContent = c, smSection = sect,
            smKey = (if sect = [] then [] else drop (length sect + 1) c)\<rparr>])"

lemma match_content_up_to:
  "CHR ''}'' \<notin> set c \<Longrightarrow> CHR 0x0A \<notin> set c \<Longrightarrow> match_content (c @ ''}'' @ s) = Some c"
proof -
  assume "CHR ''}'' \<notin> set c" "CHR 0x0A \<notin> set c"
  then have "takeWhile (\<lambda>x. x \<noteq> CHR ''}'' \<and> x \<noteq> CHR 0x0A) (c @ ''}'' @ s) = c"
    by (induction c) auto
  then show ?thesis by (simp add: match_content_def)
qed

lemma match_object_tpl:
  "wf_piece (Tpl obj c) \<Longrightarrow> match_object obj (show_piece (Tpl obj c) @ s) = Some (hd (piece_match (Tpl obj c)))"
  using match_content_up_to [of c s] by (auto simp: match_object_def Let_def)

lemma match_object_wrong:
  "obj \<in> {''PVC'', ''pvc'', ''node''} \<Longrightarrow> obj' \<in> {''PVC'', ''pvc'', ''node''} \<Longrightarrow> obj' \<noteq> obj \<Longrightarrow>
   match_object obj' (show_piece (Tpl obj c) @ s) = None"
  by (auto simp: match_object_def)

lemma match_template_tpl:
  assumes "wf_piece (Tpl obj c)"
  shows "match_template (show_piece (Tpl obj c) @ s) = Some (hd (piece_match (Tpl obj c)))"
proof -
  note hit = match_object_tpl [OF assms, of s]
  have obj: "obj = ''PVC'' \<or> obj = ''pvc'' \<or> obj = ''node''" using assms by auto
  note miss = match_object_wrong [of obj _ c s]
  show ?thesis
    using obj hit miss [of "''PVC''"] miss [of "''pvc''"]
    by (elim disjE) (simp_all add: match_template_def del: show_piece.simps piece_match.simps)
qed

lemma match_template_dollar: "x \<noteq> CHR ''$'' \<Longrightarrow> match_template (x # s) = None"
  by (simp add: match_template_def match_object_def)

lemma FindAll_skip: "CHR ''$'' \<notin> set a \<Longrightarrow> FindAllStringSubmatch (a @ s) = FindAllStringSubmatch s"
proof (induction a)
  case (Cons x a)
  then have "match_template (x # a @ s) = None" by (intro match_template_dollar) auto
  with Cons show ?case by (subst FindAllStringSubmatch.simps) simp
qed simp

lemma FindAll_pieces:
  "list_all wf_piece ps \<Longrightarrow> FindAllStringSubmatch (concat (map show_piece ps)) = concat (map piece_match ps)"
proof (induction ps)
  case Nil
  show ?case by (simp add: FindAllStringSubmatch.simps)
next
  case (Cons p ps)
  then show ?case
  proof (cases p)
    case (Lit s)
    with Cons show ?thesis by (simp add: FindAll_skip)
  next
    case (Tpl obj c)
    with Cons.prems have "match_template (show_piece p @ concat (map show_piece ps)) = Some (hd (piece_match p))"
      using match_template_tpl by simp
    moreover have "show_piece p \<noteq> []" "piece_match p = [hd (piece_match p)]" "smWhole (hd (piece_match p)) = show_piece p"
      using Tpl by (simp_all add: Let_def)
    ultimately have "FindAllStringSubmatch (show_piece p @ concat (map show_piece ps))
        = hd (piece_match p) # FindAllStringSubmatch (concat (map show_piece ps))"
      by (subst FindAllStringSubmatch.simps) simp
    with Cons.IH Cons.prems have "FindAllStringSubmatch (concat (map show_piece (p # ps))) = [hd (piece_match p)] @ concat (map piece_match ps)"
      by simp
    with \<open>piece_match p = _\<close> show ?thesis by (metis concat.simps(2) list.simps(9))
  qed
qed

text \<open>The replacements of a list of matches, on a text made of pieces.\<close>

lemma fold_replace:
  assumes "\<forall>m \<in> set ms. tpl (smWhole m) \<and> CHR ''$'' \<notin> set (val m)" "\<forall>t \<in> set ts. CHR ''$'' \<notin> set t \<or> tpl t"
  shows "foldl (\<lambda>s m. ReplaceAll s (smWhole m) (val m)) (concat ts) ms
    = concat (map (\<lambda>t. case find (\<lambda>m. smWhole m = t) ms of None \<Rightarrow> t | Some m \<Rightarrow> val m) ts)"
  using assms
proof (induction ms arbitrary: ts)
  case (Cons m ms)
  let ?ts = "map (\<lambda>t. if t = smWhole m then val m else t) ts"
  have "\<forall>t \<in> set ?ts. CHR ''$'' \<notin> set t \<or> tpl t" using Cons.prems by auto
  moreover have "ReplaceAll (concat ts) (smWhole m) (val m) = concat ?ts"
    using Cons.prems ReplaceAll_pieces by simp
  moreover have "find (\<lambda>m'. smWhole m' = val m) ms = None"
    using Cons.prems(1) unfolding find_None_iff by (metis list.set_intros(1,2))
  ultimately show ?case using Cons.IH [of ?ts] Cons.prems by (auto simp: comp_def intro!: arg_cong [where f = concat])
qed simp

definition match_value :: "TemplateMeta \<Rightarrow> submatch \<Rightarrow> string" where
  "match_value meta m = (let om = (if smObject m = ''node'' then tmNode meta else tmPvc meta) in
     if smSection m = ''labels'' then mget (omLabels om) (smKey m)
     else if smSection m = ''annotations'' then mget (omAnnotations om) (smKey m) else mget (omData om) (smContent m))"

lemma piece_match_tpl:
  assumes "m \<in> set (piece_match p)" "wf_piece p"
  shows "smObject m \<in> {''PVC'', ''pvc'', ''node''}" "smWhole m = show_piece p" "match_value meta m = piece_value meta p" "tpl (smWhole m)"
proof -
  obtain obj c where p: "p = Tpl obj c" using assms(1) by (cases p) auto
  show w: "smWhole m = show_piece p" and "smObject m \<in> {''PVC'', ''pvc'', ''node''}"
    using assms unfolding p by (auto simp: Let_def)
  show "match_value meta m = piece_value meta p"
    using assms unfolding p by (auto simp: Let_def match_value_def field_value_def TrimPrefix_def)
  show "tpl (smWhole m)" using show_tpl [OF assms(2)] unfolding w p by auto
qed

lemma show_piece_inj:
  "wf_piece p \<Longrightarrow> wf_piece q \<Longrightarrow> show_piece p = show_piece q \<Longrightarrow> piece_match p \<noteq> [] \<Longrightarrow> p = q"
  by (cases p; cases q) (auto simp: Let_def)

text \<open>
  C39: the templates of a storage class are resolved to the fields they name: text without
  dollar signs stays, and each reference to a label, annotation or field of the claim or
  the node is replaced by its value, missing ones by nothing, provided that no value
  has a dollar sign itself.
\<close>

theorem StringParser_resolves:
  assumes "list_all wf_piece ps" "list_all (\<lambda>p. CHR ''$'' \<notin> set (piece_value meta p)) ps"
  shows "StringParser meta (concat (map show_piece ps)) = concat (map (piece_value meta) ps)"
proof -
  let ?ms = "concat (map piece_match ps)"
  have m: "\<exists>p \<in> set ps. m \<in> set (piece_match p) \<and> wf_piece p" if "m \<in> set ?ms" for m
    using that assms(1) by (auto simp: list_all_iff)
  have "StringParser meta (concat (map show_piece ps))
      = foldl (\<lambda>s m. ReplaceAll s (smWhole m) (match_value meta m)) (concat (map show_piece ps)) ?ms"
    unfolding StringParser_def FindAll_pieces [OF assms(1)]
    using m piece_match_tpl(1) by (intro foldl_cong refl) (fastforce simp: stringParser_def match_value_def)
  also have "\<dots> = concat (map (\<lambda>t. case find (\<lambda>m. smWhole m = t) ?ms of None \<Rightarrow> t | Some m \<Rightarrow> match_value meta m) (map show_piece ps))"
  proof (rule fold_replace)
    show "\<forall>m \<in> set ?ms. tpl (smWhole m) \<and> CHR ''$'' \<notin> set (match_value meta m)"
      using m piece_match_tpl(3,4) assms(2) by (metis (no_types, lifting) list_all_iff)
    show "\<forall>t \<in> set (map show_piece ps). CHR ''$'' \<notin> set t \<or> tpl t" using show_tpl assms(1) by (auto simp: list_all_iff)
  qed
  also have "\<dots> = concat (map (piece_value meta) ps)"
  proof -
    have "(case find (\<lambda>m. smWhole m = show_piece p) ?ms of None \<Rightarrow> show_piece p | Some m \<Rightarrow> match_value meta m) = piece_value meta p"
      if p: "p \<in> set ps" for p
    proof (cases "find (\<lambda>m. smWhole m = show_piece p) ?ms")
      case None
      then have "piece_match p = []" using p piece_match_tpl(2) assms(1)
        by (auto simp: find_None_iff list_all_iff) (metis list.set_intros(1) neq_Nil_conv)
      with None show ?thesis by (cases p) (auto simp: Let_def)
    next
      case (Some m)
      then have mm: "m \<in> set ?ms" "smWhole m = show_piece p" unfolding find_Some_iff by (metis nth_mem)+
      then obtain q where q: "q \<in> set ps" "m \<in> set (piece_match q)" "wf_piece q" using m by blast
      moreover have "piece_match q \<noteq> []" using q(2) by auto
      ultimately have "q = p" using show_piece_inj [of q p] piece_match_tpl(2) [OF q(2,3)] mm(2) p assms(1) by (auto simp: list_all_iff)
      with Some q piece_match_tpl(3) show ?thesis by simp
    qed
    then show ?thesis by (auto intro!: arg_cong [where f = concat])
  qed
  finally show ?thesis .
qed

theorem StringParser_resolves_witness:
  "StringParser \<lparr>tmPvc = \<lparr>omData = [(''name'', ''c''), (''namespace'', ''ns'')], omLabels = [(''app'', ''web'')], omAnnotations = []\<rparr>,
       tmNode = \<lparr>omData = [], omLabels = [], omAnnotations = []\<rparr>\<rparr>
     ''data/${.PVC.namespace}-${.pvc.labels.app}${.node.name}/${.PVC.namespace}'' = ''data/ns-web/ns''"
  using StringParser_resolves [of "[Lit ''data/'', Tpl ''PVC'' ''namespace'', Lit ''-'', Tpl ''pvc'' ''labels.app'', Tpl ''node'' ''name'',
      Lit ''/'', Tpl ''PVC'' ''namespace'']"
    "\<lparr>tmPvc = \<lparr>omData = [(''name'', ''c''), (''namespace'', ''ns'')], omLabels = [(''app'', ''web'')], omAnnotations = []\<rparr>,
       tmNode = \<lparr>omData = [], omLabels = [], omAnnotations = []\<rparr>\<rparr>"]
  by (simp add: field_value_def mget_def TrimPrefix_def)

section \<open>Volumes found for a pod\<close>

text \<open>What the API server promises of a lookup by name: the object has the name and the namespace asked for.\<close>

definition named_lookups :: "'w K8sClient \<Rightarrow> bool" where
  "named_lookups K \<longleftrightarrow>
     (\<forall>n w pv w'. c_pvs_get K n w = (Inr pv, w') \<longrightarrow> mName (pvMeta pv) = n) \<and>
     (\<forall>ns n w pvc w'. c_pvcs_get K ns n w = (Inr pvc, w') \<longrightarrow> mName (pvcMeta pvc) = n \<and> mNamespace (pvcMeta pvc) = ns)"

definition wf_pair :: "globals \<Rightarrow> string \<Rightarrow> string set \<Rightarrow> PVPair \<Rightarrow> bool" where
  "wf_pair G ns claims pp \<longleftrightarrow> is_juicefs_pv G (ppPV pp) \<and> mName (pvMeta (ppPV pp)) = pvcVolumeName (ppPVC pp)
     \<and> mNamespace (pvcMeta (ppPVC pp)) = ns \<and> mName (pvcMeta (ppPVC pp)) \<in> claims"

definition volume_claims :: "Volume list \<Rightarrow> string list" where
  "volume_claims vs = concat (map (\<lambda>v. case vSource v of ClaimSource c _ \<Rightarrow> [c] | _ \<Rightarrow> []) vs)"

lemma volume_claims_simps [simp]:
  "volume_claims [] = []"
  "volume_claims (v # vs) = (case vSource v of ClaimSource c _ \<Rightarrow> [c] | _ \<Rightarrow> []) @ volume_claims vs"
  by (simp_all add: volume_claims_def)

lemma get_vol_wf:
  assumes "named_lookups K" "get_vol G K ns vs got err w = (Inr pairs, w')"
    and "list_all (wf_pair G ns claims) got" "set (volume_claims vs) \<subseteq> claims"
  shows "list_all (wf_pair G ns claims) pairs"
  using assms(2-4)
proof (induction vs arbitrary: got err w)
  case Nil
  then show ?case by (simp add: ret_def fail_def split: option.splits)
next
  case (Cons v vs)
  show ?case
  proof (cases "\<exists>c ro. vSource v = ClaimSource c ro")
    case False
    with Cons show ?thesis by (cases "vSource v") auto
  next
    case True
    then obtain c ro where c: "vSource v = ClaimSource c ro" by blast
    from Cons.prems(1) obtain pvc w1 used err' w2 where
      pvc: "c_pvcs_get K ns c w = (Inr pvc, w1)"
      and k: "(if pvcVolumeName pvc = [] then
              (if used then fail (Errorf ''pvc %s is not bound'' [mName (pvcMeta pvc)]) else get_vol G K ns vs got err')
            else bind (GetPersistentVolume K (pvcVolumeName pvc)) (\<lambda>pv.
              get_vol G K ns vs (if is_juicefs_pv G pv then got @ [\<lparr>ppPV = pv, ppPVC = pvc\<rparr>] else got) None)) w2 = (Inr pairs, w')"
      unfolding get_vol.simps c VolumeSource.case bind_eq GetPersistentVolumeClaim_def
      by (auto simp: ret_def split: sum.splits prod.splits)
    show ?thesis
    proof (cases "pvcVolumeName pvc = []")
      case True
      with k have "get_vol G K ns vs got err' w2 = (Inr pairs, w')" by (simp add: fail_def split: if_splits)
      with Cons.IH Cons.prems(2,3) c show ?thesis by simp
    next
      case False
      with k obtain pv w3 where pv: "c_pvs_get K (pvcVolumeName pvc) w2 = (Inr pv, w3)"
        and r: "get_vol G K ns vs (if is_juicefs_pv G pv then got @ [\<lparr>ppPV = pv, ppPVC = pvc\<rparr>] else got) None w3 = (Inr pairs, w')"
        by (auto simp: bind_eq GetPersistentVolume_def ret_def split: sum.splits prod.splits)
      have "is_juicefs_pv G pv \<Longrightarrow> wf_pair G ns claims \<lparr>ppPV = pv, ppPVC = pvc\<rparr>"
        using assms(1) pvc pv Cons.prems(3) c unfolding named_lookups_def wf_pair_def by (simp, metis)
      with r Cons.IH Cons.prems(2,3) c show ?thesis by (auto split: if_splits)
    qed
  qed
qed

text \<open>
  C40: every pair that GetVolumes returns is well formed: a JuiceFS volume with the claim
  that is bound to it, in the namespace of the pod, and the claim is one the pod uses.
\<close>

theorem GetVolumes_wf:
  assumes "named_lookups K" "GetVolumes G K pod w = (Inr (used, pairs, pod'), w')"
  shows "list_all (wf_pair G (pod_ns pod') (set (claim_names pod))) pairs \<and> used = (pairs \<noteq> []) \<and>
    (pod_ns pod \<noteq> [] \<longrightarrow> pod' = pod)"
proof -
  from assms(2) obtain ns w1 where ns: "GetNamespace G K pod w = (Inr ns, w1)"
    and p: "pod' = pod\<lparr>pMeta := (pMeta pod)\<lparr>mNamespace := ns\<rparr>\<rparr>" "used = (pairs \<noteq> [])"
    and v: "getVol G K pod' ns w1 = (Inr pairs, w')"
    by (auto simp: GetVolumes_def bind_eq ret_def Let_def split: sum.splits prod.splits)
  have "list_all (wf_pair G ns (set (claim_names pod))) pairs"
    using get_vol_wf [OF assms(1) v [unfolded getVol_def], of "set (claim_names pod)"] p(1)
    by (simp add: volume_claims_def claim_names_def)
  moreover have "pod_ns pod \<noteq> [] \<Longrightarrow> ns = pod_ns pod" using ns by (simp add: GetNamespace_def ret_def)
  ultimately show ?thesis using p by auto
qed

text \<open>A cluster with one bound claim, and one that waits for a class that does not exist.\<close>

definition claim_a :: PersistentVolumeClaim where
  "claim_a = \<lparr>pvcMeta = zero_meta\<lparr>mName := ''a'', mNamespace := ''ns''\<rparr>, pvcStorageClassName = None, pvcVolumeName = ''pv-a'',
     pvcStorageRequest = 1, pvcAccessModes = [], pvcSelector = False, pvcPhase = ''Bound'', pvcVolumeMode = None\<rparr>"

definition claim_b :: PersistentVolumeClaim where
  "claim_b = claim_a\<lparr>pvcMeta := zero_meta\<lparr>mName := ''b'', mNamespace := ''ns''\<rparr>, pvcStorageClassName := Some ''gone'', pvcVolumeName := []\<rparr>"

definition volume_a :: PersistentVolume where
  "volume_a = \<lparr>pvMeta = zero_meta\<lparr>mName := ''pv-a''\<rparr>, pvCapacity = 1,
     pvCSI = Some \<lparr>cpDriver = DriverName sample_globals, cpVolumeHandle = ''pv-a'', cpFSType = ''juicefs'', cpVolumeAttributes = [(''subPath'', ''shared'')],
       cpNodePublishSecretRef = Some (''s'', ''ns''), cpControllerExpandSecretRef = None\<rparr>,
     pvClaimRef = Some (''a'', ''ns''), pvStorageClassName = ''sc'', pvMountOptions = [], pvAccessModes = [], pvReclaimPolicy = ''Delete'', pvVolumeMode = None\<rparr>"

definition claims_client :: "unit K8sClient" where
  "claims_client = idle_client\<lparr>
     c_pvcs_get := (\<lambda>ns n. if ns = ''ns'' \<and> n = ''a'' then ret claim_a else if ns = ''ns'' \<and> n = ''b'' then ret claim_b else fail NotFound),
     c_pvs_get := (\<lambda>n. if n = ''pv-a'' then ret volume_a else fail NotFound)\<rparr>"

definition claims_pod :: "string list \<Rightarrow> Pod" where
  "claims_pod claims = zero_pod\<lparr>pMeta := zero_meta\<lparr>mName := ''p'', mNamespace := ''ns''\<rparr>,
     pSpec := zero_spec\<lparr>psVolumes := map (\<lambda>c. \<lparr>vName = c, vSource = ClaimSource c False\<rparr>) claims\<rparr>\<rparr>"

lemmas claims_defs = claims_client_def claims_pod_def claim_a_def claim_b_def volume_a_def zero_defs idle_client_def


lemma claims_named: "named_lookups claims_client"
  by (auto simp: named_lookups_def claims_defs ret_def fail_def split: if_splits)

theorem GetVolumes_wf_witness:
  "\<exists>w'. GetVolumes sample_globals claims_client (claims_pod [''a'']) () = (Inr (True, [\<lparr>ppPV = volume_a, ppPVC = claim_a\<rparr>], claims_pod [''a'']), w')
   \<and> wf_pair sample_globals ''ns'' {''a''} \<lparr>ppPV = volume_a, ppPVC = claim_a\<rparr>"
proof -
  have g: "GetVolumes sample_globals claims_client (claims_pod [''a'']) () = (Inr (True, [\<lparr>ppPV = volume_a, ppPVC = claim_a\<rparr>], claims_pod [''a'']), ())"
    by (simp add: GetVolumes_def GetNamespace_def getVol_def claims_defs go_step client_reads is_juicefs_pv_def Let_def)
  from GetVolumes_wf [OF claims_named g] have "wf_pair sample_globals ''ns'' {''a''} \<lparr>ppPV = volume_a, ppPVC = claim_a\<rparr>"
    by (simp add: claims_pod_def claim_names_def zero_defs)
  with g show ?thesis by blast
qed

text \<open>
  A claim that waits for a storage class that does not exist makes the whole lookup
  fail when it is the last claim of the pod, although it is skipped when another claim
  with a volume follows: the error of the class lookup stays in the result variable.
\<close>

theorem getVol_missing_class:
  assumes "GetPersistentVolumeClaim K c ns w = (Inr pvc, w1)" "pvcStorageClassName pvc = Some sc" "sc \<noteq> []"
    and "GetStorageClass K sc w1 = (Inl NotFound, w2)" "pvcVolumeName pvc = []"
    and "vSource v = ClaimSource c ro" "\<forall>u \<in> set vs. \<forall>d ro. vSource u \<noteq> ClaimSource d ro"
  shows "get_vol G K ns (v # vs) got err w = (Inl NotFound, w2)"
proof -
  have "get_vol G K ns us got (Some NotFound) w2 = (Inl NotFound, w2)" if "\<forall>u \<in> set us. \<forall>d ro. vSource u \<noteq> ClaimSource d ro" for us
    using that by (induction us) (auto simp: fail_def split: VolumeSource.splits)
  then show ?thesis using assms by (simp add: bind_eq tryE_def ret_def)
qed

theorem getVol_missing_class_witness:
  "get_vol sample_globals claims_client ''ns'' (psVolumes (pSpec (claims_pod [''b'']))) [] None () = (Inl NotFound, ())
   \<and> get_vol sample_globals claims_client ''ns'' (psVolumes (pSpec (claims_pod [''b'', ''a'']))) [] None ()
     = (Inr [\<lparr>ppPV = volume_a, ppPVC = claim_a\<rparr>], ())"
proof
  have "get_vol sample_globals claims_client ''ns'' (\<lparr>vName = ''b'', vSource = ClaimSource ''b'' False\<rparr> # []) [] None () = (Inl NotFound, ())"
    by (rule getVol_missing_class [where sc = "''gone''" and c = "''b''" and pvc = claim_b and ro = False and ?w1.0 = "()"])
      (simp_all add: claims_defs client_reads ret_def fail_def)
  then show "get_vol sample_globals claims_client ''ns'' (psVolumes (pSpec (claims_pod [''b'']))) [] None () = (Inl NotFound, ())"
    by (simp add: claims_pod_def zero_defs)
  show "get_vol sample_globals claims_client ''ns'' (psVolumes (pSpec (claims_pod [''b'', ''a'']))) [] None ()
     = (Inr [\<lparr>ppPV = volume_a, ppPVC = claim_a\<rparr>], ())"
    by (simp add: claims_defs go_step client_reads is_juicefs_pv_def)
qed

section \<open>Locks as an interface\<close>

text \<open>
  What the callers of the volume locks rely on. \<open>owned\<close> is the discipline of the clients: every
  session that runs has acquired the lock of its volume, so two sessions never hold the same.
\<close>

locale lock_table =
  fixes held :: "'l \<Rightarrow> 'k set"
    and try_acquire :: "'l \<Rightarrow> 'k \<Rightarrow> bool \<times> 'l"
    and release :: "'l \<Rightarrow> 'k \<Rightarrow> 'l"
  assumes try_free: "k \<notin> held l \<Longrightarrow> \<exists>l'. try_acquire l k = (True, l') \<and> held l' = insert k (held l)"
    and try_held: "k \<in> held l \<Longrightarrow> try_acquire l k = (False, l)"
    and release_held: "held (release l k) = held l - {k}"
begin

definition owned :: "'l \<Rightarrow> ('s \<rightharpoonup> 'k) \<Rightarrow> bool" where
  "owned l sessions \<longleftrightarrow> ran sessions = held l \<and> inj_on sessions (dom sessions)"

lemma owned_acquire:
  assumes "owned l sessions" "try_acquire l k = (True, l')" "sessions i = None"
  shows "owned l' (sessions(i \<mapsto> k))"
proof -
  have free: "k \<notin> held l" using try_held assms(2) by force
  then have "held l' = insert k (held l)" using try_free assms(2) by force
  moreover have "inj_on (sessions(i \<mapsto> k)) (insert i (dom sessions))"
    using assms(1,3) free by (auto simp: owned_def inj_on_def ran_def dom_def)
  ultimately show ?thesis using assms(1,3) by (simp add: owned_def)
qed

lemma owned_release:
  assumes "owned l sessions" "sessions i = Some k"
  shows "owned (release l k) (sessions(i := None))"
proof -
  have "k \<notin> ran (sessions(i := None))"
    using assms by (auto simp: owned_def ran_def inj_on_def dom_def)
  moreover have "ran sessions = insert k (ran (sessions(i := None)))"
    using assms(2) by (auto simp: ran_def) (metis option.inject)
  ultimately have "ran (sessions(i := None)) = ran sessions - {k}" by blast
  moreover have "inj_on (sessions(i := None)) (dom (sessions(i := None)))"
    using assms by (auto simp: owned_def inj_on_def)
  ultimately show ?thesis using assms release_held by (simp add: owned_def)
qed

lemma owned_exclusive: "owned l sessions \<Longrightarrow> sessions i = Some k \<Longrightarrow> sessions j = Some k \<Longrightarrow> i = j"
  by (auto simp: owned_def inj_on_def dom_def)

lemma owned_refuses: "owned l sessions \<Longrightarrow> sessions i = Some k \<Longrightarrow> try_acquire l k = (False, l)"
  using try_held by (auto simp: owned_def ran_def)

end

interpretation vl: lock_table set TryAcquire Release
  by unfold_locales (auto simp: TryAcquire_def Release_def)

section \<open>Shared paths\<close>

lemma none_shares_True:
  assumes "none_shares volume attrs pvs = Inr True" "pv \<in> set pvs" "\<not> skipped volume pv"
  shows "\<exists>csi. pvCSI pv = Some csi \<and> \<not> list_all (\<lambda>(k, v). mget (cpVolumeAttributes csi) k = v) attrs"
  using assms by (induction pvs) (auto split: if_splits option.splits)

end
