(* ===== verification/Driver.thy ===== *)
theory Driver
  imports JuiceFS VolumeUtil
begin

text \<open>
  The CSI services of src/pkg/driver: controller.go, node.go, provisioner.go, identity.go.
  Each service keeps a state beside the world: the recorded capacities and the volume locks
  of the controller, the error counters of the node and of the provisioner. Requests and
  responses are the fields of the protocol buffers the code reads and writes. An
  unimplemented request is the constant answer \<open>Unimplemented\<close>.
\<close>

section \<open>Requests\<close>

datatype AccessType = BlockType | MountType "string list" | NoAccessType

datatype AccessMode = UNKNOWN | SINGLE_NODE_WRITER | SINGLE_NODE_READER_ONLY | MULTI_NODE_READER_ONLY
  | MULTI_NODE_SINGLE_WRITER | MULTI_NODE_MULTI_WRITER

record VolumeCapability =
  vcAccessType :: AccessType
  vcAccessMode :: AccessMode

definition volumeCaps :: "AccessMode list" where
  "volumeCaps = [SINGLE_NODE_WRITER, MULTI_NODE_MULTI_WRITER, MULTI_NODE_READER_ONLY]"

definition has_support :: "VolumeCapability \<Rightarrow> bool" where
  "has_support c = (case vcAccessType c of MountType _ \<Rightarrow> vcAccessMode c \<in> set volumeCaps | _ \<Rightarrow> False)"

definition isValidVolumeCapabilities :: "VolumeCapability list \<Rightarrow> bool" where
  "isValidVolumeCapabilities volCaps = foldl (\<lambda>foundAll c. if \<not> has_support c then False else foundAll) True volCaps"

definition status :: "string \<Rightarrow> string \<Rightarrow> err \<Rightarrow> err" where
  "status code fmt e = (case e of Panic _ \<Rightarrow> e | OutOfFuel \<Rightarrow> e | _ \<Rightarrow> GrpcStatus code fmt)"

definition unimplemented :: "('w, 'a) io" where
  "unimplemented = fail (GrpcStatus ''Unimplemented'' [])"

text \<open>A call of another component leaves the state of the service alone.\<close>

definition on_world :: "('w, 'a) io \<Rightarrow> ('w \<times> 's, 'a) io" where
  "on_world m = (\<lambda>(w, s). case m w of (r, w') \<Rightarrow> (r, (w', s)))"

definition with_status :: "string \<Rightarrow> string \<Rightarrow> ('s \<Rightarrow> 's) \<Rightarrow> ('w, 'a) io \<Rightarrow> ('w \<times> 's, 'a) io" where
  "with_status code fmt upd m = tryE (on_world m) (\<lambda>e. after (\<lambda>(w, s). (w, upd s)) (fail (status code fmt e))) ret"

section \<open>Controller (controller.go)\<close>

record controllerService =
  vols :: "(string \<times> int) list"
  volLocks :: VolumeLocks

definition newControllerService :: controllerService where
  "newControllerService = \<lparr>vols = [], volLocks = NewVolumeLocks\<rparr>"

record CreateVolumeRequest =
  crName :: string
  crVolumeCapabilities :: "VolumeCapability list option"
  crRequiredBytes :: int
  crParameters :: smap
  crSecrets :: "smap option"

record csi_Volume =
  cvVolumeId :: string
  cvCapacityBytes :: int
  cvVolumeContext :: smap

definition CreateVolume :: "CreateVolumeRequest \<Rightarrow> (controllerService, csi_Volume) io" where
  "CreateVolume req = (\<lambda>d.
     if crName req = [] then (Inl (GrpcStatus ''InvalidArgument'' ''Volume Name cannot be empty''), d)
     else (case crVolumeCapabilities req of
       None \<Rightarrow> (Inl (GrpcStatus ''InvalidArgument'' ''Volume Capabilities cannot be empty''), d)
     | Some caps \<Rightarrow>
         if \<not> isValidVolumeCapabilities caps then
           (Inl (GrpcStatus ''InvalidArgument'' ''Volume Capabilities not fully supported''), d)
         else
           (let requiredCap = crRequiredBytes req;
                volCtx = mputs (crParameters req) []
            in if (case map_of (vols d) (crName req) of None \<Rightarrow> False | Some capa \<Rightarrow> capa < requiredCap) then
                 (Inl (GrpcStatus ''AlreadyExists'' ''Volume: %q, capacity bytes: %d''), d)
               else
                 (let d' = d\<lparr>vols := mput (crName req) requiredCap (vols d)\<rparr> in
                  if list_ex (\<lambda>vc. vcAccessMode vc = MULTI_NODE_READER_ONLY) caps then
                    (Inl (GrpcStatus ''InvalidArgument'' ''Dynamic mounting uses the sub-path named pv name as data isolation, so read-only mode cannot be used.''), d')
                  else
                    (Inr \<lparr>cvVolumeId = crName req, cvCapacityBytes = requiredCap,
                       cvVolumeContext = mput ''capacity'' (FormatInt requiredCap) (mput ''subPath'' (crName req) volCtx)\<rparr>, d')))))"

record DeleteVolumeRequest =
  drVolumeId :: string
  drSecrets :: "smap option"

text \<open>
  DeleteVolume is not atomic: other requests run while the volume is deleted. It is the
  part up to the lock, the deletion, and the part after it.
\<close>

datatype delete_entry = Answer "unit res" | Deleting

definition delete_begin :: "DeleteVolumeRequest \<Rightarrow> controllerService \<Rightarrow> delete_entry \<times> controllerService" where
  "delete_begin req d =
     (let volumeID = drVolumeId req in
      if volumeID = [] then (Answer (Inl (GrpcStatus ''InvalidArgument'' ''Volume ID not provided'')), d)
      else if \<not> CheckDynamicPV volumeID then (Answer (Inr ()), d)
      else if omap (drSecrets req) = [] then (Answer (Inr ()), d)
      else (case TryAcquire (volLocks d) volumeID of
          (False, _) \<Rightarrow> (Answer (Inl (GrpcStatus ''Aborted'' ''DeleteVolume: Volume %q is being used by another operation'')), d)
        | (True, locks) \<Rightarrow> (Deleting, d\<lparr>volLocks := locks\<rparr>)))"

definition delete_end :: "string \<Rightarrow> unit res \<Rightarrow> controllerService \<Rightarrow> unit res \<times> controllerService" where
  "delete_end volumeID r d =
     (case r of
        Inl e \<Rightarrow> (Inl (status ''Internal'' ''Could not delVol in juicefs: %v'' e), d\<lparr>volLocks := Release (volLocks d) volumeID\<rparr>)
      | Inr _ \<Rightarrow> (Inr (), d\<lparr>vols := mdel volumeID (vols d), volLocks := Release (volLocks d) volumeID\<rparr>))"

definition DeleteVolume ::
  "'x jfs_lib_scheme \<Rightarrow> globals \<Rightarrow> 'w host \<Rightarrow> 'w juicefs \<Rightarrow> DeleteVolumeRequest \<Rightarrow> ('w \<times> controllerService, unit) io" where
  "DeleteVolume L G H J req = (\<lambda>(w, d).
     case delete_begin req d of
       (Answer r, d') \<Rightarrow> (r, (w, d'))
     | (Deleting, d') \<Rightarrow>
         (case JfsDeleteVol L G H J (drVolumeId req) (drVolumeId req) (drSecrets req) None [] w of
            (r, w') \<Rightarrow> (case delete_end (drVolumeId req) r d' of (a, d'') \<Rightarrow> (a, (w', d'')))))"

datatype ControllerCap = CREATE_DELETE_VOLUME | EXPAND_VOLUME

definition ControllerGetCapabilities :: "ControllerCap list" where
  "ControllerGetCapabilities = [CREATE_DELETE_VOLUME, EXPAND_VOLUME]"

definition ValidateVolumeCapabilities ::
  "controllerService \<Rightarrow> string \<Rightarrow> VolumeCapability list \<Rightarrow> VolumeCapability list option res" where
  "ValidateVolumeCapabilities d volumeID volCaps =
     (if volumeID = [] then Inl (GrpcStatus ''InvalidArgument'' ''Volume ID not provided'')
      else if volCaps = [] then Inl (GrpcStatus ''InvalidArgument'' ''Volume capabilities not provided'')
      else if \<not> mhas (vols d) volumeID then Inl (GrpcStatus ''NotFound'' ''Could not get volume by ID %q'')
      else Inr (if isValidVolumeCapabilities volCaps then Some volCaps else None))"

text \<open>The value of the last option \<open>subdir=\<close>, as a path from the root.\<close>

definition subdir_of :: "string list \<Rightarrow> string" where
  "subdir_of options = foldl (\<lambda>subdir opt.
     let pair = Split CHR ''='' opt in
     if length pair = 2 \<and> pair ! 0 = ''subdir'' then path_Join [''/'', pair ! 1] else subdir) [] options"

record ExpandVolumeRequest =
  erVolumeId :: string
  erCapacityRange :: "(int \<times> int) option" \<comment> \<open>required and limit bytes\<close>
  erVolumeCapability :: "VolumeCapability option"
  erSecrets :: "smap option"

definition mount_flags :: "VolumeCapability \<Rightarrow> string list" where
  "mount_flags c = (case vcAccessType c of MountType flags \<Rightarrow> flags | _ \<Rightarrow> [])"

definition io_status :: "string \<Rightarrow> string \<Rightarrow> ('w, 'a) io \<Rightarrow> ('w, 'a) io" where
  "io_status code fmt m = tryE m (\<lambda>e. fail (status code fmt e)) ret"

definition ControllerExpandVolume ::
  "'x jfs_lib_scheme \<Rightarrow> globals \<Rightarrow> 'w host \<Rightarrow> 'w juicefs \<Rightarrow> ExpandVolumeRequest \<Rightarrow> ('w, int \<times> bool) io" where
  "ControllerExpandVolume L G H J req =
     (if erVolumeId req = [] then fail (GrpcStatus ''InvalidArgument'' ''Volume ID not provided'')
      else (case erCapacityRange req of
        None \<Rightarrow> fail (GrpcStatus ''InvalidArgument'' ''Capacity range not provided'')
      | Some (newSize, maxVolSize) \<Rightarrow>
          if maxVolSize > 0 \<and> maxVolSize < newSize then
            fail (GrpcStatus ''InvalidArgument'' ''After round-up, volume size exceeds the limit specified'')
          else (case erVolumeCapability req of
            None \<Rightarrow> fail (GrpcStatus ''InvalidArgument'' ''Volume capability not provided'')
          | Some volCap \<Rightarrow>
              (case ParseInt 64 (FormatInt newSize) of
                 None \<Rightarrow> fail (GrpcStatus ''Internal'' ''invalid capacity %d: %v'')
               | Some capacity \<Rightarrow>
                   bind (io_status ''Internal'' ''get quotaPath error: %v'' (GetSubPath G J (erVolumeId req))) (\<lambda>quotaPath.
                   bind (io_status ''Internal'' ''get settings: %v''
                     (juicefs_Settings L G H J (erVolumeId req) (erSecrets req) None (mount_flags volCap))) (\<lambda>settings.
                   bind (io_status ''Internal'' ''set quota: %v''
                     (SetQuota G H J (erSecrets req) settings (path_Join [subdir_of (sOptions settings), quotaPath]) capacity)) (\<lambda>_.
                     ret (newSize, False))))))))"

section \<open>Node (node.go)\<close>

record nodeMetrics =
  volumeErrors :: nat
  volumeDelErrors :: nat

record NodePublishVolumeRequest =
  nprVolumeId :: string
  nprTargetPath :: string
  nprVolumeCapability :: "VolumeCapability option"
  nprReadonly :: bool
  nprVolumeContext :: "smap option"
  nprSecrets :: "smap option"

definition inc_errors :: "nodeMetrics \<Rightarrow> nodeMetrics" where
  "inc_errors m = m\<lparr>volumeErrors := volumeErrors m + 1\<rparr>"

definition inc_del_errors :: "nodeMetrics \<Rightarrow> nodeMetrics" where
  "inc_del_errors m = m\<lparr>volumeDelErrors := volumeDelErrors m + 1\<rparr>"

definition publish_options :: "NodePublishVolumeRequest \<Rightarrow> VolumeCapability \<Rightarrow> string list" where
  "publish_options req volCap =
     (case map_of (omap (nprVolumeContext req)) ''mountOptions'' of None \<Rightarrow> [] | Some opts \<Rightarrow> Split CHR '','' opts)
     @ (if nprReadonly req \<or> vcAccessMode volCap = MULTI_NODE_READER_ONLY then [''ro''] else [])
     @ mount_flags volCap"

text \<open>The quota of a volume with a capacity; its failure is only logged, a bad capacity is an error.\<close>

definition publish_quota ::
  "'x jfs_lib_scheme \<Rightarrow> globals \<Rightarrow> 'w host \<Rightarrow> 'w juicefs \<Rightarrow> NodePublishVolumeRequest \<Rightarrow> JfsSetting \<Rightarrow> ('w, unit) io" where
  "publish_quota L G H J req settings =
     (case map_of (omap (nprVolumeContext req)) ''capacity'' of None \<Rightarrow> ret ()
      | Some cap \<Rightarrow>
          (case ParseInt 64 cap of None \<Rightarrow> fail (GrpcStatus ''Internal'' ''invalid capacity %s: %v'')
           | Some c \<Rightarrow>
               (let capacity = (case sPV settings of None \<Rightarrow> c | Some pv \<Rightarrow> l_quantity_value L (pvCapacity pv)) in
                tryE (SetQuota G H J (nprSecrets req) settings (path_Join [subdir_of (sOptions settings), sSubPath settings]) capacity)
                  (\<lambda>e. case e of Panic _ \<Rightarrow> fail e | OutOfFuel \<Rightarrow> fail e | _ \<Rightarrow> ret ()) ret)))"

definition NodePublishVolume ::
  "'x jfs_lib_scheme \<Rightarrow> globals \<Rightarrow> 'w host \<Rightarrow> 'w juicefs \<Rightarrow> NodePublishVolumeRequest \<Rightarrow> ('w \<times> nodeMetrics, unit) io" where
  "NodePublishVolume L G H J req =
     (let target = nprTargetPath req; volCtx = nprVolumeContext req in
      if target = [] then fail (GrpcStatus ''InvalidArgument'' ''Target path not provided'')
      else (case nprVolumeCapability req of
        None \<Rightarrow> fail (GrpcStatus ''InvalidArgument'' ''Volume capability not provided'')
      | Some volCap \<Rightarrow>
          if \<not> isValidVolumeCapabilities [volCap] then fail (GrpcStatus ''InvalidArgument'' ''Volume capability not supported'')
          else
            bind (with_status ''Internal'' ''Could not create dir %q: %v'' (\<lambda>m. m) (CreateTarget H J target)) (\<lambda>_.
            bind (with_status ''Internal'' ''Could not mount juicefs: %v'' inc_errors
              (JfsMount L G H J (nprVolumeId req) target (nprSecrets req) volCtx (publish_options req volCap))) (\<lambda>fs.
            bind (with_status ''Internal'' ''Could not create volume: %s, %v'' inc_errors
              (CreateVol H fs (mget (omap volCtx) ''subPath''))) (\<lambda>bindSource.
            bind (with_status ''Internal'' ''Could not bind %q at %q: %v'' inc_errors (BindTarget H fs bindSource target)) (\<lambda>_.
              on_world (publish_quota L G H J req (jfSetting fs))))))))"

definition NodeUnpublishVolume ::
  "'x jfs_lib_scheme \<Rightarrow> globals \<Rightarrow> 'w host \<Rightarrow> 'w juicefs \<Rightarrow> string \<Rightarrow> string \<Rightarrow> ('w \<times> nodeMetrics, unit) io" where
  "NodeUnpublishVolume L G H J volumeId target =
     (if target = [] then fail (GrpcStatus ''InvalidArgument'' ''Target path not provided'')
      else with_status ''Internal'' ''Could not unmount %q: %v'' inc_del_errors (JfsUnmount L G H J volumeId target))"

datatype NodeCap = GET_VOLUME_STATS

definition NodeGetCapabilities :: "NodeCap list" where
  "NodeGetCapabilities = [GET_VOLUME_STATS]"

definition NodeGetInfo :: "string \<Rightarrow> string" where
  "NodeGetInfo nodeID = nodeID"

record VolumeUsage =
  vuAvailable :: "64 word"
  vuTotal :: "64 word"
  vuUsed :: "64 word"

text \<open>
  The sizes are uint64 and the answer has int64: the words are the same, read as signed
  numbers. The interface to mounts is always there.
\<close>

definition NodeGetVolumeStats :: "'w host \<Rightarrow> string \<Rightarrow> string \<Rightarrow> ('w, VolumeUsage \<times> VolumeUsage) io" where
  "NodeGetVolumeStats H volumeID volumePath =
     (if volumeID = [] then fail (GrpcStatus ''InvalidArgument'' ''Volume ID not provided'')
      else if volumePath = [] then fail (GrpcStatus ''InvalidArgument'' ''Volume path not provided'')
      else
        bind (io_status ''Internal'' ''Check volume path, err: %s'' (h_path_exists H volumePath)) (\<lambda>exists.
          if \<not> exists then fail (GrpcStatus ''NotFound'' ''Volume path not exists'')
          else bind (io_status ''Internal'' ''Check volume path is mountpoint failed: %s'' (h_is_not_mount_point H volumePath)) (\<lambda>notMnt.
            if notMnt then fail (GrpcStatus ''Internal'' ''Volume path not mounted'')
            else (\<lambda>w. case GetDiskUsage H volumePath w of ((totalSize, freeSize, totalInodes, freeInodes), w') \<Rightarrow>
              (Inr (\<lparr>vuAvailable = freeSize, vuTotal = totalSize, vuUsed = totalSize - freeSize\<rparr>,
                    \<lparr>vuAvailable = freeInodes, vuTotal = totalInodes, vuUsed = totalInodes - freeInodes\<rparr>), w')))))"

section \<open>Provisioner (provisioner.go)\<close>

record ProvisionOptions =
  poPVC :: PersistentVolumeClaim
  poSelectedNode :: "Node option"
  poPVName :: string
  poStorageClass :: StorageClass

definition ReadOnlyMany :: string where "ReadOnlyMany = ''ReadOnlyMany''"
definition ReclaimDelete :: string where "ReclaimDelete = ''Delete''"

definition resolve_params :: "ProvisionOptions \<Rightarrow> smap" where
  "resolve_params opts =
     (let pvMeta = NewObjectMeta (poPVC opts) (poSelectedNode opts) in
      map (\<lambda>(k, v). (k, if HasPrefix k ''csi.storage.k8s.io/'' then ResolveSecret pvMeta v (poPVName opts) else StringParser pvMeta v))
        (sclParameters (poStorageClass opts)))"

definition resolve_options :: "ProvisionOptions \<Rightarrow> string list" where
  "resolve_options opts =
     (let pvMeta = NewObjectMeta (poPVC opts) (poSelectedNode opts) in
      concat (map (\<lambda>mo. Split CHR '','' (TrimSpace (StringParser pvMeta mo))) (sclMountOptions (poStorageClass opts))))"

definition secret_ref :: "smap \<Rightarrow> string \<Rightarrow> string \<Rightarrow> (string \<times> string) option" where
  "secret_ref params nameKey nsKey = Some (mget params nameKey, mget params nsKey)"

definition provisioned_pv :: "'x lib_scheme \<Rightarrow> globals \<Rightarrow> ProvisionOptions \<Rightarrow> PersistentVolume" where
  "provisioned_pv L G opts =
     (let scParams = resolve_params opts;
          subPath = (if mget scParams ''pathPattern'' \<noteq> [] then mget scParams ''pathPattern'' else poPVName opts);
          volCtx = mputs scParams [(''subPath'', subPath), (''capacity'', FormatInt (l_quantity_value L (pvcStorageRequest (poPVC opts))))]
      in \<lparr>pvMeta = zero_meta\<lparr>mName := poPVName opts\<rparr>,
          pvCapacity = pvcStorageRequest (poPVC opts),
          pvCSI = Some \<lparr>cpDriver = DriverName G, cpVolumeHandle = poPVName opts, cpFSType = ''juicefs'', cpVolumeAttributes = volCtx,
            cpNodePublishSecretRef = secret_ref scParams PublishSecretName PublishSecretNamespace,
            cpControllerExpandSecretRef =
              (if mget scParams ControllerExpandSecretName \<noteq> [] \<and> mget scParams ControllerExpandSecretNamespace \<noteq> []
               then secret_ref scParams ControllerExpandSecretName ControllerExpandSecretNamespace else None)\<rparr>,
          pvClaimRef = None,
          pvStorageClassName = mName (sclMeta (poStorageClass opts)),
          pvMountOptions = resolve_options opts,
          pvAccessModes = pvcAccessModes (poPVC opts),
          pvReclaimPolicy = sclReclaimPolicy (poStorageClass opts),
          pvVolumeMode = pvcVolumeMode (poPVC opts)\<rparr>)"

text \<open>The state of the provisioner is the number of its errors.\<close>

definition Provision ::
  "'x lib_scheme \<Rightarrow> globals \<Rightarrow> finalizer_lib \<Rightarrow> 'w K8sClient \<Rightarrow> ProvisionOptions \<Rightarrow> ('w \<times> nat, PersistentVolume) io" where
  "Provision L G F K opts =
     (let scParams = resolve_params opts; sc = poStorageClass opts in
      if pvcSelector (poPVC opts) then fail (Errorf ''claim Selector is not supported'' [])
      else if ReadOnlyMany \<in> set (pvcAccessModes (poPVC opts)) \<and> mget (sclParameters sc) ''pathPattern'' = [] then
        after (\<lambda>(w, n). (w, n + 1)) (fail (GrpcStatus ''InvalidArgument''
          ''Dynamic mounting uses the sub-path named pv name as data isolation, so read-only mode cannot be used.''))
      else
        tryE (on_world (GetSecret K (mget scParams ProvisionerSecretName) (mget scParams ProvisionerSecretNamespace)))
          (\<lambda>e. after (\<lambda>(w, n). (w, n + 1)) (fail (Errorf ''unable to provision new pv: '' [])))
          (\<lambda>secret.
            bind (if sclReclaimPolicy sc = ReclaimDelete \<and> mget (sclParameters sc) ''secretFinalizer'' = ''true''
                  then on_world (ignore_err (AddSecretFinalizer F K secret Finalizer)) else ret ()) (\<lambda>_.
              ret (provisioned_pv L G opts))))"

definition secret_of_pv :: "PersistentVolume \<Rightarrow> (string \<times> string) res" where
  "secret_of_pv volume = (case pvCSI volume of None \<Rightarrow> Inl (Panic ''nil pointer dereference'')
     | Some csi \<Rightarrow> (case cpNodePublishSecretRef csi of None \<Rightarrow> Inl (Panic ''nil pointer dereference'') | Some r \<Rightarrow> Inr r))"

definition remove_finalizer :: "finalizer_lib \<Rightarrow> 'w K8sClient \<Rightarrow> PersistentVolume \<Rightarrow> Secret \<Rightarrow> ('w, unit) io" where
  "remove_finalizer F K volume secret =
     bind (lift_res (pv_attr volume ''secretFinalizer'')) (\<lambda>sf.
       if sf = ''true'' then
         bind (CheckForSecretFinalizer K volume) (\<lambda>shouldRemove.
           if shouldRemove then ignore_err (RemoveSecretFinalizer F K secret Finalizer) else ret ())
       else ret ())"

definition Delete ::
  "'x jfs_lib_scheme \<Rightarrow> globals \<Rightarrow> finalizer_lib \<Rightarrow> 'w host \<Rightarrow> 'w juicefs \<Rightarrow> 'w K8sClient \<Rightarrow> PersistentVolume \<Rightarrow> ('w, unit) io" where
  "Delete L G F H J K volume =
     (if pvReclaimPolicy volume \<noteq> ReclaimDelete then ret ()
      else
        bind (lift_res (pv_attr volume ''pathPattern'')) (\<lambda>pathPattern.
        bind (CheckForSubPath K volume pathPattern) (\<lambda>shouldDeleted.
          if \<not> shouldDeleted then ret ()
          else
            bind (lift_res (pv_attr volume ''subPath'')) (\<lambda>subPath.
            bind (lift_res (secret_of_pv volume)) (\<lambda>(secretName, secretNamespace).
            bind (GetSecret K secretName secretNamespace) (\<lambda>secret.
            bind (wrapf ''unable to provision delete volume: '' []
              (JfsDeleteVol L G H J (mName (pvMeta volume)) subPath (Some (seData secret))
                 (map_option cpVolumeAttributes (pvCSI volume)) (pvMountOptions volume))) (\<lambda>_.
              remove_finalizer F K volume secret)))))))"

section \<open>Identity (identity.go)\<close>

definition GetPluginInfo :: "globals \<Rightarrow> string \<Rightarrow> string \<times> string" where
  "GetPluginInfo G driverVersion = (DriverName G, driverVersion)"

datatype PluginCap = CONTROLLER_SERVICE

definition GetPluginCapabilities :: "PluginCap list" where
  "GetPluginCapabilities = [CONTROLLER_SERVICE]"

definition Probe :: unit where
  "Probe = ()"

section \<open>Concurrent requests of the controller\<close>

text \<open>
  The requests of the controller interleave: a deletion in progress is a session with the
  volume it deletes. Only the deletion itself is not atomic.
\<close>

inductive controller_step ::
  "controllerService \<times> (nat \<rightharpoonup> string) \<Rightarrow> controllerService \<times> (nat \<rightharpoonup> string) \<Rightarrow> bool" where
  create: "CreateVolume req d = (r, d') \<Longrightarrow> controller_step (d, s) (d', s)"
| answer: "delete_begin req d = (Answer r, d') \<Longrightarrow> controller_step (d, s) (d', s)"
| start: "s i = None \<Longrightarrow> delete_begin req d = (Deleting, d') \<Longrightarrow> controller_step (d, s) (d', s(i \<mapsto> drVolumeId req))"
| finish: "s i = Some v \<Longrightarrow> delete_end v r d = (a, d') \<Longrightarrow> controller_step (d, s) (d', s(i := None))"

inductive_cases controller_stepE: "controller_step (d, s) (d', s')"

lemma CreateVolume_locks: "CreateVolume req d = (r, d') \<Longrightarrow> volLocks d' = volLocks d"
  by (auto simp: CreateVolume_def Let_def split: if_splits option.splits)

lemma delete_begin_answer: "delete_begin req d = (Answer r, d') \<Longrightarrow> d' = d"
  by (auto simp: delete_begin_def Let_def split: if_splits prod.splits bool.splits)

lemma delete_begin_Deleting:
  "delete_begin req d = (Deleting, d') \<Longrightarrow> TryAcquire (volLocks d) (drVolumeId req) = (True, volLocks d')"
  by (auto simp: delete_begin_def Let_def split: if_splits prod.splits bool.splits)

lemma delete_end_locks: "delete_end v r d = (a, d') \<Longrightarrow> volLocks d' = Release (volLocks d) v"
  by (auto simp: delete_end_def split: sum.splits)

lemma controller_step_owned:
  assumes "controller_step (d, s) (d', s')" "vl.owned (volLocks d) s"
  shows "vl.owned (volLocks d') s'"
  using assms(1)
  by (rule controller_stepE)
    (use assms(2) in \<open>auto simp: CreateVolume_locks delete_end_locks
       intro: vl.owned_acquire vl.owned_release dest: delete_begin_answer delete_begin_Deleting\<close>)

lemma controller_reachable_owned:
  assumes "controller_step\<^sup>*\<^sup>* (newControllerService, Map.empty) (d, s)"
  shows "vl.owned (volLocks d) s"
proof -
  have "controller_step\<^sup>*\<^sup>* x y \<Longrightarrow> vl.owned (volLocks (fst x)) (snd x) \<Longrightarrow> vl.owned (volLocks (fst y)) (snd y)" for x y
    by (induction rule: rtranclp_induct) (metis controller_step_owned prod.collapse)+
  from this [OF assms] show ?thesis by (simp add: vl.owned_def newControllerService_def NewVolumeLocks_def)
qed

text \<open>
  C37: at most one request deletes a volume at any time, in every interleaving of the
  requests: the locks held are exactly those of the sessions, no two sessions have the
  same volume, a second deletion is answered with Aborted and changes nothing, and with no
  session left no lock is held, whether the deletions failed or not.
\<close>

theorem DeleteVolume_exclusive:
  assumes "controller_step\<^sup>*\<^sup>* (newControllerService, Map.empty) (d, s)"
  shows "(s i = Some v \<longrightarrow> s j = Some v \<longrightarrow> i = j) \<and> set (volLocks d) = ran s \<and>
    (s i = Some (drVolumeId req) \<longrightarrow> CheckDynamicPV (drVolumeId req) \<longrightarrow> drVolumeId req \<noteq> [] \<longrightarrow> omap (drSecrets req) \<noteq> [] \<longrightarrow>
       delete_begin req d = (Answer (Inl (GrpcStatus ''Aborted'' ''DeleteVolume: Volume %q is being used by another operation'')), d)) \<and>
    (s = Map.empty \<longrightarrow> volLocks d = [])"
proof -
  note o = controller_reachable_owned [OF assms]
  have "s i = Some (drVolumeId req) \<Longrightarrow> TryAcquire (volLocks d) (drVolumeId req) = (False, volLocks d)"
    using vl.owned_refuses [OF o] .
  then show ?thesis using vl.owned_exclusive [OF o] o
    by (auto simp: delete_begin_def vl.owned_def Let_def)
qed

definition pvc_volume :: string where "pvc_volume = ''pvc-01234567-0123-0123-0123-0123456789ab''"

definition pvc_request :: DeleteVolumeRequest where
  "pvc_request = \<lparr>drVolumeId = pvc_volume, drSecrets = Some [(''name'', ''v'')]\<rparr>"

theorem DeleteVolume_exclusive_witness:
  "delete_begin pvc_request (snd (delete_begin pvc_request newControllerService))
   = (Answer (Inl (GrpcStatus ''Aborted'' ''DeleteVolume: Volume %q is being used by another operation'')),
      snd (delete_begin pvc_request newControllerService))"
proof -
  have c: "CheckDynamicPV (drVolumeId pvc_request)" "drVolumeId pvc_request \<noteq> []" "omap (drSecrets pvc_request) \<noteq> []"
    by code_simp+
  have "TryAcquire (volLocks newControllerService) v = (True, [v])" for v
    by (simp add: newControllerService_def NewVolumeLocks_def TryAcquire_def)
  with c obtain d where d: "delete_begin pvc_request newControllerService = (Deleting, d)" by (simp add: delete_begin_def)
  have "controller_step (newControllerService, Map.empty) (d, Map.empty(0 \<mapsto> drVolumeId pvc_request))"
    by (rule controller_step.start [OF _ d]) simp
  from DeleteVolume_exclusive [OF r_into_rtranclp [of controller_step, OF this], of 0 _ 0 pvc_request] c d
  show ?thesis by simp
qed

section \<open>Paths that volumes share\<close>

text \<open>
  C38: the provisioner never deletes a path that is still in use: when another volume of
  the same class, not being deleted itself, has the same path and the class uses a path
  pattern, Delete does nothing beyond listing the volumes.
\<close>

theorem Delete_keeps_shared_path:
  assumes "pvCSI volume = Some csi" "mget (cpVolumeAttributes csi) ''pathPattern'' \<noteq> []"
    and "ListPersistentVolumes K None None w = (Inr pvs, w1)" "pv \<in> set pvs" "mName (pvMeta pv) \<noteq> mName (pvMeta volume)"
    and "mDeletionTimestamp (pvMeta pv) = None" "pvStorageClassName pv = pvStorageClassName volume"
    and "pvCSI pv = Some csi'" "mget (cpVolumeAttributes csi') ''subPath'' = mget (cpVolumeAttributes csi) ''subPath''"
  shows "snd (Delete L G F H J K volume w) \<in> {w, w1}"
proof -
  have "\<not> skipped volume pv" using assms(5-7) by (simp add: skipped_def)
  then have "none_shares volume [(''subPath'', mget (cpVolumeAttributes csi) ''subPath'')] pvs \<noteq> Inr True"
    using none_shares_True [OF _ assms(4)] assms(8,9) by fastforce
  then show ?thesis using assms(1-3)
    by (auto simp: Delete_def CheckForSubPath_def pv_attr_def bind_eq lift_res_def ret_def split: sum.splits)
qed

definition volume_b :: PersistentVolume where
  "volume_b = volume_a\<lparr>pvMeta := zero_meta\<lparr>mName := ''pv-b''\<rparr>,
     pvCSI := map_option (cpVolumeAttributes_update (mput ''pathPattern'' ''shared'')) (pvCSI volume_a)\<rparr>"

definition shared_client :: "bool K8sClient" where
  "shared_client = idle_client\<lparr>c_pvs_list := \<lambda>_ _. ret [volume_a, volume_b]\<rparr>"

definition shared_finalizers :: finalizer_lib where
  "shared_finalizers = \<lparr>fl_contains = (\<lambda>f x. x \<in> set f), fl_add = (\<lambda>f x. f @ [x]), fl_remove = (\<lambda>f x. removeAll x f)\<rparr>"

definition shared_juicefs :: "bool juicefs" where
  "shared_juicefs = \<lparr>j_client = Some shared_client, j_env = (\<lambda>_. None), j_UUIDMaps = (\<lambda>_. []), j_set_UUIDMaps = (\<lambda>_ w. w),
     j_CacheDirMaps = (\<lambda>_. []), j_set_CacheDirMaps = (\<lambda>_ w. w), j_kubelet = (\<lambda>_ _. ret ()), j_fuel = 1\<rparr>"

theorem Delete_keeps_shared_path_witness:
  "snd (Delete hex_jfs_lib sample_globals shared_finalizers idle_host shared_juicefs shared_client volume_b False) = False"
proof -
  let ?csi = "the (pvCSI volume_b)"
  have "snd (Delete hex_jfs_lib sample_globals shared_finalizers idle_host shared_juicefs shared_client volume_b False) \<in> {False, False}"
    by (rule Delete_keeps_shared_path [where csi = ?csi and csi' = "the (pvCSI volume_a)" and pv = volume_a and pvs = "[volume_a, volume_b]"])
      (simp_all add: volume_b_def volume_a_def shared_client_def client_reads ret_def zero_defs mget_def)
  then show ?thesis by simp
qed

section \<open>Usage of a volume\<close>

lemma sint_small: "unat (x :: 64 word) < 2 ^ 63 \<Longrightarrow> sint x = int (unat x)"
proof -
  assume "unat x < 2 ^ 63"
  then have "uint x < 2 ^ 63" by (metis int_ops(3) int_eq_iff of_nat_less_iff of_nat_numeral of_nat_power uint_nat)
  moreover have "0 \<le> uint x" by simp
  ultimately have "signed_take_bit 63 (uint x) = uint x" by (intro signed_take_bit_int_eq_self) linarith+
  then show ?thesis by (simp add: sint_uint)
qed

lemma usage_exact:
  assumes "unat t < 2 ^ 63" "unat (f :: 64 word) \<le> unat t"
  shows "sint (t - f) = sint t - sint f" "0 \<le> sint (t - f)"
proof -
  have "unat (t - f) = unat t - unat f" using assms(2) by (simp add: unat_sub word_le_nat_alt)
  then show "sint (t - f) = sint t - sint f" "0 \<le> sint (t - f)"
    using sint_small [of "t - f"] sint_small [of t] sint_small [of f] assms by linarith+
qed

text \<open>
  The usage of a volume is exact as long as the sizes fit in 63 bits and not more is
  free than there is: the number of used bytes is the block size times the used blocks,
  nothing is negative, and used and available add up to the total, for inodes too.
\<close>

theorem NodeGetVolumeStats_exact:
  assumes "NodeGetVolumeStats H volumeID path w = (Inr (bytes, inodes), w')"
    and "\<And>v. fst (h_statfs H path v) = Inr (bsize, blocks, bfree, files, ffree)"
    and "unat bsize * unat blocks < 2 ^ 63" "unat bfree \<le> unat blocks" "unat files < 2 ^ 63" "unat ffree \<le> unat files"
  shows "sint (vuUsed bytes) = int (unat bsize * (unat blocks - unat bfree)) \<and>
    sint (vuUsed bytes) + sint (vuAvailable bytes) = sint (vuTotal bytes) \<and>
    0 \<le> sint (vuUsed inodes) \<and> sint (vuUsed inodes) + sint (vuAvailable inodes) = sint (vuTotal inodes)"
proof -
  obtain v where "GetDiskUsage H path v = ((vuTotal bytes, vuAvailable bytes, vuTotal inodes, vuAvailable inodes), w')"
    and u: "vuUsed bytes = vuTotal bytes - vuAvailable bytes" "vuUsed inodes = vuTotal inodes - vuAvailable inodes"
    using assms(1) by (auto simp: NodeGetVolumeStats_def bind_eq fail_def split: if_splits sum.splits prod.splits)
  then have t: "vuTotal bytes = bsize * blocks" "vuAvailable bytes = bsize * bfree" "vuTotal inodes = files" "vuAvailable inodes = ffree"
    using assms(2) [of v] by (auto simp: GetDiskUsage_def split: sum.splits prod.splits)
  have le: "unat bsize * unat bfree \<le> unat bsize * unat blocks" using assms(4) by simp
  have m: "unat (bsize * blocks) = unat bsize * unat blocks" "unat (bsize * bfree) = unat bsize * unat bfree"
    using assms(3) le_less_trans [OF le assms(3)] by (simp_all add: unat_word_ariths)
  note b = usage_exact [of "bsize * blocks" "bsize * bfree"] and i = usage_exact [OF assms(5,6)]
  have "sint (bsize * blocks) - sint (bsize * bfree) = int (unat bsize * unat blocks) - int (unat bsize * unat bfree)"
    using sint_small [of "bsize * blocks"] sint_small [of "bsize * bfree"] m assms(3) le_less_trans [OF le assms(3)] by simp
  also have "\<dots> = int (unat bsize * (unat blocks - unat bfree))"
    using assms(4) by (simp add: of_nat_diff right_diff_distrib)
  finally show ?thesis using b i m assms(3) le by (simp add: t u)
qed

definition stats_host :: "unit host" where
  "stats_host = idle_host\<lparr>h_is_not_mount_point := \<lambda>_. ret False, h_statfs := \<lambda>_. ret (4096, 1000, 400, 10, 3)\<rparr>"

theorem NodeGetVolumeStats_exact_witness:
  "\<exists>bytes inodes. NodeGetVolumeStats stats_host ''v'' ''/p'' () = (Inr (bytes, inodes), ()) \<and> sint (vuUsed bytes) = 4096 * 600"
proof -
  obtain bytes inodes where s: "NodeGetVolumeStats stats_host ''v'' ''/p'' () = (Inr (bytes, inodes), ())"
    by (simp add: NodeGetVolumeStats_def GetDiskUsage_def stats_host_def idle_host_def go_step io_status_def)
  have "fst (h_statfs stats_host ''/p'' v) = Inr (4096, 1000, 400, 10, 3)" for v by (simp add: stats_host_def ret_def)
  from NodeGetVolumeStats_exact [OF s this] s show ?thesis by simp
qed

section \<open>Repeated creation\<close>

lemma isValid_all: "isValidVolumeCapabilities cs \<longleftrightarrow> list_all has_support cs"
proof -
  have "foldl (\<lambda>foundAll c. if \<not> has_support c then False else foundAll) b cs \<longleftrightarrow> b \<and> list_all has_support cs" for b
    by (induction cs arbitrary: b) auto
  then show ?thesis by (simp add: isValidVolumeCapabilities_def)
qed

lemma CreateVolume_accepts:
  assumes "crName req \<noteq> []" "crVolumeCapabilities req = Some caps" "list_all has_support caps"
    and "\<not> list_ex (\<lambda>vc. vcAccessMode vc = MULTI_NODE_READER_ONLY) caps"
  shows "CreateVolume req d =
    (if (case map_of (vols d) (crName req) of None \<Rightarrow> False | Some capa \<Rightarrow> capa < crRequiredBytes req)
     then (Inl (GrpcStatus ''AlreadyExists'' ''Volume: %q, capacity bytes: %d''), d)
     else (Inr \<lparr>cvVolumeId = crName req, cvCapacityBytes = crRequiredBytes req,
             cvVolumeContext = mput ''capacity'' (FormatInt (crRequiredBytes req)) (mput ''subPath'' (crName req) (mputs (crParameters req) []))\<rparr>,
           d\<lparr>vols := mput (crName req) (crRequiredBytes req) (vols d)\<rparr>))"
  using assms by (simp add: CreateVolume_def isValid_all Let_def)

text \<open>
  Creation is idempotent only for the same request: an accepted request is accepted
  again with the same answer, but after a request for less, which is accepted and
  recorded, the first one is refused as existing with another capacity.
\<close>

theorem CreateVolume_repeated:
  assumes "CreateVolume req d = (Inr vol, d1)" "small < crRequiredBytes req"
  shows "fst (CreateVolume req d1) = Inr vol \<and>
    (case CreateVolume (req\<lparr>crRequiredBytes := small\<rparr>) d1 of (r, d2) \<Rightarrow> (\<exists>vol'. r = Inr vol') \<and>
       fst (CreateVolume req d2) = Inl (GrpcStatus ''AlreadyExists'' ''Volume: %q, capacity bytes: %d''))"
proof -
  obtain caps where c: "crName req \<noteq> []" "crVolumeCapabilities req = Some caps" "list_all has_support caps"
    "\<not> list_ex (\<lambda>vc. vcAccessMode vc = MULTI_NODE_READER_ONLY) caps"
    using assms(1) by (auto simp: CreateVolume_def isValid_all Let_def split: if_splits option.splits)
  from CreateVolume_accepts [OF c, of d] assms(1) have "map_of (vols d1) (crName req) = Some (crRequiredBytes req)"
    and v: "vol = \<lparr>cvVolumeId = crName req, cvCapacityBytes = crRequiredBytes req,
             cvVolumeContext = mput ''capacity'' (FormatInt (crRequiredBytes req)) (mput ''subPath'' (crName req) (mputs (crParameters req) []))\<rparr>"
    by (auto split: if_splits simp del: map_of_eq_Some_iff)
  with assms(2) CreateVolume_accepts [OF c] CreateVolume_accepts [of "req\<lparr>crRequiredBytes := small\<rparr>" caps] c
  show ?thesis by (simp del: map_of_eq_Some_iff)
qed

definition create_request :: CreateVolumeRequest where
  "create_request = \<lparr>crName = ''v'', crVolumeCapabilities = Some [\<lparr>vcAccessType = MountType [], vcAccessMode = SINGLE_NODE_WRITER\<rparr>],
     crRequiredBytes = 10, crParameters = [], crSecrets = None\<rparr>"

theorem CreateVolume_repeated_witness:
  "fst (CreateVolume create_request (snd (CreateVolume (create_request\<lparr>crRequiredBytes := 5\<rparr>)
     (snd (CreateVolume create_request newControllerService))))) = Inl (GrpcStatus ''AlreadyExists'' ''Volume: %q, capacity bytes: %d'')"
proof -
  obtain vol d1 where "CreateVolume create_request newControllerService = (Inr vol, d1)"
    by (simp add: CreateVolume_def create_request_def isValid_all has_support_def volumeCaps_def newControllerService_def Let_def)
  moreover have "5 < crRequiredBytes create_request" by (simp add: create_request_def)
  ultimately show ?thesis using CreateVolume_repeated [of create_request newControllerService vol d1 5]
    by (simp add: split_beta)
qed

end
