(* ===== verification/PodDriver.thy ===== *)
theory PodDriver
  imports JuiceFS VolumeUtil
begin

text \<open>
  The driver of the mount pods of a node: src/pkg/controller/mountinfo.go, the table of mounts
  and the state of targets, and pod\_driver.go, the handlers of the states of a mount pod.
  A goroutine is started by the parameter \<open>pdSpawn\<close> and is a task of its own. Waiting for a
  context is a sleep up to its deadline. Ranging over a map has the order of its list.
\<close>

section \<open>The mount table (mountinfo.go)\<close>

record mountInfoTable =
  mit_mis :: "MountInfo list"
  mit_deletedPods :: "(string \<times> bool) list"

definition newMountInfoTable :: mountInfoTable where
  "newMountInfoTable = \<lparr>mit_mis = [], mit_deletedPods = []\<rparr>"

definition mit_parse :: "'w host \<Rightarrow> mountInfoTable \<Rightarrow> ('w, mountInfoTable) io" where
  "mit_parse H mit = bind (h_mount_infos H) (\<lambda>mis. ret (mit\<lparr>mit_mis := mis\<rparr>))"

definition is_deleting :: "Pod \<Rightarrow> bool" where
  "is_deleting pod = (mDeletionTimestamp (pMeta pod) \<noteq> None)"

definition setPodStatus :: "Pod \<Rightarrow> mountInfoTable \<Rightarrow> mountInfoTable" where
  "setPodStatus pod mit = mit\<lparr>mit_deletedPods := mput (mUID (pMeta pod)) (is_deleting pod) (mit_deletedPods mit)\<rparr>"

definition setPodsStatus :: "Pod list \<Rightarrow> mountInfoTable \<Rightarrow> mountInfoTable" where
  "setPodsStatus pods mit = mit\<lparr>mit_deletedPods := foldl (\<lambda>m pod. mput (mUID (pMeta pod)) (is_deleting pod) m) [] pods\<rparr>"

definition containerSubPathDirectory :: string where "containerSubPathDirectory = ''volume-subpaths''"
definition containerCsiDirectory :: string where "containerCsiDirectory = ''volumes/kubernetes.io~csi''"

datatype targetStatus = targetStatusNotExist | targetStatusMounted | targetStatusNotMount | targetStatusCorrupt | targetStatusUnexpect

record targetItem =
  tiTarget :: string
  tiSubpath :: string
  tiCount :: nat
  tiInconsistent :: bool
  tiStatus :: targetStatus
  tiErr :: "err option"

record mountItem =
  itPodExist :: bool
  itPodDeleted :: bool
  itBaseTarget :: targetItem
  itSubPathTarget :: "targetItem list"

text \<open>\<open>Corrupted\<close> is an error for which k8sMount.IsCorruptedMnt holds.\<close>

definition ti_check :: "'w host \<Rightarrow> bool \<Rightarrow> targetItem \<Rightarrow> ('w, targetItem) io" where
  "ti_check H mounted ti =
     tryE (h_stat H (tiTarget ti))
       (\<lambda>e. if e = NotExist then ret (ti\<lparr>tiStatus := targetStatusNotExist\<rparr>)
            else (let ti1 = (if \<not> mounted then ti\<lparr>tiStatus := targetStatusUnexpect, tiErr := Some e\<rparr> else ti) in
              ret (if e = Corrupted then ti1\<lparr>tiStatus := targetStatusCorrupt\<rparr>
                   else ti1\<lparr>tiStatus := targetStatusUnexpect, tiErr := Some e\<rparr>)))
       (\<lambda>_. ret (ti\<lparr>tiStatus := (if mounted then targetStatusMounted else targetStatusNotMount)\<rparr>))"

definition getPodUid :: "string \<Rightarrow> string" where
  "getPodUid target =
     (let pair = SplitStr containerCsiDirectory [] target in
      if length pair \<noteq> 2 then []
      else (let podDir = TrimSuffix (pair ! 0) ''/'' in
        case LastIndex podDir CHR ''/'' of None \<Rightarrow> [] | Some i \<Rightarrow> if i = 0 then [] else drop (i + 1) podDir))"

definition getPVName :: "string \<Rightarrow> string" where
  "getPVName target =
     (let pair = SplitStr containerCsiDirectory [] target in
      if length pair \<noteq> 2 then []
      else (let pvName = TrimPrefix (pair ! 1) ''/'' in
        case Index pvName ''/'' of None \<Rightarrow> [] | Some i \<Rightarrow> if i = 0 then [] else take i pvName))"

definition root_subpath :: "MountInfo \<Rightarrow> string" where
  "root_subpath mi = TrimChar CHR ''/'' (TrimSuffix (miRoot mi) ''//deleted'')"

definition new_item :: "string \<Rightarrow> string \<Rightarrow> nat \<Rightarrow> targetItem" where
  "new_item target subpath count = \<lparr>tiTarget = target, tiSubpath = subpath, tiCount = count, tiInconsistent = False,
     tiStatus = targetStatusNotExist, tiErr = None\<rparr>"

definition record_mount :: "(string \<times> targetItem) list \<Rightarrow> MountInfo \<Rightarrow> (string \<times> targetItem) list" where
  "record_mount records mi =
     (let subpath = root_subpath mi in
      case map_of records (miMountPoint mi) of
        None \<Rightarrow> mput (miMountPoint mi) (new_item (miMountPoint mi) subpath 1) records
      | Some r \<Rightarrow> mput (miMountPoint mi)
          (r\<lparr>tiInconsistent := (if tiSubpath r \<noteq> subpath then True else tiInconsistent r), tiCount := tiCount r + 1\<rparr>) records)"

definition mount_matches :: "string \<Rightarrow> bool \<Rightarrow> MountInfo \<Rightarrow> bool" where
  "mount_matches path isPrefix mi = (if isPrefix then HasPrefix (miMountPoint mi) path else path = miMountPoint mi)"

fun check_all :: "'w host \<Rightarrow> targetItem list \<Rightarrow> ('w, targetItem list) io" where
  "check_all H [] = ret []"
| "check_all H (ti # tis) = bind (ti_check H True ti) (\<lambda>t. bind (check_all H tis) (\<lambda>ts. ret (t # ts)))"

definition resolveTargetItem :: "'w host \<Rightarrow> mountInfoTable \<Rightarrow> string \<Rightarrow> bool \<Rightarrow> ('w, targetItem list) io" where
  "resolveTargetItem H mit path isPrefix =
     check_all H (map snd (foldl record_mount [] (filter (mount_matches path isPrefix) (mit_mis mit))))"

definition resolveTarget :: "'w host \<Rightarrow> mountInfoTable \<Rightarrow> string \<Rightarrow> ('w, mountItem option) io" where
  "resolveTarget H mit target =
     (let pair = SplitStr containerCsiDirectory [] target in
      if length pair \<noteq> 2 then ret None
      else (let podDir = TrimSuffix (pair ! 0) ''/''; podUID = getPodUid target; pvName = getPVName target in
        if podUID = [] then ret None
        else if pvName = [] then ret None
        else
          bind (resolveTargetItem H mit target False) (\<lambda>iterms.
          bind (if length iterms = 1 then ret (iterms ! 0) else ti_check H False (new_item target [] 0)) (\<lambda>base.
          bind (resolveTargetItem H mit (Join [podDir, containerSubPathDirectory, pvName] ''/'') True) (\<lambda>subs.
            ret (Some \<lparr>itPodExist = mhas (mit_deletedPods mit) podUID,
              itPodDeleted = (map_of (mit_deletedPods mit) podUID = Some True),
              itBaseTarget = base, itSubPathTarget = subs\<rparr>))))))"

section \<open>The driver (pod\_driver.go)\<close>

datatype podStatus = podReady | podError | podDeleted | podPending

datatype task = CheckMountPodStuck Pod | CleanUpCacheOf Pod

record 'w PodDriver =
  pdClient :: "'w K8sClient"
  pdSpawn :: "task \<Rightarrow> 'w \<Rightarrow> 'w"
  pdFinalizers :: finalizer_lib
  pdFuel :: nat

definition defaultTargetMountCounts :: nat where "defaultTargetMountCounts = 5"

definition getPodStatus :: "Pod option \<Rightarrow> podStatus" where
  "getPodStatus pod = (case pod of None \<Rightarrow> podError
     | Some p \<Rightarrow> if is_deleting p then podDeleted else if IsPodError p then podError
         else if IsPodReady p then podReady else podPending)"

subsection \<open>References of pods that are gone\<close>

definition ref_targets :: "'x lib_scheme \<Rightarrow> Pod \<Rightarrow> (string \<times> string) list" where
  "ref_targets L pod = filter (\<lambda>(k, target). k = GetReferenceKey L target) (annos pod)"

definition target_known :: "mountInfoTable \<Rightarrow> string \<Rightarrow> bool" where
  "target_known mit target = mhas (mit_deletedPods mit) (getPodUid target)"

definition dead_annotations :: "'x lib_scheme \<Rightarrow> mountInfoTable \<Rightarrow> Pod \<Rightarrow> string list \<times> nat" where
  "dead_annotations L mit pod =
     (let refs = ref_targets L pod;
          dels = map fst (filter (\<lambda>(_, target). \<not> target_known mit target) refs);
          existTargets = length (filter (\<lambda>(_, target). target_known mit target) refs)
      in (if existTargets \<noteq> 0 \<and> mget (annos pod) DeleteDelayAtKey \<noteq> [] then dels @ [DeleteDelayAtKey] else dels, existTargets))"

definition delete_unused :: "'x lib_scheme \<Rightarrow> 'w host \<Rightarrow> 'w PodDriver \<Rightarrow> Pod \<Rightarrow> ('w, unit) io" where
  "delete_unused L H P pod =
     bind (ShouldDelay L H (pdClient P) pod) (\<lambda>shouldDelay.
       if shouldDelay then ret ()
       else
         bind (GetPod (pdClient P) (pod_name pod) (pod_ns pod)) (\<lambda>newPod.
           if GetAllRefKeys L newPod \<noteq> [] then fail Conflict
           else
             bind (DeletePod (pdClient P) (Some pod)) (\<lambda>_.
               ignore_err (DeleteSecret (pdClient P) (pod_name pod @ ''-secret'') (pod_ns pod)))))"

definition checkAnnotations :: "'x lib_scheme \<Rightarrow> 'w host \<Rightarrow> 'w PodDriver \<Rightarrow> mountInfoTable \<Rightarrow> Pod \<Rightarrow> ('w, unit) io" where
  "checkAnnotations L H P mit pod =
     with_lock H (GetPodLock (pod_name pod)) (
       case dead_annotations L mit pod of (delAnnotations, existTargets) \<Rightarrow>
         bind (if delAnnotations = [] then ret ()
               else bind (GetPod (pdClient P) (pod_name pod) (pod_ns pod)) (\<lambda>newPod.
                 if length (GetAllRefKeys L newPod) \<noteq> length (GetAllRefKeys L pod) then fail Conflict
                 else DelPodAnnotation (pdClient P) pod delAnnotations)) (\<lambda>_.
           if existTargets = 0 \<and> \<not> is_deleting pod then delete_unused L H P pod else ret ()))"

subsection \<open>Pods that fail for resources\<close>

text \<open>Waiting until a deleted pod is gone.\<close>

fun wait_gone :: "'w host \<Rightarrow> 'w K8sClient \<Rightarrow> nat \<Rightarrow> Pod \<Rightarrow> ('w, bool) io" where
  "wait_gone H K 0 pod = fail OutOfFuel"
| "wait_gone H K (Suc fuel) pod =
     tryE (GetPod K (pod_name pod) (pod_ns pod))
       (\<lambda>e w. if e = NotFound then (Inr True, w)
              else if e = Timeout then (Inr False, w)
              else if h_ctx_err H w = Some Canceled \<or> h_ctx_err H w = Some DeadlineExceeded then (Inr False, w)
              else wait_gone H K fuel pod w)
       (\<lambda>_. after (h_sleep H 500) (wait_gone H K fuel pod))"

definition fresh_pod :: "'w PodDriver \<Rightarrow> Pod \<Rightarrow> Pod" where
  "fresh_pod P pod = \<lparr>pMeta = zero_meta\<lparr>mName := pod_name pod, mNamespace := pod_ns pod, mLabels := mLabels (pMeta pod),
       mAnnotations := mAnnotations (pMeta pod), mFinalizers := fl_add (pdFinalizers P) [] Finalizer\<rparr>,
     pSpec = pSpec pod, pStatus = zero_status\<rparr>"

definition redeploy_without_resources :: "'w host \<Rightarrow> 'w PodDriver \<Rightarrow> Pod \<Rightarrow> ('w, unit) io" where
  "redeploy_without_resources H P pod =
     (if IsPodResourceError pod \<and> IsPodHasResource pod then
        bind (ignore_err (RemoveFinalizer (pdClient P) pod Finalizer)) (\<lambda>_.
          tryE (DeletePod (pdClient P) (Some pod)) (\<lambda>_. ret ()) (\<lambda>_.
            bind (wait_gone H (pdClient P) (pdFuel P) pod) (\<lambda>isDeleted.
              if \<not> isDeleted then ret ()
              else ignore_err (CreatePod (pdClient P) (Some (DeleteResourceOfPod (fresh_pod P pod)))))))
      else ret ())"

definition podErrorHandler :: "'w host \<Rightarrow> 'w PodDriver \<Rightarrow> Pod option \<Rightarrow> ('w, unit) io" where
  "podErrorHandler H P pod = (case pod of None \<Rightarrow> ret ()
     | Some p \<Rightarrow> with_lock H (GetPodLock (pod_name p)) (redeploy_without_resources H P p))"

definition podPendingHandler :: "'w host \<Rightarrow> 'w PodDriver \<Rightarrow> Pod option \<Rightarrow> ('w, unit) io" where
  "podPendingHandler H P pod = (case pod of None \<Rightarrow> ret ()
     | Some p \<Rightarrow> with_lock H (GetPodLock (pod_name p)) (redeploy_without_resources H P p))"

subsection \<open>Recovery of targets\<close>

fun umountTarget :: "'w host \<Rightarrow> string \<Rightarrow> nat \<Rightarrow> ('w, unit) io" where
  "umountTarget H target 0 = ret ()"
| "umountTarget H target (Suc count) = bind (ignore_err (h_unmount H target)) (\<lambda>_. umountTarget H target count)"

definition target_count :: "mountItem \<Rightarrow> string \<Rightarrow> nat" where
  "target_count mi target =
     (if tiTarget (itBaseTarget mi) \<noteq> target then
        foldl (\<lambda>c t. if tiTarget t = target then tiCount t else c) (tiCount (itBaseTarget mi)) (itSubPathTarget mi)
      else tiCount (itBaseTarget mi))"

text \<open>
  The select after the unmount has the single case of the context, so it blocks until the
  two minutes are over and the function returns: the loop has one round.
\<close>

definition umountTargetUntilRemain :: "'w host \<Rightarrow> mountItem \<Rightarrow> string \<Rightarrow> nat \<Rightarrow> ('w, unit) io" where
  "umountTargetUntilRemain H basemi target remainCount =
     bind (wrapf ''umountTargetWithRemain ParseMountInfo: %v'' [] (mit_parse H newMountInfoTable)) (\<lambda>mit.
     bind (resolveTarget H mit (tiTarget (itBaseTarget basemi))) (\<lambda>mi.
       case mi of None \<Rightarrow> fail (Errorf ''pod target %s resolve fail'' [target])
       | Some m \<Rightarrow>
           if target_count m target < remainCount then ret ()
           else bind (UmountPath H target) (\<lambda>_.
             after (h_sleep H 120000000) (fail (Errorf ''umountTargetWithRemain timeout'' [])))))"

definition recoverTarget :: "'w host \<Rightarrow> string \<Rightarrow> targetItem \<Rightarrow> mountItem \<Rightarrow> ('w, unit) io" where
  "recoverTarget H sourcePath ti mi =
     (case tiStatus ti of
        targetStatusNotExist \<Rightarrow> if tiCount ti > 0 \<and> itPodDeleted mi then umountTarget H (tiTarget ti) (tiCount ti) else ret ()
      | targetStatusMounted \<Rightarrow> ret ()
      | targetStatusNotMount \<Rightarrow> ret ()
      | targetStatusCorrupt \<Rightarrow>
          if tiInconsistent ti then ret ()
          else if itPodDeleted mi then ret ()
          else
            tryE (umountTargetUntilRemain H mi (tiTarget ti) defaultTargetMountCounts) (\<lambda>_. ret ()) (\<lambda>_.
              if tiSubpath ti \<noteq> [] then
                (let source = sourcePath @ ''/'' @ tiSubpath ti in
                 tryE (h_stat H source) (\<lambda>_. ret ())
                   (\<lambda>_. ignore_err (h_mount H source (tiTarget ti) ''none'' [''bind''])))
              else ignore_err (h_mount H sourcePath (tiTarget ti) ''none'' [''bind'']))
      | targetStatusUnexpect \<Rightarrow> ret ())"

fun recover_items :: "'w host \<Rightarrow> string \<Rightarrow> mountItem \<Rightarrow> targetItem list \<Rightarrow> ('w, unit) io" where
  "recover_items H mntPath mi [] = ret ()"
| "recover_items H mntPath mi (ti # tis) = bind (recoverTarget H mntPath ti mi) (\<lambda>_. recover_items H mntPath mi tis)"

fun recover_refs :: "'w host \<Rightarrow> mountInfoTable \<Rightarrow> string \<Rightarrow> (string \<times> string) list \<Rightarrow> ('w, unit) io" where
  "recover_refs H mit mntPath [] = ret ()"
| "recover_refs H mit mntPath ((_, target) # refs) =
     bind (resolveTarget H mit target) (\<lambda>m.
     bind (case m of None \<Rightarrow> ret () | Some mi \<Rightarrow> recover_items H mntPath mi (itBaseTarget mi # itSubPathTarget mi)) (\<lambda>_.
       recover_refs H mit mntPath refs))"

definition recover :: "'x lib_scheme \<Rightarrow> 'w host \<Rightarrow> mountInfoTable \<Rightarrow> Pod \<Rightarrow> string \<Rightarrow> ('w, unit) io" where
  "recover L H mit pod mntPath = recover_refs H mit mntPath (ref_targets L pod)"

definition podReadyHandler :: "'x lib_scheme \<Rightarrow> 'w host \<Rightarrow> mountInfoTable \<Rightarrow> Pod option \<Rightarrow> ('w, unit) io" where
  "podReadyHandler L H mit pod = (case pod of None \<Rightarrow> ret ()
     | Some p \<Rightarrow>
         if mAnnotations (pMeta p) = None then ret ()
         else (case GetMountPathOfPod p of Inl _ \<Rightarrow> ret ()
           | Inr (mntPath, _) \<Rightarrow>
               tryE (h_stat H mntPath) (\<lambda>_. ret ()) (\<lambda>finfo.
                 after (\<lambda>w. if fiIno finfo = 1 then h_dev_minor_store H mntPath (DevMinor (fiDev finfo)) w else w)
                   (recover L H mit p mntPath))))"

subsection \<open>Deleted pods\<close>

definition OverwirteMountPodResourcesWithPVC :: "'x lib_scheme \<Rightarrow> 'w K8sClient \<Rightarrow> Pod \<Rightarrow> ('w, Pod) io" where
  "OverwirteMountPodResourcesWithPVC L K pod =
     bind (GetPersistentVolume K (mget (annos pod) UniqueIdKey)) (\<lambda>pv.
       case pvClaimRef pv of None \<Rightarrow> fail (Panic ''nil pointer dereference'')
       | Some (name, ns) \<Rightarrow>
           bind (GetPersistentVolumeClaim K name ns) (\<lambda>pvc.
             let a = omap (mAnnotations (pvcMeta pvc)) in
             case ParsePodResources L (mget a MountPodCpuLimitKey) (mget a MountPodMemLimitKey)
                 (mget a MountPodCpuRequestKey) (mget a MountPodMemRequestKey) of
               Inl e \<Rightarrow> fail (Errorf ''parse pvc resources error: %v'' [])
             | Inr resources \<Rightarrow>
                 (case psContainers (pSpec pod) of [] \<Rightarrow> fail (Panic ''index out of range'')
                  | c # cs \<Rightarrow> ret (set_spec_containers (c\<lparr>cResources := resources\<rparr> # cs) pod))))"

text \<open>
  The mount pod is made again under its name; a failed creation is only logged. PathExists
  reports a corrupted mount as existing, with an error that is not looked at here.
\<close>

definition recreate_pod :: "'x lib_scheme \<Rightarrow> 'w host \<Rightarrow> 'w PodDriver \<Rightarrow> mountInfoTable \<Rightarrow> Pod \<Rightarrow> string \<Rightarrow> ('w, unit) io" where
  "recreate_pod L H P mit pod sourcePath =
     bind (tryE (h_path_exists H sourcePath) (\<lambda>e. ret (e = Corrupted)) ret) (\<lambda>exist.
     bind (if exist then UmountPath H sourcePath else ret ()) (\<lambda>_.
     bind (tryE (OverwirteMountPodResourcesWithPVC L (pdClient P) (fresh_pod P pod))
             (\<lambda>e. case e of Panic _ \<Rightarrow> fail e | _ \<Rightarrow> ret (fresh_pod P pod)) ret) (\<lambda>newPod.
     bind (ignore_err (CreatePod (pdClient P) (Some newPod))) (\<lambda>_.
     bind (WaitUtilMountReady H (pod_name newPod) sourcePath) (\<lambda>_.
       recover L H mit newPod sourcePath)))))"

fun await_deletion ::
  "'x lib_scheme \<Rightarrow> globals \<Rightarrow> 'w host \<Rightarrow> 'w PodDriver \<Rightarrow> mountInfoTable \<Rightarrow> nat \<Rightarrow> Pod \<Rightarrow> string \<Rightarrow> smap \<Rightarrow> ('w, unit) io" where
  "await_deletion L G H P mit 0 pod sourcePath existTargets = fail OutOfFuel"
| "await_deletion L G H P mit (Suc fuel) pod sourcePath existTargets =
     tryE (GetPod (pdClient P) (pod_name pod) (pod_ns pod))
       (\<lambda>e. if e = Timeout then fail (Errorf ''old pod %s %s deleting timeout'' [pod_name pod, Namespace G])
            else if e = NotFound then recreate_pod L H P mit pod sourcePath
            else ret ())
       (\<lambda>po. if is_deleting po then after (h_sleep H 500000) (await_deletion L G H P mit fuel pod sourcePath existTargets)
             else ignore_err (ReplacePodAnnotation (pdClient P) pod (mputs existTargets (annos po))))"

definition podDeletedHandler ::
  "'x lib_scheme \<Rightarrow> globals \<Rightarrow> 'w host \<Rightarrow> 'w PodDriver \<Rightarrow> mountInfoTable \<Rightarrow> Pod option \<Rightarrow> ('w, unit) io" where
  "podDeletedHandler L G H P mit pod = (case pod of None \<Rightarrow> ret ()
     | Some p \<Rightarrow>
         if \<not> ContainsString (mFinalizers (pMeta p)) Finalizer then ret ()
         else bind (RemoveFinalizer (pdClient P) p Finalizer) (\<lambda>_.
           after (pdSpawn P (CheckMountPodStuck p)) (
             if IsPodResourceError p then ret ()
             else (case GetMountPathOfPod p of Inl _ \<Rightarrow> ret ()
               | Inr (sourcePath, _) \<Rightarrow>
                   if mAnnotations (pMeta p) = None then ret ()
                   else if ref_targets L p = [] then
                     bind (UmountPath H sourcePath) (\<lambda>_.
                     bind (ignore_err (h_cleanup_mount_point H sourcePath)) (\<lambda>_.
                       after (pdSpawn P (CleanUpCacheOf p)) (ret ())))
                   else with_lock H (GetPodLock (pod_name p))
                     (await_deletion L G H P mit (pdFuel P) p sourcePath (ref_targets L p))))))"

subsection \<open>Background tasks\<close>

text \<open>GetPod fails with a timeout once the three minutes of its context are over.\<close>

fun wait_cleanup :: "'w host \<Rightarrow> 'w K8sClient \<Rightarrow> nat \<Rightarrow> Pod \<Rightarrow> ('w, bool) io" where
  "wait_cleanup H K 0 pod = fail OutOfFuel"
| "wait_cleanup H K (Suc fuel) pod =
     tryE (GetPod K (pod_name pod) (pod_ns pod))
       (\<lambda>e. if e = NotFound then ret True else ret False)
       (\<lambda>_. after (h_sleep H 500) (wait_cleanup H K fuel pod))"

definition cache_dirs_of :: "Pod \<Rightarrow> string list" where
  "cache_dirs_of pod = concat (map (\<lambda>v. case vSource v of
     HostPath p _ \<Rightarrow> if HasPrefix (vName v) ''cachedir-'' then [p] else [] | _ \<Rightarrow> []) (psVolumes (pSpec pod)))"

definition CleanUpCache :: "'x setting_lib_scheme \<Rightarrow> globals \<Rightarrow> 'w host \<Rightarrow> 'w PodDriver \<Rightarrow> Pod \<Rightarrow> ('w, unit) io" where
  "CleanUpCache L G H P pod =
     (let uuid = mget (annos pod) JuiceFSUUID; uniqueId = mget (annos pod) UniqueIdKey in
      if mget (annos pod) CleanCacheKey \<noteq> ''true'' then ret ()
      else if uuid = [] \<and> uniqueId = [] then ret ()
      else bind (wait_cleanup H (pdClient P) (pdFuel P) pod) (\<lambda>isDeleted.
        if \<not> isDeleted then ret ()
        else (case psContainers (pSpec pod) of [] \<Rightarrow> fail (Panic ''index out of range'')
          | c # _ \<Rightarrow> ignore_err (CleanCache L G H (pdClient P) (cImage c) uuid uniqueId (cache_dirs_of pod)))))"

text \<open>
  The grace period is multiplied by two as a duration in nanoseconds, not in seconds.
\<close>


definition stuck_timeout :: "int option \<Rightarrow> int" where
  "stuck_timeout grace = (case grace of None \<Rightarrow> minute | Some g \<Rightarrow> if g * 2 > minute then g * 2 else minute)"

text \<open>In the loop the variable of the job is shadowed by the result of GetJob, which is nil when that fails.\<close>

fun wait_abort :: "'w host \<Rightarrow> 'w K8sClient \<Rightarrow> nat \<Rightarrow> int \<Rightarrow> Job \<Rightarrow> ('w, unit) io" where
  "wait_abort H K 0 deadline job = fail OutOfFuel"
| "wait_abort H K (Suc fuel) deadline job = (\<lambda>w.
     if deadline \<le> h_now H w then (Inr (), w)
     else tryE (GetJob K (mName (jMeta job)) (mNamespace (jMeta job)))
       (\<lambda>e. if e = NotFound then ret () else fail (Panic ''nil pointer dereference''))
       (\<lambda>j. if IsJobCompleted j then ret () else after (h_sleep H 10000000) (wait_abort H K fuel deadline job)) w)"

definition doAbortFuse :: "'x lib_scheme \<Rightarrow> 'w host \<Rightarrow> 'w PodDriver \<Rightarrow> Pod \<Rightarrow> 32 word \<Rightarrow> ('w, unit) io" where
  "doAbortFuse L H P mountpod devMinor =
     bind (lift_res (NewFuseAbortJob L mountpod devMinor)) (\<lambda>job.
     bind (CreateJob (pdClient P) (Some job)) (\<lambda>_ w.
       wait_abort H (pdClient P) (pdFuel P) (h_now H w + minute) job w))"

fun wait_stuck :: "'x lib_scheme \<Rightarrow> 'w host \<Rightarrow> 'w PodDriver \<Rightarrow> nat \<Rightarrow> int \<Rightarrow> string \<Rightarrow> Pod \<Rightarrow> ('w, unit) io" where
  "wait_stuck L H P 0 deadline mountPoint pod = fail OutOfFuel"
| "wait_stuck L H P (Suc fuel) deadline mountPoint pod = (\<lambda>w.
     if deadline \<le> h_now H w then
       (case h_dev_minor_load H mountPoint w of None \<Rightarrow> (Inr (), w)
        | Some devMinor \<Rightarrow>
            tryE (doAbortFuse L H P pod devMinor) (\<lambda>e. case e of Panic _ \<Rightarrow> fail e | OutOfFuel \<Rightarrow> fail e | _ \<Rightarrow> ret ()) ret w)
     else tryE (GetPod (pdClient P) (pod_name pod) (pod_ns pod)) (\<lambda>_. ret ())
       (\<lambda>newPod. if getPodStatus (Some newPod) \<noteq> podDeleted then ret ()
          else after (h_sleep H 10000000) (wait_stuck L H P fuel deadline mountPoint pod)) w)"

definition checkMountPodStuck :: "'x lib_scheme \<Rightarrow> 'w host \<Rightarrow> 'w PodDriver \<Rightarrow> Pod option \<Rightarrow> ('w, unit) io" where
  "checkMountPodStuck L H P pod = (case pod of None \<Rightarrow> ret ()
     | Some p \<Rightarrow>
         if getPodStatus pod \<noteq> podDeleted then ret ()
         else (let mountPoint = (case GetMountPathOfPod p of Inl _ \<Rightarrow> [] | Inr (m, _) \<Rightarrow> m) in (\<lambda>w.
           case wait_stuck L H P (pdFuel P) (h_now H w + stuck_timeout (psTerminationGracePeriodSeconds (pSpec p))) mountPoint p w of
             (r, w') \<Rightarrow> (r, h_dev_minor_delete H mountPoint w'))))"

definition run_task :: "'x setting_lib_scheme \<Rightarrow> globals \<Rightarrow> 'w host \<Rightarrow> 'w PodDriver \<Rightarrow> task \<Rightarrow> ('w, unit) io" where
  "run_task L G H P t = (case t of CheckMountPodStuck pod \<Rightarrow> checkMountPodStuck L H P (Some pod) | CleanUpCacheOf pod \<Rightarrow> CleanUpCache L G H P pod)"

subsection \<open>Dispatch\<close>

definition handler ::
  "'x lib_scheme \<Rightarrow> globals \<Rightarrow> 'w host \<Rightarrow> 'w PodDriver \<Rightarrow> mountInfoTable \<Rightarrow> podStatus \<Rightarrow> Pod \<Rightarrow> ('w, unit) io" where
  "handler L G H P mit s pod = (case s of
     podReady \<Rightarrow> podReadyHandler L H mit (Some pod)
   | podError \<Rightarrow> podErrorHandler H P (Some pod)
   | podPending \<Rightarrow> podPendingHandler H P (Some pod)
   | podDeleted \<Rightarrow> podDeletedHandler L G H P mit (Some pod))"

definition Run :: "'x lib_scheme \<Rightarrow> globals \<Rightarrow> 'w host \<Rightarrow> 'w PodDriver \<Rightarrow> mountInfoTable \<Rightarrow> Pod \<Rightarrow> ('w, unit) io" where
  "Run L G H P mit current =
     bind (checkAnnotations L H P mit current) (\<lambda>_.
       let s = getPodStatus (Some current) in
       if s \<noteq> podError \<and> s \<noteq> podDeleted then handler L G H P mit s current
       else bind (GetPod (pdClient P) (pod_name current) (pod_ns current)) (\<lambda>pod.
         handler L G H P (setPodStatus pod mit) (getPodStatus (Some pod)) pod))"

section \<open>References of live pods are kept\<close>

lemma remove_keys_annos:
  "key \<notin> set ks \<Longrightarrow> map_of (annos (fold apply_op (map (\<lambda>k. Remove (annotation_path k)) ks) p)) key = map_of (annos p) key"
proof (induction ks arbitrary: p)
  case (Cons k ks)
  have "pointer_key (annotation_path k) \<in> {None, Some k}"
    by (simp add: pointer_key_def annotation_path_def)
  then have "map_of (annos (apply_op (Remove (annotation_path k)) p)) key = map_of (annos p) key"
    using Cons.prems by auto
  with Cons show ?case by simp
qed simp

lemma DelPodAnnotation_in_use:
  assumes "pod_store K pods" "GetReferenceKey L t \<notin> set ks"
  shows "keeps (in_use L pods k t) (DelPodAnnotation K pod ks)"
proof (rule keepsI)
  fix w assume u: "in_use L pods k t w"
  obtain r w' where a: "c_pods_patch K (pod_ns pod) (pod_name pod) (JSONPatch (map (\<lambda>k. Remove (annotation_path k)) ks)) w = (r, w')" by fastforce
  note patch = pod_store_patch [OF assms(1) a]
  have "in_use L pods k t w'"
  proof (cases r)
    case (Inl e)
    with patch(1) in_use_pods [OF u, of w'] show ?thesis by simp
  next
    case (Inr v)
    from patch(2) [OF Inr] obtain p where "pods w (pod_ns pod, pod_name pod) = Some p"
      "pods w' = (pods w)((pod_ns pod, pod_name pod) \<mapsto> fold apply_op (map (\<lambda>k. Remove (annotation_path k)) ks) p)" by auto
    from in_use_annos [OF u this remove_keys_annos [OF assms(2)]] show ?thesis .
  qed
  with a show "in_use L pods k t (snd (DelPodAnnotation K pod ks w))" by (simp add: DelPodAnnotation_def PatchPod_def)
qed

lemma mput_ne [simp]: "mput k v m \<noteq> []"
  by (simp add: mput_def)

lemma GetAllRefKeys_used:
  assumes "map_of (annos p) (GetReferenceKey L t) = Some t"
  shows "GetAllRefKeys L p \<noteq> []"
proof -
  let ?f = "\<lambda>(k, v) m. if k = GetReferenceKey L v then mput k v m else m"
  have mono: "m \<noteq> [] \<Longrightarrow> fold ?f xs m \<noteq> []" for xs m
  proof (induction xs arbitrary: m)
    case (Cons x xs)
    have "?f x m \<noteq> []" using Cons.prems by (simp split: prod.split)
    from Cons.IH [OF this] show ?case by simp
  qed simp
  obtain ys zs where "annos p = ys @ (GetReferenceKey L t, t) # zs" using assms by (metis map_of_SomeD split_list)
  moreover have "fold ?f (ys @ (GetReferenceKey L t, t) # zs) [] = fold ?f zs (mput (GetReferenceKey L t) t (fold ?f ys []))" by simp
  ultimately show ?thesis using mono [OF mput_ne] by (simp only: GetAllRefKeys_def) blast
qed

lemma delete_unused_in_use:
  assumes st: "pod_store (pdClient P) pods" "sha_wf L"
  shows "keeps (in_use L pods k t) (delete_unused L H P pod)"
proof -
  have del: "keeps (in_use L pods k t) (\<lambda>w. bind (c_pods_get (pdClient P) (pod_ns pod) (pod_name pod)) (\<lambda>newPod.
      if GetAllRefKeys L newPod \<noteq> [] then fail Conflict
      else bind (DeletePod (pdClient P) (Some pod)) (\<lambda>_. ignore_err (DeleteSecret (pdClient P) n ns))) w)" for n ns
  proof (rule keepsI)
    fix w assume u: "in_use L pods k t w"
    obtain r w1 where g: "c_pods_get (pdClient P) (pod_ns pod) (pod_name pod) w = (r, w1)" by fastforce
    note get = pod_store_get [OF st(1) g]
    have u1: "in_use L pods k t w1" using in_use_pods [OF u get(1)] .
    show "in_use L pods k t (snd (bind (c_pods_get (pdClient P) (pod_ns pod) (pod_name pod)) (\<lambda>newPod.
        if GetAllRefKeys L newPod \<noteq> [] then fail Conflict
        else bind (DeletePod (pdClient P) (Some pod)) (\<lambda>_. ignore_err (DeleteSecret (pdClient P) n ns))) w))"
    proof (cases "\<exists>np. r = Inr np \<and> GetAllRefKeys L np = []")
      case False
      with g u1 show ?thesis by (cases r) (auto simp: bind_eq fail_def)
    next
      case True
      then obtain np where np: "r = Inr np" "GetAllRefKeys L np = []" by blast
      have ne: "k \<noteq> (pod_ns pod, pod_name pod)"
        using u get(3) [OF np(1)] GetAllRefKeys_used [of np L t] np(2) by (auto simp: in_use_def)
      obtain dr w2 where d: "c_pods_delete (pdClient P) (pod_ns pod) (pod_name pod) w1 = (dr, w2)" by fastforce
      have u2: "in_use L pods k t w2"
        using pod_store_delete [OF st(1) d] in_use_pods [OF u1, of w2] in_use_other [OF u1 _ ne, of w2] by (cases dr) auto
      have "in_use L pods k t (snd (c_secrets_delete (pdClient P) ns n w2))"
        by (rule in_use_pods [OF u2 pod_store_secret [OF st(1)]])
      with u2 np g d show ?thesis by (cases dr) (auto simp: bind_eq DeletePod_def DeleteSecret_def ignore_err_eq)
    qed
  qed
  show ?thesis unfolding delete_unused_def GetPod_eq
    by (intro keeps_intro ShouldDelay_in_use st del)
qed

lemma dead_annotations_keep:
  assumes "sha_wf L" "\<forall>t'. GetReferenceKey L t' = GetReferenceKey L t \<longrightarrow> t' = t" "target_known mit t"
  shows "GetReferenceKey L t \<notin> set (fst (dead_annotations L mit pod))"
  using assms key_not_delete_at [OF assms(1), of t]
  by (auto simp: dead_annotations_def ref_targets_def Let_def)

lemma checkAnnotations_in_use:
  assumes "pod_store (pdClient P) pods" "sha_wf L" "quiet_lookups H (pdClient P) pods"
    and "\<forall>t'. GetReferenceKey L t' = GetReferenceKey L t \<longrightarrow> t' = t" "target_known mit t"
  shows "keeps (in_use L pods k t) (checkAnnotations L H P mit pod)"
proof -
  have lock: "in_use L pods k t w \<Longrightarrow> in_use L pods k t (h_lock H i w)" "in_use L pods k t w \<Longrightarrow> in_use L pods k t (h_unlock H i w)" for i w
    using assms(3) by (auto simp: quiet_lookups_def elim!: in_use_pods)
  obtain dels n where d: "dead_annotations L mit pod = (dels, n)" by fastforce
  with dead_annotations_keep [OF assms(2,4,5), of pod] have "GetReferenceKey L t \<notin> set dels" by simp
  then show ?thesis
    unfolding checkAnnotations_def GetPod_eq d prod.case
    by (intro keeps_intro lock get_in_use delete_unused_in_use assms(1,2) DelPodAnnotation_in_use)
qed

section \<open>The whole driver\<close>

text \<open>What every call of the node keeps of the world.\<close>

definition node_keeps :: "'w host \<Rightarrow> ('w \<Rightarrow> bool) \<Rightarrow> bool" where
  "node_keeps H Q \<longleftrightarrow> (\<forall>p. keeps Q (h_stat H p) \<and> keeps Q (h_unmount H p) \<and> keeps Q (h_path_exists H p)) \<and> keeps Q (h_mount_infos H)
     \<and> (\<forall>s t f os. keeps Q (h_mount H s t f os)) \<and> (\<forall>p w. Q w \<longrightarrow> Q (snd (h_umount_lazy H p w)))
     \<and> (\<forall>d w. Q w \<longrightarrow> Q (h_sleep H d w)) \<and> (\<forall>p m w. Q w \<longrightarrow> Q (h_dev_minor_store H p m w))"

lemma keeps_wrapf [keeps_intro]: "keeps P m \<Longrightarrow> keeps P (wrapf fmt args m)"
proof -
  assume m: "keeps P m"
  have "keeps P (case e of Panic p \<Rightarrow> fail e | OutOfFuel \<Rightarrow> fail e | _ \<Rightarrow> fail (Errorf fmt args))" for e
    by (cases e) (simp_all add: keeps_fail)
  then show ?thesis unfolding wrapf_def by (intro keeps_intro m)
qed

named_theorems node_intro \<open>steps of the driver that call the node only\<close>

lemma node_calls_keep [node_intro]:
  assumes "node_keeps H Q"
  shows "keeps Q (h_stat H p)" "keeps Q (h_unmount H p)" "keeps Q (h_mount H s t f os)"
    "keeps Q (h_mount_infos H)" "keeps Q (UmountPath H p)" "keeps Q (h_path_exists H p)"
  using assms by (auto simp: node_keeps_def UmountPath_def keeps_def after_def ret_def)

lemma node_sleep: "node_keeps H Q \<Longrightarrow> Q w \<Longrightarrow> Q (h_sleep H d w)"
  by (simp add: node_keeps_def)

lemma node_store: "node_keeps H Q \<Longrightarrow> Q w \<Longrightarrow> Q (if b then h_dev_minor_store H p m w else w)"
  by (simp add: node_keeps_def)

lemma ti_check_keeps [node_intro]: "node_keeps H Q \<Longrightarrow> keeps Q (ti_check H m ti)"
  unfolding ti_check_def Let_def by (intro keeps_intro node_intro)

lemma check_all_keeps [node_intro]: "node_keeps H Q \<Longrightarrow> keeps Q (check_all H tis)"
  by (induction tis) (auto intro!: keeps_intro node_intro)

lemma resolveTarget_keeps [node_intro]: "node_keeps H Q \<Longrightarrow> keeps Q (resolveTarget H mit t)"
  unfolding resolveTarget_def resolveTargetItem_def Let_def by (intro keeps_intro node_intro)

lemma umountTarget_keeps [node_intro]: "node_keeps H Q \<Longrightarrow> keeps Q (umountTarget H t n)"
  by (induction n) (auto intro!: keeps_intro node_intro)

lemma recoverTarget_keeps [node_intro]:
  assumes "node_keeps H Q"
  shows "keeps Q (recoverTarget H source ti mi)"
proof -
  have "keeps Q (umountTargetUntilRemain H mi t n)" for t n
    unfolding umountTargetUntilRemain_def mit_parse_def by (intro keeps_intro node_intro assms node_sleep [OF assms])
  then show ?thesis
    unfolding recoverTarget_def Let_def by (cases "tiStatus ti") (auto intro!: keeps_intro node_intro assms)
qed

lemma recover_keeps [node_intro]:
  assumes "node_keeps H Q"
  shows "keeps Q (recover L H mit pod path)"
proof -
  have "keeps Q (recover_items H path mi tis)" for mi tis
    by (induction tis) (auto intro!: keeps_intro node_intro assms)
  then have "keeps Q (recover_refs H mit path refs)" for refs
    by (induction refs) (auto intro!: keeps_intro node_intro assms)
  then show ?thesis by (simp add: recover_def)
qed

lemma podReadyHandler_keeps [node_intro]:
  assumes "node_keeps H Q"
  shows "keeps Q (podReadyHandler L H mit pod)"
  unfolding podReadyHandler_def by (intro keeps_intro node_intro assms node_store [OF assms])

lemma wait_mount_keeps [node_intro]: "node_keeps H Q \<Longrightarrow> keeps Q (wait_mount H fuel name path)"
  by (induction fuel) (auto intro!: keeps_intro node_intro simp: node_keeps_def)

definition node_keeps_pods :: "'w host \<Rightarrow> ('w \<Rightarrow> pod_map) \<Rightarrow> bool" where
  "node_keeps_pods H pods \<longleftrightarrow> (\<forall>m. node_keeps H (\<lambda>w. pods w = m))"

lemma node_keeps_view: "node_keeps_pods H pods \<Longrightarrow> node_keeps H (\<lambda>w. Q (pods w))"
  by (auto simp: node_keeps_pods_def node_keeps_def keeps_def all_conj_distrib)

lemma Run_in_use:
  assumes "pod_store (pdClient P) pods" "sha_wf L" "quiet_lookups H (pdClient P) pods" "node_keeps_pods H pods"
    and "\<forall>t'. GetReferenceKey L t' = GetReferenceKey L t \<longrightarrow> t' = t" "target_known mit t"
    and "getPodStatus (Some current) = podReady"
  shows "keeps (in_use L pods k t) (Run L G H P mit current)"
proof -
  have "keeps (in_use L pods k t) (podReadyHandler L H mit pod)" for pod
    using podReadyHandler_keeps [OF node_keeps_view [OF assms(4), of "\<lambda>m. \<exists>p. m k = Some p \<and> map_of (annos p) (GetReferenceKey L t) = Some t"]]
    by (simp add: in_use_def [abs_def])
  then show ?thesis
    unfolding Run_def Let_def assms(7) handler_def
    by (intro keeps_intro checkAnnotations_in_use assms(1-3,5,6)) simp_all
qed


text \<open>A target of the application pod \<open>uid\<close>, and a mount pod with its reference and a stale one.\<close>

definition live_target :: string where
  "live_target = ''/var/lib/kubelet/pods/uid/volumes/kubernetes.io~csi/pv/mount''"

definition live_lib :: setting_lib where
  "live_lib = hex_lib\<lparr>l_sha256 := \<lambda>s. replicate 64 (if s = live_target then CHR ''a'' else CHR ''b'')\<rparr>"

definition live_pod :: Pod where
  "live_pod = set_annos (Some [(GetReferenceKey live_lib live_target, live_target), (GetReferenceKey live_lib ''/gone'', ''/gone'')])
     (zero_pod\<lparr>pMeta := zero_meta\<lparr>mName := ''m'', mNamespace := ''ns''\<rparr>,
        pStatus := zero_status\<lparr>stConditions := [\<lparr>cnType = ContainersReady, cnStatus = ConditionTrue, cnReason = [], cnMessage = []\<rparr>,
          \<lparr>cnType = PodReady, cnStatus = ConditionTrue, cnReason = [], cnMessage = []\<rparr>]\<rparr>\<rparr>)"

definition live_mit :: mountInfoTable where
  "live_mit = newMountInfoTable\<lparr>mit_deletedPods := [(''uid'', False)]\<rparr>"

definition mem_driver :: "pod_map PodDriver" where
  "mem_driver = \<lparr>pdClient = mem_client, pdSpawn = (\<lambda>_ w. w), pdFinalizers = \<lparr>fl_contains = (\<lambda>f x. x \<in> set f), fl_add = (\<lambda>f x. f @ [x]), fl_remove = (\<lambda>f x. removeAll x f)\<rparr>,
     pdFuel = 2\<rparr>"

lemma live_key: "GetReferenceKey live_lib t = GetReferenceKey live_lib live_target \<longleftrightarrow> t = live_target"
  by (simp add: GetReferenceKey_def live_lib_def ref_prefix_def)

lemma live_sha: "sha_wf live_lib"
  by (simp add: sha_wf_def live_lib_def is_hex_def list_all_iff)

lemma mem_quiet: "quiet_lookups mem_host (pdClient mem_driver) (\<lambda>w. w)" "node_keeps_pods mem_host (\<lambda>w. w)"
  "pod_store (pdClient mem_driver) (\<lambda>w. w)"
  using mem_laws(1) by (simp_all add: quiet_lookups_def node_keeps_pods_def node_keeps_def keeps_def mem_driver_def mem_client_def mem_host_def idle_host_def
      idle_client_def ret_def fail_def)


section \<open>Deleted pods come back with their references\<close>

text \<open>
  An API server that answers: a read finds the pod or reports that it is missing, a patch of
  a stored pod and the creation of a missing one succeed, and looking up volumes and claims
  does not touch the pods.
\<close>

definition reliable :: "'w K8sClient \<Rightarrow> ('w \<Rightarrow> pod_map) \<Rightarrow> bool" where
  "reliable K pods \<longleftrightarrow> (\<forall>ns n w e. fst (c_pods_get K ns n w) = Inl e \<longrightarrow> e = NotFound)
     \<and> (\<forall>ns n pt w. pods w (ns, n) \<noteq> None \<longrightarrow> fst (c_pods_patch K ns n pt w) = Inr ())
     \<and> (\<forall>p w. pods w (pod_ns p, pod_name p) = None \<longrightarrow> (\<exists>q. fst (c_pods_create K (pod_ns p) p w) = Inr q))
     \<and> (\<forall>n w. pods (snd (c_pvs_get K n w)) = pods w) \<and> (\<forall>ns n w. pods (snd (c_pvcs_get K ns n w)) = pods w)"

text \<open>
  The node: only the passing of time changes the pods, and only those being deleted go.
\<close>

definition time_law :: "'w host \<Rightarrow> ('w \<Rightarrow> pod_map) \<Rightarrow> bool" where
  "time_law H pods \<longleftrightarrow>
     (\<forall>m k. node_keeps (H\<lparr>h_sleep := \<lambda>_ w. w\<rparr>) (\<lambda>w. pods w k = m)) \<and>
     (\<forall>d w k q. pods w k = Some q \<longrightarrow> \<not> is_deleting q \<longrightarrow> pods (h_sleep H d w) k = Some q) \<and>
     (\<forall>i w. pods (h_lock H i w) = pods w \<and> pods (h_unlock H i w) = pods w)"

text \<open>The pod under a name, once it is being deleted, is gone after fewer than \<open>n\<close> sleeps of half a second.\<close>

definition deletion_ends :: "'w host \<Rightarrow> 'w K8sClient \<Rightarrow> ('w \<Rightarrow> pod_map) \<Rightarrow> string \<times> string \<Rightarrow> nat \<Rightarrow> bool" where
  "deletion_ends H K pods k n \<longleftrightarrow> (\<exists>rank. (\<forall>w. rank w < n)
     \<and> (\<forall>w q. pods w k = Some q \<longrightarrow> is_deleting q \<longrightarrow> rank (h_sleep H 500000 w) < rank w)
     \<and> (\<forall>w. rank (snd (c_pods_get K (fst k) (snd k) w)) \<le> (rank w :: nat)))"

definition has_refs :: "'x lib_scheme \<Rightarrow> Pod \<Rightarrow> Pod \<Rightarrow> bool" where
  "has_refs L old q \<longleftrightarrow> (\<forall>(key, t) \<in> set (ref_targets L old). map_of (annos q) key = Some t)"

lemma time_law_keeps:
  assumes "time_law H pods"
  shows "node_keeps H (\<lambda>w. \<exists>q. pods w k = Some q \<and> \<not> is_deleting q \<and> R q)"
proof -
  have n: "node_keeps (H\<lparr>h_sleep := \<lambda>_ w. w\<rparr>) (\<lambda>w. pods w k = m)" for m using assms by (cases k) (simp add: time_law_def)
  have "pods (snd (h_stat H p w)) k = pods w k" "pods (snd (h_unmount H p w)) k = pods w k" "pods (snd (h_path_exists H p w)) k = pods w k"
    "pods (snd (h_mount_infos H w)) k = pods w k" "pods (snd (h_mount H s t f os w)) k = pods w k" "pods (snd (h_umount_lazy H p w)) k = pods w k"
    "pods (h_dev_minor_store H p m w) k = pods w k" for p w s t f os m
    using n [of "pods w k"] by (simp_all add: node_keeps_def keeps_def)
  moreover have "pods w k = Some q \<Longrightarrow> \<not> is_deleting q \<Longrightarrow> pods (h_sleep H d w) k = Some q" for d w q
    using assms by (cases k) (simp add: time_law_def)
  ultimately show ?thesis by (auto simp: node_keeps_def keeps_def)
qed

lemma overwrite_pod:
  assumes "OverwirteMountPodResourcesWithPVC L K pod w = (r, w')" "reliable K pods"
  shows "pods w' = pods w \<and> (\<forall>q. r = Inr q \<longrightarrow> pMeta q = pMeta pod)"
proof -
  have g: "c_pvs_get K n w = (x, w1) \<Longrightarrow> pods w1 = pods w" "c_pvcs_get K ns n w = (y, w1) \<Longrightarrow> pods w1 = pods w" for n ns w x y w1
    using assms(2) unfolding reliable_def by (metis snd_conv)+
  show ?thesis using assms(1)
    by (auto simp: OverwirteMountPodResourcesWithPVC_def GetPersistentVolume_def GetPersistentVolumeClaim_def bind_eq fail_def ret_def
        set_spec_containers_def Let_def dest!: g split: prod.splits sum.splits option.splits list.splits)
qed

lemma bind_step: "m w = (Inr x, w1) \<Longrightarrow> bind m f w = f x w1"
  by (simp add: bind_eq)

lemma recreate_pod_refs:
  assumes "reliable K pods" "create_law K pods" "time_law H pods" "pdClient P = K" "wf_map (annos pod)"
    and "recreate_pod L H P mit pod src w = (r, w')" "\<forall>p. r \<noteq> Inl (Panic p)" "pods w (pod_ns pod, pod_name pod) = None"
  shows "\<exists>q. pods w' (pod_ns pod, pod_name pod) = Some q \<and> \<not> is_deleting q \<and> has_refs L pod q"
proof -
  let ?k = "(pod_ns pod, pod_name pod)" and ?G = "\<lambda>q. \<not> is_deleting q \<and> has_refs L pod q"
  have node: "node_keeps (H\<lparr>h_sleep := \<lambda>_ w. w\<rparr>) (\<lambda>w. pods w ?k = None)" using assms(3) by (simp add: time_law_def)
  obtain er w1 where e: "h_path_exists H src w = (er, w1)" by fastforce
  have p1: "pods w1 ?k = None" using node e assms(8) by (simp add: node_keeps_def keeps_def) (metis snd_conv)
  define ex where "ex = (case er of Inl x \<Rightarrow> x = Corrupted | Inr b \<Rightarrow> b)"
  define w2 where "w2 = (if ex then snd (h_umount_lazy H src w1) else w1)"
  have p2: "pods w2 ?k = None" using node p1 by (simp add: w2_def node_keeps_def)
  obtain ov w3 where ov: "OverwirteMountPodResourcesWithPVC L K (fresh_pod P pod) w2 = (ov, w3)" by fastforce
  note op = overwrite_pod [OF ov assms(1)]
  let ?ov = "tryE (OverwirteMountPodResourcesWithPVC L K (fresh_pod P pod)) (\<lambda>e. case e of Panic _ \<Rightarrow> fail e | _ \<Rightarrow> ret (fresh_pod P pod)) ret"
  let ?rest = "\<lambda>q. bind (ignore_err (CreatePod K (Some q))) (\<lambda>_. bind (WaitUtilMountReady H (pod_name q) src) (\<lambda>_. recover L H mit q src))"
  have "tryE (h_path_exists H src) (\<lambda>e. ret (e = Corrupted)) ret w = (Inr ex, w1)" by (simp add: tryE_def e ret_def ex_def split: sum.split)
  moreover have "(if ex then UmountPath H src else ret ()) w1 = (Inr (), w2)" by (simp add: UmountPath_def after_def ret_def w2_def)
  ultimately have step: "recreate_pod L H P mit pod src w = bind ?ov ?rest w2"
    by (simp add: recreate_pod_def assms(4) bind_step)
  have np: "ov \<noteq> Inl (Panic p)" for p
  proof
    assume "ov = Inl (Panic p)"
    with ov have "bind ?ov ?rest w2 = (Inl (Panic p), w3)" by (simp add: bind_eq tryE_def fail_def)
    with step assms(6,7) show False by simp
  qed
  define q where "q = (case ov of Inl _ \<Rightarrow> fresh_pod P pod | Inr x \<Rightarrow> x)"
  have meta: "pMeta q = pMeta (fresh_pod P pod)" 
  proof (cases ov)
    case (Inr x)
    then have "q = x" by (simp add: q_def)
    with conjunct2 [OF op, rule_format, OF Inr] show ?thesis by (simp only:)
  qed (simp add: q_def)
  have "?ov w2 = (Inr q, w3)"
  proof (cases ov)
    case (Inl e)
    then have "(case e of Panic _ \<Rightarrow> fail e | _ \<Rightarrow> ret (fresh_pod P pod)) w3 = (Inr (fresh_pod P pod), w3)"
      using np by (cases e) (auto simp: ret_def)
    with Inl ov show ?thesis by (simp add: tryE_def q_def ret_def)
  qed (use ov in \<open>simp add: tryE_def q_def ret_def\<close>)
  with step have rest: "recreate_pod L H P mit pod src w = ?rest q w3" by (simp add: bind_step)
  obtain cr w4 where c: "c_pods_create K (pod_ns q) q w3 = (cr, w4)" by fastforce
  have k: "(pod_ns q, pod_name q) = ?k" using meta by (simp add: fresh_pod_def)
  have "pods w3 (pod_ns q, pod_name q) = None" unfolding k using conjunct1 [OF op] p2 by metis
  then obtain x where "cr = Inr x" using assms(1) c unfolding reliable_def by (metis fst_conv)
  with assms(2) c k have p4: "pods w4 ?k = Some q" unfolding create_law_def by fastforce
  have "?G q" using assms(5) by (auto simp: meta fresh_pod_def is_deleting_def zero_defs has_refs_def ref_targets_def)
  with p4 have g4: "\<exists>q. pods w4 ?k = Some q \<and> ?G q" by blast
  have "keeps (\<lambda>w. \<exists>q. pods w ?k = Some q \<and> ?G q) (bind (WaitUtilMountReady H (pod_name q) src) (\<lambda>_. recover L H mit q src))"
    unfolding WaitUtilMountReady_def by (intro keeps_intro node_intro time_law_keeps assms(3))
  from keepsD [OF this g4] have k4: "\<exists>q'. pods (snd (bind (WaitUtilMountReady H (pod_name q) src) (\<lambda>_. recover L H mit q src) w4)) ?k = Some q' \<and> ?G q'" .
  have created: "ignore_err (CreatePod K (Some q)) w3 = (Inr (), w4)"
    by (simp add: ignore_err_eq CreatePod_def bind_eq c ret_def split: sum.split)
  from rest assms(6) created have w': "snd (bind (WaitUtilMountReady H (pod_name q) src) (\<lambda>_. recover L H mit q src) w4) = w'" by (simp add: bind_step) (metis snd_conv)
  show ?thesis using k4 unfolding w' .
qed

lemma await_deletion_refs:
  assumes "reliable K pods" "create_law K pods" "pod_store K pods" "time_law H pods" "pdClient P = K" "wf_map (annos pod)"
    and "await_deletion L G H P mit fuel pod src (ref_targets L pod) w = (r, w')" "rank w < fuel" "\<forall>p. r \<noteq> Inl (Panic p)"
    and down: "\<And>w q. pods w (pod_ns pod, pod_name pod) = Some q \<Longrightarrow> is_deleting q \<Longrightarrow> rank (h_sleep H 500000 w) < (rank w :: nat)"
    and get_rank: "\<And>w. rank (snd (c_pods_get K (pod_ns pod) (pod_name pod) w)) \<le> rank w"
  shows "\<exists>q. pods w' (pod_ns pod, pod_name pod) = Some q \<and> has_refs L pod q"
  using assms(7-9)
proof (induction fuel arbitrary: w)
  case 0
  then show ?case by simp
next
  case (Suc fuel)
  obtain gr w1 where g: "c_pods_get K (pod_ns pod) (pod_name pod) w = (gr, w1)" by fastforce
  note get = pod_store_get [OF assms(3) g]
  show ?case
  proof (cases gr)
    case (Inl e)
    then have "e = NotFound" using assms(1) g unfolding reliable_def by (metis fst_conv)
    then have "recreate_pod L H P mit pod src w1 = (r, w')" "pods w1 (pod_ns pod, pod_name pod) = None"
      using Suc.prems(1) g Inl get(1,2) assms(5) by (simp_all add: tryE_def)
    from recreate_pod_refs [OF assms(1,2,4,5,6) this(1) Suc.prems(3) this(2)] show ?thesis by blast
  next
    case (Inr po)
    show ?thesis
    proof (cases "is_deleting po")
      case True
      have "pods w1 (pod_ns pod, pod_name pod) = Some po" using get(1) get(3) [OF Inr] by simp
      from down [OF this True] have "rank (h_sleep H 500000 w1) < fuel" using get_rank [of w] Suc.prems(2) g by simp
      with Suc.IH Suc.prems g Inr True assms(5) show ?thesis by (simp add: tryE_def after_def)
    next
      case False
      let ?m = "mputs (ref_targets L pod) (annos po)"
      obtain pr w2 where p: "c_pods_patch K (pod_ns pod) (pod_name pod) (JSONPatch [ReplaceMap ''/metadata/annotations'' ?m]) w1 = (pr, w2)" by fastforce
      have "pods w1 (pod_ns pod, pod_name pod) \<noteq> None" using get(1) get(3) [OF Inr] by simp
      then have "pr = Inr ()" using assms(1) p unfolding reliable_def by (metis fst_conv)
      from pod_store_patch(2) [OF assms(3) p this] obtain q where
        "pods w2 (pod_ns pod, pod_name pod) = Some (set_annos (Some ?m) q)" by auto
      moreover have "w' = w2" using Suc.prems(1) g Inr False p assms(5)
        by (simp add: tryE_def ignore_err_eq ReplacePodAnnotation_def PatchPod_def)
      moreover have "map_of ?m key = Some t" if "(key, t) \<in> set (ref_targets L pod)" for key t
      proof -
        have "wf_map (ref_targets L pod)" using assms(6) by (simp add: ref_targets_def distinct_map_filter)
        with that show ?thesis by (simp add: map_of_mputs)
      qed
      ultimately show ?thesis by (auto simp: has_refs_def)
    qed
  qed
qed


text \<open>A node on which a deleted pod is gone after a sleep, and the mount is ready at once.\<close>

definition sweep :: "pod_map \<Rightarrow> pod_map" where
  "sweep w = (\<lambda>k. case w k of None \<Rightarrow> None | Some q \<Rightarrow> if is_deleting q then None else Some q)"

definition sweep_host :: "pod_map host" where
  "sweep_host = mem_host\<lparr>h_sleep := \<lambda>_. sweep, h_stat := \<lambda>_. ret \<lparr>fiIno = 1, fiDev = 0, fiPerm = 0\<rparr>\<rparr>"

definition deleted_pod :: Pod where
  "deleted_pod = live_pod\<lparr>pMeta := (pMeta live_pod)\<lparr>mDeletionTimestamp := Some 1, mFinalizers := [Finalizer]\<rparr>,
     pSpec := zero_spec\<lparr>psContainers := [zero_container\<lparr>cCommand := [''sh'', ''-c'', ''/bin/mount.juicefs redis /jfs/v -o x'']\<rparr>]\<rparr>\<rparr>"

text \<open>A cluster in memory in which a pod is found under its own name only.\<close>

definition named :: "pod_map \<Rightarrow> pod_map" where
  "named w = (\<lambda>k. case w k of None \<Rightarrow> None | Some p \<Rightarrow> if (pod_ns p, pod_name p) = k then Some p else None)"

definition named_client :: "pod_map K8sClient" where
  "named_client = idle_client\<lparr>
     c_pods_get := \<lambda>ns n w. (case named w (ns, n) of None \<Rightarrow> Inl NotFound | Some p \<Rightarrow> Inr p, w),
     c_pods_patch := \<lambda>ns n pt w. (case named w (ns, n) of None \<Rightarrow> (Inl NotFound, w) | Some p \<Rightarrow> (Inr (), w((ns, n) \<mapsto> apply_patch pt p))),
     c_pods_delete := \<lambda>ns n w. (Inr (), w((ns, n) := None)),
     c_pods_create := \<lambda>ns p w. if pod_ns p = ns then (Inr p, w((ns, pod_name p) \<mapsto> p)) else (Inl (OtherError ''namespace''), w)\<rparr>"

definition named_driver :: "pod_map PodDriver" where
  "named_driver = mem_driver\<lparr>pdClient := named_client\<rparr>"

lemma apply_op_names: "pod_ns (apply_op x p) = pod_ns p \<and> pod_name (apply_op x p) = pod_name p"
  by (cases x) (auto split: option.splits)

lemma apply_patch_names: "pod_ns (apply_patch pt p) = pod_ns p \<and> pod_name (apply_patch pt p) = pod_name p"
proof (cases pt)
  case (JSONPatch ops)
  have "pod_ns (fold apply_op ops p) = pod_ns p \<and> pod_name (fold apply_op ops p) = pod_name p" for p
    by (induction ops arbitrary: p) (simp_all add: apply_op_names)
  with JSONPatch show ?thesis by simp
qed simp_all

lemma named_upd: "(pod_ns p, pod_name p) = k \<Longrightarrow> named (w(k \<mapsto> p)) = (named w)(k \<mapsto> p)" "named (w(k := None)) = (named w)(k := None)"
  by (auto simp: named_def fun_eq_iff)

lemma named_Some: "named w k = Some p \<Longrightarrow> (pod_ns p, pod_name p) = k"
  by (auto simp: named_def split: option.splits if_splits)

lemma named_laws: "reliable named_client named" "create_law named_client named" "pod_store named_client named" "time_law sweep_host named"
proof -
  show "reliable named_client named"
    by (auto simp: reliable_def named_client_def idle_client_def fail_def split: option.splits)
  show "create_law named_client named" by (auto simp: create_law_def named_client_def named_upd)
  have "get_law named_client named" by (auto simp: get_law_def named_client_def split: option.splits dest: named_Some)
  moreover have "patch_law named_client named"
  proof -
    have "named (w((ns, n) \<mapsto> apply_patch pt p)) = (named w)((ns, n) \<mapsto> apply_patch pt p)" if "named w (ns, n) = Some p" for w ns n pt p
      using named_Some [OF that] apply_patch_names [of pt p] by (intro named_upd) simp
    then show ?thesis by (auto simp: patch_law_def named_client_def split: option.splits)
  qed
  moreover have "delete_law named_client named" by (auto simp: delete_law_def named_client_def named_upd deleted_def intro!: exI [of _ None])
  ultimately show "pod_store named_client named" by (simp add: pod_store_def named_client_def idle_client_def ret_def)
  show "time_law sweep_host named"
    by (auto simp: time_law_def node_keeps_def keeps_def sweep_host_def sweep_def named_def mem_host_def idle_host_def ret_def fail_def
        split: option.splits if_splits)
qed

text \<open>The pod has been made elsewhere, without references, while the handler has the deleted one.\<close>

definition made_pod :: Pod where
  "made_pod = zero_pod\<lparr>pMeta := zero_meta\<lparr>mName := ''m'', mNamespace := ''ns''\<rparr>\<rparr>"

lemma await_deletion_found:
  "c_pods_get (pdClient P) (pod_ns pod) (pod_name pod) w = (Inr po, w1) \<Longrightarrow> \<not> is_deleting po \<Longrightarrow> 0 < fuel \<Longrightarrow>
   fst (await_deletion L G H P mit fuel pod src ts w) = Inr ()"
  by (cases fuel) (simp_all add: tryE_def ignore_err_eq)


section \<open>The paths of targets\<close>

lemma csi_dir_parts: "containerCsiDirectory = ''volumes/kubernetes.io'' @ CHR ''~'' # ''csi''"
  by (simp add: containerCsiDirectory_def)

lemma SplitStr_none: "CHR ''~'' \<notin> set b \<Longrightarrow> SplitStr containerCsiDirectory acc b = [acc @ b]"
proof (induction b arbitrary: acc)
  case Nil
  show ?case by (simp add: SplitStr.simps)
next
  case (Cons x b)
  have "\<not> HasPrefix (x # b) containerCsiDirectory" using Cons.prems by (auto simp: HasPrefix_iff csi_dir_parts)
  with Cons show ?case by (subst SplitStr.simps) simp
qed

lemma SplitStr_once:
  "CHR ''~'' \<notin> set a \<Longrightarrow> CHR ''~'' \<notin> set b \<Longrightarrow>
   SplitStr containerCsiDirectory acc (a @ containerCsiDirectory @ b) = [acc @ a, b]"
proof (induction a arbitrary: acc)
  case Nil
  have "SplitStr containerCsiDirectory acc (containerCsiDirectory @ b) = acc # SplitStr containerCsiDirectory [] b"
    by (subst SplitStr.simps) (simp add: csi_dir_parts)
  with Nil show ?case by (simp add: SplitStr_none)
next
  case (Cons x a)
  have "\<not> HasPrefix ((x # a) @ containerCsiDirectory @ b) containerCsiDirectory"
  proof
    assume "HasPrefix ((x # a) @ containerCsiDirectory @ b) containerCsiDirectory"
    then obtain t where t: "(x # a) @ containerCsiDirectory @ b = containerCsiDirectory @ t" by (auto simp: HasPrefix_iff)
    let ?tw = "takeWhile (\<lambda>c. c \<noteq> CHR ''~'')"
    have "?tw (containerCsiDirectory @ t) = ''volumes/kubernetes.io''" by (simp add: csi_dir_parts)
    moreover have "?tw ((x # a) @ containerCsiDirectory @ b) = (x # a) @ ''volumes/kubernetes.io''"
      using Cons.prems(1) by (subst takeWhile_append2) (auto simp: csi_dir_parts)
    ultimately have "(x # a) @ ''volumes/kubernetes.io'' = ''volumes/kubernetes.io''" using t by (simp only:)
    then have "length ((x # a) @ ''volumes/kubernetes.io'') = length ''volumes/kubernetes.io''" by (simp only:)
    then show False by simp
  qed
  with Cons show ?case by (subst SplitStr.simps) simp
qed

lemma LastIndex_append: "c \<notin> set b \<Longrightarrow> LastIndex (a @ c # b) c = Some (length a)"
proof (induction a)
  case Nil
  have "LastIndex b c = None" using Nil by (induction b) auto
  then show ?case by simp
qed simp

lemma Index_char: "c \<notin> set a \<Longrightarrow> Index (a @ c # b) [c] = Some (length a)"
  by (induction a) (auto simp: HasPrefix_def)

text \<open>
  The driver reads the application pod and the volume back from a target path of the
  kubelet, whatever the kubelet's directory is, provided the parts have no tilde and the
  two names no slash.
\<close>

theorem target_path_roundtrip:
  assumes "CHR ''~'' \<notin> set (dir @ uid @ pv @ rest)" "CHR ''/'' \<notin> set uid" "CHR ''/'' \<notin> set pv" "dir \<noteq> []" "pv \<noteq> []"
  defines "target \<equiv> dir @ ''/'' @ uid @ ''/'' @ containerCsiDirectory @ ''/'' @ pv @ ''/'' @ rest"
  shows "getPodUid target = uid \<and> getPVName target = pv"
proof -
  have s: "SplitStr containerCsiDirectory [] target = [dir @ ''/'' @ uid @ ''/'', ''/'' @ pv @ ''/'' @ rest]"
    using SplitStr_once [of "dir @ ''/'' @ uid @ ''/''" "''/'' @ pv @ ''/'' @ rest" "[]"] assms(1) by (simp add: target_def)
  have "TrimSuffix (dir @ ''/'' @ uid @ ''/'') ''/'' = dir @ CHR ''/'' # uid"
    by (simp add: TrimSuffix_def HasSuffix_def)
  then have "getPodUid target = uid"
    using LastIndex_append [OF assms(2), of dir] assms(4) by (simp add: getPodUid_def s)
  moreover have "TrimPrefix (''/'' @ pv @ ''/'' @ rest) ''/'' = pv @ CHR ''/'' # rest" by (simp add: TrimPrefix_def HasPrefix_def)
  then have "getPVName target = pv"
    using Index_char [OF assms(3), of rest] assms(5) by (simp add: getPVName_def s)
  ultimately show ?thesis by blast
qed

theorem target_path_roundtrip_witness:
  "getPodUid live_target = ''uid'' \<and> getPVName live_target = ''pv''"
  using target_path_roundtrip [of "''/var/lib/kubelet/pods''" "''uid''" "''pv''" "''mount''"]
  by (simp add: live_target_def containerCsiDirectory_def)

section \<open>Counting the mounts of a target\<close>

lemma record_mount_lookup:
  "map_of (record_mount records mi) p = (if p = miMountPoint mi then
     Some (case map_of records p of None \<Rightarrow> new_item p (root_subpath mi) 1
       | Some r \<Rightarrow> r\<lparr>tiInconsistent := (if tiSubpath r \<noteq> root_subpath mi then True else tiInconsistent r), tiCount := tiCount r + 1\<rparr>)
   else map_of records p)"
  by (auto simp: record_mount_def Let_def split: option.splits simp del: map_of_eq_Some_iff)

lemma wf_record_mount: "wf_map records \<Longrightarrow> wf_map (record_mount records mi)"
  by (auto simp: record_mount_def Let_def split: option.splits)

definition mounts_at :: "string \<Rightarrow> MountInfo list \<Rightarrow> MountInfo list" where
  "mounts_at p mis = filter (\<lambda>mi. miMountPoint mi = p) mis"

text \<open>The record of a mount point after a list of entries: the first root, the number, and whether the roots differ.\<close>

definition record_of :: "string \<Rightarrow> MountInfo list \<Rightarrow> targetItem option" where
  "record_of p mis = (case mounts_at p mis of [] \<Rightarrow> None
     | m # ms \<Rightarrow> Some ((new_item p (root_subpath m) (length (m # ms)))\<lparr>tiInconsistent := list_ex (\<lambda>x. root_subpath x \<noteq> root_subpath m) ms\<rparr>))"

lemma mounts_at_snoc: "mounts_at p (mis @ [mi]) = mounts_at p mis @ (if miMountPoint mi = p then [mi] else [])"
  by (simp add: mounts_at_def)

lemma records_spec: "map_of (foldl record_mount [] mis) p = record_of p mis \<and> wf_map (foldl record_mount [] mis)"
proof (induction mis rule: rev_induct)
  case Nil
  show ?case by (simp add: record_of_def mounts_at_def)
next
  case (snoc mi mis)
  then show ?case
    by (auto simp: record_mount_lookup wf_record_mount record_of_def mounts_at_snoc new_item_def split: list.splits simp del: map_of_eq_Some_iff)
qed

text \<open>The check of a target sets its status only.\<close>

definition same_item :: "targetItem \<Rightarrow> targetItem \<Rightarrow> bool" where
  "same_item t t' \<longleftrightarrow> tiTarget t' = tiTarget t \<and> tiCount t' = tiCount t \<and> tiSubpath t' = tiSubpath t \<and> tiInconsistent t' = tiInconsistent t"

lemma ti_check_same: "ti_check H m ti w = (r, w') \<Longrightarrow> \<exists>ti'. r = Inr ti' \<and> same_item ti ti'"
  by (auto simp: same_item_def ti_check_def tryE_def ret_def Let_def split: sum.splits prod.splits if_splits)

lemma check_all_same:
  "check_all H tis w = (r, w') \<Longrightarrow> \<exists>tis'. r = Inr tis' \<and>
     list_all2 same_item tis tis'"
proof (induction tis arbitrary: w r w')
  case Nil
  then show ?case by (simp add: ret_def)
next
  case (Cons ti tis)
  obtain r1 w1 where t: "ti_check H True ti w = (r1, w1)" by fastforce
  obtain r2 w2 where c: "check_all H tis w1 = (r2, w2)" by fastforce
  from ti_check_same [OF t] Cons.IH [OF c] c Cons.prems t show ?case by (auto simp: bind_eq ret_def)
qed

text \<open>
  C26: the items found for a target are exactly the mount points that match, each once, with
  the number of its entries in the mount table, and marked inconsistent exactly when the
  entries do not all show the same root.
\<close>

theorem resolveTargetItem_counts:
  assumes "resolveTargetItem H mit path isPrefix w = (r, w')"
  defines "mis \<equiv> filter (mount_matches path isPrefix) (mit_mis mit)"
  shows "\<exists>items. r = Inr items \<and> distinct (map tiTarget items) \<and> tiTarget ` set items = miMountPoint ` set mis \<and>
    (\<forall>ti \<in> set items. let ms = mounts_at (tiTarget ti) mis in tiCount ti = length ms \<and>
       (tiInconsistent ti \<longleftrightarrow> (\<exists>x \<in> set ms. root_subpath x \<noteq> root_subpath (hd ms))))"
proof -
  let ?rs = "foldl record_mount [] mis"
  have spec: "map_of ?rs p = record_of p mis" and wf: "wf_map ?rs" for p using records_spec by blast+
  have rec: "tiTarget t = p \<and> record_of p mis = Some t" if "(p, t) \<in> set ?rs" for p t
  proof -
    have "record_of p mis = Some t" using that wf by (simp flip: spec)
    then show ?thesis by (auto simp: record_of_def new_item_def split: list.splits)
  qed
  have targets: "map tiTarget (map snd ?rs) = map fst ?rs" using rec by auto
  obtain items where items: "r = Inr items"
    and same: "list_all2 same_item (map snd ?rs) items"
    using check_all_same [OF assms(1) [unfolded resolveTargetItem_def, folded mis_def]] by blast
  have names: "map tiTarget items = map fst ?rs"
    using same targets by (auto simp: same_item_def list_all2_conv_all_nth intro!: nth_equalityI)
  have "fst ` set ?rs = miMountPoint ` set mis"
  proof -
    have "p \<in> fst ` set ?rs \<longleftrightarrow> record_of p mis \<noteq> None" for p by (metis spec map_of_eq_None_iff)
    moreover have "record_of p mis \<noteq> None \<longleftrightarrow> p \<in> miMountPoint ` set mis" for p
    proof -
      have "record_of p mis \<noteq> None \<longleftrightarrow> mounts_at p mis \<noteq> []" by (simp add: record_of_def split: list.splits)
      then show ?thesis by (auto simp: mounts_at_def filter_empty_conv)
    qed
    ultimately show ?thesis by blast
  qed
  moreover have "tiCount ti = length (mounts_at (tiTarget ti) mis) \<and>
      (tiInconsistent ti \<longleftrightarrow> (\<exists>x \<in> set (mounts_at (tiTarget ti) mis). root_subpath x \<noteq> root_subpath (hd (mounts_at (tiTarget ti) mis))))"
    if "ti \<in> set items" for ti
  proof -
    from that same obtain t p where t: "(p, t) \<in> set ?rs" "tiTarget ti = tiTarget t" "tiCount ti = tiCount t" "tiInconsistent ti = tiInconsistent t"
      by (auto simp: same_item_def list_all2_conv_all_nth in_set_conv_nth) (metis nth_mem surjective_pairing)
    with rec [OF t(1)] show ?thesis
      by (auto simp: record_of_def new_item_def list_ex_iff split: list.splits)
  qed
  ultimately show ?thesis using items names wf by (auto simp: Let_def simp flip: set_map)
qed

definition three_mounts :: mountInfoTable where
  "three_mounts = newMountInfoTable\<lparr>mit_mis := [\<lparr>miMinor = 1, miRoot = ''/'', miMountPoint = ''/t''\<rparr>,
     \<lparr>miMinor = 1, miRoot = ''/x'', miMountPoint = ''/u''\<rparr>, \<lparr>miMinor = 2, miRoot = ''/sub'', miMountPoint = ''/t''\<rparr>]\<rparr>"

theorem resolveTargetItem_counts_witness:
  "\<exists>ti. fst (resolveTargetItem (idle_host :: unit host) three_mounts ''/t'' False ()) = Inr [ti] \<and> tiCount ti = 2 \<and> tiInconsistent ti"
proof -
  obtain r w' where r: "resolveTargetItem (idle_host :: unit host) three_mounts ''/t'' False () = (r, w')" by (metis surj_pair)
  have m: "filter (mount_matches ''/t'' False) (mit_mis three_mounts) =
      [\<lparr>miMinor = 1, miRoot = ''/'', miMountPoint = ''/t''\<rparr>, \<lparr>miMinor = 2, miRoot = ''/sub'', miMountPoint = ''/t''\<rparr>]" by code_simp
  have s: "root_subpath \<lparr>miMinor = 1, miRoot = ''/'', miMountPoint = ''/t''\<rparr> = []" "root_subpath \<lparr>miMinor = 2, miRoot = ''/sub'', miMountPoint = ''/t''\<rparr> = ''sub''"
    by code_simp+
  let ?ms = "[\<lparr>miMinor = 1, miRoot = ''/'', miMountPoint = ''/t''\<rparr>, \<lparr>miMinor = 2, miRoot = ''/sub'', miMountPoint = ''/t''\<rparr>]"
  have a: "mounts_at ''/t'' ?ms = ?ms" by (simp add: mounts_at_def)
  have e: "\<exists>x \<in> set ?ms. root_subpath x \<noteq> root_subpath (hd ?ms)" using s by simp
  from resolveTargetItem_counts [OF r, unfolded m] obtain items where i: "r = Inr items" "distinct (map tiTarget items)"
      "tiTarget ` set items = miMountPoint ` set ?ms"
    and c: "\<forall>ti \<in> set items. let ms = mounts_at (tiTarget ti) ?ms in tiCount ti = length ms \<and>
       (tiInconsistent ti \<longleftrightarrow> (\<exists>x \<in> set ms. root_subpath x \<noteq> root_subpath (hd ms)))" by blast
  have i3: "tiTarget ` set items = {''/t''}" unfolding i(3) by simp
  have i4: "tiCount ti = 2 \<and> tiInconsistent ti" if "ti \<in> set items" for ti
  proof -
    have t: "tiTarget ti = ''/t''" using i3 that by blast
    show ?thesis using bspec [OF c that] e unfolding t a Let_def by simp
  qed
  from i(2) i3 have "length items = 1" by (metis List.card_set distinct_card is_singletonI is_singleton_altdef length_map set_map)
  then obtain ti where "items = [ti]" by (metis One_nat_def length_0_conv length_Suc_conv)
  with i(1) i4 r show ?thesis by simp
qed

section \<open>Targets with many mounts\<close>


definition many_mounts :: "MountInfo list" where
  "many_mounts = replicate 5 \<lparr>miMinor = 1, miRoot = ''/'', miMountPoint = live_target\<rparr>"

definition broken_host :: "nat host" where
  "broken_host = idle_host\<lparr>h_mount_infos := ret many_mounts, h_stat := \<lambda>_. fail Corrupted, h_umount_lazy := \<lambda>_ w. (([], None), w + 1),
     h_mount := \<lambda>_ _ _ _ w. (Inr (), w + 1000)\<rparr>"

definition broken_item :: targetItem where
  "broken_item = (new_item live_target [] 5)\<lparr>tiStatus := targetStatusCorrupt\<rparr>"

definition broken_mount :: mountItem where
  "broken_mount = \<lparr>itPodExist = True, itPodDeleted = False, itBaseTarget = broken_item, itSubPathTarget = []\<rparr>"


section \<open>Waiting for a stuck pod\<close>

text \<open>
  The comment of checkMountPodStuck asks for the maximum of twice the grace period and a
  minute; the grace period is taken as nanoseconds, so it never counts.
\<close>

lemma stuck_timeout_minute: "g \<le> 30 * 10 ^ 9 \<Longrightarrow> stuck_timeout (Some g) = minute"
  by (simp add: stuck_timeout_def minute_def second_def)

text \<open>Any failure of the job lookup other than a missing job ends in a nil pointer dereference.\<close>

lemma wait_abort_panics:
  "GetJob K (mName (jMeta job)) (mNamespace (jMeta job)) w = (Inl e, w') \<Longrightarrow> e \<noteq> NotFound \<Longrightarrow> h_now H w < deadline \<Longrightarrow>
   wait_abort H K (Suc fuel) deadline job w = (Inl (Panic ''nil pointer dereference''), w')"
  by (simp add: tryE_def fail_def)

end
