(* ===== verification/Publish.thy ===== *)
theory Publish
  imports Driver PodDriver
begin

text \<open>
  Publishing and unpublishing a volume from the request to the mount pod: the steps of
  NodePublishVolume and NodeUnpublishVolume (driver/node.go), JfsMount and JfsUnmount
  (juicefs.go) and JMount (mount/pod\_mount.go) in pod mode, and what they leave of the
  references of the mount pods. The calls of the node, the kubelet and the lookups in the
  API server are quiet: they do not touch the stored pods.
\<close>

section \<open>Quiet calls\<close>

definition host_quiet :: "'w host \<Rightarrow> ('w \<Rightarrow> pod_map) \<Rightarrow> bool" where
  "host_quiet H pods \<longleftrightarrow> node_keeps_pods H pods \<and> (\<forall>w. (\<forall>p n. pods (snd (h_mkdir_all H p n w)) = pods w)
     \<and> (\<forall>p n. pods (snd (h_chmod H p n w)) = pods w) \<and> (\<forall>p. pods (snd (h_remove H p w)) = pods w)
     \<and> (\<forall>p s. pods (snd (h_write_file H p s w)) = pods w) \<and> (\<forall>c a e. pods (snd (h_command H c a e w)) = pods w)
     \<and> pods (snd (h_running_pods H w)) = pods w \<and> (\<forall>n. pods (snd (h_intn H n w)) = pods w))"

definition client_quiet :: "'w K8sClient \<Rightarrow> ('w \<Rightarrow> pod_map) \<Rightarrow> bool" where
  "client_quiet K pods \<longleftrightarrow> (\<forall>w. (\<forall>n. pods (snd (c_pvs_get K n w)) = pods w)
     \<and> (\<forall>ns n. pods (snd (c_pvcs_get K ns n w)) = pods w) \<and> (\<forall>ns rv s f. pods (snd (c_pods_list K ns rv s f w)) = pods w)
     \<and> (\<forall>ns n c. pods (snd (c_pods_log K ns n c w)) = pods w))"

definition kubelet_quiet :: "'w juicefs \<Rightarrow> ('w \<Rightarrow> pod_map) \<Rightarrow> bool" where
  "kubelet_quiet J pods \<longleftrightarrow> (\<forall>a p w. pods (snd (j_kubelet J a p w)) = pods w)"

text \<open>A step that keeps the pods keeps whatever is said of them.\<close>

lemma keeps_view: "(\<And>m. keeps (\<lambda>w. pods w = m) f) \<Longrightarrow> keeps (\<lambda>w. R (pods w)) f"
  by (auto simp: keeps_def)

lemma quietI: "(\<And>w. pods (snd (f w)) = pods w) \<Longrightarrow> keeps (\<lambda>w. pods w = m) f"
  by (simp add: keeps_def)

lemma quietD:
  assumes "\<And>m. keeps (\<lambda>w. pods w = m) f" "f w = (r, w')"
  shows "pods w' = pods w"
  using keepsD [OF assms(1), of w "pods w"] assms(2) by simp

named_theorems quiet_intro \<open>steps of the publishing that keep the pods\<close>

lemma host_calls_keep [quiet_intro]:
  assumes "host_quiet H pods"
  shows "keeps (\<lambda>w. pods w = m) (h_mkdir_all H p n)" "keeps (\<lambda>w. pods w = m) (h_chmod H p n)" "keeps (\<lambda>w. pods w = m) (h_remove H p)"
    "keeps (\<lambda>w. pods w = m) (h_write_file H p str)" "keeps (\<lambda>w. pods w = m) (h_running_pods H)"
    "node_keeps H (\<lambda>w. pods w = m)"
  using assms by (simp_all add: host_quiet_def node_keeps_pods_def keeps_def)

lemma client_calls_keep [quiet_intro]:
  assumes "client_quiet K pods"
  shows "keeps (\<lambda>w. pods w = m) (c_pvs_get K name)" "keeps (\<lambda>w. pods w = m) (c_pvcs_get K ns name)"
    "keeps (\<lambda>w. pods w = m) (c_pods_list K ns rv sel f)" "keeps (\<lambda>w. pods w = m) (c_pods_log K ns name c)"
  using assms by (simp_all add: client_quiet_def keeps_def)

lemma kubelet_keeps [quiet_intro]: "kubelet_quiet J pods \<Longrightarrow> keeps (\<lambda>w. pods w = m) (j_kubelet J a i)"
  by (simp add: kubelet_quiet_def keeps_def)

lemma RandStringRunes_pods: "host_quiet H pods \<Longrightarrow> pods (snd (RandStringRunes H n w)) = pods w"
proof (induction n arbitrary: w)
  case (Suc n)
  then have "pods (snd (h_intn H (length letterRunes) w)) = pods w" by (simp add: host_quiet_def)
  with Suc show ?case by (auto split: prod.splits) (metis snd_conv)
qed simp

lemma genMountPodName_keeps [quiet_intro]:
  assumes "host_quiet H pods" "client_quiet K pods"
  shows "keeps (\<lambda>w. pods w = m) (genMountPodName L G H K s)"
proof -
  have "keeps (\<lambda>w. pods w = m) (\<lambda>w. case GenPodNameByUniqueId G H u True w of (n, w') \<Rightarrow> (Inr n, w'))" for u
    using RandStringRunes_pods [OF assms(1)]
    by (auto intro!: quietI simp: GenPodNameByUniqueId_def Let_def split: prod.splits) (metis snd_conv)
  then show ?thesis unfolding genMountPodName_def ListPod_def
    by (intro keeps_intro quiet_intro assms)
qed

lemma command_keeps:
  assumes "host_quiet H pods" "\<And>out e w'. snd (f ((out, e), w')) = w'"
  shows "keeps (\<lambda>w. pods w = m) (\<lambda>w. f (h_command H c a env w))"
proof (rule keepsI)
  fix w assume "pods w = m"
  obtain out e w' where h: "h_command H c a env w = ((out, e), w')" by (metis prod.collapse)
  with assms(1) have "pods w' = pods w" unfolding host_quiet_def by (metis snd_conv)
  with \<open>pods w = m\<close> assms(2) h show "pods (snd (f (h_command H c a env w))) = m" by simp
qed

lemma run_command_keeps [quiet_intro]:
  "host_quiet H pods \<Longrightarrow> keeps (\<lambda>w. pods w = m) (run_command H msg c a env)"
  unfolding run_command_def by (erule command_keeps) (simp split: option.splits)

lemma uuid_keeps [quiet_intro]:
  assumes "host_quiet H pods"
  shows "keeps (\<lambda>w. pods w = m) (juicefs_GetJfsVolUUID H name)" "keeps (\<lambda>w. pods w = m) (GetJfsVolUUID H name)"
  unfolding juicefs_GetJfsVolUUID_def GetJfsVolUUID_def
  by (rule command_keeps [OF assms]; simp split: option.splits)+

lemma AuthFs_keeps [quiet_intro]:
  assumes "host_quiet H pods"
  shows "keeps (\<lambda>w. pods w = m) (AuthFs G H J sec s b)"
  unfolding AuthFs_def Let_def
  by (intro keeps_intro quiet_intro node_intro assms)

lemma ceFormat_keeps [quiet_intro]:
  "host_quiet H pods \<Longrightarrow> keeps (\<lambda>w. pods w = m) (ceFormat G H sec b s)"
  unfolding ceFormat_def Let_def by (intro keeps_intro quiet_intro)

lemma SetQuota_keeps [quiet_intro]:
  assumes "host_quiet H pods"
  shows "keeps (\<lambda>w. pods w = m) (SetQuota G H J sec s q cap)"
proof -
  have "keeps (\<lambda>w. pods w = m) (case e of Panic _ \<Rightarrow> fail e | _ \<Rightarrow> fail (Errorf ''%s: %v'' []))" for e :: err
    by (cases e) (auto intro: keeps_intro)
  then show ?thesis unfolding SetQuota_def Let_def
    by (intro keeps_intro quiet_intro assms command_keeps [OF assms]) auto
qed

lemma create_target_keeps [quiet_intro]:
  assumes "host_quiet H pods"
  shows "keeps (\<lambda>w. pods w = m) (CreateTarget H J t)"
proof -
  have "keeps (\<lambda>w. pods w = m) (create_target H fuel t)" for fuel
    by (induction fuel) (simp_all, (intro keeps_intro quiet_intro node_intro assms)+)
  then show ?thesis by (simp add: CreateTarget_def)
qed

lemma lookup_pv_keeps [quiet_intro]:
  "j_client J = Some K \<Longrightarrow> client_quiet K pods \<Longrightarrow> keeps (\<lambda>w. pods w = m) (lookup_pv J v)"
  by (auto simp: lookup_pv_def GetPersistentVolume_def GetPersistentVolumeClaim_def intro!: keeps_intro quiet_intro)

lemma getUniqueId_keeps [quiet_intro]:
  "j_client J = Some K \<Longrightarrow> client_quiet K pods \<Longrightarrow> keeps (\<lambda>w. pods w = m) (getUniqueId G J v)"
  by (auto simp: getUniqueId_def with_client_def GetPersistentVolume_def intro!: keeps_intro quiet_intro)

lemma genJfsSettings_keeps:
  assumes "host_quiet H pods" "j_client J = Some K" "client_quiet K pods" "\<not> ByProcess G"
  shows "keeps (\<lambda>w. pods w = m) (genJfsSettings L G H J v t sec ctx opts)"
proof -
  have set: "keeps (\<lambda>w. pods w = m) (juicefs_Settings L G H J v sec ctx opts)"
    unfolding juicefs_Settings_def fail_as_def Let_def
    by (intro keeps_intro quiet_intro lookup_pv_keeps [OF assms(2,3)] assms(1))
  show ?thesis unfolding genJfsSettings_def Let_def
    by (intro keeps_intro set uuid_keeps getUniqueId_keeps [OF assms(2,3)] assms(1)) (use assms(4) in auto)
qed

lemma ParseAppInfo_keeps [quiet_intro]:
  "host_quiet H pods \<Longrightarrow> kubelet_quiet J pods \<Longrightarrow> keeps (\<lambda>w. pods w = m) (ParseAppInfo G H (j_kubelet J) ctx)"
  unfolding ParseAppInfo_def Let_def by (intro keeps_intro quiet_intro)

lemma waitUtilMountReady_keeps:
  assumes "host_quiet H pods" "client_quiet K pods" "pod_store K pods"
  shows "keeps (\<lambda>w. pods w = m) (waitUtilMountReady G H K s n)"
proof -
  have src: "keeps (\<lambda>w. pods w = m) (fail_with_source fmt source args)" for fmt source args
    unfolding fail_with_source_def by (intro keeps_intro)
  have log: "keeps (\<lambda>w. pods w = m) (getErrContainerLog G K n)"
    unfolding getErrContainerLog_def container_log_def GetPodLog_def
    by (intro keeps_intro quiet_intro get_keeps assms)
  show ?thesis unfolding waitUtilMountReady_def WaitUtilMountReady_def
    by (intro keeps_intro node_intro quiet_intro assms src log)
qed

text \<open>What follows the mount: the directory of the volume, the bind mount and the quota.\<close>

lemma after_mount_keeps [quiet_intro]:
  assumes "host_quiet H pods"
  shows "keeps (\<lambda>w. pods w = m) (CreateVol H fs sub)" "keeps (\<lambda>w. pods w = m) (BindTarget H fs src t)"
    "keeps (\<lambda>w. pods w = m) (publish_quota L G H J req s)"
proof -
  show "keeps (\<lambda>w. pods w = m) (CreateVol H fs sub)"
    unfolding CreateVol_def make_volume_dir_def Let_def by (intro keeps_intro node_intro quiet_intro assms)
  show "keeps (\<lambda>w. pods w = m) (BindTarget H fs src t)"
    unfolding BindTarget_def Let_def by (intro keeps_intro node_intro quiet_intro assms)
  have "keeps (\<lambda>w. pods w = m) (case e of Panic _ \<Rightarrow> fail e | OutOfFuel \<Rightarrow> fail e | _ \<Rightarrow> ret ())" for e
    by (cases e) (auto intro: keeps_intro)
  then show "keeps (\<lambda>w. pods w = m) (publish_quota L G H J req s)"
    unfolding publish_quota_def Let_def by (intro keeps_intro quiet_intro assms)
qed

section \<open>Steps that change pods\<close>

text \<open>What the pods say of one target: the annotation under its reference key.\<close>

definition ref_view :: "'x lib_scheme \<Rightarrow> string \<Rightarrow> pod_map \<Rightarrow> string \<times> string \<Rightarrow> string option option" where
  "ref_view L t pm k = map_option (\<lambda>p. map_of (annos p) (GetReferenceKey L t)) (pm k)"

lemma in_use_view: "in_use L pods k t w \<longleftrightarrow> ref_view L t (pods w) k = Some (Some t)"
  by (auto simp: in_use_def ref_view_def simp del: map_of_eq_Some_iff)

lemma key_free_view: "key_free L t (pods w k) \<longleftrightarrow> (\<forall>v. ref_view L t (pods w) k = Some (Some v) \<longrightarrow> v = t)"
  by (auto simp: key_free_def ref_view_def simp del: map_of_eq_Some_iff)

text \<open>Of the patches of the publishing only the one that adds the reference touches a reference.\<close>

lemma patch_keeps_view:
  assumes st: "pod_store K pods"
    and same: "\<And>p. map_of (annos (apply_patch pt p)) (GetReferenceKey L t) = map_of (annos p) (GetReferenceKey L t)"
  shows "keeps (\<lambda>w. ref_view L t (pods w) = m) (PatchPod K (Some po) pt)"
proof (rule keepsI)
  fix w assume a: "ref_view L t (pods w) = m"
  obtain r w' where p: "c_pods_patch K (pod_ns po) (pod_name po) pt w = (r, w')" by fastforce
  note patch = pod_store_patch [OF st p]
  have "ref_view L t (pods w') = ref_view L t (pods w)"
  proof (cases r)
    case (Inl e)
    with patch(1) show ?thesis by simp
  next
    case (Inr u)
    from patch(2) [OF Inr] obtain q where "pods w (pod_ns po, pod_name po) = Some q"
      "pods w' = (pods w)((pod_ns po, pod_name po) \<mapsto> apply_patch pt q)" by blast
    with same [of q] show ?thesis by (auto simp: ref_view_def fun_eq_iff)
  qed
  with a p show "ref_view L t (pods (snd (PatchPod K (Some po) pt w))) = m" by (simp add: PatchPod_def)
qed

lemma setMountLabel_view:
  assumes "pod_store K pods"
  shows "keeps (\<lambda>w. ref_view L t (pods w) = m) (setMountLabel K n ns)"
  unfolding setMountLabel_def AddPodLabel_def
  by (intro keeps_intro keeps_view [where pods = pods, OF get_keeps] patch_keeps_view assms) simp

lemma setUUIDAnnotation_view:
  assumes "pod_store K pods" "sha_wf L"
  shows "keeps (\<lambda>w. ref_view L t (pods w) = m) (setUUIDAnnotation G K n uuid)"
proof -
  have "length (GetReferenceKey L t) = 63" by (rule GetReferenceKey_shape [OF assms(2)])
  then have "GetReferenceKey L t \<noteq> JuiceFSUUID" by (auto simp: JuiceFSUUID_def)
  then show ?thesis unfolding setUUIDAnnotation_def AddPodAnnotation_def
    by (intro keeps_intro keeps_view [where pods = pods, OF get_keeps] patch_keeps_view assms) (simp add: map_of_mputs)
qed

section \<open>No reference is lost\<close>

lemma quiet_in_use: "(\<And>m. keeps (\<lambda>w. pods w = m) f) \<Longrightarrow> keeps (in_use L pods k u) f"
  by (auto simp: keeps_def in_use_view)

lemma placed_meta: "(if b then place_pod K ai p else ret p) w = (Inr q, w') \<Longrightarrow> pMeta q = pMeta p"
  using place_pod_meta [of K ai p w q w'] by (auto simp: ret_def split: if_splits)

lemma addref_in_use:
  assumes "pod_store K pods" "sha_wf L" "GetReferenceKey L u = GetReferenceKey L t \<Longrightarrow> u = t"
  shows "keeps (in_use L pods k u) (addref_attempt L G K t n)"
proof (rule keepsI)
  fix w assume i: "in_use L pods k u w"
  obtain r w' where a: "addref_attempt L G K t n w = (r, w')" by fastforce
  note cases = addref_attempt_cases [OF assms(1) a]
  show "in_use L pods k u (snd (addref_attempt L G K t n w))"
  proof (cases r)
    case (Inl e)
    with cases(1) a in_use_pods [OF i, of w'] show ?thesis by simp
  next
    case (Inr v)
    from cases(2) [OF Inr] obtain p x where p: "pods w (Namespace G, n) = Some p"
      "annos (set_annos x p) = table_add L t (annos p)" "pods w' = (pods w)((Namespace G, n) \<mapsto> set_annos x p)" by blast
    have "map_of (table_add L t (annos p)) (GetReferenceKey L u) = Some u" if "map_of (annos p) (GetReferenceKey L u) = Some u"
      using that table_add_lookup [OF assms(2) refl, of "annos p" t u] assms(3)
      by (cases "mhas (annos p) (GetReferenceKey L t)") (auto simp: table_add_def simp del: map_of_eq_Some_iff)
    with i p a show ?thesis by (auto simp: in_use_def simp del: map_of_eq_Some_iff)
  qed
qed

text \<open>The pod is created under its own name, which no pod had.\<close>

lemma create_mount_pod_in_use:
  assumes st: "pod_store K pods" "retry_law K" "create_law K pods" "quiet_calls H K pods"
    and ns: "sAttr s = Some a" "aNamespace a = Namespace G" and k: "k \<noteq> (Namespace G, n)"
  shows "keeps (in_use L pods k u) (create_mount_pod L G K n hash ai secret s)"
proof -
  have new: "keeps (in_use L pods k u) (bind (CreatePod K (Some q)) (\<lambda>_. ret s'))"
    if "pod_ns q = Namespace G" "pod_name q = n" for q s'
  proof -
    have "keeps (in_use L pods k u) (c_pods_create K (pod_ns q) q)"
    proof (rule keepsI)
      fix w assume i: "in_use L pods k u w"
      obtain r w' where c: "c_pods_create K (pod_ns q) q w = (r, w')" by fastforce
      with st(3) [unfolded create_law_def, rule_format, OF this] that k i
      show "in_use L pods k u (snd (c_pods_create K (pod_ns q) q w))"
        by (cases r) (auto simp: in_use_def)
    qed
    then show ?thesis unfolding CreatePod_def option.case by (intro keeps_intro)
  qed
  have place: "keeps (in_use L pods k u) (if b then place_pod K ai p else ret p)" for b p
    by (intro keeps_intro quiet_in_use place_pod_keeps [OF st(4,1)])
  have secret: "keeps (in_use L pods k u) (createOrUpdateSecret G K secret)"
    by (rule quiet_in_use [OF createOrUpdateSecret_keeps [OF st(4,2)]])
  have placed: "keeps (in_use L pods k u) (bind (if cfEnableNodeSelector (GlobalConfig G) then place_pod K ai p else ret p)
      (\<lambda>q. bind (createOrUpdateSecret G K secret) (\<lambda>_. bind (CreatePod K (Some q)) (\<lambda>_. ret s'))))"
    if "pod_ns p = Namespace G" "pod_name p = n" for p s'
    by (rule keeps_bind_result [OF place], intro keeps_bind secret new) (simp_all add: placed_meta that)
  have built: "pod_ns pod = Namespace G" "pod_name pod = n" if "NewMountPod L G n s = Inr (s', pod)" for s' pod
    using NewMountPod_meta(1,2) [OF that ns(1)] ns(2) by simp_all
  show ?thesis unfolding create_mount_pod_def Let_def
    by (rule keeps_lift_bind, rule keeps_prod, rule placed) (simp_all add: set_label_def set_annos_def built)
qed

text \<open>Creating or referencing the pod of one target loses no reference of another.\<close>

lemma create_or_add_in_use:
  assumes st: "pod_store K pods" "retry_law K" "create_law K pods" "quiet_calls H K pods" "sha_wf L"
    and ns: "sAttr s = Some a" "aNamespace a = Namespace G"
    and inj: "GetReferenceKey L u = GetReferenceKey L (sTargetPath s) \<Longrightarrow> u = sTargetPath s"
  shows "keeps (in_use L pods k u) (create_or_add L G H K fuel n hash ai secret s)"
proof (induction fuel)
  case (Suc fuel)
  show ?case
  proof (rule keepsI)
    fix w assume i: "in_use L pods k u w"
    obtain r w1 where g: "c_pods_get K (Namespace G) n w = (r, w1)" by fastforce
    note get = pod_store_get [OF st(1) g]
    have i1: "in_use L pods k u w1" by (rule in_use_pods [OF i get(1)])
    have add: "keeps (in_use L pods k u) (AddRefOfMount L G K (sTargetPath s) n)"
      unfolding AddRefOfMount_def by (rule retry_keeps [OF st(2) addref_in_use [OF st(1,5) inj]])
    have secret: "keeps (in_use L pods k u) (createOrUpdateSecret G K secret)"
      by (rule quiet_in_use [OF createOrUpdateSecret_keeps [OF st(4,2)]])
    have sleep: "in_use L pods k u v \<Longrightarrow> in_use L pods k u (h_sleep H d v)" for d v
      using st(4) by (simp add: quiet_calls_def in_use_def)
    show "in_use L pods k u (snd (create_or_add L G H K (Suc fuel) n hash ai secret s w))"
    proof (cases r)
      case (Inl e)
      have "k \<noteq> (Namespace G, n)" if "e = NotFound" using get(2) Inl that i by (auto simp: in_use_def)
      with Inl g i1 show ?thesis
        using keepsD [OF create_mount_pod_in_use [OF st(1-4) ns] i1] by (auto simp: tryE_def fail_def)
    next
      case (Inr p)
      have "keeps (in_use L pods k u) (if mDeletionTimestamp (pMeta p) \<noteq> None
          then after (h_sleep H 500000) (create_or_add L G H K fuel n hash ai secret s)
          else bind (createOrUpdateSecret G K secret) (\<lambda>_. bind (AddRefOfMount L G K (sTargetPath s) n) (\<lambda>_. ret s)))"
        by (intro keeps_intro sleep Suc.IH secret add)
      from keepsD [OF this i1] g Inr show ?thesis by (simp add: tryE_def)
    qed
  qed
qed (simp add: keeps_fail)

lemma createOrAddRef_in_use:
  assumes "pod_store K pods" "retry_law K" "create_law K pods" "quiet_calls H K pods" "sha_wf L"
    and "sAttr s = Some a" "aNamespace a = Namespace G"
    and "GetReferenceKey L u = GetReferenceKey L (sTargetPath s) \<Longrightarrow> u = sTargetPath s"
  shows "keeps (in_use L pods k u) (createOrAddRef L G H K n s ai)"
proof -
  have lock: "in_use L pods k u v \<Longrightarrow> in_use L pods k u (h_lock H i v)" "in_use L pods k u v \<Longrightarrow> in_use L pods k u (h_unlock H i v)" for i v
    using assms(4) by (simp_all add: quiet_calls_def in_use_def)
  show ?thesis unfolding createOrAddRef_def Let_def
    by (intro keeps_intro lock create_or_add_in_use [OF assms(1-5) _ assms(7)]) (use assms(6,8) in simp_all)
qed

section \<open>The setting of a request\<close>

text \<open>A secret is a map of strings, so unmarshalling it cannot set the attributes of the pod.\<close>

definition unmarshal_keeps_attr :: "'x setting_lib_scheme \<Rightarrow> bool" where
  "unmarshal_keeps_attr L \<longleftrightarrow> (\<forall>src s t. parseYamlOrJson (l_yaml_setting L) (l_json_setting L) src s = Inr t \<longrightarrow> sAttr t = sAttr s)"

definition pod_part :: "JfsSetting \<Rightarrow> PodAttr option \<times> bool" where
  "pod_part s = (sAttr s, sUsePod s)"

lemma pod_part_steps:
  "pod_part (parse_keys sec (parse_source sec s)) = pod_part s"
  "parse_maps L sec s = Inr t \<Longrightarrow> pod_part t = pod_part s"
  "parse_vol_ctx L ctx s = Inr t \<Longrightarrow> pod_part t = pod_part s"
  "parse_caches L sec c opts up pv pvc s = Inr t \<Longrightarrow> pod_part t = (sAttr s, up)"
  by (auto simp: pod_part_def parse_keys_def parse_source_def parse_maps_def parse_vol_ctx_def parse_caches_def Let_def bind_res_Inr_iff
      split: option.splits if_splits sum.splits)

lemma default_attr_namespace: "default_attr L G ce = Inr a \<Longrightarrow> aNamespace a = Namespace G"
  by (auto simp: default_attr_def Let_def bind_res_Inr_iff)

lemma attr_namespace:
  "aNamespace (attr_from_patch pt a) = aNamespace a" "attr_from_ctx L ctx a = Inr b \<Longrightarrow> aNamespace b = aNamespace a"
  by (auto simp: attr_from_patch_def attr_from_ctx_def Let_def bind_res_Inr_iff)

lemma GenPodAttr_default:
  assumes "GenPodAttrWithCfg L G s ctx = Inr t" "sAttr s = None"
  shows "sUsePod t = sUsePod s \<and> (\<exists>a. sAttr t = Some a \<and> aNamespace a = Namespace G)"
proof -
  let ?a1 = "\<lambda>a. if JFSMountPreemptionPolicy G \<noteq> [] then a\<lparr>aPreemptionPolicy := Some (JFSMountPreemptionPolicy G)\<rparr> else a"
  from assms obtain a0 a2 pt where "default_attr L G (sIsCe s) = Inr a0"
    "(case ctx of None \<Rightarrow> Inr (?a1 a0) | Some c \<Rightarrow> attr_from_ctx L c (?a1 a0)) = Inr a2" "t = s\<lparr>sAttr := Some (attr_from_patch pt a2)\<rparr>"
    unfolding GenPodAttrWithCfg_def Let_def by (auto simp only: bind_res_Inr_iff option.case sum.inject)
  moreover have "aNamespace (?a1 a0) = aNamespace a0" by simp
  ultimately show ?thesis using default_attr_namespace [of L G "sIsCe s" a0] attr_namespace(2) [of L _ "?a1 a0" a2]
    by (cases ctx) (auto simp: attr_namespace(1))
qed

lemma ParseSetting_attr:
  assumes "unmarshal_keeps_attr L" "ParseSetting L G (Some sec) ctx opts up pv pvc = Inr s"
  shows "sUsePod s = up \<and> (\<exists>a. sAttr s = Some a \<and> aNamespace a = Namespace G)"
proof -
  from assms(2) obtain s0 s1 s2 s3 where
    a: "parseYamlOrJson (l_yaml_setting L) (l_json_setting L) (l_json_marshal_map L sec) (zero_setting\<lparr>sOptions := opts\<rparr>) = Inr s0"
    and b: "parse_caches L sec (omap ctx) opts up pv pvc s0 = Inr s1"
      "parse_maps L sec (parse_keys sec (parse_source sec s1)) = Inr s2"
    and c: "(case ctx of None \<Rightarrow> Inr s2 | Some ctx \<Rightarrow> parse_vol_ctx L ctx s2) = Inr s3"
    and d: "GenPodAttrWithCfg L G s3 ctx = Inr s"
    by (auto simp: ParseSetting_def bind_res_Inr_iff split: if_splits)
  have "sAttr s0 = None" using assms(1) a by (fastforce simp: unmarshal_keeps_attr_def zero_setting_def)
  moreover have "pod_part s3 = pod_part s2" using c pod_part_steps(3) by (cases ctx) auto
  ultimately have "pod_part s3 = (None, up)"
    using pod_part_steps(4) [OF b(1)] pod_part_steps(2) [OF b(2)] pod_part_steps(1) by simp
  with GenPodAttr_default [OF d] show ?thesis by (simp add: pod_part_def)
qed

lemma genJfsSettings_setting:
  assumes "unmarshal_keeps_attr L" "genJfsSettings L G H J v t (Some sec) ctx opts w = (Inr s, w')"
  shows "sTargetPath s = t \<and> sUsePod s = (\<not> ByProcess G) \<and> (\<exists>a. sAttr s = Some a \<and> aNamespace a = Namespace G)"
proof -
  from assms(2) obtain s0 w0 where s0: "juicefs_Settings L G H J v (Some sec) ctx opts w = (Inr s0, w0)"
    and s: "sTargetPath s = t" "sUsePod s = sUsePod s0" "sAttr s = sAttr s0"
    by (auto simp: genJfsSettings_def bind_Inr Let_def ret_def after_def split: if_splits)
  from s0 obtain s1 ctx' opts' pv pvc where p: "ParseSetting L G (Some sec) ctx' opts' (\<not> ByProcess G) pv pvc = Inr s1"
    and "sUsePod s0 = sUsePod s1" "sAttr s0 = sAttr s1"
    by (auto simp: juicefs_Settings_def bind_Inr Let_def ret_def lift_res_def split: if_splits)
  with s ParseSetting_attr [OF assms(1) p] show ?thesis by simp
qed

section \<open>From the request to the reference\<close>

lemma bind_InrE:
  "bind m f w = (Inr y, w') \<Longrightarrow> (\<And>x w1. m w = (Inr x, w1) \<Longrightarrow> f x w1 = (Inr y, w') \<Longrightarrow> P) \<Longrightarrow> P"
  by (auto simp: bind_Inr)

lemma view_in_use: "(\<And>m. keeps (\<lambda>w. ref_view L u (pods w) = m) f) \<Longrightarrow> keeps (in_use L pods k u) f"
  by (auto simp: keeps_def in_use_view)

lemma JMount_in_use:
  assumes st: "pod_store K pods" "retry_law K" "create_law K pods" "quiet_calls H K pods" "sha_wf L"
    and q: "host_quiet H pods" "client_quiet K pods"
    and ns: "sAttr s = Some a" "aNamespace a = Namespace G"
    and inj: "GetReferenceKey L u = GetReferenceKey L (sTargetPath s) \<Longrightarrow> u = sTargetPath s"
  shows "keeps (in_use L pods k u) (JMount L G H K ai s)"
  unfolding JMount_def
  by (intro keeps_intro createOrAddRef_in_use [OF st ns] inj quiet_in_use [OF genMountPodName_keeps [OF q]]
      quiet_in_use [OF waitUtilMountReady_keeps [OF q st(1)]] quiet_in_use [OF uuid_keeps(2) [OF q(1)]]
      view_in_use [OF setMountLabel_view [OF st(1)]] view_in_use [OF setUUIDAnnotation_view [OF st(1,5)]])

lemma JMount_adds_ref:
  assumes st: "pod_store K pods" "retry_law K" "create_law K pods" "quiet_calls H K pods" "sha_wf L"
    and q: "host_quiet H pods" "client_quiet K pods"
    and ns: "sAttr s = Some a" "aNamespace a = Namespace G" and free: "\<forall>k. key_free L (sTargetPath s) (pods w k)"
    and j: "JMount L G H K ai s w = (Inr s', w')"
  shows "\<exists>n. in_use L pods (Namespace G, n) (sTargetPath s) w'"
proof -
  let ?label = "case ai of None \<Rightarrow> ret () | Some i \<Rightarrow>
      if aiName i \<noteq> [] \<and> aiNamespace i \<noteq> [] then setMountLabel K (aiName i) (aiNamespace i) else ret ()"
  let ?rest = "\<lambda>n s'. bind (waitUtilMountReady G H K s' n) (\<lambda>_. if sCleanCache s' \<and> sUUID s' = [] then
         bind (GetJfsVolUUID H (sSource s')) (\<lambda>uuid. bind (setUUIDAnnotation G K n uuid) (\<lambda>_. ret s')) else ret s')"
  from j obtain n w1 u w2 s1 w3 where n: "genMountPodName L G H K s w = (Inr n, w1)"
    and l: "?label w1 = (Inr u, w2)" and c: "createOrAddRef L G H K n s ai w2 = (Inr s1, w3)" and r: "?rest n s1 w3 = (Inr s', w')"
    unfolding JMount_def by (elim bind_InrE [of "genMountPodName L G H K s"] bind_InrE [of ?label] bind_InrE [of "createOrAddRef L G H K _ s ai"])
  have "pods w1 = pods w" by (rule quietD [OF genMountPodName_keeps [OF q] n])
  moreover have "keeps (\<lambda>w. ref_view L (sTargetPath s) (pods w) = ref_view L (sTargetPath s) (pods w1)) ?label"
    by (intro keeps_intro setMountLabel_view st(1))
  from keepsD [OF this refl] have "ref_view L (sTargetPath s) (pods w2) = ref_view L (sTargetPath s) (pods w1)" by (simp only: l snd_conv)
  ultimately have "key_free L (sTargetPath s) (pods w2 (Namespace G, n))" using free by (simp add: key_free_view)
  from createOrAddRef_adds_ref [OF st ns this c] have "in_use L pods (Namespace G, n) (sTargetPath s) w3" by (simp add: in_use_def)
  moreover have "keeps (in_use L pods (Namespace G, n) (sTargetPath s)) (?rest n s1)"
    by (intro keeps_intro quiet_in_use [OF waitUtilMountReady_keeps [OF q st(1)]] quiet_in_use [OF uuid_keeps(2) [OF q(1)]]
        view_in_use [OF setUUIDAnnotation_view [OF st(1,5)]])
  ultimately have "in_use L pods (Namespace G, n) (sTargetPath s) w'" using keepsD [where w = w3] by (metis r snd_conv)
  then show ?thesis by blast
qed

lemma JfsMount_in_use:
  assumes st: "pod_store K pods" "retry_law K" "create_law K pods" "quiet_calls H K pods" "sha_wf L"
    and q: "host_quiet H pods" "client_quiet K pods" "kubelet_quiet J pods" "unmarshal_keeps_attr L"
    and J: "j_client J = Some K" "\<not> ByProcess G"
    and inj: "GetReferenceKey L u = GetReferenceKey L t \<Longrightarrow> u = t"
  shows "keeps (in_use L pods k u) (JfsMount L G H J v t (Some sec) ctx opts)"
proof -
  have mount: "keeps (in_use L pods k u) (MountFs L G H J ai s)"
    if s: "genJfsSettings L G H J v t (Some sec) ctx opts w = (Inr s, w1)" for ai s w w1
  proof -
    from genJfsSettings_setting [OF q(4) s] J(2) obtain a where "sTargetPath s = t" "sUsePod s" "sAttr s = Some a" "aNamespace a = Namespace G"
      by auto
    then show ?thesis using inj
      by (simp add: MountFs_def with_client_def J(1)) (rule JMount_in_use [OF st q(1,2)]; simp)
  qed
  have set: "keeps (in_use L pods k u) (genJfsSettings L G H J v t (Some sec) ctx opts)"
    by (rule quiet_in_use [OF genJfsSettings_keeps [OF q(1) J(1) q(2) J(2)]])
  show ?thesis unfolding JfsMount_def
    by (intro keeps_bind [OF keeps_lift_res] keeps_bind_result [OF set] keeps_bind [OF quiet_in_use [OF ParseAppInfo_keeps [OF q(1,3)]]]
        keeps_bind [OF mount] keeps_ret)
qed

lemma JfsMount_adds_ref:
  assumes st: "pod_store K pods" "retry_law K" "create_law K pods" "quiet_calls H K pods" "sha_wf L"
    and q: "host_quiet H pods" "client_quiet K pods" "kubelet_quiet J pods" "unmarshal_keeps_attr L"
    and J: "j_client J = Some K" "\<not> ByProcess G" and free: "\<forall>k. key_free L t (pods w k)"
    and j: "JfsMount L G H J v t (Some sec) ctx opts w = (Inr fs, w')"
  shows "\<exists>n. in_use L pods (Namespace G, n) t w'"
proof -
  from j obtain s w1 ai w2 s' where s: "genJfsSettings L G H J v t (Some sec) ctx opts w = (Inr s, w1)"
    and ai: "ParseAppInfo G H (j_kubelet J) ctx w1 = (Inr ai, w2)" and m: "MountFs L G H J ai s w2 = (Inr s', w')"
    by (auto simp: JfsMount_def bind_Inr lift_res_def ret_def)
  from genJfsSettings_setting [OF q(4) s] J(2) obtain a where a: "sTargetPath s = t" "sUsePod s" "sAttr s = Some a" "aNamespace a = Namespace G"
    by auto
  have "pods w1 = pods w" by (rule quietD [OF genJfsSettings_keeps [OF q(1) J(1) q(2) J(2)] s])
  moreover have "pods w2 = pods w1" by (rule quietD [OF ParseAppInfo_keeps [OF q(1,3)] ai])
  ultimately have "\<forall>k. key_free L t (pods w2 k)" using free by simp
  with JMount_adds_ref [OF st q(1,2), of "s\<lparr>sMountPath := path_Join [PodMountBase, sUniqueId s]\<rparr>" a G w2 ai s' w'] a m
  show ?thesis by (simp add: MountFs_def with_client_def J(1))
qed

text \<open>The services of the node beside the world.\<close>

lemma keeps_on_world [keeps_intro]: "keeps P m \<Longrightarrow> keeps (\<lambda>x. P (fst x)) (on_world m)"
  by (auto simp: keeps_def on_world_def split: prod.splits)

lemma keeps_with_status [keeps_intro]: "keeps P m \<Longrightarrow> keeps (\<lambda>x. P (fst x)) (with_status code fmt upd m)"
  unfolding with_status_def by (intro keeps_intro) auto

lemma with_status_InrE:
  "with_status code fmt upd m (w, s) = (Inr x, (w', s')) \<Longrightarrow> (m w = (Inr x, w') \<Longrightarrow> s' = s \<Longrightarrow> P) \<Longrightarrow> P"
  by (auto simp: with_status_def tryE_def on_world_def after_def fail_def ret_def split: prod.splits sum.splits)

lemma NodePublishVolume_in_use:
  assumes mount: "\<And>v ctx opts. keeps (in_use L pods k t) (JfsMount L G H J v (nprTargetPath req) (nprSecrets req) ctx opts)"
    and q: "host_quiet H pods"
  shows "keeps (\<lambda>x. in_use L pods k t (fst x)) (NodePublishVolume L G H J req)"
  unfolding NodePublishVolume_def Let_def
  by (intro keeps_intro mount quiet_in_use [OF create_target_keeps [OF q]] quiet_in_use [OF after_mount_keeps(1) [OF q]]
      quiet_in_use [OF after_mount_keeps(2) [OF q]] quiet_in_use [OF after_mount_keeps(3) [OF q]])

lemma NodePublishVolume_mounts:
  assumes "NodePublishVolume L G H J req (w, ms) = (Inr (), (w', ms'))" "host_quiet H pods"
  obtains opts fs w1 w2 where "pods w1 = pods w"
    "JfsMount L G H J (nprVolumeId req) (nprTargetPath req) (nprSecrets req) (nprVolumeContext req) opts w1 = (Inr fs, w2)"
    "pods w' = pods w2"
proof -
  let ?t = "nprTargetPath req" and ?ctx = "nprVolumeContext req"
  from assms(1) obtain w1 opts fs w2 src w3 w4 where c: "CreateTarget H J ?t w = (Inr (), w1)"
    and m: "JfsMount L G H J (nprVolumeId req) ?t (nprSecrets req) ?ctx opts w1 = (Inr fs, w2)"
    and v: "CreateVol H fs (mget (omap ?ctx) ''subPath'') w2 = (Inr src, w3)" "BindTarget H fs src ?t w3 = (Inr (), w4)"
    and r: "on_world (publish_quota L G H J req (jfSetting fs)) (w4, ms) = (Inr (), (w', ms'))"
    unfolding NodePublishVolume_def Let_def
    by (auto simp only: fail_def prod.inject sum.simps split: if_splits option.splits elim!: bind_InrE with_status_InrE)
  have "pods w1 = pods w" by (rule quietD [OF create_target_keeps [OF assms(2)] c])
  moreover have "pods w3 = pods w2" "pods w4 = pods w3"
    by (rule quietD [OF after_mount_keeps(1) [OF assms(2)] v(1)], rule quietD [OF after_mount_keeps(2) [OF assms(2)] v(2)])
  moreover have "pods w' = pods w4"
    using keepsD [OF keeps_on_world [OF after_mount_keeps(3) [OF assms(2), of "pods w4" L G J req "jfSetting fs"]], of "(w4, ms)"] r by simp
  ultimately show thesis using that m by metis
qed

text \<open>
  C3: publishing a volume in pod mode. Whatever NodePublishVolume returns, no mount pod
  loses a reference; and when it succeeds, a mount pod in the driver's namespace is stored
  that carries the reference of the target.
\<close>

theorem NodePublishVolume_references:
  assumes "pod_store K pods" "retry_law K" "create_law K pods" "quiet_calls H K pods" "sha_wf L"
    and "host_quiet H pods" "client_quiet K pods" "kubelet_quiet J pods" "unmarshal_keeps_attr L"
    and "j_client J = Some K" "\<not> ByProcess G" "nprSecrets req = Some sec"
    and "\<forall>k. key_free L (nprTargetPath req) (pods w k)"
    and "NodePublishVolume L G H J req (w, ms) = (r, (w', ms'))"
  shows "(\<forall>k t. in_use L pods k t w \<longrightarrow> in_use L pods k t w') \<and>
    (r = Inr () \<longrightarrow> (\<exists>n. in_use L pods (Namespace G, n) (nprTargetPath req) w'))"
proof (intro conjI allI impI)
  fix k t assume i: "in_use L pods k t w"
  then have "t = nprTargetPath req" if "GetReferenceKey L t = GetReferenceKey L (nprTargetPath req)"
    using assms(13) [rule_format, of k] that by (auto simp: in_use_def key_free_def simp del: map_of_eq_Some_iff)
  from JfsMount_in_use [OF assms(1-11) this]
  have "keeps (\<lambda>x. in_use L pods k t (fst x)) (NodePublishVolume L G H J req)"
    by (intro NodePublishVolume_in_use assms(6)) (simp add: assms(12))
  from keepsD [OF this, of "(w, ms)"] i assms(14) show "in_use L pods k t w'" by simp
next
  assume "r = Inr ()"
  with assms(14) obtain opts fs w1 w2 where "pods w1 = pods w"
    "JfsMount L G H J (nprVolumeId req) (nprTargetPath req) (Some sec) (nprVolumeContext req) opts w1 = (Inr fs, w2)"
    "pods w' = pods w2"
    using NodePublishVolume_mounts [OF _ assms(6)] assms(12) by metis
  with JfsMount_adds_ref [OF assms(1-11), of "nprTargetPath req" w1] assms(13)
  show "\<exists>n. in_use L pods (Namespace G, n) (nprTargetPath req) w'" by (auto simp: in_use_def)
qed

text \<open>A mount pod on the node with the reference of one target, found for a second one.\<close>

definition node_pod :: Pod where
  "node_pod = mem_used_pod\<lparr>pSpec := (pSpec mem_used_pod)\<lparr>psNodeName := ''node''\<rparr>\<rparr>"

definition node_world :: pod_map where
  "node_world = (\<lambda>_. None)((''kube-system'', ''pod-abcdef'') \<mapsto> node_pod)"

definition node_client :: "pod_map K8sClient" where
  "node_client = mem_client_full\<lparr>c_pods_list := \<lambda>_ _ _ _. ret [node_pod]\<rparr>"

definition node_host :: "pod_map host" where
  "node_host = mem_host\<lparr>h_stat := \<lambda>_. ret \<lparr>fiIno = 1, fiDev = 7, fiPerm = 511\<rparr>,
     h_mount_infos := ret [\<lparr>miMinor = 7, miRoot = ''/'', miMountPoint = ''/jfs/v-abcdef''\<rparr>]\<rparr>"

definition node_juicefs :: "pod_map juicefs" where
  "node_juicefs = mem_juicefs\<lparr>j_client := Some node_client\<rparr>"

definition node_target :: string where "node_target = ''/var/lib/kubelet/pods/u/mount''"

definition node_request :: NodePublishVolumeRequest where
  "node_request = \<lparr>nprVolumeId = ''v'', nprTargetPath = node_target,
     nprVolumeCapability = Some \<lparr>vcAccessType = MountType [], vcAccessMode = MULTI_NODE_MULTI_WRITER\<rparr>,
     nprReadonly = False, nprVolumeContext = Some [], nprSecrets = Some [(''name'', ''x''), (''metaurl'', ''redis://h/1'')]\<rparr>"


lemma node_laws:
  "pod_store node_client (\<lambda>w. w)" "retry_law node_client" "create_law node_client (\<lambda>w. w)" "quiet_calls node_host node_client (\<lambda>w. w)"
  "host_quiet node_host (\<lambda>w. w)" "client_quiet node_client (\<lambda>w. w)" "kubelet_quiet node_juicefs (\<lambda>w. w)"
  using mem_full_laws
  by (simp_all add: node_client_def node_host_def node_juicefs_def mem_juicefs_def pod_store_def get_law_def patch_law_def delete_law_def
      retry_law_def create_law_def quiet_calls_def host_quiet_def node_keeps_pods_def node_keeps_def keeps_def client_quiet_def kubelet_quiet_def
      mem_client_full_def mem_client_def mem_host_def idle_host_def idle_client_def ret_def fail_def)

lemma node_lib: "sha_wf hex_jfs_lib" "unmarshal_keeps_attr hex_jfs_lib" "GetReferenceKey hex_jfs_lib t = GetReferenceKey hex_lib t"
  "GenHashOfSetting hex_jfs_lib s = Inr (take 63 (l_sha256 hex_lib (sName s)))"
  using mem_laws(4)
  by (auto simp: sha_wf_def GetReferenceKey_def GenHashOfSetting_def hex_jfs_lib_def hex_lib_def setting_lib.defs sample_lib_def
      unmarshal_keeps_attr_def parseYamlOrJson_def split: if_splits option.splits)

lemma node_settings:
  "\<exists>s a. genJfsSettings hex_jfs_lib sample_globals node_host node_juicefs ''v'' node_target (nprSecrets node_request) (Some []) [] node_world = (Inr s, node_world)
     \<and> sUsePod s \<and> sUniqueId s = ''v'' \<and> sTargetPath s = node_target \<and> \<not> sCleanCache s \<and> sSource s = ''redis://h/1'' \<and> sAttr s = Some a"
proof -
  let ?m = "genJfsSettings hex_jfs_lib sample_globals node_host node_juicefs ''v'' node_target (nprSecrets node_request) (Some []) []"
  have c: "case fst (?m node_world) of Inl _ \<Rightarrow> False | Inr s \<Rightarrow>
     sUsePod s \<and> sUniqueId s = ''v'' \<and> sTargetPath s = node_target \<and> \<not> sCleanCache s \<and> sSource s = ''redis://h/1'' \<and> sAttr s \<noteq> None"
    by code_simp
  obtain r w' where r: "?m node_world = (r, w')" by fastforce
  have "w' = node_world"
    using quietD [where pods = "\<lambda>w. w", OF genJfsSettings_keeps r] node_laws(5,6) by (simp add: node_juicefs_def sample_globals_def)
  with c r show ?thesis by (cases r) auto
qed

lemma node_add: "\<exists>w'. AddRefOfMount hex_jfs_lib sample_globals node_client node_target ''pod-abcdef'' node_world = (Inr (), w')"
proof -
  have "fst (AddRefOfMount hex_jfs_lib sample_globals node_client node_target ''pod-abcdef'' node_world) = Inr ()" by code_simp
  then show ?thesis by (metis prod.collapse)
qed

lemma node_get: "GetPod node_client ''pod-abcdef'' (Namespace sample_globals) node_world = (Inr node_pod, node_world)"
  by (simp add: GetPod_eq node_client_def mem_client_full_def mem_client_def node_world_def node_pod_def mem_used_pod_def set_annos_def
      mem_pod_def sample_globals_def)

lemma node_secret: "createOrUpdateSecret sample_globals node_client secret w = (Inr (), w)"
  by (simp add: createOrUpdateSecret_def node_client_def mem_client_full_def mem_client_def idle_client_def go_step GetSecret_def CreateSecret_def)

lemma node_createOrAddRef:
  assumes "sAttr s = Some a" "sTargetPath s = node_target" "sMountPath s = ''/jfs/v''"
  shows "\<exists>s' w'. createOrAddRef hex_jfs_lib sample_globals node_host node_client ''pod-abcdef'' s ai node_world = (Inr s', w')
    \<and> sMountPath s' = ''/jfs/v-abcdef'' \<and> sCleanCache s' = sCleanCache s \<and> sSource s' = sSource s"
proof -
  obtain w' where "AddRefOfMount hex_jfs_lib sample_globals node_client node_target ''pod-abcdef'' node_world = (Inr (), w')"
    using node_add by blast
  moreover have "h_lock node_host i w = w" for i w by (simp add: node_host_def mem_host_def idle_host_def)
  moreover have "mDeletionTimestamp (pMeta node_pod) = None" by (simp add: node_pod_def mem_used_pod_def set_annos_def mem_pod_def zero_defs)
  ultimately show ?thesis using assms
    by (simp add: createOrAddRef_def create_rounds_def with_attr_def bind_eq lift_res_def ret_def with_lock_def Let_def
        create_or_add_live [OF node_get] node_secret node_lib(4))
qed

lemma node_MountFs:
  assumes "sUsePod s" "sUniqueId s = ''v''" "sTargetPath s = node_target" "\<not> sCleanCache s" "sAttr s = Some a"
  shows "\<exists>s' w'. MountFs hex_jfs_lib sample_globals node_host node_juicefs (Some \<lparr>aiName = [], aiNamespace = []\<rparr>) s node_world = (Inr s', w')
    \<and> sMountPath s' = ''/jfs/v-abcdef'' \<and> sSource s' = sSource s"
proof -
  let ?s = "s\<lparr>sMountPath := path_Join [PodMountBase, sUniqueId s]\<rparr>"
  have "path_Join [PodMountBase, sUniqueId s] = ''/jfs/v''" unfolding assms(2) by code_simp
  with node_createOrAddRef [of ?s a "Some \<lparr>aiName = [], aiNamespace = []\<rparr>"] assms obtain s' w' where
    c: "createOrAddRef hex_jfs_lib sample_globals node_host node_client ''pod-abcdef'' ?s (Some \<lparr>aiName = [], aiNamespace = []\<rparr>) node_world = (Inr s', w')"
      "sMountPath s' = ''/jfs/v-abcdef''" "\<not> sCleanCache s'" "sSource s' = sSource s" by auto
  have n: "genMountPodName hex_jfs_lib sample_globals node_host node_client ?s node_world = (Inr ''pod-abcdef'', node_world)"
    by (simp add: genMountPodName_def node_lib(4) go_step ListPod_def node_client_def node_pod_def mem_used_pod_def set_annos_def mem_pod_def
        sample_globals_def zero_defs)
  have "wait_mount node_host (Suc fuel) p q w = (Inr (), w)" for fuel p q w
    by (simp add: node_host_def mem_host_def idle_host_def go_step)
  from this [of 60] have "waitUtilMountReady sample_globals node_host node_client s' ''pod-abcdef'' w = (Inr (), w)" for w
    by (simp add: waitUtilMountReady_def WaitUtilMountReady_def mount_ready_rounds_def go_step del: wait_mount.simps)
  with n c assms(1) show ?thesis
    by (simp add: MountFs_def with_client_def node_juicefs_def JMount_def bind_eq ret_def)
qed

lemma node_JfsMount:
  "\<exists>fs w'. JfsMount hex_jfs_lib sample_globals node_host node_juicefs ''v'' node_target (nprSecrets node_request) (Some []) [] node_world = (Inr fs, w')
    \<and> jfMountPath fs = ''/jfs/v-abcdef''"
proof -
  obtain s a where s: "genJfsSettings hex_jfs_lib sample_globals node_host node_juicefs ''v'' node_target (nprSecrets node_request) (Some []) [] node_world = (Inr s, node_world)"
    "sUsePod s" "sUniqueId s = ''v''" "sTargetPath s = node_target" "\<not> sCleanCache s" "sSource s = ''redis://h/1''" "sAttr s = Some a"
    using node_settings by blast
  from node_MountFs [OF s(2-5,7)] obtain s' w' where
    m: "MountFs hex_jfs_lib sample_globals node_host node_juicefs (Some \<lparr>aiName = [], aiNamespace = []\<rparr>) s node_world = (Inr s', w')"
      "sMountPath s' = ''/jfs/v-abcdef''" "sSource s' = ''redis://h/1''" using s(6) by auto
  have "validTarget sample_globals node_target = Inr ()" by code_simp
  moreover have "\<exists>u. StripPasswd ''redis://h/1'' = Inr u"
  proof -
    have "\<not> isl (StripPasswd ''redis://h/1'')" by code_simp
    then show ?thesis by (cases "StripPasswd ''redis://h/1''") auto
  qed
  moreover have "ParseAppInfo sample_globals node_host (j_kubelet node_juicefs) (Some []) node_world = (Inr (Some \<lparr>aiName = [], aiNamespace = []\<rparr>), node_world)"
    by (simp add: ParseAppInfo_def sample_globals_def ret_def mget_def)
  ultimately show ?thesis using s(1) m by (auto simp: JfsMount_def bind_eq lift_res_def ret_def)
qed

lemma node_publish:
  "\<exists>w' ms'. NodePublishVolume hex_jfs_lib sample_globals node_host node_juicefs node_request (node_world, ms) = (Inr (), (w', ms'))"
proof -
  obtain fs w' where m: "JfsMount hex_jfs_lib sample_globals node_host node_juicefs ''v'' node_target (nprSecrets node_request) (Some []) [] node_world = (Inr fs, w')"
    "jfMountPath fs = ''/jfs/v-abcdef''" using node_JfsMount by blast
  let ?cap = "\<lparr>vcAccessType = MountType [], vcAccessMode = MULTI_NODE_MULTI_WRITER\<rparr>"
  have "publish_options node_request ?cap = []" "isValidVolumeCapabilities [?cap]" "CreateTarget node_host node_juicefs node_target w = (Inr (), w)"
    "CreateVol node_host fs sub w = (Inr (path_Join [''/jfs/v-abcdef'', sub]), w)" "BindTarget node_host fs src node_target w = (Inr (), w)"
    "publish_quota hex_jfs_lib sample_globals node_host node_juicefs node_request st w = (Inr (), w)" "node_target \<noteq> []" for w sub src st
    using m(2)
    by (simp_all add: publish_options_def node_request_def mount_flags_def isValidVolumeCapabilities_def has_support_def CreateTarget_def
        node_juicefs_def mem_juicefs_def node_host_def mem_host_def idle_host_def go_step CreateVol_def make_volume_dir_def BindTarget_def
        publish_quota_def node_target_def wrapf_def volumeCaps_def)
  with m(1) show ?thesis
    by (simp add: NodePublishVolume_def node_request_def with_status_def on_world_def tryE_def bind_eq ret_def Let_def)
qed

theorem NodePublishVolume_references_witness:
  "\<exists>w' ms' n. NodePublishVolume hex_jfs_lib sample_globals node_host node_juicefs node_request
       (node_world, \<lparr>volumeErrors = 0, volumeDelErrors = 0\<rparr>) = (Inr (), (w', ms'))
     \<and> in_use hex_jfs_lib (\<lambda>w. w) (''kube-system'', ''pod-abcdef'') ''/a'' w'
     \<and> in_use hex_jfs_lib (\<lambda>w. w) (Namespace sample_globals, n) node_target w'"
proof -
  let ?ms = "\<lparr>volumeErrors = 0, volumeDelErrors = 0\<rparr>"
  obtain w' ms' where p: "NodePublishVolume hex_jfs_lib sample_globals node_host node_juicefs node_request (node_world, ?ms) = (Inr (), (w', ms'))"
    using node_publish by blast
  have t: "nprTargetPath node_request = node_target" "\<exists>sec. nprSecrets node_request = Some sec" by (simp_all add: node_request_def)
  have ne: "GetReferenceKey hex_lib node_target \<noteq> GetReferenceKey hex_lib ''/a''"
    by (simp add: GetReferenceKey_def hex_lib_def ref_prefix_def node_target_def)
  have free: "\<forall>k. key_free hex_jfs_lib (nprTargetPath node_request) (node_world k)"
    using ne by (auto simp: key_free_def node_world_def node_pod_def mem_used_pod_def set_annos_def t node_lib(3) split: if_splits)
  have i: "in_use hex_jfs_lib (\<lambda>w. w) (''kube-system'', ''pod-abcdef'') ''/a'' node_world"
    by (simp add: in_use_def node_world_def node_pod_def mem_used_pod_def set_annos_def node_lib(3))
  obtain sec where sec: "nprSecrets node_request = Some sec" using t by blast
  have J: "j_client node_juicefs = Some node_client" "\<not> ByProcess sample_globals" by (simp_all add: node_juicefs_def sample_globals_def)
  from NodePublishVolume_references [where pods = "\<lambda>w. w", OF node_laws(1-4) node_lib(1) node_laws(5-7) node_lib(2) J sec free p] i p t(1)
  show ?thesis by auto
qed

section \<open>Unpublishing releases the reference\<close>

text \<open>A list answers with the stored pods that the selectors choose.\<close>

definition selected :: "Selector \<Rightarrow> smap \<Rightarrow> Pod \<Rightarrow> bool" where
  "selected sel fs p \<longleftrightarrow> list_all (\<lambda>(k, v). map_of (plabels p) k = Some v) (selMatchLabels sel)
     \<and> list_all (mhas (plabels p)) (selExists sel)
     \<and> list_all (\<lambda>(k, v). k = ''spec.nodeName'' \<longrightarrow> psNodeName (pSpec p) = v) fs"

definition list_law :: "'w K8sClient \<Rightarrow> ('w \<Rightarrow> pod_map) \<Rightarrow> bool" where
  "list_law K pods \<longleftrightarrow> (\<forall>ns rv sel fs w ps w'. c_pods_list K ns rv (Some sel) (Some fs) w = (Inr ps, w') \<longrightarrow>
     set ps = {p. pods w (ns, pod_name p) = Some p \<and> selected sel fs p})"

text \<open>Only the pod \<open>n\<close> of the driver's namespace has the key of the target.\<close>

definition only_user :: "'x lib_scheme \<Rightarrow> globals \<Rightarrow> pod_map \<Rightarrow> string \<Rightarrow> string \<Rightarrow> bool" where
  "only_user L G pm t n \<longleftrightarrow> (\<forall>m q. pm (Namespace G, m) = Some q \<longrightarrow> mhas (annos q) (GetReferenceKey L t) \<longrightarrow> m = n)"

lemma find_mount_pod_only:
  assumes "\<forall>q \<in> set ps. pm (Namespace G, pod_name q) = Some q" "only_user L G pm t n"
    and "p \<in> set ps" "mhas (annos p) (GetReferenceKey L t)"
  shows "find_mount_pod L t ps = n"
proof (cases "find (\<lambda>q. mhas (annos q) (GetReferenceKey L t)) ps")
  case None
  with assms(3,4) show ?thesis by (auto simp: find_None_iff)
next
  case (Some q)
  then have "q \<in> set ps" "mhas (annos q) (GetReferenceKey L t)" by (auto simp: find_Some_iff)
  with assms(1,2) Some show ?thesis by (auto simp: find_mount_pod_def only_user_def)
qed

text \<open>The pod after the reference of \<open>t\<close> is gone: deleted when it was the last one.\<close>

definition released :: "'x lib_scheme \<Rightarrow> string \<Rightarrow> Pod \<Rightarrow> Pod option \<Rightarrow> bool" where
  "released L t p y \<longleftrightarrow> (if count_refs L (table_del L t (annos p)) = 0 then deleted y
     else \<exists>q. y = Some q \<and> annos q = table_del L t (annos p))"

lemma release_target_released:
  assumes st: "pod_store K pods" "retry_law K" "host_keeps_pods H pods" "sha_wf L" "quiet_lookups H K pods" "n \<noteq> []"
    and p: "pods w (Namespace G, n) = Some p" "\<not> mhas (annos p) DeleteDelayTimeKey"
    and r: "release_target L G H K fuel t n w = (Inr (), w')"
  shows "\<exists>y. pods w' = (pods w)((Namespace G, n) := y) \<and> released L t p y"
proof -
  let ?k = "(Namespace G, n)" and ?w = "h_lock H (GetPodLock n) w"
  have lock: "pods (h_lock H i v) = pods v" "pods (h_unlock H i v) = pods v" for i v
    using st(5) by (simp_all add: quiet_lookups_def)
  from r st(6) obtain u w1 refs w2 w3 where u: "UmountTarget L G H K fuel t n ?w = (Inr u, w1)"
    and g: "GetMountRef L G K n w1 = (Inr refs, w2)"
    and j: "(if refs = 0 then JUmount L G H K n else ret ()) w2 = (Inr (), w3)" and w': "w' = h_unlock H (GetPodLock n) w3"
    by (auto simp: release_target_def with_lock_def bind_Inr split: prod.splits)
  from UmountTarget_refines [OF st(1-4,6) u] p(1) obtain x where
    q: "annos (set_annos x p) = table_del L t (annos p)" and w1: "pods w1 = (pods w)(?k \<mapsto> set_annos x p)" by (auto simp: lock)
  obtain gr w4 where gr: "c_pods_get K (Namespace G) n w1 = (gr, w4)" by fastforce
  note get = pod_store_get [OF st(1) gr]
  from g gr get(2) w1 have "gr = Inr (set_annos x p)" "w2 = w4"
    using get(3) by (cases gr; auto simp: GetMountRef_def go_step split: if_splits)+
  with g gr have refs: "refs = count_refs L (table_del L t (annos p))" "pods w2 = pods w1"
    using get(1) q by (auto simp: GetMountRef_def go_step GetRef_count)
  show ?thesis
  proof (cases "refs = 0")
    case True
    have "\<not> mhas (annos (set_annos x p)) DeleteDelayTimeKey" using p(2) q by (simp add: table_del_def mhas_def)
    moreover have "GetRef L (set_annos x p) = 0" using True refs(1) q by (simp add: GetRef_count)
    moreover have "JUmount L G H K n w2 = (Inr (), w3)" using j True by simp
    ultimately obtain y where "deleted y" "pods w3 = (pods w2)(?k := y)"
      using JUmount_deletes_unused [OF st(1,2), of w2 G n "set_annos x p" L H w3] w1 refs(2) by auto
    with True refs w1 w' show ?thesis by (auto simp: released_def lock)
  next
    case False
    with j have "w3 = w2" by (simp add: ret_def)
    with False refs w1 w' q show ?thesis by (auto simp: released_def lock)
  qed
qed

lemma JfsUnmount_releases:
  assumes st: "pod_store K pods" "retry_law K" "host_keeps_pods H pods" "sha_wf L" "quiet_lookups H K pods" "list_law K pods"
    and J: "j_client J = Some K" "\<not> ByProcess G" "j_env J ''STORAGE_CLASS_SHARE_MOUNT'' \<noteq> Some ''true''"
    and p: "pods w (Namespace G, n) = Some p" "pod_name p = n" "n \<noteq> []" "mhas (annos p) (GetReferenceKey L t)"
      "\<not> mhas (annos p) DeleteDelayTimeKey" "selected (mount_pod_selector v) [(''spec.nodeName'', NodeName G)] p" "only_user L G (pods w) t n"
    and r: "JfsUnmount L G H J v t w = (Inr (), w')"
  shows "\<exists>y. pods w' = (pods w)((Namespace G, n) := y) \<and> released L t p y"
proof -
  let ?old = "''juicefs-'' @ NodeName G @ ''-'' @ v" and ?sel = "mount_pod_selector v" and ?fs = "[(''spec.nodeName'', NodeName G)]"
  let ?rv = "if enableAPIServerListCache K then ''0'' else []"
  from r J obtain exact w1 ps w2 where
    e: "tryE (GetPod K ?old (Namespace G)) (\<lambda>e. if e = NotFound then ret [] else fail e) (\<lambda>pod. ret [pod]) w = (Inr exact, w1)"
    and l: "c_pods_list K (Namespace G) ?rv (Some ?sel) (Some ?fs) w1 = (Inr ps, w2)"
    and rel: "release_target L G H K (j_fuel J) t (find_mount_pod L t (exact @ ps)) w2 = (Inr (), w')"
    by (auto simp: JfsUnmount_def getUniqueId_def with_client_def GenPodNameByUniqueId_def ListPod_def bind_ret bind_Inr ret_def)
  obtain gr w3 where g: "c_pods_get K (Namespace G) ?old w = (gr, w3)" by fastforce
  note get = pod_store_get [OF st(1) g]
  have w1: "w1 = w3" and exact: "\<forall>q \<in> set exact. pods w (Namespace G, pod_name q) = Some q"
    using e g get(3,5) by (cases gr; auto simp: go_step split: if_splits)+
  have "pods w2 = pods w1" using st(5) l unfolding quiet_lookups_def by (metis snd_conv)
  then have w2: "pods w2 = pods w" using w1 get(1) by simp
  from st(6) [unfolded list_law_def, rule_format, OF l]
  have ps: "set ps = {q. pods w (Namespace G, pod_name q) = Some q \<and> selected ?sel ?fs q}" using w1 get(1) by simp
  have "find_mount_pod L t (exact @ ps) = n"
    by (rule find_mount_pod_only [of _ "pods w"]) (use exact ps p in auto)
  with release_target_released [OF st(1-5) p(3), of w2 G p "j_fuel J" t w'] p rel w2 show ?thesis by simp
qed


text \<open>A cluster with one pod, which carries one reference.\<close>

definition one_view :: "Pod option \<Rightarrow> pod_map" where
  "one_view w = (case w of None \<Rightarrow> \<lambda>_. None | Some p \<Rightarrow> (\<lambda>_. None)((pod_ns p, pod_name p) \<mapsto> p))"

definition one_client :: "Pod option K8sClient" where
  "one_client = idle_client
     \<lparr>c_pods_get := \<lambda>ns n w. (case w of None \<Rightarrow> Inl NotFound | Some p \<Rightarrow> if pod_ns p = ns \<and> pod_name p = n then Inr p else Inl NotFound, w),
      c_pods_patch := \<lambda>ns n pt w. (case w of None \<Rightarrow> (Inl NotFound, w)
        | Some p \<Rightarrow> if pod_ns p = ns \<and> pod_name p = n then (Inr (), Some (apply_patch pt p)) else (Inl NotFound, w)),
      c_pods_delete := \<lambda>ns n w. (case w of None \<Rightarrow> (Inl NotFound, w)
        | Some p \<Rightarrow> if pod_ns p = ns \<and> pod_name p = n then (Inr (), None) else (Inl NotFound, w)),
      c_pods_list := \<lambda>ns rv sel fs w. (Inr (case w of None \<Rightarrow> []
        | Some p \<Rightarrow> if pod_ns p = ns \<and> selected (case sel of None \<Rightarrow> \<lparr>selMatchLabels = [], selExists = []\<rparr> | Some x \<Rightarrow> x) (omap fs) p then [p] else []), w)\<rparr>"

definition one_host :: "Pod option host" where
  "one_host = idle_host\<lparr>h_umount_lazy := \<lambda>_ w. ((''not mounted'', Some (OtherError ''exit status 1'')), w)\<rparr>"

definition one_juicefs :: "Pod option juicefs" where
  "one_juicefs = \<lparr>j_client = Some one_client, j_env = (\<lambda>_. None), j_UUIDMaps = (\<lambda>_. []), j_set_UUIDMaps = (\<lambda>_ w. w),
     j_CacheDirMaps = (\<lambda>_. []), j_set_CacheDirMaps = (\<lambda>_ w. w), j_kubelet = (\<lambda>_ _. ret ()), j_fuel = 1\<rparr>"

definition one_pod :: Pod where
  "one_pod = mem_used_pod\<lparr>pMeta := (pMeta mem_used_pod)\<lparr>mLabels := Some [(PodTypeKey, PodTypeValue), (PodUniqueIdLabelKey, ''v'')]\<rparr>,
     pSpec := (pSpec mem_used_pod)\<lparr>psNodeName := ''node''\<rparr>\<rparr>"

lemma one_laws:
  "pod_store one_client one_view" "retry_law one_client" "list_law one_client one_view"
  "quiet_lookups one_host one_client one_view" "host_keeps_pods one_host one_view"
proof -
  show "retry_law one_client" by (auto simp: one_client_def retry_law_def idle_client_def)
  show "pod_store one_client one_view"
    by (auto simp: pod_store_def get_law_def patch_law_def delete_law_def one_client_def idle_client_def one_view_def deleted_def apply_patch_names
        go_step fun_eq_iff split: option.splits if_splits)
  show "list_law one_client one_view"
    by (auto simp: list_law_def one_client_def one_view_def split: option.splits if_splits)
  show "quiet_lookups one_host one_client one_view" "host_keeps_pods one_host one_view"
    by (simp_all add: quiet_lookups_def host_keeps_pods_def one_client_def one_host_def idle_host_def idle_client_def ret_def fail_def)
qed

lemma one_unpublish:
  "\<exists>w'. NodeUnpublishVolume hex_jfs_lib sample_globals one_host one_juicefs ''v'' ''/a'' (Some one_pod, ms) = (Inr (), (w', ms))"
proof -
  let ?n = "''pod-abcdef''"
  have "with_lock one_host i m = m" for i and m :: "(Pod option, unit) io"
    by (auto simp: with_lock_def one_host_def idle_host_def fun_eq_iff split: prod.splits)
  moreover have "fst (bind (UmountTarget hex_jfs_lib sample_globals one_host one_client 1 ''/a'' ?n) (\<lambda>_.
      bind (GetMountRef hex_jfs_lib sample_globals one_client ?n) (\<lambda>refs.
        if refs = 0 then JUmount hex_jfs_lib sample_globals one_host one_client ?n else ret ())) (Some one_pod)) = Inr ()"
    by code_simp
  ultimately obtain w' where r: "release_target hex_jfs_lib sample_globals one_host one_client 1 ''/a'' ?n (Some one_pod) = (Inr (), w')"
    by (simp add: release_target_def) (metis prod.collapse)
  have f: "find_mount_pod hex_jfs_lib ''/a'' [one_pod] = ?n" "selected (mount_pod_selector ''v'') [(''spec.nodeName'', ''node'')] one_pod"
    by code_simp+
  have "JfsUnmount hex_jfs_lib sample_globals one_host one_juicefs ''v'' ''/a'' (Some one_pod)
      = release_target hex_jfs_lib sample_globals one_host one_client 1 ''/a'' (find_mount_pod hex_jfs_lib ''/a'' [one_pod]) (Some one_pod)"
    using f(2)
    by (simp add: JfsUnmount_def getUniqueId_def one_juicefs_def with_client_def GenPodNameByUniqueId_def ListPod_def bind_eq tryE_def ret_def
        one_client_def idle_client_def one_pod_def mem_used_pod_def set_annos_def mem_pod_def sample_globals_def)
  with r f(1) show ?thesis by (simp add: NodeUnpublishVolume_def with_status_def on_world_def tryE_def ret_def)
qed


end
