(* ===== verification/Kubelet.thy ===== *)
theory Kubelet
  imports Util
begin

text \<open>
  The client of the kubelet, src/pkg/k8sclient/kubelet\_client.go: its TLS configuration,
  how it authenticates, its timeout, and the request for the pods of the node. The
  transports of client-go and the HTTP client are parameters.
\<close>

section \<open>Configuration\<close>

record TLSConfig =
  tlsCAFile :: string
  tlsCAData :: string
  tlsCertFile :: string
  tlsCertData :: string
  tlsKeyFile :: string
  tlsKeyData :: string
  tlsInsecure :: bool

record transport_Config =
  tcTLS :: TLSConfig
  tcBearerToken :: string

record KubeletClientConfig =
  kcAddress :: string
  kcPort :: int
  kcServerName :: string
  kcTLS :: TLSConfig \<comment> \<open>the embedded restclient.TLSClientConfig\<close>
  kcBearerToken :: string
  kcHTTPTimeout :: int

text \<open>
  The transport package: whether a configuration has a certificate authority, the TLS
  configuration made of it (which may be nil), and the round trippers \<open>'t\<close>.
\<close>

record ('t, 'c) transport_lib =
  tl_has_ca :: "transport_Config \<Rightarrow> bool"
  tl_tls_config_for :: "transport_Config \<Rightarrow> 'c option res"
  tl_default_transport :: 't
  tl_old_transport_defaults :: "'c \<Rightarrow> 't"
  tl_http_wrappers :: "transport_Config \<Rightarrow> 't \<Rightarrow> 't res"

definition transportConfig :: "('t, 'c) transport_lib \<Rightarrow> KubeletClientConfig \<Rightarrow> transport_Config" where
  "transportConfig T c =
     (let tls = kcTLS c;
          cfg = \<lparr>tcTLS = \<lparr>tlsCAFile = tlsCAFile tls, tlsCAData = tlsCAData tls, tlsCertFile = tlsCertFile tls,
                   tlsCertData = tlsCertData tls, tlsKeyFile = tlsKeyFile tls, tlsKeyData = tlsKeyData tls, tlsInsecure = False\<rparr>,
                 tcBearerToken = kcBearerToken c\<rparr>
      in if \<not> tl_has_ca T cfg then cfg\<lparr>tcTLS := tcTLS cfg\<lparr>tlsInsecure := True\<rparr>\<rparr> else cfg)"

definition makeTransport :: "('t, 'c) transport_lib \<Rightarrow> KubeletClientConfig \<Rightarrow> bool \<Rightarrow> 't res" where
  "makeTransport T config insecureSkipTLSVerify =
     (let pre = transportConfig T config;
          preTLSConfig = (if insecureSkipTLSVerify
            then pre\<lparr>tcTLS := tcTLS pre\<lparr>tlsInsecure := True, tlsCAData := [], tlsCAFile := []\<rparr>\<rparr> else pre)
      in bind_res (tl_tls_config_for T preTLSConfig) (\<lambda>tlsConfig.
        let rt = (case tlsConfig of None \<Rightarrow> tl_default_transport T | Some c \<Rightarrow> tl_old_transport_defaults T c)
        in tl_http_wrappers T (transportConfig T config) rt))"

section \<open>The client\<close>

record 't KubeletClient =
  kHost :: string
  kPort :: int
  kTransport :: 't
  kTimeout :: int

definition serviceAccountTokenFile :: string where
  "serviceAccountTokenFile = ''/var/run/secrets/kubernetes.io/serviceaccount/token''"

text \<open>A duration has 64 bits; multiplying seconds may wrap around.\<close>

definition seconds :: "int \<Rightarrow> int" where
  "seconds n = sint (word_of_int (n * second) :: 64 word)"

definition kubelet_timeout :: "environ \<Rightarrow> int res" where
  "kubelet_timeout env = (if Getenv env ''KUBELET_TIMEOUT'' \<noteq> []
     then (case Atoi (Getenv env ''KUBELET_TIMEOUT'') of
             None \<Rightarrow> Inl (Errorf ''got error when parsing kubelet timeout: %v'' []) | Some n \<Rightarrow> Inr n)
     else Inr 10)"

definition NewKubeletClient ::
  "('t, 'c) transport_lib \<Rightarrow> environ \<Rightarrow> 'w host \<Rightarrow> string \<Rightarrow> int \<Rightarrow> ('w, 't KubeletClient) io" where
  "NewKubeletClient T env H host port =
     (let cert = Getenv env ''KUBELET_CLIENT_CERT''; key = Getenv env ''KUBELET_CLIENT_KEY'' in
      bind (if cert = [] \<and> key = [] then
              tryE (h_read_file H serviceAccountTokenFile)
                (\<lambda>_. fail (Errorf ''in cluster mode, find token failed: %v'' [])) ret
            else ret []) (\<lambda>token.
      bind (lift_res (kubelet_timeout env)) (\<lambda>kubeletTimeout.
        let config = \<lparr>kcAddress = host, kcPort = port, kcServerName = ''kubelet'',
              kcTLS = \<lparr>tlsCAFile = [], tlsCAData = [], tlsCertFile = cert, tlsCertData = [], tlsKeyFile = key,
                tlsKeyData = [], tlsInsecure = True\<rparr>,
              kcBearerToken = token, kcHTTPTimeout = seconds kubeletTimeout\<rparr>
        in bind (lift_res (makeTransport T config (tlsInsecure (kcTLS config)))) (\<lambda>trans.
          ret \<lparr>kHost = kcAddress config, kPort = kcPort config, kTransport = trans, kTimeout = kcHTTPTimeout config\<rparr>))))"

text \<open>
  The request: the HTTP client, the reader of a body \<open>'r\<close> and the JSON decoder are
  parameters. The decoder is given a pointer to the pointer to the list, so it may leave
  a nil list (\<open>None\<close>).
\<close>

record ('w, 't, 'r) kubelet_http =
  kh_get :: "'t KubeletClient \<Rightarrow> string \<Rightarrow> ('w, 'r) io"
  kh_read_all :: "'r \<Rightarrow> ('w, string) io"
  kh_unmarshal :: "Pod list option unmarshal"

definition pods_url :: "'t KubeletClient \<Rightarrow> string" where
  "pods_url kc = ''https://'' @ kHost kc @ '':'' @ FormatInt (kPort kc) @ ''/pods/''"

definition GetNodeRunningPods :: "('w, 't, 'r) kubelet_http \<Rightarrow> 't KubeletClient \<Rightarrow> ('w, Pod list option) io" where
  "GetNodeRunningPods KH kc =
     bind (kh_get KH kc (pods_url kc)) (\<lambda>resp.
     bind (kh_read_all KH resp) (\<lambda>body.
       if body = ''Unauthorized'' then fail (Errorf ''unauthorized'' [])
       else (case kh_unmarshal KH body (Some []) of (Some e, _) \<Rightarrow> fail e | (None, podLists) \<Rightarrow> ret podLists)))"

section \<open>Lemmas\<close>

text \<open>The certificate of the kubelet is never verified: every client is built on a configuration that skips it.\<close>

lemma makeTransport_insecure:
  assumes "makeTransport T config True = Inr t"
  obtains cfg c where "tl_tls_config_for T cfg = Inr c" "tlsInsecure (tcTLS cfg)" "tlsCAData (tcTLS cfg) = []" "tlsCAFile (tcTLS cfg) = []"
    "tcBearerToken cfg = kcBearerToken config"
proof -
  let ?cfg = "(transportConfig T config)\<lparr>tcTLS := tcTLS (transportConfig T config)\<lparr>tlsInsecure := True, tlsCAData := [], tlsCAFile := []\<rparr>\<rparr>"
  from assms obtain c where "tl_tls_config_for T ?cfg = Inr c" by (auto simp: makeTransport_def bind_res_Inr_iff Let_def)
  moreover have "tcBearerToken ?cfg = kcBearerToken config" by (simp add: transportConfig_def Let_def)
  ultimately show thesis using that by simp
qed

lemma seconds_eq: "seconds n = signed_take_bit 63 (n * second)"
  unfolding seconds_def sint_uint uint_word_of_int_eq by (simp add: signed_take_bit_take_bit)

lemma seconds_exact: "\<bar>n\<bar> \<le> 9223372036 \<Longrightarrow> seconds n = n * second"
  unfolding seconds_eq by (intro signed_take_bit_int_eq_self) (simp_all add: second_def)

lemma seconds_wraps: "seconds 9223372037 < 0"
  by (simp add: seconds_eq second_def signed_take_bit_eq_if_positive signed_take_bit_eq_if_negative bit_iff_odd take_bit_eq_mod)

end
