(* ===== verification/Controllers.thy ===== *)
theory Controllers
  imports Driver PodDriver Kubelet
begin

text \<open>
  The controllers of the driver: src/pkg/controller/reconciler.go (the loop over the
  kubelet's pods of a node) and the Reconcile functions with their event filters of
  mount\_controller.go, job\_controller.go, pod\_controller.go, app\_controller.go and
  secret\_controller.go. The manager that queues the requests is controller-runtime; an event
  filter is a predicate on the objects of the event. The exponential back-off of
  client-go is the parameter \<open>backoff\<close>.
\<close>

section \<open>Shared parts\<close>

record reconcile_result =
  rrRequeue :: bool
  rrRequeueAfter :: int

definition no_requeue :: reconcile_result where "no_requeue = \<lparr>rrRequeue = False, rrRequeueAfter = 0\<rparr>"

text \<open>Looking up an object; one that is not found is None, and other errors end the reconciliation.\<close>

definition find_object :: "('w, 'a) io \<Rightarrow> ('w, 'a option) io" where
  "find_object m = tryE m (\<lambda>e. if e = NotFound then ret None else fail e) (\<lambda>x. ret (Some x))"

definition csi_pods :: "globals \<Rightarrow> 'w K8sClient \<Rightarrow> string \<Rightarrow> ('w, Pod list) io" where
  "csi_pods G K nodeName = ListPod K (Namespace G)
     (Some \<lparr>selMatchLabels = [(CSINodeLabelKey, CSINodeLabelValue)], selExists = []\<rparr>) (Some [(''spec.nodeName'', nodeName)])"

definition version_changed :: "ObjectMeta \<Rightarrow> ObjectMeta \<Rightarrow> bool" where
  "version_changed new old = (mResourceVersion new \<noteq> mResourceVersion old)"

section \<open>Mount pods of lost nodes (mount\_controller.go)\<close>

definition MountController_Reconcile :: "globals \<Rightarrow> 'w K8sClient \<Rightarrow> string \<Rightarrow> string \<Rightarrow> ('w, reconcile_result) io" where
  "MountController_Reconcile G K name ns =
     bind (find_object (GetPod K name ns)) (\<lambda>mountPod. case mountPod of None \<Rightarrow> ret no_requeue
       | Some pod \<Rightarrow>
           if mDeletionTimestamp (pMeta pod) = None then ret no_requeue
           else if \<not> ContainsString (mFinalizers (pMeta pod)) Finalizer then ret no_requeue
           else bind (csi_pods G K (psNodeName (pSpec pod))) (\<lambda>csiPods.
             if length csiPods > 0 then ret no_requeue
             else bind (RemoveFinalizer K pod Finalizer) (\<lambda>_. ret no_requeue)))"

definition mount_event :: "Pod \<Rightarrow> bool" where
  "mount_event pod = (if mDeletionTimestamp (pMeta pod) = None then False
     else if \<not> ContainsString (mFinalizers (pMeta pod)) Finalizer then False else True)"

definition mount_update_event :: "Pod \<Rightarrow> Pod \<Rightarrow> bool" where
  "mount_update_event podOld podNew = (if \<not> version_changed (pMeta podNew) (pMeta podOld) then False else mount_event podNew)"

section \<open>Jobs (job\_controller.go)\<close>

text \<open>A failed deletion returns its error; the requeue flag beside it has no effect then.\<close>

definition JobController_Reconcile :: "globals \<Rightarrow> 'w host \<Rightarrow> 'w K8sClient \<Rightarrow> string \<Rightarrow> string \<Rightarrow> ('w, reconcile_result) io" where
  "JobController_Reconcile G H K name ns =
     bind (find_object (GetJob K name ns)) (\<lambda>j. case j of None \<Rightarrow> ret no_requeue
       | Some job \<Rightarrow>
           if mDeletionTimestamp (jMeta job) \<noteq> None then ret no_requeue
           else if psNodeName (jTemplate job) = [] then (\<lambda>w.
             if IsJobShouldBeRecycled (h_now H w) job
             then bind (DeleteJob K (mName (jMeta job)) (mNamespace (jMeta job))) (\<lambda>_. ret no_requeue) w
             else ret no_requeue w)
           else bind (csi_pods G K (psNodeName (jTemplate job))) (\<lambda>csiPods w.
             if length csiPods = 0 \<or> IsJobShouldBeRecycled (h_now H w) job
             then bind (DeleteJob K (mName (jMeta job)) (mNamespace (jMeta job))) (\<lambda>_. ret no_requeue) w
             else ret no_requeue w))"

definition job_event :: "Job \<Rightarrow> bool" where "job_event job = (mDeletionTimestamp (jMeta job) = None)"

definition job_update_event :: "Job \<Rightarrow> Job \<Rightarrow> bool" where
  "job_update_event jobOld jobNew = (if \<not> version_changed (jMeta jobNew) (jMeta jobOld) then False else job_event jobNew)"

section \<open>Mount pods of this node (pod\_controller.go)\<close>

definition related_pv :: "globals \<Rightarrow> string \<Rightarrow> PersistentVolume \<Rightarrow> bool" where
  "related_pv G uniqueId p = (case pvCSI p of None \<Rightarrow> False
     | Some csi \<Rightarrow> if cpDriver csi \<noteq> DriverName G then False
         else uniqueId \<noteq> [] \<and> (cpVolumeHandle csi = uniqueId \<or> pvStorageClassName p = uniqueId))"

definition claim_namespaces :: "PersistentVolume list \<Rightarrow> string list" where
  "claim_namespaces pvs = map snd (List.map_filter pvClaimRef pvs)"

fun list_app_pods :: "'w K8sClient \<Rightarrow> string list \<Rightarrow> ('w, Pod list) io" where
  "list_app_pods K [] = ret []"
| "list_app_pods K (ns # nss) =
     bind (ListPod K ns (Some \<lparr>selMatchLabels = [], selExists = [UniqueIdKey]\<rparr>) None) (\<lambda>podList.
     bind (list_app_pods K nss) (\<lambda>rest. ret (podList @ rest)))"

text \<open>time.Time.Sub saturates at the limits of a duration.\<close>

definition duration_sub :: "int \<Rightarrow> int \<Rightarrow> int" where
  "duration_sub t u = max (- (2 ^ 63)) (min (2 ^ 63 - 1) (t - u))"

definition requeue_delay :: "'x lib_scheme \<Rightarrow> 'w host \<Rightarrow> Pod \<Rightarrow> ('w, reconcile_result) io" where
  "requeue_delay L H mountPod =
     (let delayAtStr = mget (annos mountPod) DeleteDelayAtKey in
      if delayAtStr \<noteq> [] then
        bind (lift_res (GetTime L delayAtStr)) (\<lambda>delayAt w.
          (Inr \<lparr>rrRequeue = True, rrRequeueAfter = (if delayAt < h_now H w then 0 else duration_sub delayAt (h_now H w))\<rparr>, w))
      else ret \<lparr>rrRequeue = True, rrRequeueAfter = 10 * minute\<rparr>)"

definition reconcile_mount_pod ::
  "'x lib_scheme \<Rightarrow> globals \<Rightarrow> 'w host \<Rightarrow> 'w PodDriver \<Rightarrow> Pod \<Rightarrow> ('w, reconcile_result) io" where
  "reconcile_mount_pod L G H P mountPod =
     bind (mit_parse H newMountInfoTable) (\<lambda>mit.
     bind (ListPersistentVolumes (pdClient P) None None) (\<lambda>pvs.
       let uniqueId = mget (annos mountPod) UniqueIdKey;
           relatedPVs = filter (related_pv G uniqueId) pvs;
           pvcNamespaces = claim_namespaces relatedPVs in
       if relatedPVs = [] then fail (Errorf ''can not get pv by uniqueId %s, mount pod: %s'' [uniqueId, pod_name mountPod])
       else if pvcNamespaces = [] then ret no_requeue
       else
         bind (list_app_pods (pdClient P) pvcNamespaces) (\<lambda>podLists.
         bind (Run L G H P (setPodsStatus podLists mit) mountPod) (\<lambda>_.
           requeue_delay L H mountPod))))"

definition PodController_Reconcile ::
  "'x lib_scheme \<Rightarrow> globals \<Rightarrow> 'w host \<Rightarrow> 'w PodDriver \<Rightarrow> string \<Rightarrow> string \<Rightarrow> ('w, reconcile_result) io" where
  "PodController_Reconcile L G H P name ns =
     bind (find_object (GetPod (pdClient P) name ns)) (\<lambda>mp. case mp of None \<Rightarrow> ret no_requeue
       | Some mountPod \<Rightarrow>
           if psNodeName (pSpec mountPod) \<noteq> NodeName G \<and> mget (psNodeSelector (pSpec mountPod)) ''kubernetes.io/hostname'' \<noteq> NodeName G
           then ret no_requeue
           else reconcile_mount_pod L G H P mountPod)"

definition pod_update_event :: "Pod \<Rightarrow> Pod \<Rightarrow> bool" where
  "pod_update_event podOld podNew = version_changed (pMeta podNew) (pMeta podOld)"

section \<open>Sidecars of finished applications (app\_controller.go)\<close>

definition is_fuse :: "string \<Rightarrow> bool" where "is_fuse name = Contains name MountContainerName"

definition container_done :: "ContainerStatus \<Rightarrow> bool" where
  "container_done s = (if \<not> is_fuse (csName s) then csTerminated s \<noteq> None else csRunning s)"

definition ShouldInQueue :: "Pod option \<Rightarrow> bool" where
  "ShouldInQueue pod = (case pod of None \<Rightarrow> False
     | Some p \<Rightarrow>
         if CheckExpectValue (omap (mLabels (pMeta p))) InjectSidecarDisable WebhookTrue then False
         else if psRestartPolicy (pSpec p) = ''Always'' then False
         else if \<not> list_ex (\<lambda>cn. is_fuse (cName cn)) (psContainers (pSpec p)) then False
         else if stPhase (pStatus p) \<noteq> ''Running'' \<or> length (stContainerStatuses (pStatus p)) < 2 then False
         else list_all container_done (stContainerStatuses (pStatus p)))"

text \<open>The text of an error of the remote command; its text is that of \<open>OtherError\<close>.\<close>

definition err_text :: "err \<Rightarrow> string" where
  "err_text e = (case e of OtherError s \<Rightarrow> s | _ \<Rightarrow> [])"

definition umountFuseSidecar :: "'w K8sClient \<Rightarrow> Pod \<Rightarrow> Container \<Rightarrow> ('w, unit) io" where
  "umountFuseSidecar K pod c =
     (if cName c = [] then ret ()
      else (case cLifecycle c of None \<Rightarrow> ret ()
        | Some lc \<Rightarrow> (case lcPreStop lc of
            Some (Exec cmd) \<Rightarrow> (\<lambda>w.
              case ExecuteInContainer K (pod_name pod) (pod_ns pod) (cName c) cmd w of ((out, errs, e), w') \<Rightarrow>
                (case e of None \<Rightarrow> (Inr (), w')
                 | Some e \<Rightarrow>
                     if Contains errs ''not mounted'' \<or> Contains errs ''mountpoint not found'' \<or> Contains errs ''no mount point specified''
                     then (Inr (), w')
                     else if Contains (err_text e) ''exit code 137'' then (Inr (), w')
                     else (Inl e, w')))
          | _ \<Rightarrow> ret ())))"

fun umountFuseSidecars :: "'w K8sClient \<Rightarrow> Pod \<Rightarrow> Container list \<Rightarrow> ('w, unit) io" where
  "umountFuseSidecars K pod [] = ret ()"
| "umountFuseSidecars K pod (cn # cns) =
     (if is_fuse (cName cn) then bind (umountFuseSidecar K pod cn) (\<lambda>_. umountFuseSidecars K pod cns)
      else umountFuseSidecars K pod cns)"

definition AppController_Reconcile :: "'w K8sClient \<Rightarrow> string \<Rightarrow> string \<Rightarrow> ('w, reconcile_result) io" where
  "AppController_Reconcile K name ns =
     bind (find_object (GetPod K name ns)) (\<lambda>pod. case pod of None \<Rightarrow> ret no_requeue
       | Some p \<Rightarrow>
           if \<not> ShouldInQueue (Some p) then ret no_requeue
           else bind (umountFuseSidecars K p (psContainers (pSpec p))) (\<lambda>_. ret no_requeue))"

definition app_update_event :: "Pod \<Rightarrow> Pod \<Rightarrow> bool" where
  "app_update_event podOld podNew = (if \<not> version_changed (pMeta podNew) (pMeta podOld) then False else ShouldInQueue (Some podNew))"

section \<open>Secrets (secret\_controller.go)\<close>

text \<open>
  The provider is made without a client. AuthFs renames keys of the map it is given, so the
  data that are written back have the new names. The temporary directory is removed
  at the end, whatever happened.
\<close>

definition with_temp_dir :: "'w host \<Rightarrow> (string \<Rightarrow> ('w, 'a) io) \<Rightarrow> ('w, 'a) io" where
  "with_temp_dir H f = bind (h_mkdir_temp H) (\<lambda>dir w. case f dir w of (r, w1) \<Rightarrow> (r, snd (h_remove_all H dir w1)))"

definition SecretController_Reconcile ::
  "'x jfs_lib_scheme \<Rightarrow> globals \<Rightarrow> 'w host \<Rightarrow> 'w juicefs \<Rightarrow> 'w K8sClient \<Rightarrow> string \<Rightarrow> string \<Rightarrow> ('w, reconcile_result) io" where
  "SecretController_Reconcile L G H J K name ns =
     bind (find_object (GetSecret K name ns)) (\<lambda>s. case s of None \<Rightarrow> ret no_requeue
       | Some secrets \<Rightarrow>
           if \<not> mhas (seData secrets) ''token'' then ret no_requeue
           else if \<not> mhas (seData secrets) ''name'' then ret no_requeue
           else
             (let J0 = J\<lparr>j_client := None\<rparr>; secretsMap = seData secrets in
              bind (juicefs_Settings L G H J0 [] (Some secretsMap) None []) (\<lambda>jfsSetting.
              with_temp_dir H (\<lambda>tempConfDir.
                let s1 = jfsSetting\<lparr>sClientConfPath := tempConfDir\<rparr> in
                bind (AuthFs G H J0 (Some secretsMap) s1 True) (\<lambda>_.
                bind (h_read_file H (path_Join [tempConfDir, sName s1 @ ''.conf''])) (\<lambda>confs.
                bind (UpdateSecret K (Some (secrets\<lparr>seStringData := mput ''initconfig'' confs (transform_keys secretsMap)\<rparr>))) (\<lambda>_.
                  ret \<lparr>rrRequeue = True, rrRequeueAfter = SecretReconcilerInterval G\<rparr>)))))))"

definition secret_update_event :: "Secret \<Rightarrow> Secret \<Rightarrow> bool" where
  "secret_update_event secretOld secretNew = version_changed (seMeta secretNew) (seMeta secretOld)"

section \<open>The pods of the kubelet (reconciler.go)\<close>

record reconciled =
  rsStatus :: podStatus
  rsSyncAt :: int

record 'w backoff =
  bo_in_backoff :: "string \<Rightarrow> 'w \<Rightarrow> bool"
  bo_next :: "string \<Rightarrow> 'w \<Rightarrow> 'w"
  bo_reset :: "string \<Rightarrow> 'w \<Rightarrow> 'w"
  bo_gc :: "'w \<Rightarrow> 'w"

definition is_mount_pod :: "globals \<Rightarrow> Pod \<Rightarrow> bool" where
  "is_mount_pod G pod = (if pod_ns pod \<noteq> Namespace G then False
     else map_of (omap (mLabels (pMeta pod))) PodTypeKey = Some PodTypeValue)"

definition recently_synced :: "(string \<times> reconciled) list \<Rightarrow> int \<Rightarrow> Pod \<Rightarrow> bool" where
  "recently_synced lastPodStatus now pod = (case map_of lastPodStatus (pod_name pod) of None \<Rightarrow> False
     | Some s \<Rightarrow> rsStatus s = getPodStatus (Some pod) \<and> now < rsSyncAt s + 10 * minute)"

fun select_pods :: "globals \<Rightarrow> int \<Rightarrow> Pod list \<Rightarrow> (string \<times> reconciled) list \<Rightarrow> Pod list \<times> (string \<times> reconciled) list" where
  "select_pods G now [] lastPodStatus = ([], lastPodStatus)"
| "select_pods G now (pod # pods) lastPodStatus =
     (if \<not> is_mount_pod G pod \<or> recently_synced lastPodStatus now pod then select_pods G now pods lastPodStatus
      else (case select_pods G now pods (mput (pod_name pod) \<lparr>rsStatus = getPodStatus (Some pod), rsSyncAt = now\<rparr> lastPodStatus) of
        (sel, lastPodStatus') \<Rightarrow> (pod # sel, lastPodStatus')))"

text \<open>
  The goroutines of a round, one after the other. The first error cancels the context of
  the group, and so does its timeout; a cancelled goroutine does nothing. A panic ends
  the process.
\<close>

fun run_group ::
  "'x lib_scheme \<Rightarrow> globals \<Rightarrow> 'w host \<Rightarrow> 'w PodDriver \<Rightarrow> 'w backoff \<Rightarrow> mountInfoTable \<Rightarrow> bool \<Rightarrow> Pod list \<Rightarrow> ('w, unit) io" where
  "run_group L G H P B mit cancelled [] = ret ()"
| "run_group L G H P B mit cancelled (pod # pods) = (\<lambda>w.
     let backOffID = ''mountpod/'' @ pod_name pod in
     if cancelled \<or> h_ctx_err H w \<noteq> None then run_group L G H P B mit cancelled pods w
     else if bo_in_backoff B backOffID w then run_group L G H P B mit False pods w
     else (case Run L G H P mit pod w of
         (Inr _, w1) \<Rightarrow> run_group L G H P B mit False pods (bo_reset B backOffID w1)
       | (Inl (Panic p), w1) \<Rightarrow> (Inl (Panic p), w1)
       | (Inl _, w1) \<Rightarrow> run_group L G H P B mit True pods (bo_next B backOffID w1)))"

definition reconcile_round ::
  "'x lib_scheme \<Rightarrow> globals \<Rightarrow> 'w host \<Rightarrow> 'w PodDriver \<Rightarrow> 'w backoff \<Rightarrow> (string \<times> reconciled) list \<Rightarrow> ('w, (string \<times> reconciled) list) io" where
  "reconcile_round L G H P B lastPodStatus =
     bind (tryE (h_running_pods H) (\<lambda>_. ret lastPodStatus) (\<lambda>podList.
           tryE (mit_parse H newMountInfoTable) (\<lambda>_. ret lastPodStatus) (\<lambda>mit w. case podList of None \<Rightarrow> (Inl (Panic ''nil pointer dereference''), w)
           | Some items \<Rightarrow> (case select_pods G (h_now H w) items lastPodStatus of (sel, lastPodStatus') \<Rightarrow>
               after (bo_gc B) (bind (run_group L G H P B (setPodsStatus items mit) False sel) (\<lambda>_. ret lastPodStatus')) w))))
       (\<lambda>last'. after (h_sleep H (ReconcilerInterval G * 1000000)) (ret last'))"

text \<open>The loop never ends; these are its first rounds.\<close>

fun doReconcile ::
  "'x lib_scheme \<Rightarrow> globals \<Rightarrow> 'w host \<Rightarrow> 'w PodDriver \<Rightarrow> 'w backoff \<Rightarrow> nat \<Rightarrow> (string \<times> reconciled) list \<Rightarrow> ('w, (string \<times> reconciled) list) io" where
  "doReconcile L G H P B 0 lastPodStatus = ret lastPodStatus"
| "doReconcile L G H P B (Suc n) lastPodStatus =
     bind (reconcile_round L G H P B lastPodStatus) (doReconcile L G H P B n)"

text \<open>
  StartReconciler stops when the port is no number or the kubelet or the cluster cannot be
  reached. Otherwise the loop runs with the new client and asks the kubelet for the pods.
\<close>

definition StartReconciler ::
  "('t, 'c) transport_lib \<Rightarrow> environ \<Rightarrow> ('w, 't, 'r) kubelet_http \<Rightarrow> ('w, 'w K8sClient) io \<Rightarrow> globals \<Rightarrow> 'w host
    \<Rightarrow> ('w, 'w K8sClient \<times> 'w host) io" where
  "StartReconciler T env KH newClient G H =
     (case Atoi (KubeletPort G) of None \<Rightarrow> fail (OtherError ''strconv.Atoi'')
      | Some port \<Rightarrow>
          bind (NewKubeletClient T env H (HostIp G) port) (\<lambda>kc.
          bind (GetNodeRunningPods KH kc) (\<lambda>_.
          bind newClient (\<lambda>k8sClient. ret (k8sClient, H\<lparr>h_running_pods := GetNodeRunningPods KH kc\<rparr>)))))"

section \<open>Retries of the reconciler\<close>

lemma select_pods_other:
  "n \<notin> pod_name ` set (filter (is_mount_pod G) pods) \<Longrightarrow> map_of (snd (select_pods G now pods lst)) n = map_of lst n"
proof (induction pods arbitrary: lst)
  case (Cons q pods)
  show ?case
  proof (cases "\<not> is_mount_pod G q \<or> recently_synced lst now q")
    case True
    then have "select_pods G now (q # pods) lst = select_pods G now pods lst" by simp
    moreover have "n \<notin> pod_name ` set (filter (is_mount_pod G) pods)" using Cons.prems by (auto split: if_splits)
    ultimately show ?thesis using Cons.IH by metis
  next
    case False
    then have "n \<noteq> pod_name q" "n \<notin> pod_name ` set (filter (is_mount_pod G) pods)" using Cons.prems by auto
    moreover have "snd (select_pods G now (q # pods) lst) =
        snd (select_pods G now pods (mput (pod_name q) \<lparr>rsStatus = getPodStatus (Some q), rsSyncAt = now\<rparr> lst))"
      using False by (simp split: prod.split)
    ultimately show ?thesis using Cons.IH by (simp del: map_of_eq_Some_iff)
  qed
qed simp

lemma select_pods_records:
  assumes "distinct (map pod_name (filter (is_mount_pod G) pods))" "p \<in> set pods" "is_mount_pod G p"
    and "\<forall>q \<in> set pods. is_mount_pod G q \<longrightarrow> \<not> recently_synced lst now q"
  shows "map_of (snd (select_pods G now pods lst)) (pod_name p) = Some \<lparr>rsStatus = getPodStatus (Some p), rsSyncAt = now\<rparr>"
  using assms
proof (induction pods arbitrary: lst)
  case (Cons q pods)
  show ?case
  proof (cases "is_mount_pod G q")
    case False
    with Cons show ?thesis by auto
  next
    case True
    let ?l = "mput (pod_name q) \<lparr>rsStatus = getPodStatus (Some q), rsSyncAt = now\<rparr> lst"
    have s: "snd (select_pods G now (q # pods) lst) = snd (select_pods G now pods ?l)"
      using True Cons.prems(4) by (simp split: prod.split)
    have d: "pod_name q \<notin> pod_name ` set (filter (is_mount_pod G) pods)" using Cons.prems(1) True by simp
    show ?thesis
    proof (cases "p = q")
      case True
      with select_pods_other [OF d, of now ?l] show ?thesis unfolding s by (simp add: map_of_mput)
    next
      case False
      have "\<not> recently_synced ?l now x" if "x \<in> set pods" "is_mount_pod G x" for x
      proof -
        have "pod_name x \<noteq> pod_name q" using d that by (auto simp: image_iff)
        then have "recently_synced ?l now x = recently_synced lst now x" by (simp add: recently_synced_def map_of_mput)
        with Cons.prems(4) that show ?thesis by simp
      qed
      with Cons.IH [of ?l] Cons.prems(1-3) False True show ?thesis unfolding s by simp
    qed
  qed
qed simp

lemma select_pods_none:
  "\<forall>p \<in> set pods. is_mount_pod G p \<longrightarrow> recently_synced lst now p \<Longrightarrow> select_pods G now pods lst = ([], lst)"
  by (induction pods) auto


definition failing_pod :: Pod where
  "failing_pod = zero_pod\<lparr>pMeta := zero_meta\<lparr>mName := ''m'', mNamespace := Namespace sample_globals, mLabels := Some [(PodTypeKey, PodTypeValue)]\<rparr>\<rparr>"

definition kubelet_host :: "int host" where
  "kubelet_host = idle_host\<lparr>h_running_pods := ret (Some [failing_pod]), h_mount_infos := ret [], h_now := \<lambda>w. w, h_sleep := \<lambda>d w. w + 1000 * d\<rparr>"

definition failing_driver :: "int PodDriver" where
  "failing_driver = \<lparr>pdClient = idle_client, pdSpawn = (\<lambda>_ w. w), pdFinalizers = pdFinalizers mem_driver, pdFuel = 1\<rparr>"

definition no_backoff :: "'w backoff" where
  "no_backoff = \<lparr>bo_in_backoff = (\<lambda>_ _. False), bo_next = (\<lambda>_ w. w), bo_reset = (\<lambda>_ w. w), bo_gc = (\<lambda>w. w)\<rparr>"

lemma failing_run: "Run live_lib sample_globals kubelet_host failing_driver mit failing_pod w = (Inl NotFound, w)"
proof -
  have a: "annos failing_pod = []" "\<not> is_deleting failing_pod" by (simp_all add: failing_pod_def zero_defs is_deleting_def)
  then have d: "dead_annotations live_lib mit failing_pod = ([], 0)" by (simp add: dead_annotations_def ref_targets_def Let_def)
  have "delete_unused live_lib kubelet_host failing_driver failing_pod w = (Inl NotFound, w)" for w
    using a by (simp add: delete_unused_def ShouldDelay_def bind_eq ret_def GetPod_def failing_driver_def idle_client_def fail_def)
  with d a show ?thesis by (simp add: Run_def checkAnnotations_def with_lock_def bind_eq ret_def kubelet_host_def idle_host_def)
qed



section \<open>References of listed applications are kept\<close>

lemma list_app_pods_in:
  assumes "\<forall>v ps rv. fst (c_pods_list K ns rv (Some \<lparr>selMatchLabels = [], selExists = [UniqueIdKey]\<rparr>) None v) = Inr ps \<longrightarrow> (\<exists>a \<in> set ps. Q a)"
    and "ns \<in> set nss" "list_app_pods K nss w = (Inr ps, w')"
  shows "\<exists>a \<in> set ps. Q a"
  using assms(2,3)
proof (induction nss arbitrary: w ps)
  case (Cons n nss)
  from Cons.prems(2) obtain qs rest w1 where q: "c_pods_list K n (if enableAPIServerListCache K then ''0'' else []) (Some \<lparr>selMatchLabels = [], selExists = [UniqueIdKey]\<rparr>) None w = (Inr qs, w1)"
    and r: "list_app_pods K nss w1 = (Inr rest, w')" and ps: "ps = qs @ rest"
    by (auto simp: bind_eq ListPod_def ret_def split: prod.splits sum.splits)
  show ?case
  proof (cases "n = ns")
    case True
    with assms(1) q show ?thesis unfolding ps by (metis Un_iff fst_conv set_append)
  next
    case False
    with Cons.IH [OF _ r] Cons.prems(1) show ?thesis unfolding ps by auto
  qed
qed simp

lemma setPodsStatus_known: "a \<in> set ps \<Longrightarrow> mhas (mit_deletedPods (setPodsStatus ps mit)) (mUID (pMeta a))"
proof -
  have "mhas (foldl (\<lambda>m pod. mput (mUID (pMeta pod)) (is_deleting pod) m) m ps) u \<longleftrightarrow> mhas m u \<or> (\<exists>a \<in> set ps. mUID (pMeta a) = u)" for m u
    by (induction ps arbitrary: m) (auto simp: mhas_def simp del: map_of_eq_Some_iff)
  then show "a \<in> set ps \<Longrightarrow> ?thesis" by (auto simp: setPodsStatus_def)
qed

text \<open>What the reconciliation reads of the API server does not change its pods.\<close>

definition quiet_lists :: "'w K8sClient \<Rightarrow> ('w \<Rightarrow> pod_map) \<Rightarrow> bool" where
  "quiet_lists K pods \<longleftrightarrow> (\<forall>w s f. pods (snd (c_pvs_list K s f w)) = pods w)"

lemma list_app_pods_keeps: "(\<And>ns rv s f. keeps Q (c_pods_list K ns rv s f)) \<Longrightarrow> keeps Q (list_app_pods K nss)"
  by (induction nss) (auto simp: ListPod_def intro!: keeps_intro)

lemma claim_listed:
  assumes "\<forall>v pvs. fst (c_pvs_list K None None v) = Inr pvs \<longrightarrow> (\<exists>pv \<in> set pvs. related_pv G u pv \<and> (\<exists>c. pvClaimRef pv = Some (c, claimNs)))"
    and "ListPersistentVolumes K None None v = (Inr pvs, v')"
  shows "claimNs \<in> set (claim_namespaces (filter (related_pv G u) pvs))"
proof -
  have "fst (c_pvs_list K None None v) = Inr pvs" using assms(2) by (auto simp: ListPersistentVolumes_def bind_eq ret_def split: prod.splits sum.splits)
  with assms(1) obtain pv c where "pv \<in> set pvs" "related_pv G u pv" "pvClaimRef pv = Some (c, claimNs)" by blast
  then show ?thesis by (force simp: claim_namespaces_def List.map_filter_def)
qed

lemma reconcile_mount_pod_in_use:
  assumes "pod_store (pdClient P) pods" "sha_wf L" "quiet_lookups H (pdClient P) pods" "node_keeps_pods H pods" "quiet_lists (pdClient P) pods"
    and "\<forall>t'. GetReferenceKey L t' = GetReferenceKey L t \<longrightarrow> t' = t" "getPodStatus (Some p) = podReady"
    and "\<forall>v pvs. fst (c_pvs_list (pdClient P) None None v) = Inr pvs \<longrightarrow>
      (\<exists>pv \<in> set pvs. related_pv G (mget (annos p) UniqueIdKey) pv \<and> (\<exists>c. pvClaimRef pv = Some (c, claimNs)))"
    and "\<forall>v ps rv. fst (c_pods_list (pdClient P) claimNs rv (Some \<lparr>selMatchLabels = [], selExists = [UniqueIdKey]\<rparr>) None v) = Inr ps \<longrightarrow>
      (\<exists>a \<in> set ps. mUID (pMeta a) = getPodUid t)"
  shows "keeps (in_use L pods k t) (reconcile_mount_pod L G H P p)" (is "keeps ?I _")
proof -
  let ?K = "pdClient P"
  have run: "keeps ?I (Run L G H P (setPodsStatus ps mit) p)" if "list_app_pods ?K nss v = (Inr ps, v')" "claimNs \<in> set nss" for nss ps mit v v'
  proof -
    from list_app_pods_in [OF assms(9) that(2,1)] obtain a where "a \<in> set ps" "mUID (pMeta a) = getPodUid t" by blast
    with setPodsStatus_known [of a ps mit] have "target_known (setPodsStatus ps mit) t" by (simp add: target_known_def)
    with assms(1-4,6,7) show ?thesis by (intro Run_in_use)
  qed
  have mit: "keeps ?I (mit_parse H newMountInfoTable)"
    using node_keeps_view [OF assms(4), of "\<lambda>m. \<exists>p. m k = Some p \<and> map_of (annos p) (GetReferenceKey L t) = Some t"]
    unfolding mit_parse_def in_use_def [abs_def] by (intro keeps_intro node_intro)
  have pvs: "keeps ?I (ListPersistentVolumes ?K None None)"
    using assms(5) unfolding ListPersistentVolumes_def by (intro keeps_intro keepsI) (simp add: quiet_lists_def in_use_def)
  have list: "keeps ?I (list_app_pods ?K nss)" for nss
    using assms(3) by (intro list_app_pods_keeps keepsI) (simp add: quiet_lookups_def in_use_def)
  have delay: "keeps ?I (requeue_delay L H p)"
    by (auto simp: requeue_delay_def Let_def keeps_def bind_eq ret_def lift_res_def split: sum.splits)
  have inner: "keeps ?I (bind (list_app_pods ?K nss) (\<lambda>ps. bind (Run L G H P (setPodsStatus ps mit) p) (\<lambda>_. requeue_delay L H p)))"
    if "claimNs \<in> set nss" for nss mit
    by (rule keeps_bind_result [OF list], rule keeps_bind [OF run [OF _ that] delay])
  show ?thesis unfolding reconcile_mount_pod_def Let_def
    by (rule keeps_bind_result [OF mit], rule keeps_bind_result [OF pvs])
      (simp add: keeps_fail keeps_ret inner claim_listed [OF assms(8)])
qed



text \<open>A cluster with one volume and one application pod, which uses the target of the mount pod.\<close>

definition listed_pod :: Pod where
  "listed_pod = set_annos (Some [(GetReferenceKey live_lib live_target, live_target), (UniqueIdKey, ''u'')]) live_pod"

definition listed_pv :: PersistentVolume where
  "listed_pv = \<lparr>pvMeta = zero_meta, pvCapacity = 0, pvCSI = Some \<lparr>cpDriver = DriverName sample_globals, cpVolumeHandle = ''u'', cpFSType = [],
       cpVolumeAttributes = [], cpNodePublishSecretRef = None, cpControllerExpandSecretRef = None\<rparr>, pvClaimRef = Some (''c'', ''app''),
     pvStorageClassName = [], pvMountOptions = [], pvAccessModes = [], pvReclaimPolicy = [], pvVolumeMode = None\<rparr>"

definition app_pod :: Pod where
  "app_pod = zero_pod\<lparr>pMeta := zero_meta\<lparr>mName := ''a'', mNamespace := ''app'', mUID := ''uid''\<rparr>\<rparr>"

definition listing_driver :: "pod_map PodDriver" where
  "listing_driver = mem_driver\<lparr>pdClient := mem_client\<lparr>c_pvs_list := \<lambda>_ _. ret [listed_pv], c_pods_list := \<lambda>_ _ _ _. ret [app_pod]\<rparr>\<rparr>"

lemma listing_laws: "pod_store (pdClient listing_driver) (\<lambda>w. w)" "quiet_lookups mem_host (pdClient listing_driver) (\<lambda>w. w)"
  "quiet_lists (pdClient listing_driver) (\<lambda>w. w)"
proof -
  show "pod_store (pdClient listing_driver) (\<lambda>w. w)" using mem_laws(1)
    by (simp add: listing_driver_def pod_store_def get_law_def patch_law_def delete_law_def)
  show "quiet_lookups mem_host (pdClient listing_driver) (\<lambda>w. w)" "quiet_lists (pdClient listing_driver) (\<lambda>w. w)"
    by (simp_all add: quiet_lookups_def quiet_lists_def listing_driver_def mem_client_def idle_client_def mem_host_def idle_host_def ret_def fail_def)
qed


section \<open>Finalizers of lost nodes and sidecars of running applications\<close>

text \<open>
  The mount controller touches a pod only when it is being deleted, still has the
  finalizer, and the list of CSI pods of its node is empty.
\<close>

lemma MountController_only_orphans:
  assumes "pod_store K pods" "\<forall>w ns rv s f. pods (snd (c_pods_list K ns rv s f w)) = pods w"
    and "MountController_Reconcile G K name ns w = (r, w')" "pods w' \<noteq> pods w"
  shows "\<exists>p v v'. pods w (ns, name) = Some p \<and> is_deleting p \<and> Finalizer \<in> set (mFinalizers (pMeta p)) \<and>
    csi_pods G K (psNodeName (pSpec p)) v = (Inr [], v')"
proof -
  obtain gr w1 where g: "c_pods_get K ns name w = (gr, w1)" by fastforce
  note get = pod_store_get [OF assms(1) g]
  have fin: "ContainsString xs x \<longleftrightarrow> x \<in> set xs" for xs x by (induction xs) auto
  have "w' \<noteq> w1" using assms(4) get(1) by metis
  with assms(3) g obtain p where gr: "gr = Inr p" and p: "is_deleting p" "Finalizer \<in> set (mFinalizers (pMeta p))"
    and c: "bind (csi_pods G K (psNodeName (pSpec p))) (\<lambda>cs. if length cs > 0 then ret no_requeue
        else bind (RemoveFinalizer K p Finalizer) (\<lambda>_. ret no_requeue)) w1 = (r, w')"
    by (cases gr) (auto simp: MountController_Reconcile_def find_object_def bind_eq tryE_def GetPod_def ret_def fail_def is_deleting_def fin split: if_splits)
  obtain cr w2 where cs: "csi_pods G K (psNodeName (pSpec p)) w1 = (cr, w2)" by fastforce
  have "pods w2 = pods w1" using cs assms(2) unfolding csi_pods_def ListPod_def bind_eq
    by (auto simp: ret_def split: prod.splits sum.splits) (metis snd_conv)+
  then have "w' \<noteq> w2" using assms(4) get(1) by metis
  with c cs have "cr = Inr []" by (cases cr) (auto simp: bind_eq ret_def split: if_splits)
  with cs p get(3) [OF gr] show ?thesis by blast
qed

text \<open>
  The sidecar of an application is not unmounted while another container of the pod has
  not ended: then, and when the sidecar itself does not run, Reconcile only reads the pod.
\<close>

lemma AppController_waits:
  assumes "c_pods_get K ns name w = (Inr p, w1)" "s \<in> set (stContainerStatuses (pStatus p))"
    and "if is_fuse (csName s) then \<not> csRunning s else csTerminated s = None"
  shows "AppController_Reconcile K name ns w = (Inr no_requeue, w1)"
proof -
  have "\<not> container_done s" using assms(3) by (simp add: container_done_def split: if_splits)
  then have "\<not> ShouldInQueue (Some p)" using assms(2) by (auto simp: ShouldInQueue_def list_all_iff)
  then show ?thesis using assms(1) by (simp add: AppController_Reconcile_def find_object_def bind_eq tryE_def GetPod_def ret_def)
qed

section \<open>Sidecars that are stopped one after the other\<close>


text \<open>
  Two sidecars; the command works in the first and fails in the second. The world is the
  list of the containers in which a command was run, and whether the first has stopped.
\<close>

definition side :: "string \<Rightarrow> Container" where
  "side n = zero_container\<lparr>cName := n, cLifecycle := Some \<lparr>lcPostStart = None, lcPreStop = Some (Exec [''umount''])\<rparr>\<rparr>"

definition side_status :: "string \<Rightarrow> bool \<Rightarrow> ContainerStatus" where
  "side_status n running = \<lparr>csName = n, csReady = running, csWaiting = None,
     csTerminated = (if running then None else Some (''Completed'', 0)), csRunning = running\<rparr>"

definition two_sides :: "bool \<Rightarrow> Pod" where
  "two_sides stopped = zero_pod\<lparr>pMeta := zero_meta\<lparr>mName := ''app'', mNamespace := ''ns''\<rparr>,
     pSpec := zero_spec\<lparr>psContainers := [side ''jfs-mount'', side ''jfs-mount-1'', zero_container\<lparr>cName := ''app''\<rparr>], psRestartPolicy := ''Never''\<rparr>,
     pStatus := zero_status\<lparr>stPhase := ''Running'', stContainerStatuses :=
       [side_status ''jfs-mount'' (\<not> stopped), side_status ''jfs-mount-1'' True, side_status ''app'' False]\<rparr>\<rparr>"

definition sides_client :: "string list K8sClient" where
  "sides_client = idle_client\<lparr>c_pods_get := \<lambda>_ _ w. (Inr (two_sides (w \<noteq> [])), w),
     c_exec := \<lambda>_ _ n _ w. (([], [], if n = ''jfs-mount'' then None else Some Timeout), w @ [n])\<rparr>"


section \<open>Watches\<close>

text \<open>
  What SetupWithManager registers: the name of the controller and which events put an object
  in its queue.
\<close>

record 'o watch =
  wName :: string
  wCreate :: "'o \<Rightarrow> bool"
  wUpdate :: "'o \<Rightarrow> 'o \<Rightarrow> bool" \<comment> \<open>old, new\<close>
  wDelete :: "'o \<Rightarrow> bool"

definition MountController_watch :: "Pod watch" where
  "MountController_watch = \<lparr>wName = ''mount'', wCreate = mount_event, wUpdate = mount_update_event, wDelete = mount_event\<rparr>"

definition JobController_watch :: "Job watch" where
  "JobController_watch = \<lparr>wName = ''mount'', wCreate = job_event, wUpdate = job_update_event, wDelete = job_event\<rparr>"

definition PodController_watch :: "Pod watch" where
  "PodController_watch = \<lparr>wName = ''mount'', wCreate = (\<lambda>_. True), wUpdate = pod_update_event, wDelete = (\<lambda>_. True)\<rparr>"

definition AppController_watch :: "Pod watch" where
  "AppController_watch = \<lparr>wName = ''app'', wCreate = (\<lambda>pod. ShouldInQueue (Some pod)), wUpdate = app_update_event, wDelete = (\<lambda>_. False)\<rparr>"

definition SecretController_watch :: "Secret watch" where
  "SecretController_watch = \<lparr>wName = ''secret'', wCreate = (\<lambda>_. True), wUpdate = secret_update_event, wDelete = (\<lambda>_. False)\<rparr>"

text \<open>
  The contract between a watch and its controller: an object that the watch of a new object
  leaves out is one the controller does nothing about, and an update is left out only
  for that reason or because nothing changed. So no change is lost that the controller would act upon.
\<close>

locale watched_controller =
  fixes W :: "'o watch" and meta :: "'o \<Rightarrow> ObjectMeta"
    and get :: "string \<Rightarrow> string \<Rightarrow> ('w, 'o) io" and reconcile :: "string \<Rightarrow> string \<Rightarrow> ('w, reconcile_result) io"
  assumes left_out: "get ns name w = (Inr x, w1) \<Longrightarrow> \<not> wCreate W x \<Longrightarrow> reconcile name ns w = (Inr no_requeue, w1)"
    and update: "wUpdate W x y \<longleftrightarrow> version_changed (meta y) (meta x) \<and> wCreate W y"
begin

lemma acts_created:
  assumes "get ns name w = (Inr x, w1)" "reconcile name ns w \<noteq> (Inr no_requeue, w1)"
  shows "wCreate W x"
  using left_out [OF assms(1)] assms(2) by blast

lemma acts_updated:
  assumes "get ns name w = (Inr y, w1)" "reconcile name ns w \<noteq> (Inr no_requeue, w1)" "mResourceVersion (meta x) \<noteq> mResourceVersion (meta y)"
  shows "wUpdate W x y"
  using acts_created [OF assms(1,2)] assms(3) update by (auto simp: version_changed_def)

end

interpretation mount_ctl: watched_controller MountController_watch pMeta "c_pods_get K" "MountController_Reconcile G K" for K G
  by unfold_locales (auto simp: MountController_watch_def mount_event_def mount_update_event_def MountController_Reconcile_def
    find_object_def bind_eq tryE_def GetPod_def ret_def split: if_splits)

interpretation job_ctl: watched_controller JobController_watch jMeta "c_jobs_get K" "JobController_Reconcile G H K" for K G H
  by unfold_locales (auto simp: JobController_watch_def job_event_def job_update_event_def JobController_Reconcile_def
    find_object_def bind_eq tryE_def GetJob_def ret_def split: if_splits)

interpretation app_ctl: watched_controller AppController_watch pMeta "c_pods_get K" "AppController_Reconcile K" for K
  by unfold_locales (auto simp: AppController_watch_def app_update_event_def AppController_Reconcile_def
    find_object_def bind_eq tryE_def GetPod_def ret_def split: if_splits)

text \<open>
  A change of an object that one of these controllers would act upon is put in its queue.
\<close>

theorem watches_lose_nothing:
  "(c_pods_get K ns name w = (Inr p, w1) \<and> mResourceVersion (pMeta q) \<noteq> mResourceVersion (pMeta p) \<and>
      MountController_Reconcile G K name ns w \<noteq> (Inr no_requeue, w1) \<longrightarrow> wUpdate MountController_watch q p) \<and>
   (c_pods_get K ns name w = (Inr p, w1) \<and> mResourceVersion (pMeta q) \<noteq> mResourceVersion (pMeta p) \<and>
      AppController_Reconcile K name ns w \<noteq> (Inr no_requeue, w1) \<longrightarrow> wUpdate AppController_watch q p) \<and>
   (c_jobs_get K ns name w = (Inr j, w1) \<and> mResourceVersion (jMeta i) \<noteq> mResourceVersion (jMeta j) \<and>
      JobController_Reconcile G H K name ns w \<noteq> (Inr no_requeue, w1) \<longrightarrow> wUpdate JobController_watch i j)"
  by (intro conjI impI; elim conjE; rule mount_ctl.acts_updated app_ctl.acts_updated job_ctl.acts_updated; assumption)

end
