(* ===== verification/Webhook.thy ===== *)
theory Webhook
  imports Sidecar Driver
begin

text \<open>
  The admission webhook: src/pkg/webhook/handler/mutate/sidecar.go (the injection of sidecars
  into the pods that use a JuiceFS volume), validator/secret.go and handler.go (the three
  handlers). Decoding a request and printing a pod are arguments; the JSON difference of
  two printed objects is made by controller-runtime.
\<close>

section \<open>The builder of a sidecar (sidecar.go)\<close>

text \<open>The operations of SidecarInterface that the injection calls; NewSecret is the same for all builders.\<close>

record sidecar_ops =
  soNew :: "JfsSetting \<Rightarrow> (JfsSetting \<times> Pod) res"
  soVolumes :: "Volume \<Rightarrow> string \<Rightarrow> Volume"
  soMounts :: "VolumeMount \<Rightarrow> VolumeMount"

definition choose_builder ::
  "'x setting_lib_scheme \<Rightarrow> globals \<Rightarrow> bool \<Rightarrow> Pod \<Rightarrow> PersistentVolumeClaim \<Rightarrow> int \<Rightarrow> sidecar_ops" where
  "choose_builder L G serverless pod pvc capacity =
     (if \<not> serverless then
        \<lparr>soNew = Container_NewMountSidecar L G capacity, soVolumes = Container_OverwriteVolumes G, soMounts = Container_OverwriteVolumeMounts\<rparr>
      else if mget (annos pod) VCIANNOKey = VCIANNOValue then
        \<lparr>soNew = VCI_NewMountSidecar L G pod pvc capacity, soVolumes = VCI_OverwriteVolumes, soMounts = VCI_OverwriteVolumeMounts\<rparr>
      else if mget (omap (mLabels (pMeta pod))) CCIANNOKey = CCIANNOValue then
        \<lparr>soNew = CCI_NewMountSidecar L G capacity, soVolumes = CCI_OverwriteVolumes, soMounts = CCI_OverwriteVolumeMounts\<rparr>
      else
        \<lparr>soNew = Serverless_NewMountSidecar L G capacity, soVolumes = Serverless_OverwriteVolumes G, soMounts = Serverless_OverwriteVolumeMounts\<rparr>)"

section \<open>Injection (sidecar.go)\<close>

definition is_shared_dir :: "string \<Rightarrow> bool" where
  "is_shared_dir name = (name = UpdateDBDirName \<or> name = JfsDirName)"

text \<open>Every container with the name that the sidecar has by then renames it.\<close>

definition dedup_container :: "nat \<Rightarrow> Container list \<Rightarrow> string \<Rightarrow> string" where
  "dedup_container index containers name =
     foldl (\<lambda>n c. if cName c = n then cName c @ ''-'' @ FormatInt (int index) else n) name containers"

text \<open>The index of the first mount with the name, or 0 when there is none.\<close>

fun mount_index :: "string \<Rightarrow> VolumeMount list \<Rightarrow> nat" where
  "mount_index n [] = 0"
| "mount_index n (m # ms) = (if vmName m = n then 0 else if list_ex (\<lambda>x. vmName x = n) ms then Suc (mount_index n ms) else 0)"

fun dedup_volumes :: "string list \<Rightarrow> string \<Rightarrow> Volume list \<Rightarrow> VolumeMount list \<Rightarrow> (Volume list \<times> VolumeMount list) res" where
  "dedup_volumes used cname [] mounts = Inr ([], mounts)"
| "dedup_volumes used cname (mv # vs) mounts =
     (if is_shared_dir (vName mv) \<or> vName mv \<notin> set used then
        bind_res (dedup_volumes used cname vs mounts) (\<lambda>(vs', ms'). Inr (mv # vs', ms'))
      else if mounts = [] then Inl (Panic ''index out of range'')
      else
        (let new = cname @ ''-'' @ vName mv; i = mount_index (vName mv) mounts in
         bind_res (dedup_volumes used cname vs (mounts[i := (mounts ! i)\<lparr>vmName := new\<rparr>])) (\<lambda>(vs', ms').
           Inr (mv\<lparr>vName := new\<rparr> # vs', ms'))))"

definition Deduplicate :: "Pod \<Rightarrow> nat \<Rightarrow> Pod \<Rightarrow> Pod res" where
  "Deduplicate pod index mountPod =
     (case psContainers (pSpec mountPod) of [] \<Rightarrow> Inl (Panic ''index out of range'')
      | c # cs \<Rightarrow>
          (let cname = dedup_container index (psContainers (pSpec pod)) (cName c) in
           bind_res (dedup_volumes (map vName (psVolumes (pSpec pod))) cname (psVolumes (pSpec mountPod)) (cVolumeMounts c)) (\<lambda>(vs, ms).
             Inr (mountPod\<lparr>pSpec := (pSpec mountPod)\<lparr>psVolumes := vs, psContainers := c\<lparr>cName := cname, cVolumeMounts := ms\<rparr> # cs\<rparr>\<rparr>))))"

definition uses_claim :: "string \<Rightarrow> Volume \<Rightarrow> bool" where
  "uses_claim claim v = (case vSource v of ClaimSource c _ \<Rightarrow> c = claim | _ \<Rightarrow> False)"

definition overwrite_mounts :: "(VolumeMount \<Rightarrow> VolumeMount) \<Rightarrow> Container list \<Rightarrow> Volume \<Rightarrow> Container list" where
  "overwrite_mounts f containers volume =
     map (\<lambda>cn. cn\<lparr>cVolumeMounts := map (\<lambda>vm. if vmName vm = vName volume then f vm else vm) (cVolumeMounts cn)\<rparr>) containers"

definition injectVolume :: "sidecar_ops \<Rightarrow> Volume list \<Rightarrow> string \<Rightarrow> string \<Rightarrow> Pod \<Rightarrow> Pod" where
  "injectVolume B volumes mountPath claim pod =
     (let vols = psVolumes (pSpec pod);
          mountedVolume = filter (\<lambda>v. \<not> (is_shared_dir (vName v) \<and> vName v \<in> set (map vName vols))) volumes;
          vols' = map (\<lambda>v. if uses_claim claim v then soVolumes B v mountPath else v) vols
      in pod\<lparr>pSpec := (pSpec pod)\<lparr>psVolumes := vols' @ mountedVolume,
           psContainers := foldl (overwrite_mounts (soMounts B)) (psContainers (pSpec pod)) (filter (uses_claim claim) vols)\<rparr>\<rparr>)"

definition injectLabel :: "Pod \<Rightarrow> Pod" where
  "injectLabel pod = pod\<lparr>pMeta := (pMeta pod)\<lparr>mLabels := Some (mput InjectSidecarDone WebhookTrue (omap (mLabels (pMeta pod))))\<rparr>\<rparr>"

definition injectAnnotation :: "smap \<Rightarrow> Pod \<Rightarrow> Pod" where
  "injectAnnotation annotations pod = set_annos (Some (mputs annotations (annos pod))) pod"

definition injectContainer :: "Container \<Rightarrow> Pod \<Rightarrow> Pod" where
  "injectContainer container pod = pod\<lparr>pSpec := (pSpec pod)\<lparr>psContainers := container # psContainers (pSpec pod)\<rparr>\<rparr>"

definition sidecar_createOrUpdateSecret :: "'w K8sClient \<Rightarrow> Secret \<Rightarrow> ('w, unit) io" where
  "sidecar_createOrUpdateSecret K secret =
     c_retry K (tryE (GetSecret K (mName (seMeta secret)) (mNamespace (seMeta secret)))
       (\<lambda>e. if e = NotFound then bind (CreateSecret K (Some secret)) (\<lambda>_. ret ()) else fail e)
       (\<lambda>oldSecret. UpdateSecret K (Some (oldSecret\<lparr>seStringData := seStringData secret\<rparr>))))"

text \<open>The secrets, volume context and mount options of a volume.\<close>

definition GetSettings :: "'w K8sClient \<Rightarrow> PersistentVolume \<Rightarrow> ('w, smap \<times> smap \<times> string list) io" where
  "GetSettings K pv =
     (case pvCSI pv of None \<Rightarrow> fail (Panic ''nil pointer dereference'')
      | Some csi \<Rightarrow> (case cpNodePublishSecretRef csi of None \<Rightarrow> fail (Panic ''nil pointer dereference'')
        | Some (name, ns) \<Rightarrow>
            bind (GetSecret K name ns) (\<lambda>secret.
              let volCtx = cpVolumeAttributes csi;
                  options = (if pvAccessModes pv = [ReadOnlyMany] then [''ro''] else []) @ pvMountOptions pv
                    @ (case map_of volCtx ''mountOptions'' of None \<Rightarrow> [] | Some opts \<Rightarrow> Split CHR '','' opts)
              in ret (seData secret, volCtx, options))))"

text \<open>The sidecar of one volume is made and injected into a copy of the pod.\<close>

definition inject_sidecar :: "sidecar_ops \<Rightarrow> Pod \<Rightarrow> nat \<Rightarrow> string \<Rightarrow> string \<Rightarrow> JfsSetting \<Rightarrow> Pod res" where
  "inject_sidecar B pod index mountPath claim s =
     bind_res (soNew B s) (\<lambda>(_, mountPod0).
     bind_res (Deduplicate pod index mountPod0) (\<lambda>mountPod.
       case psContainers (pSpec mountPod) of [] \<Rightarrow> Inl (Panic ''index out of range'')
       | c # _ \<Rightarrow> Inr (injectContainer c (injectAnnotation (annos mountPod) (injectLabel
           (injectVolume B (psVolumes (pSpec mountPod)) mountPath claim pod))))))"

text \<open>The capacity is rounded down to GiB; for one below zero Go rounds up, which makes no difference to the test.\<close>

definition mutate ::
  "'x jfs_lib_scheme \<Rightarrow> globals \<Rightarrow> 'w host \<Rightarrow> 'w juicefs \<Rightarrow> 'w K8sClient \<Rightarrow> bool \<Rightarrow> Pod \<Rightarrow> PVPair \<Rightarrow> nat \<Rightarrow> ('w, Pod) io" where
  "mutate L G H J K serverless pod pair index =
     bind (GetSettings K (ppPV pair)) (\<lambda>(secrets, volCtx, options).
     bind (juicefs_Settings L G H J (case pvCSI (ppPV pair) of None \<Rightarrow> [] | Some csi \<Rightarrow> cpVolumeHandle csi)
             (Some secrets) (overwrite_ctx (Some volCtx) (Some (ppPVC pair))) options) (\<lambda>s0 w0.
       case RandStringRunes H 6 w0 of (mountPath, w1) \<Rightarrow>
         (let claim = mName (pvcMeta (ppPVC pair));
              s1 = s0\<lparr>sMountPath := path_Join [PodMountBase, mountPath], sSecretName := claim @ ''-jfs-secret'',
                      sAttr := map_option (\<lambda>a. a\<lparr>aNamespace := pod_ns pod\<rparr>) (sAttr s0)\<rparr>;
              capacity = l_quantity_value L (pvcStorageRequest (ppPVC pair));
              cap = capacity div 1024 div 1024 div 1024
          in if sAttr s0 = None then fail (Panic ''nil pointer dereference'')
             else if cap \<le> 0 then fail (Errorf ''capacity %d is too small, at least 1GiB for quota'' [FormatInt capacity])
             else
               (let B = choose_builder L G serverless pod (ppPVC pair) cap in
                bind (lift_res (with_attr s1 (NewSecret s1))) (\<lambda>secret.
                bind (sidecar_createOrUpdateSecret K (SetPVCAsOwner secret (ppPVC pair))) (\<lambda>_.
                  lift_res (inject_sidecar B pod index mountPath claim s1))))) w1))"

fun mutate_pairs ::
  "'x jfs_lib_scheme \<Rightarrow> globals \<Rightarrow> 'w host \<Rightarrow> 'w juicefs \<Rightarrow> 'w K8sClient \<Rightarrow> bool \<Rightarrow> nat \<Rightarrow> PVPair list \<Rightarrow> Pod \<Rightarrow> ('w, Pod) io" where
  "mutate_pairs L G H J K serverless i [] pod = ret pod"
| "mutate_pairs L G H J K serverless i (pair # pairs) pod =
     bind (mutate L G H J K serverless pod pair i) (mutate_pairs L G H J K serverless (Suc i) pairs)"

definition Mutate ::
  "'x jfs_lib_scheme \<Rightarrow> globals \<Rightarrow> 'w host \<Rightarrow> 'w juicefs \<Rightarrow> 'w K8sClient \<Rightarrow> bool \<Rightarrow> PVPair list \<Rightarrow> Pod \<Rightarrow> ('w, Pod) io" where
  "Mutate L G H J K serverless pairs pod = mutate_pairs L G H J K serverless 0 pairs pod"

section \<open>Validation of secrets (validator/secret.go)\<close>

fun check_configs :: "smap \<Rightarrow> unit res" where
  "check_configs [] = Inr ()"
| "check_configs ((k, v) # m) =
     (if v = [] then Inl (Errorf ''config %s is empty'' [k])
      else if \<not> HasPrefix v ''/'' then Inl (Errorf ''config %s is not absolute path'' [k])
      else check_configs m)"

definition ValidateConfigs :: "'x lib_scheme \<Rightarrow> string \<Rightarrow> unit res" where
  "ValidateConfigs L configs = bind_res (parseYamlOrJson (l_yaml_map L) (l_json_map L) configs []) check_configs"

definition ValidateEnvs :: "'x lib_scheme \<Rightarrow> string \<Rightarrow> unit res" where
  "ValidateEnvs L envs = bind_res (parseYamlOrJson (l_yaml_map L) (l_json_map L) envs []) (\<lambda>_. Inr ())"

definition SecretValidator_Validate ::
  "'x jfs_lib_scheme \<Rightarrow> globals \<Rightarrow> 'w host \<Rightarrow> 'w juicefs \<Rightarrow> Secret \<Rightarrow> ('w, unit) io" where
  "SecretValidator_Validate L G H J secret =
     (let data = seData secret in
      bind (lift_res (case map_of data ''configs'' of None \<Rightarrow> Inr () | Some c \<Rightarrow> ValidateConfigs L c)) (\<lambda>_.
      bind (lift_res (case map_of data ''envs'' of None \<Rightarrow> Inr () | Some e \<Rightarrow> ValidateEnvs L e)) (\<lambda>_.
      bind (juicefs_Settings L G H J [] (Some data) None []) (\<lambda>s.
      bind (h_mkdir_temp H) (\<lambda>tempConfDir w.
        case (if sIsCe s then
                (if mget data ''metaurl'' = [] then fail (Errorf ''metaurl is empty'' []) else juicefs_Status H (mget data ''metaurl''))
              else bind (AuthFs G H J (Some data) (s\<lparr>sClientConfPath := tempConfDir\<rparr>) True) (\<lambda>_. ret ())) w of
          (r, w1) \<Rightarrow> (r, snd (h_remove_all H tempConfDir w1)))))))"

section \<open>Handlers (handler.go)\<close>

datatype response = Allowed string | Denied string | Errored nat err | PatchFromRaw string string

definition SidecarHandler_Handle ::
  "'x jfs_lib_scheme \<Rightarrow> globals \<Rightarrow> 'w host \<Rightarrow> 'w juicefs \<Rightarrow> 'w K8sClient \<Rightarrow> (Pod \<Rightarrow> string res) \<Rightarrow> bool \<Rightarrow> string \<Rightarrow> Pod res \<Rightarrow> 'w \<Rightarrow> response res \<times> 'w" where
  "SidecarHandler_Handle L G H J K marshal serverless raw decoded =
     (case decoded of Inl e \<Rightarrow> ret (Errored 400 e)
      | Inr pod \<Rightarrow>
          if CheckExpectValue (omap (mLabels (pMeta pod))) InjectSidecarDone WebhookTrue
          then ret (Allowed ''skip mutating the pod because injection is done'')
          else if CheckExpectValue (omap (mLabels (pMeta pod))) InjectSidecarDisable WebhookTrue
          then ret (Allowed ''skip mutating the pod because injection is disabled'')
          else
            tryE (GetVolumes G K pod) (\<lambda>e. case e of Panic _ \<Rightarrow> fail e | _ \<Rightarrow> ret (Errored 400 e)) (\<lambda>(used, pairs, pod1).
              if \<not> used then ret (Allowed ''skip mutating the pod because it doesn't use JuiceFS Volume'')
              else
                tryE (Mutate L G H (J\<lparr>j_client := Some K\<rparr>) K serverless pairs pod1)
                  (\<lambda>e. case e of Panic _ \<Rightarrow> fail e | _ \<Rightarrow> ret (Errored 400 e))
                  (\<lambda>out. case marshal out of Inl e \<Rightarrow> ret (Errored 500 e) | Inr s \<Rightarrow> ret (PatchFromRaw raw s))))"

definition SecretHandler_Handle ::
  "'x jfs_lib_scheme \<Rightarrow> globals \<Rightarrow> 'w host \<Rightarrow> 'w juicefs \<Rightarrow> Secret res \<Rightarrow> ('w, response) io" where
  "SecretHandler_Handle L G H J decoded =
     (case decoded of Inl e \<Rightarrow> ret (Errored 400 e)
      | Inr secret \<Rightarrow> tryE (SecretValidator_Validate L G H (J\<lparr>j_client := None\<rparr>) secret)
          (\<lambda>e. case e of Panic _ \<Rightarrow> fail e | _ \<Rightarrow> ret (Errored 400 e)) (\<lambda>_. ret (Allowed [])))"

definition PVHandler_Handle :: "globals \<Rightarrow> 'w K8sClient \<Rightarrow> PersistentVolume res \<Rightarrow> ('w, response) io" where
  "PVHandler_Handle G K decoded =
     (case decoded of Inl e \<Rightarrow> ret (Errored 400 e)
      | Inr pv \<Rightarrow>
          (case pvCSI pv of None \<Rightarrow> ret (Allowed [])
           | Some csi \<Rightarrow>
               if cpDriver csi \<noteq> DriverName G then ret (Allowed [])
               else if pvStorageClassName pv \<noteq> [] then ret (Allowed [])
               else tryE (ListPersistentVolumesByVolumeHandle K (cpVolumeHandle csi))
                 (\<lambda>e. ret (Errored 400 e))
                 (\<lambda>existPvs. if length existPvs > 0
                   then ret (Denied (''pv '' @ mName (pvMeta pv) @ '' with volume handle '' @ cpVolumeHandle csi @ '' already exists''))
                   else ret (Allowed []))))"

section \<open>What an injection changes\<close>

definition same_container :: "Container \<Rightarrow> Container \<Rightarrow> bool" where
  "same_container c c' \<longleftrightarrow> c' = c\<lparr>cVolumeMounts := cVolumeMounts c'\<rparr> \<and>
     map (\<lambda>m. (vmName m, vmMountPath m)) (cVolumeMounts c') = map (\<lambda>m. (vmName m, vmMountPath m)) (cVolumeMounts c)"

definition replaced :: "string set \<Rightarrow> Volume \<Rightarrow> Volume \<Rightarrow> bool" where
  "replaced claims v v' \<longleftrightarrow> vName v' = vName v \<and> (if \<exists>c \<in> claims. uses_claim c v then \<not> is_claim (vSource v') else v' = v)"

text \<open>The pod \<open>out\<close> is \<open>pod\<close> with \<open>n\<close> sidecars in front, and without the volumes of the claims.\<close>

definition injected :: "nat \<Rightarrow> string set \<Rightarrow> Pod \<Rightarrow> Pod \<Rightarrow> bool" where
  "injected n claims pod out \<longleftrightarrow>
     (\<exists>sidecars apps. psContainers (pSpec out) = sidecars @ apps \<and> length sidecars = n \<and> list_all2 same_container (psContainers (pSpec pod)) apps) \<and>
     (\<exists>vols extra. psVolumes (pSpec out) = vols @ extra \<and> list_all2 (replaced claims) (psVolumes (pSpec pod)) vols)"

definition marked_done :: "Pod \<Rightarrow> bool" where
  "marked_done pod \<longleftrightarrow> map_of (omap (mLabels (pMeta pod))) InjectSidecarDone = Some WebhookTrue"

lemma same_container_refl: "same_container c c" by (simp add: same_container_def)

lemma same_container_trans: "same_container a b \<Longrightarrow> same_container b c \<Longrightarrow> same_container a c"
  by (cases a; cases b; cases c) (simp add: same_container_def)

lemma no_claim: "\<not> is_claim (vSource v) \<Longrightarrow> \<not> uses_claim c v"
  by (cases "vSource v") (simp_all add: is_claim_def uses_claim_def)

lemma replaced_trans: "replaced A u v \<Longrightarrow> replaced B v x \<Longrightarrow> replaced (A \<union> B) u x"
  using no_claim by (auto simp: replaced_def split: if_splits)

lemma injectedI:
  "psContainers (pSpec out) = sidecars @ apps \<Longrightarrow> length sidecars = n \<Longrightarrow> list_all2 same_container (psContainers (pSpec pod)) apps \<Longrightarrow>
   psVolumes (pSpec out) = kept @ extra \<Longrightarrow> list_all2 (replaced A) (psVolumes (pSpec pod)) kept \<Longrightarrow> injected n A pod out"
  unfolding injected_def by blast

lemma injected_trans:
  assumes "injected m A p q" "injected n B q r"
  shows "injected (n + m) (A \<union> B) p r"
proof -
  from assms obtain s1 a1 v1 e1 s2 a2 v2 e2 where
    p: "psContainers (pSpec q) = s1 @ a1" "length s1 = m" "list_all2 same_container (psContainers (pSpec p)) a1"
      "psVolumes (pSpec q) = v1 @ e1" "list_all2 (replaced A) (psVolumes (pSpec p)) v1"
    and q: "psContainers (pSpec r) = s2 @ a2" "length s2 = n" "list_all2 same_container (psContainers (pSpec q)) a2"
      "psVolumes (pSpec r) = v2 @ e2" "list_all2 (replaced B) (psVolumes (pSpec q)) v2"
    unfolding injected_def by blast
  from p(1) q(3) obtain x y where a2: "a2 = x @ y" "list_all2 same_container s1 x" "list_all2 same_container a1 y" by (auto simp: list_all2_append1)
  from p(4) q(5) obtain u z where v2: "v2 = u @ z" "list_all2 (replaced B) v1 u" by (auto simp: list_all2_append1)
  have "list_all2 same_container (psContainers (pSpec p)) y" using list_all2_trans [OF same_container_trans p(3) a2(3)] .
  moreover have "list_all2 (replaced (A \<union> B)) (psVolumes (pSpec p)) u" using list_all2_trans [OF replaced_trans p(5) v2(2)] .
  moreover have "length (s2 @ x) = n + m" using q(2) p(2) list_all2_lengthD [OF a2(2)] by simp
  ultimately show ?thesis unfolding injected_def q(1,4) a2(1) v2(1) by (metis append.assoc)
qed


lemma overwrite_mounts_same:
  assumes "\<And>m. vmName (f m) = vmName m" "\<And>m. vmMountPath (f m) = vmMountPath m"
  shows "list_all2 same_container cs (overwrite_mounts f cs v)"
  by (auto simp: overwrite_mounts_def list_all2_map2 same_container_def assms intro!: list.rel_refl_strong)

lemma overwrite_all_same:
  assumes "\<And>m. vmName (f m) = vmName m" "\<And>m. vmMountPath (f m) = vmMountPath m"
  shows "list_all2 same_container cs (foldl (overwrite_mounts f) cs vs)"
proof (induction vs arbitrary: cs)
  case Nil
  show ?case by (auto intro!: list.rel_refl_strong same_container_refl)
next
  case (Cons v vs)
  from list_all2_trans [OF same_container_trans overwrite_mounts_same [OF assms] Cons.IH] show ?case by simp
qed

lemma inject_sidecar_cases:
  assumes "inject_sidecar B pod index mountPath claim s = Inr out"
  obtains s' mp0 mp c cs where "soNew B s = Inr (s', mp0)" "Deduplicate pod index mp0 = Inr mp" "psContainers (pSpec mp) = c # cs"
    "out = injectContainer c (injectAnnotation (annos mp) (injectLabel (injectVolume B (psVolumes (pSpec mp)) mountPath claim pod)))"
proof -
  from assms obtain s' mp0 mp where m: "soNew B s = Inr (s', mp0)" "Deduplicate pod index mp0 = Inr mp"
    and c: "(case psContainers (pSpec mp) of [] \<Rightarrow> Inl (Panic ''index out of range'')
       | c # _ \<Rightarrow> Inr (injectContainer c (injectAnnotation (annos mp) (injectLabel (injectVolume B (psVolumes (pSpec mp)) mountPath claim pod))))) = Inr out"
    unfolding inject_sidecar_def bind_res_Inr_iff by (auto simp: bind_res_Inr_iff)
  show thesis using that m c by (cases "psContainers (pSpec mp)") auto
qed

text \<open>What every builder of the interface does: one injection puts one sidecar in front of the others.\<close>

context sidecar_builder
begin

lemma inject_one:
  assumes "inject_sidecar \<lparr>soNew = new_sidecar, soVolumes = overwrite_volume, soMounts = overwrite_mount\<rparr> pod index mountPath claim s = Inr out"
  shows "injected 1 {claim} pod out \<and> marked_done out"
proof -
  from assms obtain s' mp0 mp c cs where
    out: "out = injectContainer c (injectAnnotation (annos mp) (injectLabel (injectVolume
      \<lparr>soNew = new_sidecar, soVolumes = overwrite_volume, soMounts = overwrite_mount\<rparr> (psVolumes (pSpec mp)) mountPath claim pod)))"
    by (rule inject_sidecar_cases)
  have "list_all2 same_container (psContainers (pSpec pod)) (foldl (overwrite_mounts overwrite_mount) (psContainers (pSpec pod)) vs)" for vs
    by (rule overwrite_all_same) (simp_all add: mount_name)
  note mounts = this
  have vols: "list_all2 (replaced {claim}) vols (map (\<lambda>v. if uses_claim claim v then overwrite_volume v mountPath else v) vols)" for vols
    by (auto simp: list_all2_map2 replaced_def volume_name volume_source intro!: list.rel_refl_strong)
  have cs: "psContainers (pSpec out) = [c] @ foldl (overwrite_mounts overwrite_mount) (psContainers (pSpec pod)) (filter (uses_claim claim) (psVolumes (pSpec pod)))"
    by (simp add: out injectContainer_def injectAnnotation_def injectLabel_def injectVolume_def Let_def set_annos_def)
  obtain extra where vs: "psVolumes (pSpec out) = map (\<lambda>v. if uses_claim claim v then overwrite_volume v mountPath else v) (psVolumes (pSpec pod)) @ extra"
    by (simp add: out injectContainer_def injectAnnotation_def injectLabel_def injectVolume_def Let_def set_annos_def cong: if_cong)
  have "injected 1 {claim} pod out" by (rule injectedI [OF cs _ mounts vs vols]) simp
  moreover have "marked_done out"
    by (simp add: out marked_done_def injectContainer_def injectAnnotation_def injectLabel_def set_annos_def)
  ultimately show ?thesis ..
qed

end


lemma choose_builder_inject:
  "inject_sidecar (choose_builder L G serverless pod0 pvc capacity) pod index mountPath claim s = Inr out \<Longrightarrow>
   injected 1 {claim} pod out \<and> marked_done out"
  unfolding choose_builder_def
  by (auto split: if_splits dest: container_sidecar.inject_one vci_sidecar.inject_one cci_sidecar.inject_one serverless_sidecar.inject_one)

lemma mutate_cases:
  assumes "mutate L G H J K serverless pod pair i w = (Inr out, w')"
  obtains cap path s where "inject_sidecar (choose_builder L G serverless pod (ppPVC pair) cap) pod i path (mName (pvcMeta (ppPVC pair))) s = Inr out"
  using assms
  by (auto simp: mutate_def bind_eq lift_res_def fail_def Let_def split: prod.splits sum.splits if_splits)

lemma mutate_pairs_injected:
  "mutate_pairs L G H J K serverless i pairs pod w = (Inr out, w') \<Longrightarrow>
   injected (length pairs) ((\<lambda>p. mName (pvcMeta (ppPVC p))) ` set pairs) pod out \<and> (pairs \<noteq> [] \<longrightarrow> marked_done out)"
proof (induction pairs arbitrary: i pod w)
  case Nil
  have "injected 0 {} pod pod"
    by (rule injectedI [where sidecars = "[]" and extra = "[]"]) (auto simp: replaced_def intro!: list.rel_refl_strong same_container_refl)
  with Nil show ?case by (simp add: ret_def)
next
  case (Cons pair pairs)
  from Cons.prems obtain p1 w1 where m: "mutate L G H J K serverless pod pair i w = (Inr p1, w1)"
    and r: "mutate_pairs L G H J K serverless (Suc i) pairs p1 w1 = (Inr out, w')"
    by (auto simp: bind_eq split: prod.splits sum.splits)
  from m obtain cap path s where "inject_sidecar (choose_builder L G serverless pod (ppPVC pair) cap) pod i path (mName (pvcMeta (ppPVC pair))) s = Inr p1"
    by (rule mutate_cases)
  note one = choose_builder_inject [OF this]
  from injected_trans [OF conjunct1 [OF one] conjunct1 [OF Cons.IH [OF r]]] have
    "injected (length (pair # pairs)) ((\<lambda>p. mName (pvcMeta (ppPVC p))) ` set (pair # pairs)) pod out" by simp
  moreover have "marked_done out"
  proof (cases "pairs = []")
    case True
    with r one show ?thesis by (simp add: ret_def)
  next
    case False
    with conjunct2 [OF Cons.IH [OF r]] show ?thesis by simp
  qed
  ultimately show ?case by simp
qed

text \<open>
  C10: a pod that is mutated for the volumes it uses has one sidecar for each of them, in front of its
  own containers, which are unchanged but for the propagation of their mounts; every
  volume that used one of the claims is replaced by one that does not, under its name, and
  the others are unchanged. The pod is labelled, so that a second admission request with it
  is allowed without another injection.
\<close>

theorem Mutate_injects:
  assumes "Mutate L G H J K serverless pairs pod w = (Inr out, w')" "pairs \<noteq> []"
  shows "injected (length pairs) ((\<lambda>p. mName (pvcMeta (ppPVC p))) ` set pairs) pod out \<and>
    SidecarHandler_Handle L' G' H' J' K' marshal serverless' raw (Inr out) v = (Inr (Allowed ''skip mutating the pod because injection is done''), v)"
proof -
  from mutate_pairs_injected [OF assms(1) [unfolded Mutate_def]] assms(2) have
    i: "injected (length pairs) ((\<lambda>p. mName (pvcMeta (ppPVC p))) ` set pairs) pod out" and d: "marked_done out" by simp_all
  from d have "CheckExpectValue (omap (mLabels (pMeta out))) InjectSidecarDone WebhookTrue"
    by (auto simp: CheckExpectValue_def marked_done_def split: option.split)
  with i show ?thesis by (simp add: SidecarHandler_Handle_def ret_def)
qed

section \<open>Names of the sidecars\<close>

definition side_name :: "nat \<Rightarrow> string" where
  "side_name i = (if i = 0 then MountContainerName else MountContainerName @ ''-'' @ FormatInt (int i))"

lemma side_name_inj: "side_name i = side_name j \<longleftrightarrow> i = j"
  by (auto simp: side_name_def FormatInt_def decimal_inj)

lemma side_name_prefix: "HasPrefix (side_name i) MountContainerName"
  by (simp add: side_name_def HasPrefix_def)

lemma dedup_container_simps:
  "dedup_container i [] n = n"
  "dedup_container i (c # cs) n = dedup_container i cs (if cName c = n then n @ ''-'' @ FormatInt (int i) else n)"
  by (simp_all add: dedup_container_def)

lemma dedup_container_other: "n \<notin> cName ` set cs \<Longrightarrow> dedup_container i cs n = n"
  by (induction cs) (auto simp: dedup_container_simps)

lemma dedup_container_append: "dedup_container i (xs @ ys) n = dedup_container i ys (dedup_container i xs n)"
  by (simp add: dedup_container_def)

lemma dedup_container_next:
  assumes "map cName cs = map side_name (rev [0..<i]) @ names" "\<forall>n \<in> set names. \<not> HasPrefix n MountContainerName"
  shows "dedup_container i cs MountContainerName = side_name i"
proof (cases i)
  case 0
  then have "cName ` set cs = set names" using arg_cong [OF assms(1), of set] by simp
  then have "MountContainerName \<notin> cName ` set cs" using assms(2) side_name_prefix [of 0] by (auto simp: side_name_def)
  with 0 show ?thesis by (simp add: dedup_container_other side_name_def)
next
  case (Suc k)
  have "[0..<i] = 0 # [1..<i]" using Suc by (simp add: upt_conv_Cons)
  with assms(1) have "map cName cs = map side_name (rev [1..<i]) @ MountContainerName # names" by (simp add: side_name_def)
  then obtain xs c ys where cs: "cs = xs @ c # ys" "map cName xs = map side_name (rev [1..<i])" "cName c = MountContainerName" "map cName ys = names"
    by (auto simp: map_eq_append_conv map_eq_Cons_conv)
  have "MountContainerName \<notin> cName ` set xs"
  proof
    assume "MountContainerName \<in> cName ` set xs"
    then have "side_name 0 \<in> side_name ` {1..<i}" using arg_cong [OF cs(2), of set] by (simp add: side_name_def)
    then show False by (auto simp: side_name_inj)
  qed
  moreover have "side_name i \<notin> cName ` set ys" using assms(2) cs(4) side_name_prefix [of i] by (metis list.set_map)
  moreover have "MountContainerName @ ''-'' @ FormatInt (int i) = side_name i" using Suc by (simp add: side_name_def)
  ultimately show ?thesis unfolding cs(1) by (simp add: dedup_container_append dedup_container_simps dedup_container_other cs(3))
qed

lemma Container_name:
  assumes "Container_NewMountSidecar L G capacity s = Inr (s', pod)" "psContainers (pSpec pod) = c # cs"
  shows "cName c = MountContainerName"
proof -
  from assms(1) obtain s1 pod1 cmd where n: "NewMountPod L G [] s = Inr (s1, pod1)" and
    p: "pod = set_command cmd (upd_container (set_post_start (post_start s1 capacity)) (add_volumes (genSidecarVolumes s1) (no_metadata pod1)))"
    by (auto simp: Container_NewMountSidecar_def bind_res_Inr_iff Let_def simp del: post_start_attr)
  from n obtain a c1 where "psContainers (pSpec pod1) = [c1]" "cName c1 = MountContainerName" by (rule NewMountPod_cases)
  with p assms(2) show ?thesis by (auto simp: set_command_def)
qed

lemma same_name: "same_container c c' \<Longrightarrow> cName c' = cName c"
  by (cases c; cases c') (simp add: same_container_def)

lemma same_names: "list_all2 same_container cs cs' \<Longrightarrow> map cName cs' = map cName cs"
  by (induction rule: list_all2_induct) (simp_all add: same_name)

lemma inject_name:
  assumes "inject_sidecar (choose_builder L G False pod0 pvc cap) pod i path claim s = Inr out"
  shows "map cName (psContainers (pSpec out)) = dedup_container i (psContainers (pSpec pod)) MountContainerName # map cName (psContainers (pSpec pod))"
proof -
  let ?B = "choose_builder L G False pod0 pvc cap"
  from assms obtain s' mp0 mp c cs where n: "soNew ?B s = Inr (s', mp0)" and d: "Deduplicate pod i mp0 = Inr mp" "psContainers (pSpec mp) = c # cs"
    and out: "out = injectContainer c (injectAnnotation (annos mp) (injectLabel (injectVolume ?B (psVolumes (pSpec mp)) path claim pod)))"
    by (rule inject_sidecar_cases)
  from d obtain c0 cs0 where c0: "psContainers (pSpec mp0) = c0 # cs0" and "cName c = dedup_container i (psContainers (pSpec pod)) (cName c0)"
    by (auto simp: Deduplicate_def bind_res_Inr_iff Let_def split: list.splits)
  moreover have "cName c0 = MountContainerName" using n c0 by (intro Container_name) (simp_all add: choose_builder_def)
  moreover have "list_all2 same_container (psContainers (pSpec pod)) (foldl (overwrite_mounts Container_OverwriteVolumeMounts) (psContainers (pSpec pod)) vs)" for vs
    by (rule overwrite_all_same) (simp_all add: Container_OverwriteVolumeMounts_def)
  ultimately show ?thesis
    by (simp add: out injectContainer_def injectAnnotation_def injectLabel_def injectVolume_def Let_def set_annos_def choose_builder_def same_names)
qed

lemma mutate_pairs_names:
  assumes "mutate_pairs L G H J K False i pairs pod w = (Inr out, w')"
    and "map cName (psContainers (pSpec pod)) = map side_name (rev [0..<i]) @ names" "\<forall>n \<in> set names. \<not> HasPrefix n MountContainerName"
  shows "map cName (psContainers (pSpec out)) = map side_name (rev [0..<i + length pairs]) @ names"
  using assms(1,2)
proof (induction pairs arbitrary: i pod w)
  case (Cons pair pairs)
  from Cons.prems(1) obtain p1 w1 where m: "mutate L G H J K False pod pair i w = (Inr p1, w1)"
    and r: "mutate_pairs L G H J K False (Suc i) pairs p1 w1 = (Inr out, w')"
    by (auto simp: bind_eq split: prod.splits sum.splits)
  from m obtain cap path s where "inject_sidecar (choose_builder L G False pod (ppPVC pair) cap) pod i path (mName (pvcMeta (ppPVC pair))) s = Inr p1"
    by (rule mutate_cases)
  from inject_name [OF this] dedup_container_next [OF Cons.prems(2) assms(3)] Cons.prems(2)
  have "map cName (psContainers (pSpec p1)) = map side_name (rev [0..<Suc i]) @ names" by simp
  from Cons.IH [OF r this] show ?case by simp
qed (simp add: ret_def)



section \<open>Injections succeed\<close>

lemma dedup_volumes_total: "ms \<noteq> [] \<Longrightarrow> \<exists>vs' ms'. dedup_volumes used n vs ms = Inr (vs', ms')"
proof (induction vs arbitrary: ms)
  case (Cons v vs)
  let ?ms = "ms[mount_index (vName v) ms := (ms ! mount_index (vName v) ms)\<lparr>vmName := n @ ''-'' @ vName v\<rparr>]"
  have "?ms \<noteq> []" using Cons.prems by simp
  from Cons.IH [OF this] Cons.IH [OF Cons.prems] Cons.prems show ?case by (auto simp: Let_def bind_res_Inr_iff)
qed simp

lemma Container_total:
  assumes "getDefaultResource L = Inr r"
  shows "\<exists>s' pod c. Container_NewMountSidecar L G capacity s = Inr (s', pod) \<and> psContainers (pSpec pod) = [c] \<and> cVolumeMounts c \<noteq> []"
proof -
  from NewMountPod_total [OF assms] obtain s1 pod1 where n: "NewMountPod L G [] s = Inr (s1, pod1)" by blast
  from n obtain a c where a: "s1 = s\<lparr>sAttr := Some a\<rparr>" and c: "psContainers (pSpec pod1) = [c]" by (rule NewMountPod_cases)
  then show ?thesis using n by (auto simp: Container_NewMountSidecar_def Let_def with_attr_def set_command_def genSidecarVolumes_def)
qed

lemma inject_total:
  assumes "getDefaultResource L = Inr r"
  shows "\<exists>out. inject_sidecar (choose_builder L G False pod0 pvc cap) pod i path claim s = Inr out"
proof -
  from Container_total [OF assms] obtain s' mp c where m: "Container_NewMountSidecar L G cap s = Inr (s', mp)" "psContainers (pSpec mp) = [c]" "cVolumeMounts c \<noteq> []"
    by blast
  from dedup_volumes_total [OF m(3)] obtain vs ms where
    "dedup_volumes (map vName (psVolumes (pSpec pod))) (dedup_container i (psContainers (pSpec pod)) (cName c)) (psVolumes (pSpec mp)) (cVolumeMounts c) = Inr (vs, ms)" by blast
  with m show ?thesis by (simp add: inject_sidecar_def choose_builder_def Deduplicate_def Let_def)
qed

lemma mutate_total:
  assumes "GetSettings K (ppPV pair) w = (Inr (sec, ctx, opts), w1)"
    and "juicefs_Settings L G H J (case pvCSI (ppPV pair) of None \<Rightarrow> [] | Some csi \<Rightarrow> cpVolumeHandle csi) (Some sec) (overwrite_ctx (Some ctx) (Some (ppPVC pair))) opts w1 = (Inr s0, w2)"
    and "sAttr s0 \<noteq> None" "2 ^ 30 \<le> l_quantity_value L (pvcStorageRequest (ppPVC pair))" "getDefaultResource L = Inr r"
    and "\<forall>x v. fst (sidecar_createOrUpdateSecret K x v) = Inr ()"
  shows "\<exists>out w'. mutate L G H J K False pod pair i w = (Inr out, w')"
proof -
  obtain path w3 where p: "RandStringRunes H 6 w2 = (path, w3)" by fastforce
  have cap: "\<not> l_quantity_value L (pvcStorageRequest (ppPVC pair)) div 1024 div 1024 div 1024 \<le> 0" using assms(4) by simp
  obtain a where a: "sAttr s0 = Some a" using assms(3) by blast
  have c: "bind (sidecar_createOrUpdateSecret K x) f v = f () (snd (sidecar_createOrUpdateSecret K x v))" for x v and f :: "unit \<Rightarrow> ('a, Pod) io"
    using assms(6) [rule_format, of x v] by (cases "sidecar_createOrUpdateSecret K x v") (simp add: bind_eq)
  from inject_total [OF assms(5)] have i: "\<exists>out. inject_sidecar (choose_builder L G False pod (ppPVC pair) n) pod i path cl s = Inr out" for n cl s by blast
  have l: "bind (lift_res (Inr x)) f v = f x v" for x :: Secret and f :: "Secret \<Rightarrow> ('a, Pod) io" and v by (simp add: bind_eq lift_res_def)
  show ?thesis unfolding mutate_def bind_eq [of "GetSettings K (ppPV pair)"] assms(1) prod.case sum.case
    bind_eq [of "juicefs_Settings L G H J _ _ _ _"] assms(2) p Let_def
    using a cap i by (simp add: with_attr_def l c) (simp add: lift_res_def)
qed

section \<open>A pod with two volumes\<close>

definition wh_lib :: jfs_lib where
  "wh_lib = hex_jfs_lib\<lparr>l_quantity_value := \<lambda>_. 2 ^ 31\<rparr>"

definition wh_client :: "unit K8sClient" where
  "wh_client = idle_client\<lparr>c_secrets_get := \<lambda>ns n. if n = ''s'' then ret \<lparr>seMeta = zero_meta, seData = [(''name'', ''n''), (''metaurl'', ''redis'')],
       seStringData = [], seOwner = None\<rparr> else fail NotFound,
     c_secrets_create := \<lambda>ns s. ret s, c_retry := \<lambda>m. m\<rparr>"

definition wh_juicefs :: "unit juicefs" where
  "wh_juicefs = \<lparr>j_client = Some wh_client, j_env = (\<lambda>_. None), j_UUIDMaps = (\<lambda>_. []), j_set_UUIDMaps = (\<lambda>_ w. w), j_CacheDirMaps = (\<lambda>_. []),
     j_set_CacheDirMaps = (\<lambda>_ w. w), j_kubelet = (\<lambda>_ _. ret ()), j_fuel = 1\<rparr>"

definition wh_pair :: "string \<Rightarrow> PVPair" where
  "wh_pair claim = \<lparr>ppPV = \<lparr>pvMeta = zero_meta, pvCapacity = 0, pvCSI = Some \<lparr>cpDriver = DriverName sample_globals, cpVolumeHandle = ''v'', cpFSType = [],
       cpVolumeAttributes = [], cpNodePublishSecretRef = Some (''s'', ''ns''), cpControllerExpandSecretRef = None\<rparr>, pvClaimRef = Some (claim, ''ns''),
     pvStorageClassName = [], pvMountOptions = [], pvAccessModes = [], pvReclaimPolicy = [], pvVolumeMode = None\<rparr>,
   ppPVC = \<lparr>pvcMeta = zero_meta\<lparr>mName := claim, mNamespace := ''ns''\<rparr>, pvcStorageClassName = None, pvcVolumeName = ''v'', pvcStorageRequest = 1, pvcAccessModes = [],
     pvcSelector = False, pvcPhase = [], pvcVolumeMode = None\<rparr>\<rparr>"

definition wh_pod :: Pod where
  "wh_pod = zero_pod\<lparr>pMeta := zero_meta\<lparr>mName := ''app'', mNamespace := ''ns''\<rparr>,
     pSpec := zero_spec\<lparr>psContainers := [zero_container\<lparr>cName := ''app''\<rparr>],
       psVolumes := [\<lparr>vName = ''data'', vSource = ClaimSource ''c'' False\<rparr>, \<lparr>vName = ''logs'', vSource = ClaimSource ''d'' False\<rparr>]\<rparr>\<rparr>"

lemma wh_settings: "\<exists>s. juicefs_Settings wh_lib sample_globals idle_host wh_juicefs ''v'' (Some [(''name'', ''n''), (''metaurl'', ''redis'')]) (Some []) [] () = (Inr s, ()) \<and> sAttr s \<noteq> None"
proof -
  have "case juicefs_Settings wh_lib sample_globals idle_host wh_juicefs ''v'' (Some [(''name'', ''n''), (''metaurl'', ''redis'')]) (Some []) [] () of
      (Inl _, _) \<Rightarrow> False | (Inr s, _) \<Rightarrow> sAttr s \<noteq> None" by code_simp
  then show ?thesis by (auto split: prod.splits sum.splits)
qed

lemma wh_mutate: "\<exists>out. mutate wh_lib sample_globals idle_host wh_juicefs wh_client False pod (wh_pair claim) i () = (Inr out, ())"
proof -
  from wh_settings obtain s where s: "juicefs_Settings wh_lib sample_globals idle_host wh_juicefs ''v'' (Some [(''name'', ''n''), (''metaurl'', ''redis'')]) (Some []) [] () = (Inr s, ())" "sAttr s \<noteq> None"
    by blast
  have g: "GetSettings wh_client (ppPV (wh_pair claim)) () = (Inr ([(''name'', ''n''), (''metaurl'', ''redis'')], [], []), ())"
    by (simp add: GetSettings_def wh_pair_def wh_client_def GetSecret_def bind_eq ret_def)
  have "case getDefaultResource wh_lib of Inl _ \<Rightarrow> False | Inr _ \<Rightarrow> True" by code_simp
  then have d: "\<exists>r. getDefaultResource wh_lib = Inr r" by (simp split: sum.splits)
  have c: "overwrite_ctx (Some []) (Some (ppPVC (wh_pair claim))) = Some []" by (simp add: overwrite_ctx_def wh_pair_def zero_defs) code_simp
  from d obtain r where r: "getDefaultResource wh_lib = Inr r" by blast
  have "\<exists>out w'. mutate wh_lib sample_globals idle_host wh_juicefs wh_client False pod (wh_pair claim) i () = (Inr out, w')"
    by (rule mutate_total [OF g _ s(2) _ r]) (use s(1) c in \<open>simp_all add: wh_pair_def wh_lib_def sidecar_createOrUpdateSecret_def
      wh_client_def GetSecret_def CreateSecret_def UpdateSecret_def bind_eq tryE_def ret_def fail_def idle_client_def\<close>)
  then show ?thesis by simp
qed

lemma wh_Mutate: "\<exists>out. Mutate wh_lib sample_globals idle_host wh_juicefs wh_client False [wh_pair ''c'', wh_pair ''d''] wh_pod () = (Inr out, ())"
proof -
  from wh_mutate obtain p1 where "mutate wh_lib sample_globals idle_host wh_juicefs wh_client False wh_pod (wh_pair ''c'') 0 () = (Inr p1, ())" by blast
  moreover from wh_mutate obtain p2 where "mutate wh_lib sample_globals idle_host wh_juicefs wh_client False p1 (wh_pair ''d'') 1 () = (Inr p2, ())" by blast
  ultimately show ?thesis by (simp add: Mutate_def bind_eq ret_def)
qed

theorem Mutate_injects_witness:
  "\<exists>out. fst (Mutate wh_lib sample_globals idle_host wh_juicefs wh_client False [wh_pair ''c'', wh_pair ''d''] wh_pod ()) = Inr out \<and>
     injected 2 {''c'', ''d''} wh_pod out \<and>
     fst (SidecarHandler_Handle wh_lib sample_globals idle_host wh_juicefs wh_client (\<lambda>_. Inr []) False [] (Inr out) ())
       = Inr (Allowed ''skip mutating the pod because injection is done'')"
proof -
  from wh_Mutate obtain out where m: "Mutate wh_lib sample_globals idle_host wh_juicefs wh_client False [wh_pair ''c'', wh_pair ''d''] wh_pod () = (Inr out, ())" by blast
  from Mutate_injects [where L' = wh_lib and G' = sample_globals and H' = idle_host and J' = wh_juicefs and K' = wh_client and marshal = "\<lambda>_. Inr []"
      and serverless' = False and raw = "[]" and v = "()", OF m] m show ?thesis by (simp add: wh_pair_def numeral_2_eq_2)
qed


end
