(* ===== verification/Dashboard.thy ===== *)
theory Dashboard
  imports PodDriver Controllers
begin

text \<open>
  The dashboard: src/pkg/dashboard/index.go (lists of names in the order of creation),
  controller.go (the three controllers that keep them), utils.go, pod.go and pv.go (the
  handlers of the HTTP API). The cached reader of controller-runtime and the client for
  events and logs are the parameter \<open>reader\<close>. A handler returns what it writes to the
  response, in order. The locks of the API protect single accesses and are left out; reads
  and writes of one request are in the order of the code.
\<close>

type_synonym nsname = "string \<times> string" \<comment> \<open>namespace and name\<close>

section \<open>Indexes (index.go)\<close>

text \<open>
  A list of names from the oldest to the newest. The walk of addIndex goes from the back to the front,
  here on the reversed list. Remove of container/list clears the links of the element, so
  after it Prev returns nil and the walk ends.
\<close>

fun add_from_back :: "(nsname \<Rightarrow> ('w, ObjectMeta) io) \<Rightarrow> ObjectMeta \<Rightarrow> nsname list \<Rightarrow> ('w, nsname list) io" where
  "add_from_back getter meta [] = ret [(mNamespace meta, mName meta)]"
| "add_from_back getter meta (x # xs) =
     tryE (getter x) (\<lambda>_. ret (xs @ [(mNamespace meta, mName meta)]))
       (\<lambda>current.
          if mUID meta = mUID current then ret (x # xs)
          else if mCreationTimestamp current < mCreationTimestamp meta then ret ((mNamespace meta, mName meta) # x # xs)
          else bind (add_from_back getter meta xs) (\<lambda>ys. ret (x # ys)))"

definition addIndex :: "(nsname \<Rightarrow> ('w, ObjectMeta) io) \<Rightarrow> ObjectMeta \<Rightarrow> nsname list \<Rightarrow> ('w, nsname list) io" where
  "addIndex getter meta l = bind (add_from_back getter meta (rev l)) (\<lambda>r. ret (rev r))"

definition removeIndex :: "nsname \<Rightarrow> nsname list \<Rightarrow> nsname list" where
  "removeIndex name l = remove1 name l"

definition iterate :: "bool \<Rightarrow> nsname list \<Rightarrow> nsname list" where
  "iterate descend l = (if descend then rev l else l)"

section \<open>State and readers (api.go, utils.go)\<close>

record 'w reader =
  rd_pod :: "nsname \<Rightarrow> ('w, Pod) io"
  rd_pv :: "nsname \<Rightarrow> ('w, PersistentVolume) io"
  rd_pvc :: "nsname \<Rightarrow> ('w, PersistentVolumeClaim) io"
  rd_sc :: "string \<Rightarrow> ('w, StorageClass) io"
  rd_node :: "string \<Rightarrow> ('w, Node) io"
  rd_pods :: "smap \<Rightarrow> ('w, Pod list) io" \<comment> \<open>the labels of the selector\<close>
  rd_pvs :: "('w, PersistentVolume list) io"
  rd_scs :: "('w, StorageClass list) io"
  rd_events :: "string \<Rightarrow> string \<Rightarrow> string \<Rightarrow> ('w, string list) io" \<comment> \<open>namespace, kind, UID\<close>
  rd_logs :: "string \<Rightarrow> string \<Rightarrow> string \<Rightarrow> ('w, string) io"

record API =
  sysNamespace :: string
  csiNodeIndex :: "(string \<times> nsname) list"
  sysIndexes :: "nsname list"
  appIndexes :: "nsname list"
  pvIndexes :: "nsname list"
  pvcIndexes :: "nsname list"
  pairs :: "(nsname \<times> nsname) list"

definition NewAPI :: "string \<Rightarrow> API" where
  "NewAPI ns = \<lparr>sysNamespace = ns, csiNodeIndex = [], sysIndexes = [], appIndexes = [], pvIndexes = [], pvcIndexes = [], pairs = []\<rparr>"

definition sysNamespaced :: "API \<Rightarrow> string \<Rightarrow> nsname" where
  "sysNamespaced api name = (sysNamespace api, name)"

abbreviation labels :: "Pod \<Rightarrow> smap" where "labels pod \<equiv> omap (mLabels (pMeta pod))"

definition isAppPod :: "Pod \<Rightarrow> bool" where
  "isAppPod pod = (mhas (labels pod) UniqueIdKey \<or> mhas (labels pod) InjectSidecarDone)"

definition isSysPod :: "Pod \<Rightarrow> bool" where
  "isSysPod pod = (mget (labels pod) ''app.kubernetes.io/name'' = ''juicefs-mount'' \<or>
     mget (labels pod) ''app.kubernetes.io/name'' = ''juicefs-csi-driver'')"

definition isCsiNode :: "Pod \<Rightarrow> bool" where
  "isCsiNode pod = (mget (labels pod) ''app.kubernetes.io/name'' = ''juicefs-csi-driver'' \<and> mget (labels pod) ''app'' = ''juicefs-csi-node'')"

fun any_claim :: "'w reader \<Rightarrow> string \<Rightarrow> Volume list \<Rightarrow> ('w, bool) io" where
  "any_claim R ns [] = ret False"
| "any_claim R ns (v # vs) = (case vSource v of
     ClaimSource claim _ \<Rightarrow> tryE (rd_pvc R (ns, claim)) (\<lambda>_. any_claim R ns vs) (\<lambda>_. ret True)
   | _ \<Rightarrow> any_claim R ns vs)"

definition isAppPodUnready :: "'w reader \<Rightarrow> Pod \<Rightarrow> ('w, bool) io" where
  "isAppPodUnready R pod = any_claim R (pod_ns pod) (psVolumes (pSpec pod))"

section \<open>Controllers (controller.go)\<close>

definition pod_meta :: "'w reader \<Rightarrow> nsname \<Rightarrow> ('w, ObjectMeta) io" where
  "pod_meta R n = bind (rd_pod R n) (\<lambda>p. ret (pMeta p))"

definition pv_meta :: "'w reader \<Rightarrow> nsname \<Rightarrow> ('w, ObjectMeta) io" where
  "pv_meta R n = bind (rd_pv R n) (\<lambda>p. ret (pvMeta p))"

definition pvc_meta :: "'w reader \<Rightarrow> nsname \<Rightarrow> ('w, ObjectMeta) io" where
  "pvc_meta R n = bind (rd_pvc R n) (\<lambda>p. ret (pvcMeta p))"

definition Dashboard_Pod_Reconcile :: "'w reader \<Rightarrow> API \<Rightarrow> nsname \<Rightarrow> ('w, API) io" where
  "Dashboard_Pod_Reconcile R api name =
     tryE (rd_pod R name) (\<lambda>_. ret api) (\<lambda>pod.
       bind (if isSysPod pod \<or> isAppPod pod then ret True else isAppPodUnready R pod) (\<lambda>relevant.
         if \<not> relevant then ret api
         else if is_deleting pod then
           (let api1 = api\<lparr>appIndexes := removeIndex name (appIndexes api)\<rparr> in
            ret (if isCsiNode pod then api1\<lparr>csiNodeIndex := mdel (psNodeName (pSpec pod)) (csiNodeIndex api1)\<rparr> else api1))
         else if isSysPod pod then
           (let api1 = (if isCsiNode pod \<and> psNodeName (pSpec pod) \<noteq> []
                        then api\<lparr>csiNodeIndex := mput (psNodeName (pSpec pod)) (pod_ns pod, pod_name pod) (csiNodeIndex api)\<rparr> else api) in
            bind (addIndex (pod_meta R) (pMeta pod) (sysIndexes api1)) (\<lambda>l. ret (api1\<lparr>sysIndexes := l\<rparr>)))
         else bind (addIndex (pod_meta R) (pMeta pod) (appIndexes api)) (\<lambda>l. ret (api\<lparr>appIndexes := l\<rparr>))))"

text \<open>The filter of deletions changes the indexes itself; its result says whether to queue the pod.\<close>

definition pod_deleted :: "API \<Rightarrow> Pod \<Rightarrow> bool \<times> API" where
  "pod_deleted api pod =
     (let name = (pod_ns pod, pod_name pod);
          node = (\<lambda>a. if isCsiNode pod then a\<lparr>csiNodeIndex := mdel (psNodeName (pSpec pod)) (csiNodeIndex a)\<rparr> else a) in
      if isAppPod pod then (False, node (api\<lparr>appIndexes := removeIndex name (appIndexes api)\<rparr>))
      else if isSysPod pod then (False, node (api\<lparr>sysIndexes := removeIndex name (sysIndexes api)\<rparr>))
      else (True, api))"

definition PV_Reconcile :: "'w reader \<Rightarrow> API \<Rightarrow> nsname \<Rightarrow> ('w, API) io" where
  "PV_Reconcile R api name =
     tryE (rd_pv R name) (\<lambda>e. if e = NotFound then ret (api\<lparr>pvIndexes := removeIndex name (pvIndexes api)\<rparr>) else fail e) (\<lambda>pv.
       if mDeletionTimestamp (pvMeta pv) \<noteq> None then
         (let api1 = api\<lparr>pvIndexes := removeIndex name (pvIndexes api)\<rparr> in
          ret (case pvClaimRef pv of None \<Rightarrow> api1
            | Some (c, ns) \<Rightarrow> api1\<lparr>pairs := mdel (ns, c) (pairs api1), pvcIndexes := removeIndex (ns, c) (pvcIndexes api1)\<rparr>))
       else
         bind (addIndex (pv_meta R) (pvMeta pv) (pvIndexes api)) (\<lambda>l.
           let api1 = api\<lparr>pvIndexes := l\<rparr> in
           case pvClaimRef pv of None \<Rightarrow> ret api1
           | Some (c, ns) \<Rightarrow>
               (let api2 = api1\<lparr>pairs := mput (ns, c) name (pairs api1)\<rparr> in
                tryE (rd_pvc R (ns, c)) (\<lambda>_. ret api2) (\<lambda>pvc.
                  bind (addIndex (pvc_meta R) (pvcMeta pvc) (pvcIndexes api2)) (\<lambda>l2. ret (api2\<lparr>pvcIndexes := l2\<rparr>))))))"

definition pv_event :: "globals \<Rightarrow> PersistentVolume \<Rightarrow> bool" where
  "pv_event G pv = (case pvCSI pv of None \<Rightarrow> False | Some csi \<Rightarrow> cpDriver csi = DriverName G)"

definition PVC_Reconcile :: "globals \<Rightarrow> 'w reader \<Rightarrow> API \<Rightarrow> nsname \<Rightarrow> ('w, API) io" where
  "PVC_Reconcile G R api name =
     tryE (rd_pvc R name) (\<lambda>_. ret api) (\<lambda>pvc.
       if mDeletionTimestamp (pvcMeta pvc) \<noteq> None then ret api
       else if pvcPhase pvc = ''Pending'' then
         bind (addIndex (pvc_meta R) (pvcMeta pvc) (pvcIndexes api)) (\<lambda>l. ret (api\<lparr>pvcIndexes := l\<rparr>))
       else if pvcPhase pvc = ''Bound'' then
         (if map_option snd (map_of (pairs api) name) = Some (pvcVolumeName pvc) then ret api
          else bind (rd_pv R ([], pvcVolumeName pvc)) (\<lambda>pv.
            ret (if pv_event G pv then api\<lparr>pairs := mput name ([], pvcVolumeName pvc) (pairs api)\<rparr>
                 else api\<lparr>pairs := mdel name (pairs api)\<rparr>)))
       else ret api)"

definition pvc_created :: "PersistentVolumeClaim \<Rightarrow> bool" where
  "pvc_created pvc = (pvcPhase pvc = ''Pending'' \<or> pvcPhase pvc = ''Bound'')"

definition pvc_updated :: "API \<Rightarrow> PersistentVolumeClaim \<Rightarrow> PersistentVolumeClaim \<Rightarrow> bool \<times> API" where
  "pvc_updated api oldPvc newPvc =
     (if pvcPhase oldPvc = ''Bound'' \<and> pvcPhase newPvc \<noteq> ''Bound''
      then (False, api\<lparr>pairs := mdel (mNamespace (pvcMeta oldPvc), mName (pvcMeta oldPvc)) (pairs api)\<rparr>)
      else (pvcPhase oldPvc = ''Pending'' \<and> pvcPhase newPvc = ''Bound'', api))"

definition pvc_deleted :: "API \<Rightarrow> PersistentVolumeClaim \<Rightarrow> API" where
  "pvc_deleted api pvc =
     (let name = (mNamespace (pvcMeta pvc), mName (pvcMeta pvc)) in
      api\<lparr>pvcIndexes := removeIndex name (pvcIndexes api), pairs := mdel name (pairs api)\<rparr>)"

section \<open>Responses and pages\<close>

datatype 'a reply = Text nat string | IndentedJSON nat 'a | AbortWithStatus nat

text \<open>
  The part of a list that a page shows, with the unsigned 64-bit arithmetic of the code. A slice
  whose end is before its start panics.
\<close>

definition slice_page :: "64 word \<Rightarrow> 64 word \<Rightarrow> 'a list \<Rightarrow> 'a list res" where
  "slice_page pageSize current xs =
     (let n = of_nat (length xs); startIndex = (current - 1) * pageSize in
      if startIndex \<ge> n then Inr []
      else (let endIndex = (if startIndex + pageSize > n then n else startIndex + pageSize) in
        if endIndex < startIndex then Inl (Panic ''slice bounds out of range'')
        else Inr (take (unat endIndex - unat startIndex) (drop (unat startIndex) xs))))"

text \<open>Page size and page number of a query, or the message of the error 400.\<close>

definition page_query :: "(string \<Rightarrow> string) \<Rightarrow> string + 64 word \<times> 64 word" where
  "page_query query =
     (case ParseUint 64 (query ''pageSize'') of None \<Rightarrow> Inl ''invalid page size''
      | Some pageSize \<Rightarrow> if pageSize = 0 then Inl ''invalid page size''
          else (case ParseUint 64 (query ''current'') of None \<Rightarrow> Inl ''invalid current page''
            | Some current \<Rightarrow> if current = 0 then Inl ''invalid current page'' else Inr (of_nat pageSize, of_nat current)))"

definition matches :: "string \<Rightarrow> string \<Rightarrow> bool" where
  "matches filt s = (filt = [] \<or> Contains s filt)"

text \<open>The objects of an index that can be read and are required.\<close>

fun fetch :: "(nsname \<Rightarrow> ('w, 'a) io) \<Rightarrow> ('a \<Rightarrow> bool) \<Rightarrow> nsname list \<Rightarrow> ('w, 'a list) io" where
  "fetch getter required [] = ret []"
| "fetch getter required (n # ns) =
     tryE (getter n) (\<lambda>_. fetch getter required ns)
       (\<lambda>x. bind (fetch getter required ns) (\<lambda>xs. ret (if required x then x # xs else xs)))"

section \<open>Volumes (pv.go)\<close>

definition getPV :: "'w reader \<Rightarrow> API \<Rightarrow> string \<Rightarrow> ('w, PersistentVolume option) io" where
  "getPV R api name = find_object (rd_pv R (sysNamespaced api name))"

definition getPVC :: "'w reader \<Rightarrow> string \<Rightarrow> string \<Rightarrow> ('w, PersistentVolumeClaim option) io" where
  "getPVC R ns name = find_object (rd_pvc R (ns, name))"

definition getStorageClass :: "'w reader \<Rightarrow> string \<Rightarrow> ('w, StorageClass option) io" where
  "getStorageClass R name = find_object (rd_sc R name)"

text \<open>A claim without a volume in the table is looked up under the empty name.\<close>

fun listPVsOfPod :: "'w reader \<Rightarrow> API \<Rightarrow> string \<Rightarrow> Volume list \<Rightarrow> ('w, PersistentVolume list) io" where
  "listPVsOfPod R api ns [] = ret []"
| "listPVsOfPod R api ns (v # vs) = (case vSource v of
     ClaimSource claim _ \<Rightarrow>
       bind (getPV R api (case map_of (pairs api) (ns, claim) of None \<Rightarrow> [] | Some pvName \<Rightarrow> snd pvName)) (\<lambda>pv.
       bind (listPVsOfPod R api ns vs) (\<lambda>pvs. ret (case pv of None \<Rightarrow> pvs | Some p \<Rightarrow> p # pvs)))
   | _ \<Rightarrow> listPVsOfPod R api ns vs)"

fun listPVCsOfPod :: "'w reader \<Rightarrow> string \<Rightarrow> Volume list \<Rightarrow> ('w, PersistentVolumeClaim list) io" where
  "listPVCsOfPod R ns [] = ret []"
| "listPVCsOfPod R ns (v # vs) = (case vSource v of
     ClaimSource claim _ \<Rightarrow>
       bind (getPVC R ns claim) (\<lambda>pvc.
       bind (listPVCsOfPod R ns vs) (\<lambda>pvcs. ret (case pvc of None \<Rightarrow> pvcs | Some p \<Rightarrow> p # pvcs)))
   | _ \<Rightarrow> listPVCsOfPod R ns vs)"

abbreviation pvs_of :: "'w reader \<Rightarrow> API \<Rightarrow> Pod \<Rightarrow> ('w, PersistentVolume list) io" where
  "pvs_of R api pod \<equiv> listPVsOfPod R api (pod_ns pod) (psVolumes (pSpec pod))"

abbreviation pvcs_of :: "'w reader \<Rightarrow> Pod \<Rightarrow> ('w, PersistentVolumeClaim list) io" where
  "pvcs_of R pod \<equiv> listPVCsOfPod R (pod_ns pod) (psVolumes (pSpec pod))"

definition answer :: "string \<Rightarrow> ('w, 'a) io \<Rightarrow> ('w, 'a reply list) io" where
  "answer msg m = tryE m (\<lambda>e. case e of Panic _ \<Rightarrow> fail e | _ \<Rightarrow> ret [Text 500 msg]) (\<lambda>x. ret [IndentedJSON 200 x])"

text \<open>
  A handler of one object gets it from its middleware. Only an aborted request stops there: after
  c.String alone the handler runs too, without the object.
\<close>

definition with_object :: "('b \<Rightarrow> ('w, 'a reply list) io) \<Rightarrow> 'b option \<Rightarrow> ('w, 'a reply list) io" where
  "with_object f obj = (case obj of None \<Rightarrow> ret [Text 404 ''not found''] | Some x \<Rightarrow> f x)"

datatype 'b passed = Aborted nat | Continue "(nat \<times> string) list" "'b option"

definition chain :: "('w, 'b passed) io \<Rightarrow> ('b option \<Rightarrow> ('w, 'a reply list) io) \<Rightarrow> ('w, 'a reply list) io" where
  "chain middleware h = bind middleware (\<lambda>p. case p of Aborted code \<Rightarrow> ret [AbortWithStatus code]
     | Continue writes obj \<Rightarrow> bind (h obj) (\<lambda>ws. ret (map (\<lambda>(c, s). Text c s) writes @ ws)))"

definition getPVMiddileware :: "globals \<Rightarrow> 'w reader \<Rightarrow> API \<Rightarrow> string \<Rightarrow> ('w, PersistentVolume passed) io" where
  "getPVMiddileware G R api name = tryE (getPV R api name) (\<lambda>_. ret (Aborted 500)) (\<lambda>pv.
     ret (case pv of None \<Rightarrow> Aborted 404 | Some p \<Rightarrow> if pv_event G p then Continue [] (Some p) else Aborted 404))"

definition getPVCMiddileware :: "'w reader \<Rightarrow> string \<Rightarrow> string \<Rightarrow> ('w, PersistentVolumeClaim passed) io" where
  "getPVCMiddileware R ns name = tryE (getPVC R ns name) (\<lambda>_. ret (Aborted 500)) (\<lambda>pvc.
     ret (case pvc of None \<Rightarrow> Aborted 404 | Some p \<Rightarrow> Continue [] (Some p)))"

definition getSCMiddileware :: "globals \<Rightarrow> 'w reader \<Rightarrow> string \<Rightarrow> ('w, StorageClass passed) io" where
  "getSCMiddileware G R name = tryE (getStorageClass R name) (\<lambda>_. ret (Aborted 500)) (\<lambda>sc.
     ret (case sc of None \<Rightarrow> Aborted 404 | Some s \<Rightarrow> if sclProvisioner s = DriverName G then Continue [] (Some s) else Aborted 404))"

definition getPVHandler :: "PersistentVolume option \<Rightarrow> ('w, PersistentVolume reply list) io" where
  "getPVHandler = with_object (\<lambda>pv. ret [IndentedJSON 200 pv])"

definition getPVCHandler :: "PersistentVolumeClaim option \<Rightarrow> ('w, PersistentVolumeClaim reply list) io" where
  "getPVCHandler = with_object (\<lambda>pvc. ret [IndentedJSON 200 pvc])"

definition getSCHandler :: "StorageClass option \<Rightarrow> ('w, StorageClass reply list) io" where
  "getSCHandler = with_object (\<lambda>sc. ret [IndentedJSON 200 sc])"

definition listPodPVsHandler :: "'w reader \<Rightarrow> API \<Rightarrow> Pod option \<Rightarrow> ('w, PersistentVolume list reply list) io" where
  "listPodPVsHandler R api = with_object (\<lambda>pod. answer ''get pod persistent volumes error: %v'' (pvs_of R api pod))"

definition listPodPVCsHandler :: "'w reader \<Rightarrow> Pod option \<Rightarrow> ('w, PersistentVolumeClaim list reply list) io" where
  "listPodPVCsHandler R = with_object (\<lambda>pod. answer ''get pod persistent volume claims error: %v'' (pvcs_of R pod))"

definition listSCsHandler :: "globals \<Rightarrow> 'w reader \<Rightarrow> ('w, StorageClass list reply list) io" where
  "listSCsHandler G R = answer ''get storageClass error: %v''
     (bind (rd_scs R) (\<lambda>scs. ret (filter (\<lambda>sc. sclProvisioner sc = DriverName G) scs)))"

definition paged :: "(string \<Rightarrow> string) \<Rightarrow> ('w, 'a list) io \<Rightarrow> ('w, (nat \<times> 'a list) reply list) io" where
  "paged query m = (case page_query query of Inl msg \<Rightarrow> ret [Text 400 msg]
     | Inr (pageSize, current) \<Rightarrow> bind m (\<lambda>xs. bind (lift_res (slice_page pageSize current xs)) (\<lambda>p. ret [IndentedJSON 200 (length xs, p)])))"

definition pv_required :: "(string \<Rightarrow> string) \<Rightarrow> PersistentVolume \<Rightarrow> bool" where
  "pv_required query pv =
     (let pvcName = (case pvClaimRef pv of None \<Rightarrow> ''/'' | Some (c, ns) \<Rightarrow> ns @ ''/'' @ c) in
      matches (query ''name'') (mName (pvMeta pv)) \<and> matches (query ''pvc'') pvcName \<and> matches (query ''sc'') (pvStorageClassName pv))"

definition listPVsHandler :: "'w reader \<Rightarrow> API \<Rightarrow> (string \<Rightarrow> string) \<Rightarrow> ('w, (nat \<times> PersistentVolume list) reply list) io" where
  "listPVsHandler R api query =
     paged query (fetch (rd_pv R) (pv_required query) (iterate (query ''order'' \<noteq> ''ascend'') (pvIndexes api)))"

definition pvc_required :: "API \<Rightarrow> (string \<Rightarrow> string) \<Rightarrow> PersistentVolumeClaim \<Rightarrow> bool" where
  "pvc_required api query pvc =
     (let pvName = (case map_of (pairs api) (mNamespace (pvcMeta pvc), mName (pvcMeta pvc)) of None \<Rightarrow> [] | Some pv \<Rightarrow> snd pv);
          scName = (case pvcStorageClassName pvc of None \<Rightarrow> [] | Some sc \<Rightarrow> sc) in
      matches (query ''namespace'') (mNamespace (pvcMeta pvc)) \<and> matches (query ''name'') (mName (pvcMeta pvc)) \<and>
      matches (query ''pv'') pvName \<and> matches (query ''sc'') scName)"

definition listPVCsHandler :: "'w reader \<Rightarrow> API \<Rightarrow> (string \<Rightarrow> string) \<Rightarrow> ('w, (nat \<times> PersistentVolumeClaim list) reply list) io" where
  "listPVCsHandler R api query =
     paged query (fetch (rd_pvc R) (pvc_required api query) (iterate (query ''order'' \<noteq> ''ascend'') (pvcIndexes api)))"

section \<open>Pods (pod.go)\<close>

text \<open>A nil list is None; the lists that are found are never nil.\<close>

record PodExtra =
  pePod :: Pod
  pePvs :: "PersistentVolume list option"
  pePvcs :: "PersistentVolumeClaim list option"
  peMountPods :: "Pod list option"
  peCsiNode :: "Pod option"
  peNode :: "Node option"

definition new_extra :: "Pod \<Rightarrow> PodExtra" where
  "new_extra pod = \<lparr>pePod = pod, pePvs = None, pePvcs = None, peMountPods = None, peCsiNode = None, peNode = None\<rparr>"

definition or_nil :: "('w, 'a) io \<Rightarrow> ('w, 'a option) io" where
  "or_nil m = tryE m (\<lambda>e. case e of Panic _ \<Rightarrow> fail e | _ \<Rightarrow> ret None) (\<lambda>x. ret (Some x))"

fun mount_pods_of :: "'w reader \<Rightarrow> PersistentVolume list \<Rightarrow> ('w, Pod list) io" where
  "mount_pods_of R [] = ret []"
| "mount_pods_of R (pv # pvs) = (case pvCSI pv of None \<Rightarrow> fail (Panic ''nil pointer dereference'')
     | Some csi \<Rightarrow> tryE (rd_pods R [(PodUniqueIdLabelKey, cpVolumeHandle csi)]) (\<lambda>_. mount_pods_of R pvs)
         (\<lambda>pods. bind (mount_pods_of R pvs) (\<lambda>rest. ret (pods @ rest))))"

definition listMountPodOf :: "'w reader \<Rightarrow> API \<Rightarrow> Pod \<Rightarrow> ('w, Pod list) io" where
  "listMountPodOf R api pod = bind (pvs_of R api pod) (mount_pods_of R)"

text \<open>
  The pod that is returned is never nil once the node has a name in the index: when the pod cannot be
  read it is the zero value, beside the error.
\<close>

definition getCSINode :: "'w reader \<Rightarrow> API \<Rightarrow> string \<Rightarrow> 'w \<Rightarrow> (Pod option \<times> err option) \<times> 'w" where
  "getCSINode R api nodeName = (\<lambda>w. case map_of (csiNodeIndex api) nodeName of
     None \<Rightarrow> ((None, None), w)
   | Some name \<Rightarrow> if name = ([], []) then ((None, None), w)
       else (case rd_pod R name w of (Inr pod, w') \<Rightarrow> ((Some pod, None), w') | (Inl e, w') \<Rightarrow> ((Some zero_pod, Some e), w')))"

definition filterPVsOfPod :: "'w reader \<Rightarrow> API \<Rightarrow> string \<Rightarrow> PodExtra \<Rightarrow> ('w, bool \<times> PodExtra) io" where
  "filterPVsOfPod R api filt pod = (if filt = [] then ret (True, pod)
     else bind (or_nil (pvs_of R api (pePod pod))) (\<lambda>pvs.
       ret (list_ex (\<lambda>pv. Contains (mName (pvMeta pv)) filt) (case pvs of None \<Rightarrow> [] | Some l \<Rightarrow> l), pod\<lparr>pePvs := pvs\<rparr>)))"

definition filterMountPodsOfPod :: "'w reader \<Rightarrow> API \<Rightarrow> string \<Rightarrow> PodExtra \<Rightarrow> ('w, bool \<times> PodExtra) io" where
  "filterMountPodsOfPod R api filt pod = (if filt = [] then ret (True, pod)
     else bind (or_nil (listMountPodOf R api (pePod pod))) (\<lambda>mps.
       ret (list_ex (\<lambda>m. Contains (pod_name m) filt) (case mps of None \<Rightarrow> [] | Some l \<Rightarrow> l), pod\<lparr>peMountPods := mps\<rparr>)))"

definition filterCSINodeOfPod :: "'w reader \<Rightarrow> API \<Rightarrow> string \<Rightarrow> PodExtra \<Rightarrow> ('w, bool \<times> PodExtra) io" where
  "filterCSINodeOfPod R api filt pod =
     (if filt = [] then ret (True, pod)
      else if psNodeName (pSpec (pePod pod)) = [] then ret (False, pod)
      else (\<lambda>w. case getCSINode R api (psNodeName (pSpec (pePod pod))) w of ((node, e), w') \<Rightarrow>
        (Inr (case (node, e) of (Some n, None) \<Rightarrow> Contains (pod_name n) filt | _ \<Rightarrow> False, pod\<lparr>peCsiNode := node\<rparr>), w')))"

text \<open>The three filters are joined by \<open>&&\<close>, so a later one runs only when the earlier ones hold.\<close>

fun filter_extras :: "'w reader \<Rightarrow> API \<Rightarrow> (string \<Rightarrow> string) \<Rightarrow> PodExtra list \<Rightarrow> ('w, PodExtra list) io" where
  "filter_extras R api query [] = ret []"
| "filter_extras R api query (pod # pods) =
     bind (filterPVsOfPod R api (query ''pv'') pod) (\<lambda>(ok1, p1).
     bind (if ok1 then filterMountPodsOfPod R api (query ''mountpod'') p1 else ret (False, p1)) (\<lambda>(ok2, p2).
     bind (if ok2 then filterCSINodeOfPod R api (query ''csinode'') p2 else ret (False, p2)) (\<lambda>(ok3, p3).
     bind (filter_extras R api query pods) (\<lambda>rest. ret (if ok3 then p3 # rest else rest)))))"

text \<open>The details of a pod of the page; an error of the claims is written at once, and the list goes on.\<close>

definition complete_extra :: "'w reader \<Rightarrow> API \<Rightarrow> PodExtra \<Rightarrow> ('w, PodExtra \<times> (nat \<times> string) list) io" where
  "complete_extra R api pod =
     (let p = pePod pod; nodeName = psNodeName (pSpec p) in
      bind (case pePvs pod of Some l \<Rightarrow> ret (Some l) | None \<Rightarrow> or_nil (pvs_of R api p)) (\<lambda>pvs.
      bind (case peMountPods pod of Some l \<Rightarrow> ret (Some l) | None \<Rightarrow> or_nil (listMountPodOf R api p)) (\<lambda>mps.
      bind (case peCsiNode pod of Some n \<Rightarrow> ret (Some n) | None \<Rightarrow> (\<lambda>w. case getCSINode R api nodeName w of ((n, _), w') \<Rightarrow> (Inr n, w'))) (\<lambda>csi.
      bind (if nodeName = [] then ret (peNode pod) else or_nil (rd_node R nodeName)) (\<lambda>node.
      bind (or_nil (pvcs_of R p)) (\<lambda>pvcs.
        ret (pod\<lparr>pePvs := pvs, peMountPods := mps, peCsiNode := csi, peNode := node, pePvcs := pvcs\<rparr>,
          if pvcs = None then [(500, ''list pvcs of pod %s error %v'')] else [])))))))"

fun complete_extras :: "'w reader \<Rightarrow> API \<Rightarrow> PodExtra list \<Rightarrow> ('w, PodExtra list \<times> (nat \<times> string) list) io" where
  "complete_extras R api [] = ret ([], [])"
| "complete_extras R api (p # ps) = bind (complete_extra R api p) (\<lambda>(p', ws). bind (complete_extras R api ps) (\<lambda>(ps', ws'). ret (p' # ps', ws @ ws')))"

definition listAppPod :: "'w reader \<Rightarrow> API \<Rightarrow> (string \<Rightarrow> string) \<Rightarrow> ('w, (nat \<times> PodExtra list) reply list) io" where
  "listAppPod R api query =
     (case page_query query of Inl msg \<Rightarrow> ret [Text 400 msg]
      | Inr (pageSize, current) \<Rightarrow>
          bind (fetch (rd_pod R) (\<lambda>pod. matches (query ''name'') (pod_name pod) \<and> matches (query ''namespace'') (pod_ns pod))
                  (iterate (query ''order'' \<noteq> ''ascend'') (appIndexes api))) (\<lambda>pods.
          bind (if query ''pv'' \<noteq> [] \<or> query ''mountpod'' \<noteq> [] \<or> query ''csinode'' \<noteq> []
                then filter_extras R api query (map new_extra pods) else ret (map new_extra pods)) (\<lambda>extras.
          bind (lift_res (slice_page pageSize current extras)) (\<lambda>page.
          bind (complete_extras R api page) (\<lambda>(page', writes).
            ret (map (\<lambda>(c, s). Text c s) writes @ [IndentedJSON 200 (length extras, page')]))))))"

text \<open>A loop over indexes, which shows nothing when its end is before its start; a pod without its node is left out.\<close>

definition index_page :: "64 word \<Rightarrow> 64 word \<Rightarrow> 'a list \<Rightarrow> 'a list" where
  "index_page pageSize current xs =
     (let n = of_nat (length xs); startIndex = (current - 1) * pageSize in
      if startIndex \<ge> n then []
      else (let endIndex = (if startIndex + pageSize > n then n else startIndex + pageSize) in
        take (unat endIndex - unat startIndex) (drop (unat startIndex) xs)))"

fun with_nodes :: "'w reader \<Rightarrow> Pod list \<Rightarrow> ('w, PodExtra list) io" where
  "with_nodes R [] = ret []"
| "with_nodes R (pod # pods) =
     tryE (rd_node R (psNodeName (pSpec pod))) (\<lambda>_. with_nodes R pods)
       (\<lambda>node. bind (with_nodes R pods) (\<lambda>rest. ret ((new_extra pod)\<lparr>peNode := Some node\<rparr> # rest)))"

definition listSysPod :: "'w reader \<Rightarrow> API \<Rightarrow> (string \<Rightarrow> string) \<Rightarrow> ('w, (nat \<times> PodExtra list) reply list) io" where
  "listSysPod R api query =
     (case page_query query of Inl msg \<Rightarrow> ret [Text 400 msg]
      | Inr (pageSize, current) \<Rightarrow>
          bind (fetch (rd_pod R) (\<lambda>pod. matches (query ''name'') (pod_name pod) \<and> matches (query ''namespace'') (pod_ns pod) \<and>
                    matches (query ''node'') (psNodeName (pSpec pod)))
                  (iterate (query ''order'' = ''descend'') (sysIndexes api))) (\<lambda>pods.
          bind (with_nodes R (index_page pageSize current pods)) (\<lambda>page. ret [IndentedJSON 200 (length pods, page)])))"

definition listMountPod :: "'w reader \<Rightarrow> ('w, Pod list reply list) io" where
  "listMountPod R = answer ''list pods error %v'' (rd_pods R [(''app.kubernetes.io/name'', ''juicefs-mount'')])"

definition listCSINodePod :: "'w reader \<Rightarrow> ('w, Pod list reply list) io" where
  "listCSINodePod R = answer ''list pods error %v'' (rd_pods R [(''app.kubernetes.io/name'', ''juicefs-csi-driver''), (''app'', ''juicefs-csi-node'')])"

definition listCSIControllerPod :: "'w reader \<Rightarrow> ('w, Pod list reply list) io" where
  "listCSIControllerPod R =
     answer ''list pods error %v'' (rd_pods R [(''app.kubernetes.io/name'', ''juicefs-csi-driver''), (''app'', ''juicefs-csi-controller'')])"

definition getPodMiddileware :: "'w reader \<Rightarrow> string \<Rightarrow> string \<Rightarrow> ('w, Pod passed) io" where
  "getPodMiddileware R ns name =
     tryE (rd_pod R (ns, name)) (\<lambda>e. if e = NotFound then ret (Aborted 404) else ret (Continue [(500, ''get pod error %v'')] None)) (\<lambda>pod.
       bind (if isAppPod pod \<or> isSysPod pod then ret True else isAppPodUnready R pod) (\<lambda>relevant.
         ret (if relevant then Continue [] (Some pod) else Continue [(404, ''not found'')] None)))"

definition getPodHandler :: "Pod option \<Rightarrow> ('w, Pod reply list) io" where
  "getPodHandler = with_object (\<lambda>pod. ret [IndentedJSON 200 pod])"

definition getPodEvents :: "'w reader \<Rightarrow> Pod option \<Rightarrow> ('w, string list reply list) io" where
  "getPodEvents R = with_object (\<lambda>pod. answer ''list events error %v'' (rd_events R (pod_ns pod) ''Pod'' (mUID (pMeta pod))))"

definition getPVEvents :: "'w reader \<Rightarrow> PersistentVolume option \<Rightarrow> ('w, string list reply list) io" where
  "getPVEvents R = with_object (\<lambda>pv. answer ''list events error %v'' (rd_events R [] ''PersistentVolume'' (mUID (pvMeta pv))))"

definition getPVCEvents :: "'w reader \<Rightarrow> PersistentVolumeClaim option \<Rightarrow> ('w, string list reply list) io" where
  "getPVCEvents R = with_object (\<lambda>pvc. answer ''list events error %v'' (rd_events R (mNamespace (pvcMeta pvc)) ''PersistentVolumeClaim'' (mUID (pvcMeta pvc))))"

definition getPodNode :: "'w reader \<Rightarrow> Pod option \<Rightarrow> ('w, Node reply list) io" where
  "getPodNode R = with_object (\<lambda>pod. tryE (rd_node R (psNodeName (pSpec pod)))
     (\<lambda>e. if e = NotFound then ret [Text 404 ''not found''] else ret [Text 500 ''Get node %s error %v'']) (\<lambda>node. ret [IndentedJSON 200 node]))"

definition getPodLogs :: "'w reader \<Rightarrow> string \<Rightarrow> Pod option \<Rightarrow> ('w, unit reply list) io" where
  "getPodLogs R container = with_object (\<lambda>pod.
     if \<not> list_ex (\<lambda>c. cName c = container) (psInitContainers (pSpec pod) @ psContainers (pSpec pod))
     then ret [Text 404 (''container '' @ container @ '' not found'')]
     else tryE (rd_logs R (pod_ns pod) (pod_name pod) container) (\<lambda>_. ret [Text 500 ''get pod logs of container %s: %v'']) (\<lambda>logs. ret [Text 200 logs]))"

definition listMountPodsOfAppPod :: "'w reader \<Rightarrow> API \<Rightarrow> Pod option \<Rightarrow> ('w, Pod list reply list) io" where
  "listMountPodsOfAppPod R api = with_object (\<lambda>pod. answer ''list mount pods error %v'' (listMountPodOf R api pod))"

text \<open>The function for the UID of a target is a copy of getPodUid. After a failed list the handler goes on with no pods.\<close>

definition listAppPodsOfMountPod :: "'w reader \<Rightarrow> Pod option \<Rightarrow> ('w, Pod list reply list) io" where
  "listAppPodsOfMountPod R = with_object (\<lambda>pod.
     bind (tryE (rd_pods R []) (\<lambda>_. ret ([(500, ''list pods error %v'')], [])) (\<lambda>l. ret ([], l))) (\<lambda>(writes, podList).
       let podMap = foldl (\<lambda>m p. mput (mUID (pMeta p)) p m) [] podList;
           appPods = List.map_filter (\<lambda>(_, v). if getPodUid v = [] then None else map_of podMap (getPodUid v)) (annos pod)
       in ret (map (\<lambda>(c, s). Text c s) writes @ [IndentedJSON 200 appPods])))"

definition getCSINodeByName :: "'w reader \<Rightarrow> API \<Rightarrow> string \<Rightarrow> ('w, Pod reply list) io" where
  "getCSINodeByName R api nodeName =
     (if nodeName = [] then ret [Text 404 ''not found'']
      else (\<lambda>w. case getCSINode R api nodeName w of ((pod, e), w') \<Rightarrow>
        (Inr (case e of Some x \<Rightarrow> if x \<noteq> NotFound then [Text 500 ''get csi node %s error %v'']
                else (case pod of None \<Rightarrow> [Text 404 ''not found''] | Some p \<Rightarrow> [IndentedJSON 200 p])
            | None \<Rightarrow> (case pod of None \<Rightarrow> [Text 404 ''not found''] | Some p \<Rightarrow> [IndentedJSON 200 p])), w')))"

definition mount_pods_answer :: "'w reader \<Rightarrow> PersistentVolume \<Rightarrow> ('w, Pod list reply list) io" where
  "mount_pods_answer R pv = (case pvCSI pv of None \<Rightarrow> fail (Panic ''nil pointer dereference'')
     | Some csi \<Rightarrow> answer ''list pods error %v'' (rd_pods R [(PodUniqueIdLabelKey, cpVolumeHandle csi)]))"

definition getMountPodsOfPV :: "'w reader \<Rightarrow> PersistentVolume option \<Rightarrow> ('w, Pod list reply list) io" where
  "getMountPodsOfPV R = with_object (mount_pods_answer R)"

definition getMountPodsOfPVC :: "'w reader \<Rightarrow> API \<Rightarrow> PersistentVolumeClaim option \<Rightarrow> ('w, Pod list reply list) io" where
  "getMountPodsOfPVC R api = with_object (\<lambda>pvc.
     case map_of (pairs api) (mNamespace (pvcMeta pvc), mName (pvcMeta pvc)) of None \<Rightarrow> ret [Text 404 ''not found'']
     | Some pvName \<Rightarrow> tryE (rd_pv R pvName)
         (\<lambda>e. if e = NotFound then ret [Text 404 ''not found''] else ret [Text 500 ''get pv %s error %v'']) (mount_pods_answer R))"

definition getPVOfSC :: "'w reader \<Rightarrow> StorageClass option \<Rightarrow> ('w, PersistentVolume list reply list) io" where
  "getPVOfSC R = with_object (\<lambda>sc. answer ''list pvs error %v''
     (bind (rd_pvs R) (\<lambda>pvs. ret (filter (\<lambda>pv. pvStorageClassName pv = mName (sclMeta sc)) pvs))))"

section \<open>The order of an index\<close>

abbreviation meta_name :: "ObjectMeta \<Rightarrow> nsname" where "meta_name m \<equiv> (mNamespace m, mName m)"

abbreviation newest_first :: "(nsname \<Rightarrow> ObjectMeta) \<Rightarrow> nsname list \<Rightarrow> bool" where
  "newest_first M \<equiv> sorted_wrt (\<lambda>x y. mCreationTimestamp (M y) \<le> mCreationTimestamp (M x))"

abbreviation oldest_first :: "(nsname \<Rightarrow> ObjectMeta) \<Rightarrow> nsname list \<Rightarrow> bool" where
  "oldest_first M \<equiv> sorted_wrt (\<lambda>x y. mCreationTimestamp (M x) \<le> mCreationTimestamp (M y))"

lemma add_from_back_sorted:
  assumes "\<forall>x \<in> set rs. \<forall>w. getter x w = (Inr (M x), w)" "newest_first M rs" "distinct rs"
    and "M (meta_name meta) = meta" "\<forall>x \<in> set rs. mUID (M x) = mUID meta \<longleftrightarrow> x = meta_name meta"
  shows "\<exists>rs'. add_from_back getter meta rs w = (Inr rs', w) \<and> set rs' = insert (meta_name meta) (set rs) \<and> distinct rs' \<and> newest_first M rs'"
  using assms
proof (induction rs)
  case Nil
  then show ?case by (simp add: ret_def)
next
  case (Cons x xs)
  have g: "getter x w = (Inr (M x), w)" using Cons.prems(1) by simp
  consider "mUID meta = mUID (M x)" | "mUID meta \<noteq> mUID (M x)" "mCreationTimestamp (M x) < mCreationTimestamp meta"
    | "mUID meta \<noteq> mUID (M x)" "mCreationTimestamp meta \<le> mCreationTimestamp (M x)" by linarith
  then show ?case
  proof cases
    case 1
    then have "x = meta_name meta" using Cons.prems(5) by auto
    with 1 g Cons.prems(2,3) show ?thesis by (auto simp: tryE_def ret_def)
  next
    case 2
    have older: "mCreationTimestamp (M y) < mCreationTimestamp meta" if "y \<in> set (x # xs)" for y using that 2(2) Cons.prems(2) by fastforce
    then have "meta_name meta \<notin> set (x # xs)" using Cons.prems(4) by (metis less_irrefl)
    moreover have "newest_first M (meta_name meta # x # xs)" using older Cons.prems(2,4) by (simp add: less_imp_le)
    ultimately show ?thesis using 2 g Cons.prems(3) by (auto simp: tryE_def ret_def)
  next
    case 3
    from Cons obtain ys where ys: "add_from_back getter meta xs w = (Inr ys, w)" "set ys = insert (meta_name meta) (set xs)" "distinct ys" "newest_first M ys" by auto
    have "x \<noteq> meta_name meta" using 3(1) Cons.prems(5) by auto
    then have "distinct (x # ys)" using ys(2,3) Cons.prems(3) by simp
    moreover have "newest_first M (x # ys)" using ys(2,4) 3(2) Cons.prems(2,4) by auto
    moreover have "add_from_back getter meta (x # xs) w = (Inr (x # ys), w)" using 3 g ys(1) by (simp add: tryE_def bind_eq ret_def)
    moreover have "set (x # ys) = insert (meta_name meta) (set (x # xs))" using ys(2) by auto
    ultimately show ?thesis by blast
  qed
qed

text \<open>
  C20: an index in the order of creation stays so when an object is added, new or again: the name
  of the object is in it once and no other name is lost, while every name in the index
  can be read.
\<close>

theorem addIndex_sorted:
  assumes "\<forall>x \<in> set l. \<forall>w. getter x w = (Inr (M x), w)" "oldest_first M l" "distinct l"
    and "M (meta_name meta) = meta" "\<forall>x \<in> set l. mUID (M x) = mUID meta \<longleftrightarrow> x = meta_name meta"
  shows "\<exists>l'. addIndex getter meta l w = (Inr l', w) \<and> set l' = insert (meta_name meta) (set l) \<and> distinct l' \<and> oldest_first M l'"
proof -
  have "newest_first M (rev l)" using assms(2) by (simp add: sorted_wrt_rev)
  with add_from_back_sorted [of "rev l" getter M meta w] assms(1,3-5) obtain r where
    "add_from_back getter meta (rev l) w = (Inr r, w)" "set r = insert (meta_name meta) (set l)" "distinct r" "newest_first M r" by auto
  then show ?thesis by (intro exI [of _ "rev r"]) (simp add: addIndex_def bind_eq ret_def sorted_wrt_rev)
qed

definition sample_metas :: "nsname \<Rightarrow> ObjectMeta" where
  "sample_metas n = zero_meta\<lparr>mNamespace := fst n, mName := snd n, mUID := snd n,
     mCreationTimestamp := (if snd n = ''a'' then 1 else if snd n = ''b'' then 2 else 3)\<rparr>"

theorem addIndex_sorted_witness:
  "\<exists>l'. addIndex (\<lambda>n. ret (sample_metas n)) (sample_metas ([], ''b'')) [([], ''a''), ([], ''c'')] () = (Inr l', ()) \<and>
     set l' = {([], ''b''), ([], ''a''), ([], ''c'')} \<and> distinct l' \<and> oldest_first sample_metas l'"
  using addIndex_sorted [of "[([], ''a''), ([], ''c'')]" "\<lambda>n. ret (sample_metas n)" sample_metas "sample_metas ([], ''b'')" "()"]
  by (simp add: sample_metas_def ret_def)

text \<open>
  A name that cannot be read any more breaks the order: when the last name of an index is stale, it is
  removed, the walk over the list ends, and the new object, however young, is put
  in front of all the others, even when its name is in the list already.
\<close>

theorem addIndex_stale:
  assumes "getter s w = (Inl e, w1)"
  shows "addIndex getter meta (l @ [s]) w = (Inr (meta_name meta # l), w1)"
  using assms by (simp add: addIndex_def bind_eq tryE_def ret_def)

theorem addIndex_stale_witness:
  "addIndex (\<lambda>n. if snd n = ''s'' then fail NotFound else ret (sample_metas n)) (sample_metas ([], ''c'')) [([], ''a''), ([], ''b''), ([], ''s'')] ()
     = (Inr [([], ''c''), ([], ''a''), ([], ''b'')], ()) \<and> \<not> oldest_first sample_metas [([], ''c''), ([], ''a''), ([], ''b'')]"
  using addIndex_stale [of "\<lambda>n. if snd n = ''s'' then fail NotFound else ret (sample_metas n)" "([], ''s'')" "()" NotFound "()" "sample_metas ([], ''c'')" "[([], ''a''), ([], ''b'')]"]
  by (simp add: sample_metas_def fail_def)

section \<open>Pages\<close>

lemma page_words:
  fixes p c :: "64 word"
  assumes "0 < c" "unat c * unat p < 2 ^ 64"
  shows "unat ((c - 1) * p) = (unat c - 1) * unat p" "unat ((c - 1) * p + p) = unat c * unat p"
proof -
  have c: "unat (c - 1) = unat c - 1" using assms(1) by (simp add: unat_minus_one word_gt_0)
  have "0 < unat c" using assms(1) by (simp add: unat_gt_0 word_gt_0)
  then obtain k where k: "unat c = Suc k" using gr0_implies_Suc by blast
  show "unat ((c - 1) * p) = (unat c - 1) * unat p"
    using assms(2) c k by (simp add: unat_word_ariths)
  have "(c - 1) * p + p = c * p" by (simp add: algebra_simps)
  then show "unat ((c - 1) * p + p) = unat c * unat p" using assms(2) by (simp add: unat_word_ariths)
qed

text \<open>
  C24: a page is the part of the list that its number and size say, as long as their product
  fits in 64 bits. It need not: for a page size of \<open>2 ^ 64 - 2\<close> and the page number
  \<open>2 ^ 63\<close>, which the handlers accept, the product wraps and the slice of a list of three panics.
\<close>

theorem slice_page_exact:
  fixes pageSize current :: "64 word"
  shows "(0 < pageSize \<longrightarrow> 0 < current \<longrightarrow> unat current * unat pageSize < 2 ^ 64 \<longrightarrow> length xs < 2 ^ 64 \<longrightarrow>
      slice_page pageSize current xs = Inr (take (unat pageSize) (drop ((unat current - 1) * unat pageSize) xs)) \<and>
      index_page pageSize current xs = take (unat pageSize) (drop ((unat current - 1) * unat pageSize) xs)) \<and>
    slice_page (- 2) (2 ^ 63) [x, y, z] = Inl (Panic ''slice bounds out of range'')"
proof -
  have "slice_page pageSize current xs = Inr (take (unat pageSize) (drop ((unat current - 1) * unat pageSize) xs)) \<and>
      index_page pageSize current xs = take (unat pageSize) (drop ((unat current - 1) * unat pageSize) xs)"
    if a: "0 < current" "unat current * unat pageSize < 2 ^ 64" "length xs < 2 ^ 64"
  proof -
    let ?s = "(unat current - 1) * unat pageSize"
    note w = page_words [OF a(1,2)]
    have n: "unat (of_nat (length xs) :: 64 word) = length xs" using a(3) by (simp add: unat_of_nat take_bit_nat_eq_self)
    have "0 < unat current" using a(1) by (simp add: unat_gt_0 word_gt_0)
    then have e: "unat current * unat pageSize = ?s + unat pageSize" by (cases "unat current") simp_all
    show ?thesis
    proof (cases "length xs \<le> ?s")
      case True
      then show ?thesis by (simp add: slice_page_def index_page_def Let_def word_le_nat_alt n w)
    next
      case False
      then show ?thesis by (simp add: slice_page_def index_page_def Let_def word_le_nat_alt word_less_nat_alt n w e)
    qed
  qed
  moreover have "slice_page (- 2) (2 ^ 63) [x, y, z] = Inl (Panic ''slice bounds out of range'')" by (simp add: slice_page_def Let_def)
  ultimately show ?thesis by blast
qed

theorem slice_page_exact_witness: "slice_page 2 2 [1, 2, 3, 4, 5 :: nat] = Inr [3, 4]"
  using conjunct1 [OF slice_page_exact [of 2 2 "[1, 2, 3, 4, 5 :: nat]"]] by simp

section \<open>Missing CSI nodes\<close>

text \<open>A CSI pod that is in the index but gone is shown as an empty pod and not as missing.\<close>

lemma getCSINodeByName_gone:
  assumes "nodeName \<noteq> []" "map_of (csiNodeIndex api) nodeName = Some n" "n \<noteq> ([], [])" "rd_pod R n w = (Inl NotFound, w')"
  shows "getCSINodeByName R api nodeName w = (Inr [IndentedJSON 200 zero_pod], w')"
  using assms by (simp add: getCSINodeByName_def getCSINode_def del: map_of_eq_Some_iff)

text \<open>A pod that is deleted before it has a label stays in the index of applications.\<close>

lemma unlabelled_stays: "labels pod = [] \<Longrightarrow> pod_deleted api pod = (True, api)"
  by (simp add: pod_deleted_def isAppPod_def isSysPod_def mhas_def mget_def)

end
