(* ===== verification/Reloader.thy ===== *)
theory Reloader
  imports Config
begin

text \<open>
  StartConfigReloader of src/pkg/config/config.go: the first load, the goroutine that
  follows the events of the file watcher, and the goroutine that reloads every five
  minutes. The watcher (fsnotify) is a parameter; an event is handled in whatever world
  the surroundings have made by then.
\<close>

section \<open>The reloader\<close>

record 'w watcher =
  fs_new :: "('w, unit) io"
  fs_add :: "string \<Rightarrow> ('w, unit) io"
  fs_remove :: "string \<Rightarrow> ('w, unit) io"
  fs_Write :: "32 word" \<comment> \<open>the bits of an operation\<close>
  fs_Remove :: "32 word"

text \<open>What the two goroutines wait for; \<open>None\<close> is a receive from a closed channel.\<close>

datatype reload_event =
    FsEvent "(32 word \<times> string) option" \<comment> \<open>operation and name\<close>
  | FsError "err option"
  | Tick

text \<open>LoadConfig as the goroutines call it: the global is assigned only at the end.\<close>

definition reload :: "patch_lib \<Rightarrow> 'w host \<Rightarrow> string \<Rightarrow> string \<Rightarrow> ConfigFile \<Rightarrow> 'w \<Rightarrow> ConfigFile \<times> 'w" where
  "reload PL H env configPath cfg w =
     (case LoadConfig PL H env configPath w of (Inr cfg', w') \<Rightarrow> (cfg', w') | (Inl _, w') \<Rightarrow> (cfg, w'))"

definition renew_watch :: "'w watcher \<Rightarrow> string \<Rightarrow> string \<Rightarrow> 'w \<Rightarrow> 'w" where
  "renew_watch W configPath name w = snd (fs_add W configPath (snd (fs_remove W name w)))"

definition handle_event ::
  "patch_lib \<Rightarrow> 'w host \<Rightarrow> 'w watcher \<Rightarrow> string \<Rightarrow> string \<Rightarrow> reload_event \<Rightarrow> ConfigFile \<Rightarrow> 'w \<Rightarrow> ConfigFile \<times> 'w" where
  "handle_event PL H W env configPath ev cfg w =
     (case ev of
        FsEvent None \<Rightarrow> (cfg, w)
      | FsEvent (Some (op, name)) \<Rightarrow>
          if op \<noteq> fs_Write W \<and> op \<noteq> fs_Remove W then (cfg, w)
          else reload PL H env configPath cfg (if op = fs_Remove W then renew_watch W configPath name w else w)
      | FsError _ \<Rightarrow> (cfg, w)
      | Tick \<Rightarrow> reload PL H env configPath cfg w)"

definition StartConfigReloader ::
  "patch_lib \<Rightarrow> 'w host \<Rightarrow> 'w watcher \<Rightarrow> string \<Rightarrow> string \<Rightarrow> ConfigFile \<Rightarrow> 'w \<Rightarrow> (unit res \<times> ConfigFile) \<times> 'w" where
  "StartConfigReloader PL H W env configPath cfg w =
     (case LoadConfig PL H env configPath w of
        (Inl e, w1) \<Rightarrow> ((Inl e, cfg), w1)
      | (Inr cfg1, w1) \<Rightarrow> (case fs_new W w1 of
          (Inl e, w2) \<Rightarrow> ((Inl e, cfg1), w2)
        | (Inr _, w2) \<Rightarrow> (case fs_add W configPath w2 of (r, w3) \<Rightarrow> ((r, cfg1), w3))))"

text \<open>
  A run: each event with the world in which its handler starts. The two goroutines take
  turns in any order.
\<close>

fun reload_run ::
  "patch_lib \<Rightarrow> 'w host \<Rightarrow> 'w watcher \<Rightarrow> string \<Rightarrow> string \<Rightarrow> (reload_event \<times> 'w) list \<Rightarrow> ConfigFile \<Rightarrow> ConfigFile" where
  "reload_run PL H W env configPath [] cfg = cfg"
| "reload_run PL H W env configPath ((ev, w) # evs) cfg =
     reload_run PL H W env configPath evs (fst (handle_event PL H W env configPath ev cfg w))"

section \<open>Reference: the last readable version\<close>

text \<open>
  What a handler that reloads finds in the file, if it can be read and parsed, and which
  events make it look.
\<close>

definition file_config :: "patch_lib \<Rightarrow> 'w host \<Rightarrow> string \<Rightarrow> string \<Rightarrow> 'w \<Rightarrow> ConfigFile option" where
  "file_config PL H env configPath w = (case fst (LoadConfig PL H env configPath w) of Inr cfg \<Rightarrow> Some cfg | Inl _ \<Rightarrow> None)"

definition triggers :: "'w watcher \<Rightarrow> reload_event \<Rightarrow> bool" where
  "triggers W ev = (case ev of Tick \<Rightarrow> True | FsEvent (Some (op, _)) \<Rightarrow> op = fs_Write W \<or> op = fs_Remove W | _ \<Rightarrow> False)"

definition read_world :: "'w watcher \<Rightarrow> string \<Rightarrow> reload_event \<Rightarrow> 'w \<Rightarrow> 'w" where
  "read_world W configPath ev w = (case ev of
     FsEvent (Some (op, name)) \<Rightarrow> if op = fs_Remove W then renew_watch W configPath name w else w | _ \<Rightarrow> w)"

lemma reload_fst: "fst (reload PL H env p cfg w) = (case file_config PL H env p w of None \<Rightarrow> cfg | Some c \<Rightarrow> c)"
  by (auto simp: reload_def file_config_def split: prod.split sum.split)

lemma handle_event_fst:
  "fst (handle_event PL H W env p ev cfg w) =
     (if triggers W ev then (case file_config PL H env p (read_world W p ev w) of None \<Rightarrow> cfg | Some c \<Rightarrow> c) else cfg)"
  by (auto simp: handle_event_def triggers_def read_world_def reload_fst split: reload_event.split option.split)


end
