(* ===== verification/Server.thy ===== *)
theory Server
  imports Driver
begin

text \<open>
  How the CSI services are put together: src/pkg/driver/driver.go with the constructors of
  the node and provisioner services and of the JuiceFS provider, the provisioner's loop
  and the version of src/pkg/driver/version.go. What the program starts or asks for
  outside the repository (the cluster client, the metrics registry, the listener, the
  gRPC server, the provisioning controller) is a parameter.
\<close>

section \<open>Goroutines and the end of the process\<close>

text \<open>
  The commands start goroutines; the ones a process has started, in this order, are part
  of the state beside the world. klog.Fatal and os.Exit end the process with a status.
\<close>

datatype service =
    PprofServer
  | MetricsServer int
  | ReconcileLoop
  | PodManagerTask
  | MountManagerTask
  | WebhookManagerTask
  | ProvisionerTask

type_synonym 'w process = "'w \<times> service list"

datatype 'a outcome = Exit int | Cont 'a

definition go :: "service \<Rightarrow> 'w process \<Rightarrow> 'w process" where
  "go s p = (fst p, snd p @ [s])"

text \<open>A step on the world alone, seen from the process.\<close>

definition on_world :: "('w, 'a) io \<Rightarrow> ('w process, 'a) io" where
  "on_world m p = (case m (fst p) of (r, w) \<Rightarrow> (r, (w, snd p)))"

definition or_fatal :: "('p, 'a) io \<Rightarrow> ('a \<Rightarrow> 'p \<Rightarrow> 'b outcome \<times> 'p) \<Rightarrow> 'p \<Rightarrow> 'b outcome \<times> 'p" where
  "or_fatal m f p = (case m p of (Inl _, p') \<Rightarrow> (Exit 255, p') | (Inr x, p') \<Rightarrow> f x p')"

section \<open>Services\<close>

record 'w surroundings =
  su_new_client :: "('w, 'w K8sClient) io"
  su_must_register :: "string \<Rightarrow> ('w, unit) io" \<comment> \<open>panics for a name in use\<close>
  su_url_parse :: "string \<Rightarrow> (string \<times> string \<times> string) res"
  su_to_lower :: "string \<Rightarrow> string"
  su_listen :: "string \<Rightarrow> string \<Rightarrow> ('w, unit) io"
  su_serve :: "('w, unit) io" \<comment> \<open>until the server is stopped or fails\<close>
  su_server_version :: "'w K8sClient \<Rightarrow> ('w, string) io"
  su_provision :: "string \<Rightarrow> string \<Rightarrow> bool \<Rightarrow> int \<Rightarrow> string \<Rightarrow> 'w \<Rightarrow> 'w"
    \<comment> \<open>the provisioning controller: driver name, server version, leader election, lease, namespace\<close>

text \<open>
  The maps of a provider are the part of the world that its accessors show; a new provider
  has empty ones.
\<close>

definition NewJfsProvider :: "'w juicefs \<Rightarrow> 'w K8sClient option \<Rightarrow> ('w, 'w juicefs) io" where
  "NewJfsProvider J k8sClient =
     after (\<lambda>w. j_set_CacheDirMaps J [] (j_set_UUIDMaps J [] w)) (ret (J\<lparr>j_client := k8sClient\<rparr>))"

definition GetBasePath :: "jfs \<Rightarrow> string" where
  "GetBasePath fs = jfMountPath fs"

definition GetSetting :: "jfs \<Rightarrow> JfsSetting" where
  "GetSetting fs = jfSetting fs"

definition newNodeMetrics :: "'w surroundings \<Rightarrow> ('w, nodeMetrics) io" where
  "newNodeMetrics S =
     bind (su_must_register S ''volume_errors'') (\<lambda>_.
     bind (su_must_register S ''volume_del_errors'') (\<lambda>_. ret \<lparr>volumeErrors = 0, volumeDelErrors = 0\<rparr>))"

record 'w nodeService =
  nsJuicefs :: "'w juicefs"
  nsNodeID :: string
  nsClient :: "'w K8sClient option"
  nsMetrics :: nodeMetrics

definition newNodeService :: "'w surroundings \<Rightarrow> 'w juicefs \<Rightarrow> string \<Rightarrow> 'w K8sClient option \<Rightarrow> ('w, 'w nodeService) io" where
  "newNodeService S J nodeID k8sClient =
     bind (newNodeMetrics S) (\<lambda>metrics.
     bind (NewJfsProvider J k8sClient) (\<lambda>jfsProvider.
       ret \<lparr>nsJuicefs = jfsProvider, nsNodeID = nodeID, nsClient = k8sClient, nsMetrics = metrics\<rparr>))"

definition newProvisionerMetrics :: "'w surroundings \<Rightarrow> ('w, nat) io" where
  "newProvisionerMetrics S = bind (su_must_register S ''provision_errors'') (\<lambda>_. ret 0)"

record 'w provisionerService =
  prJuicefs :: "'w juicefs"
  prClient :: "'w K8sClient option"
  prLeaderElection :: bool
  prLeaderElectionNamespace :: string
  prLeaseDuration :: int
  prProvisionErrors :: nat

definition newProvisionerService ::
  "'w surroundings \<Rightarrow> globals \<Rightarrow> 'w juicefs \<Rightarrow> 'w K8sClient option \<Rightarrow> bool \<Rightarrow> string \<Rightarrow> int \<Rightarrow> ('w, 'w provisionerService) io" where
  "newProvisionerService S G J k8sClient leaderElection leaderElectionNamespace leaseDuration =
     bind (NewJfsProvider J k8sClient) (\<lambda>jfs.
     bind (newProvisionerMetrics S) (\<lambda>metrics.
       ret \<lparr>prJuicefs = jfs, prClient = k8sClient, prLeaderElection = leaderElection,
         prLeaderElectionNamespace = (if leaderElectionNamespace = [] then Namespace G else leaderElectionNamespace),
         prLeaseDuration = leaseDuration, prProvisionErrors = metrics\<rparr>))"

definition provisioner_Run :: "'w surroundings \<Rightarrow> globals \<Rightarrow> 'w provisionerService \<Rightarrow> 'w \<Rightarrow> unit outcome \<times> 'w" where
  "provisioner_Run S G j w =
     (case prClient j of None \<Rightarrow> (Exit 255, w)
      | Some K \<Rightarrow> (case su_server_version S K w of
          (Inl _, w1) \<Rightarrow> (Exit 255, w1)
        | (Inr serverVersion, w1) \<Rightarrow>
            (Cont (), su_provision S (DriverName G) serverVersion (prLeaderElection j) (prLeaseDuration j)
               (prLeaderElectionNamespace j) w1)))"

section \<open>The driver (driver.go)\<close>

text \<open>
  The driver embeds the three services. The providers are separate objects with their own
  maps: each is given by its own accessors.
\<close>

record 'w Driver_struct =
  dController :: controllerService
  dControllerJfs :: "'w juicefs"
  dNode :: "'w nodeService"
  dProvisioner :: "'w provisionerService"
  dEndpoint :: string

definition NewDriver ::
  "'w surroundings \<Rightarrow> globals \<Rightarrow> 'w juicefs \<times> 'w juicefs \<times> 'w juicefs \<Rightarrow> string \<Rightarrow> string \<Rightarrow> bool \<Rightarrow> string \<Rightarrow> int
    \<Rightarrow> ('w, 'w Driver_struct) io" where
  "NewDriver S G Js endpoint nodeID leaderElection leaderElectionNamespace leaseDuration =
     (case Js of (Jc, Jn, Jp) \<Rightarrow>
      bind (if ByProcess G then ret None else bind (su_new_client S) (\<lambda>K. ret (Some K))) (\<lambda>k8sClient.
      bind (NewJfsProvider Jc k8sClient) (\<lambda>jfs.
      bind (newNodeService S Jn nodeID k8sClient) (\<lambda>ns.
      bind (newProvisionerService S G Jp k8sClient leaderElection leaderElectionNamespace leaseDuration) (\<lambda>ps.
        ret \<lparr>dController = newControllerService, dControllerJfs = jfs, dNode = ns, dProvisioner = ps, dEndpoint = endpoint\<rparr>)))))"

definition Driver_Run :: "'w surroundings \<Rightarrow> globals \<Rightarrow> 'w host \<Rightarrow> 'w Driver_struct \<Rightarrow> ('w process, unit) io" where
  "Driver_Run S G H d =
     after (if Provisioner G then go ProvisionerTask else (\<lambda>p. p))
       (bind (on_world (ParseEndpoint (su_url_parse S) (su_to_lower S) H (dEndpoint d))) (\<lambda>(scheme, addr).
        bind (on_world (su_listen S scheme addr)) (\<lambda>_.
          on_world (su_serve S))))"

section \<open>Version (version.go)\<close>

record VersionInfo =
  viDriverVersion :: string
  viGitCommit :: string
  viBuildDate :: string
  viGoVersion :: string
  viCompiler :: string
  viPlatform :: string

text \<open>The variables set at build time, and the values of package runtime: version, compiler, system, architecture.\<close>

definition GetVersion :: "string \<times> string \<times> string \<Rightarrow> string \<times> string \<times> string \<times> string \<Rightarrow> VersionInfo" where
  "GetVersion build rt = (case (build, rt) of ((driverVersion, gitCommit, buildDate), (version, compiler, goos, goarch)) \<Rightarrow>
     \<lparr>viDriverVersion = driverVersion, viGitCommit = gitCommit, viBuildDate = buildDate, viGoVersion = version,
      viCompiler = compiler, viPlatform = goos @ ''/'' @ goarch\<rparr>)"

definition GetVersionJSON :: "(VersionInfo \<Rightarrow> string res) \<Rightarrow> string \<times> string \<times> string \<Rightarrow> string \<times> string \<times> string \<times> string \<Rightarrow> string res" where
  "GetVersionJSON marshal build rt = bind_res (marshal (GetVersion build rt)) Inr"

section \<open>Lemmas\<close>

lemma NewDriver_clients:
  assumes "NewDriver S G Js endpoint nodeID le ns lease w = (Inr d, w')"
  shows "j_client (dControllerJfs d) = prClient (dProvisioner d)" "nsClient (dNode d) = prClient (dProvisioner d)"
    "j_client (nsJuicefs (dNode d)) = prClient (dProvisioner d)" "j_client (prJuicefs (dProvisioner d)) = prClient (dProvisioner d)"
    "prClient (dProvisioner d) = None \<longleftrightarrow> ByProcess G" "nsNodeID (dNode d) = nodeID" "dEndpoint d = endpoint"
  using assms by (auto simp: NewDriver_def NewJfsProvider_def newNodeService_def newNodeMetrics_def newProvisionerService_def
      newProvisionerMetrics_def bind_eq after_def ret_def split: prod.splits sum.splits if_splits)

lemma go_snd [simp]: "snd (go s p) = snd p @ [s]" "fst (go s p) = fst p"
  by (simp_all add: go_def)

lemma on_world_started [simp]: "snd (snd (on_world m p)) = snd p"
  by (simp add: on_world_def split: prod.split)

lemma on_world_started': "on_world m p = (r, p') \<Longrightarrow> snd p' = snd p"
  by (metis on_world_started snd_conv)

text \<open>Besides the provisioner, running the driver starts no goroutine.\<close>

lemma Driver_Run_started: "snd (snd (Driver_Run S G H d p)) = snd p @ (if Provisioner G then [ProvisionerTask] else [])"
  by (auto simp: Driver_Run_def bind_eq after_def split: prod.split sum.split dest!: on_world_started')

end
