(* ===== verification/Commands.thy ===== *)
theory Commands
  imports Server Controllers Reloader Webhook
begin

text \<open>
  The commands: the flags of src/cmd/main.go, the configuration of the node and of the
  controller from flags and environment (src/cmd/node.go, src/cmd/controller.go), what each
  of them starts, and the managers of src/cmd/app. Flag parsing (cobra), the HTTP servers
  and the controller runtime are outside the repository.
\<close>

section \<open>Flags (main.go)\<close>

record flags =
  f_endpoint :: string
  f_version :: bool
  f_nodeID :: string
  f_formatInPod :: bool
  f_process :: bool
  f_configPath :: string
  f_provisioner :: bool
  f_cacheConf :: bool
  f_webhook :: bool
  f_certDir :: string
  f_webhookPort :: int
  f_validationWebhook :: bool
  f_podManager :: bool
  f_reconcilerInterval :: int
  f_leaderElection :: bool
  f_leaderElectionNamespace :: string
  f_leaderElectionLeaseDuration :: int

definition default_flags :: flags where
  "default_flags = \<lparr>f_endpoint = ''unix://tmp/csi.sock'', f_version = False, f_nodeID = [], f_formatInPod = False,
     f_process = False, f_configPath = [], f_provisioner = False, f_cacheConf = False, f_webhook = False,
     f_certDir = ''/etc/webhook/certs'', f_webhookPort = 9444, f_validationWebhook = False, f_podManager = False,
     f_reconcilerInterval = 5, f_leaderElection = False, f_leaderElectionNamespace = [],
     f_leaderElectionLeaseDuration = 15 * second\<rparr>"

section \<open>Configuration\<close>

text \<open>
  The parts that both commands have: a variable of the environment that replaces a global
  when it is set, the immutable flag, and the images of the mount pods.
\<close>

definition from_env :: "environ \<Rightarrow> string \<Rightarrow> ((string \<Rightarrow> string) \<Rightarrow> globals \<Rightarrow> globals) \<Rightarrow> globals \<Rightarrow> globals" where
  "from_env env key upd G = (if Getenv env key \<noteq> [] then upd (\<lambda>_. Getenv env key) G else G)"

definition immutable_env :: "environ \<Rightarrow> globals \<Rightarrow> globals" where
  "immutable_env env G = (let jfsImmutable = Getenv env ''JUICEFS_IMMUTABLE'' in
     if jfsImmutable \<noteq> [] then (case ParseBool jfsImmutable of Some b \<Rightarrow> G\<lparr>Immutable := b\<rparr> | None \<Rightarrow> G) else G)"

definition image_env :: "environ \<Rightarrow> globals \<Rightarrow> globals" where
  "image_env env G =
     (let G1 = from_env env ''JUICEFS_CE_MOUNT_IMAGE'' DefaultCEMountImage_update G;
          G2 = from_env env ''JUICEFS_EE_MOUNT_IMAGE'' DefaultEEMountImage_update G1;
          mountPodImage = Getenv env ''JUICEFS_MOUNT_IMAGE''
      in if mountPodImage \<noteq> [] then
           (let (hasCE, hasEE) = ImageResol mountPodImage;
                G3 = (if hasCE then G2\<lparr>DefaultCEMountImage := mountPodImage\<rparr> else G2)
            in if hasEE then G3\<lparr>DefaultEEMountImage := mountPodImage\<rparr> else G3)
         else G2)"

text \<open>A duration that cannot be parsed is zero, so it never raises the limit.\<close>

definition duration_env :: "'x lib_scheme \<Rightarrow> environ \<Rightarrow> string \<Rightarrow> int \<Rightarrow> int" where
  "duration_env L env key old =
     (if Getenv env key \<noteq> [] then
        (let duration = (case l_parse_duration L (Getenv env key) of Inl _ \<Rightarrow> 0 | Inr d \<Rightarrow> d)
         in if old < duration then duration else old)
      else old)"

definition node_env :: "'x lib_scheme \<Rightarrow> environ \<Rightarrow> globals \<Rightarrow> globals" where
  "node_env L env G =
     (let G1 = immutable_env env (from_env env ''DRIVER_NAME'' DriverName_update G);
          G2 = G1\<lparr>NodeName := Getenv env ''NODE_NAME'', Namespace := Getenv env ''JUICEFS_MOUNT_NAMESPACE'',
                 PodName := Getenv env ''POD_NAME'', MountPointPath := Getenv env ''JUICEFS_MOUNT_PATH'',
                 JFSConfigPath := Getenv env ''JUICEFS_CONFIG_PATH'', HostIp := Getenv env ''HOST_IP'',
                 KubeletPort := Getenv env ''KUBELET_PORT''\<rparr>;
          G3 = G2\<lparr>ReconcileTimeout := duration_env L env ''JUICEFS_RECONCILE_TIMEOUT'' (ReconcileTimeout G2),
                 SecretReconcilerInterval := duration_env L env ''JUICEFS_CONFIG_UPDATE_INTERVAL'' (SecretReconcilerInterval G2)\<rparr>;
          G4 = from_env env ''JUICEFS_MOUNT_PRIORITY_NAME'' JFSMountPriorityName_update G3;
          G5 = from_env env ''JUICEFS_MOUNT_PREEMPTION_POLICY'' JFSMountPreemptionPolicy_update G4
      in image_env env G5)"

definition parseNodeConfig ::
  "'x lib_scheme \<Rightarrow> environ \<Rightarrow> ('w, 'w K8sClient) io \<Rightarrow> flags \<Rightarrow> globals \<Rightarrow> 'w \<Rightarrow> globals outcome \<times> 'w" where
  "parseNodeConfig L env newClient F G w =
     (let G1 = G\<lparr>ByProcess := f_process F\<rparr> in
      if f_process F then (Cont (G1\<lparr>FormatInPod := False\<rparr>), w)
      else
        (let G2 = node_env L env (G1\<lparr>FormatInPod := f_formatInPod F\<rparr>) in
         if PodName G2 = [] \<or> Namespace G2 = [] then (Exit 255, w)
         else
           (let G3 = G2\<lparr>ReconcilerInterval := (if f_reconcilerInterval F < 5 then 5 else f_reconcilerInterval F)\<rparr> in
            case newClient w of
              (Inl _, w1) \<Rightarrow> (Exit 0, w1)
            | (Inr k8sclient, w1) \<Rightarrow> (case GetPod k8sclient (PodName G3) (Namespace G3) w1 of
                (Inl _, w2) \<Rightarrow> (Exit 0, w2)
              | (Inr pod, w2) \<Rightarrow> (Cont (G3\<lparr>CSIPod := pod\<rparr>), w2)))))"

definition controller_env :: "environ \<Rightarrow> globals \<Rightarrow> globals" where
  "controller_env env G =
     image_env env ((immutable_env env G)\<lparr>NodeName := Getenv env ''NODE_NAME'', Namespace := Getenv env ''JUICEFS_MOUNT_NAMESPACE'',
       MountPointPath := Getenv env ''JUICEFS_MOUNT_PATH'', JFSConfigPath := Getenv env ''JUICEFS_CONFIG_PATH''\<rparr>)"

definition parseControllerConfig ::
  "environ \<Rightarrow> ('w, 'w K8sClient) io \<Rightarrow> flags \<Rightarrow> globals \<Rightarrow> 'w \<Rightarrow> globals outcome \<times> 'w" where
  "parseControllerConfig env newClient F G w =
     (let G1 = G\<lparr>ByProcess := f_process F, Webhook := f_webhook F, Provisioner := f_provisioner F,
                CacheClientConf := f_cacheConf F, FormatInPod := f_formatInPod F, ValidatingWebhook := f_validationWebhook F\<rparr>;
          G2 = (from_env env ''DRIVER_NAME'' DriverName_update G1)\<lparr>MountManager := True\<rparr>
      in if f_process F then
           (Cont (G2\<lparr>FormatInPod := False, MountManager := False, Webhook := False, Provisioner := False\<rparr>), w)
         else
           (let G3 = (if f_webhook F then G2\<lparr>FormatInPod := True, MountManager := False, ByProcess := False\<rparr> else G2);
                G4 = controller_env env G3
            in if \<not> Webhook G4 then
                 (case newClient w of
                    (Inl _, w1) \<Rightarrow> (Exit 0, w1)
                  | (Inr k8sclient, w1) \<Rightarrow>
                      (let CSINodeDsName = (if Getenv env ''JUICEFS_CSI_NODE_DS_NAME'' \<noteq> []
                             then Getenv env ''JUICEFS_CSI_NODE_DS_NAME'' else ''juicefs-csi-node'')
                       in case GetDaemonSet k8sclient CSINodeDsName (Namespace G4) w1 of
                            (Inl _, w2) \<Rightarrow> (Exit 0, w2)
                          | (Inr spec, w2) \<Rightarrow> (Cont (G4\<lparr>CSIPod := zero_pod\<lparr>pSpec := spec\<rparr>\<rparr>), w2)))
               else (Cont G4, w)))"

section \<open>Managers (cmd/app)\<close>

text \<open>
  The controller runtime: its configuration, managers, controllers, watches and the
  webhook server. A manager's cache holds, of the kinds it has a selector for, the objects
  with the label.
\<close>

datatype kind = PodKind | JobKind | SecretKind

record manager_options =
  mo_port :: int
  mo_certDir :: string
  mo_metrics :: string
  mo_leaderElection :: bool
  mo_leaderElectionID :: string
  mo_leaderElectionNamespace :: string
  mo_leaseDuration :: "int option"
  mo_selectors :: "(kind \<times> smap) list"

record 'w runtime =
  rt_get_config :: "('w, unit) io"
  rt_new_manager :: "manager_options \<Rightarrow> ('w, unit) io"
  rt_new_controller :: "string \<Rightarrow> ('w, unit) io"
  rt_watch :: "string \<Rightarrow> kind \<Rightarrow> ('w, unit) io"
  rt_register :: "string \<Rightarrow> 'w \<Rightarrow> 'w"
  rt_start :: "('w, unit) io"

definition SetupWithManager :: "'w runtime \<Rightarrow> string \<Rightarrow> kind \<Rightarrow> ('w, unit) io" where
  "SetupWithManager R name k = bind (rt_new_controller R name) (\<lambda>_. rt_watch R name k)"

definition new_manager :: "'w runtime \<Rightarrow> ('w, 'w K8sClient) io \<Rightarrow> manager_options \<Rightarrow> ('w, 'w K8sClient) io" where
  "new_manager R newClient opts = bind (rt_get_config R) (\<lambda>_. bind (rt_new_manager R opts) (\<lambda>_. newClient))"

definition mount_options :: "flags \<Rightarrow> manager_options" where
  "mount_options F = \<lparr>mo_port = 9443, mo_certDir = [], mo_metrics = ''0.0.0.0:8083'', mo_leaderElection = f_leaderElection F,
     mo_leaderElectionID = ''mount.juicefs.com'', mo_leaderElectionNamespace = f_leaderElectionNamespace F,
     mo_leaseDuration = Some (f_leaderElectionLeaseDuration F),
     mo_selectors = [(PodKind, [(PodTypeKey, PodTypeValue)]), (JobKind, [(PodTypeKey, JobTypeValue)])]\<rparr>"

definition NewMountManager :: "'w runtime \<Rightarrow> ('w, 'w K8sClient) io \<Rightarrow> flags \<Rightarrow> ('w, 'w K8sClient) io" where
  "NewMountManager R newClient F = new_manager R newClient (mount_options F)"

definition MountManager_Start :: "'w runtime \<Rightarrow> globals \<Rightarrow> 'w \<Rightarrow> unit outcome \<times> 'w" where
  "MountManager_Start R G w =
     (case bind (SetupWithManager R (wName MountController_watch) PodKind) (\<lambda>_.
           bind (SetupWithManager R (wName JobController_watch) JobKind) (\<lambda>_.
             if CacheClientConf G then SetupWithManager R (wName SecretController_watch) SecretKind else ret ())) w of
        (Inl _, w1) \<Rightarrow> (Cont (), w1)
      | (Inr _, w1) \<Rightarrow> (case rt_start R w1 of (Inl _, w2) \<Rightarrow> (Exit 1, w2) | (Inr _, w2) \<Rightarrow> (Cont (), w2)))"

definition pod_options :: manager_options where
  "pod_options = \<lparr>mo_port = 9442, mo_certDir = [], mo_metrics = ''0.0.0.0:8082'', mo_leaderElection = False,
     mo_leaderElectionID = ''pod.juicefs.com'', mo_leaderElectionNamespace = [], mo_leaseDuration = None,
     mo_selectors = [(PodKind, [(PodTypeKey, PodTypeValue)])]\<rparr>"

definition NewPodManager :: "'w runtime \<Rightarrow> ('w, 'w K8sClient) io \<Rightarrow> ('w, 'w K8sClient) io" where
  "NewPodManager R newClient = new_manager R newClient pod_options"

definition PodManager_Start :: "'w runtime \<Rightarrow> ('w, unit) io" where
  "PodManager_Start R = bind (SetupWithManager R (wName PodController_watch) PodKind) (\<lambda>_. rt_start R)"

definition webhook_options :: "flags \<Rightarrow> manager_options" where
  "webhook_options F = \<lparr>mo_port = f_webhookPort F, mo_certDir = f_certDir F, mo_metrics = ''0.0.0.0:8084'',
     mo_leaderElection = f_leaderElection F, mo_leaderElectionID = ''webhook.juicefs.com'',
     mo_leaderElectionNamespace = f_leaderElectionNamespace F, mo_leaseDuration = Some (f_leaderElectionLeaseDuration F),
     mo_selectors = [(PodKind, [(InjectSidecarDone, WebhookTrue)])]\<rparr>"

definition NewWebhookManager :: "'w runtime \<Rightarrow> ('w, 'w K8sClient) io \<Rightarrow> flags \<Rightarrow> globals \<Rightarrow> ('w, 'w K8sClient) io" where
  "NewWebhookManager R newClient F G =
     bind (new_manager R newClient (webhook_options F)) (\<lambda>k8sClient.
     bind (if CacheClientConf G then SetupWithManager R (wName SecretController_watch) SecretKind else ret ()) (\<lambda>_. ret k8sClient))"

definition SidecarPath :: string where "SidecarPath = ''/juicefs/inject-v1-pod''"
definition ServerlessPath :: string where "ServerlessPath = ''/juicefs/serverless/inject-v1-pod''"
definition SecretPath :: string where "SecretPath = ''/juicefs/validate-secret''"
definition PVPath :: string where "PVPath = ''/juicefs/validate-pv''"

definition Register :: "'w runtime \<Rightarrow> globals \<Rightarrow> 'w \<Rightarrow> 'w" where
  "Register R G w =
     (let w1 = rt_register R ServerlessPath (rt_register R SidecarPath w)
      in if ValidatingWebhook G then rt_register R PVPath (rt_register R SecretPath w1) else w1)"

definition WebhookManager_Start :: "'w runtime \<Rightarrow> globals \<Rightarrow> ('w, unit) io" where
  "WebhookManager_Start R G =
     after (Register R G) (bind (SetupWithManager R (wName AppController_watch) PodKind) (\<lambda>_. rt_start R))"

section \<open>The node and the controller\<close>

text \<open>The goroutines that run a manager, as the process sees them.\<close>

definition mount_task :: "'w runtime \<Rightarrow> ('w, 'w K8sClient) io \<Rightarrow> flags \<Rightarrow> globals \<Rightarrow> 'w \<Rightarrow> unit outcome \<times> 'w" where
  "mount_task R newClient F G w = (case NewMountManager R newClient F w of
     (Inl _, w1) \<Rightarrow> (Cont (), w1) | (Inr _, w1) \<Rightarrow> MountManager_Start R G w1)"

definition webhook_task :: "'w runtime \<Rightarrow> ('w, 'w K8sClient) io \<Rightarrow> flags \<Rightarrow> globals \<Rightarrow> 'w \<Rightarrow> unit outcome \<times> 'w" where
  "webhook_task R newClient F G =
     or_fatal (NewWebhookManager R newClient F G) (\<lambda>_. or_fatal (WebhookManager_Start R G) (\<lambda>_ w. (Cont (), w)))"

definition pod_task :: "'w runtime \<Rightarrow> ('w, 'w K8sClient) io \<Rightarrow> 'w \<Rightarrow> unit outcome \<times> 'w" where
  "pod_task R newClient = or_fatal (NewPodManager R newClient) (\<lambda>_. or_fatal (PodManager_Start R) (\<lambda>_ w. (Cont (), w)))"

definition run_driver ::
  "'w surroundings \<Rightarrow> globals \<Rightarrow> 'w host \<Rightarrow> 'w juicefs \<times> 'w juicefs \<times> 'w juicefs \<Rightarrow> flags \<Rightarrow> 'w process \<Rightarrow> globals outcome \<times> 'w process" where
  "run_driver S G H Js F =
     or_fatal (on_world (NewDriver S G Js (f_endpoint F) (f_nodeID F) (f_leaderElection F) (f_leaderElectionNamespace F)
         (f_leaderElectionLeaseDuration F)))
       (\<lambda>drv. or_fatal (Driver_Run S G H drv) (\<lambda>_ p. (Cont G, p)))"

text \<open>
  retry.OnError with the default backoff is a parameter on the steps of the process. The
  reconciler is started by a successful StartReconciler only, as its last step.
\<close>

definition start_reconciler ::
  "('t, 'c) transport_lib \<Rightarrow> environ \<Rightarrow> ('w, 't, 'r) kubelet_http \<Rightarrow> ('w, 'w K8sClient) io \<Rightarrow> globals \<Rightarrow> 'w host \<Rightarrow> ('w process, unit) io" where
  "start_reconciler T env KH newClient G H = bind (on_world (StartReconciler T env KH newClient G H)) (\<lambda>_. after (go ReconcileLoop) (ret ()))"

definition start_manager ::
  "(('w process, unit) io \<Rightarrow> ('w process, unit) io) \<Rightarrow> ('w process, unit) io \<Rightarrow> globals \<Rightarrow> 'w process \<Rightarrow> 'w process" where
  "start_manager retry start G p =
     (if KubeletPort G \<noteq> [] \<and> HostIp G \<noteq> [] then
        (case retry start p of (Inr _, p1) \<Rightarrow> p1 | (Inl _, p1) \<Rightarrow> go PodManagerTask p1)
      else go PodManagerTask p)"

definition WebPort :: "environ \<Rightarrow> int" where
  "WebPort env = MustGetWebPort (env ''JUICEFS_CSI_WEB_PORT'')"

definition servers :: "environ \<Rightarrow> 'w process \<Rightarrow> 'w process" where
  "servers env p = go (MetricsServer (WebPort env)) (go PprofServer p)"

definition nodeRun ::
  "'x lib_scheme \<Rightarrow> environ \<Rightarrow> 'w surroundings \<Rightarrow> ('t, 'c) transport_lib \<Rightarrow> ('w, 't, 'r) kubelet_http \<Rightarrow> 'w host \<Rightarrow>
   'w juicefs \<times> 'w juicefs \<times> 'w juicefs \<Rightarrow> (('w process, unit) io \<Rightarrow> ('w process, unit) io) \<Rightarrow> flags \<Rightarrow> globals \<Rightarrow>
   'w process \<Rightarrow> globals outcome \<times> 'w process" where
  "nodeRun L env S T KH H Js retry F G p =
     (case parseNodeConfig L env (su_new_client S) F G (fst p) of
        (Exit c, w1) \<Rightarrow> (Exit c, (w1, snd p))
      | (Cont G1, w1) \<Rightarrow>
          if f_nodeID F = [] then (Exit 255, (w1, snd p))
          else
            (let p1 = servers env (w1, snd p);
                 p2 = (if \<not> f_process F \<and> f_podManager F
                   then start_manager retry (start_reconciler T env KH (su_new_client S) G1 H) G1 p1 else p1)
             in run_driver S G1 H Js F p2))"

definition controllerRun ::
  "environ \<Rightarrow> 'w surroundings \<Rightarrow> 'w host \<Rightarrow> 'w juicefs \<times> 'w juicefs \<times> 'w juicefs \<Rightarrow> flags \<Rightarrow> globals \<Rightarrow>
   'w process \<Rightarrow> globals outcome \<times> 'w process" where
  "controllerRun env S H Js F G p =
     (case parseControllerConfig env (su_new_client S) F G (fst p) of
        (Exit c, w1) \<Rightarrow> (Exit c, (w1, snd p))
      | (Cont G1, w1) \<Rightarrow>
          if f_nodeID F = [] then (Exit 255, (w1, snd p))
          else
            (let p1 = servers env (w1, snd p);
                 p2 = (if MountManager G1 then go MountManagerTask p1 else p1);
                 p3 = (if Webhook G1 then go WebhookManagerTask p2 else p2)
             in run_driver S G1 H Js F p3))"

section \<open>The program (main.go)\<close>

text \<open>
  The role is chosen by the name of the pod. A name with both words runs the node after the
  controller has come to an end, with the globals the controller left; a name with none of
  them runs nothing.
\<close>

definition load_config ::
  "patch_lib \<Rightarrow> environ \<Rightarrow> 'w host \<Rightarrow> 'w watcher \<Rightarrow> flags \<Rightarrow> globals \<Rightarrow> 'w process \<Rightarrow> globals outcome \<times> 'w process" where
  "load_config PL env H W F G p =
     (if f_configPath F \<noteq> [] then
        (case StartConfigReloader PL H W (Getenv env ''ENABLE_NODE_SELECTOR'') (f_configPath F) (GlobalConfig G) (fst p) of
           ((Inl _, _), w1) \<Rightarrow> (Exit 255, (w1, snd p))
         | ((Inr _, cfg), w1) \<Rightarrow> (Cont (G\<lparr>GlobalConfig := cfg\<rparr>), (w1, snd p)))
      else (Cont G, p))"

definition and_then :: "'a outcome \<times> 'p \<Rightarrow> ('a \<Rightarrow> 'p \<Rightarrow> 'b outcome \<times> 'p) \<Rightarrow> 'b outcome \<times> 'p" where
  "and_then r f = (case r of (Exit c, p) \<Rightarrow> (Exit c, p) | (Cont x, p) \<Rightarrow> f x p)"

definition run ::
  "'x lib_scheme \<Rightarrow> patch_lib \<Rightarrow> environ \<Rightarrow> 'w surroundings \<Rightarrow> ('t, 'c) transport_lib \<Rightarrow> ('w, 't, 'r) kubelet_http \<Rightarrow> 'w host \<Rightarrow>
   'w watcher \<Rightarrow> 'w juicefs \<times> 'w juicefs \<times> 'w juicefs \<Rightarrow> (('w process, unit) io \<Rightarrow> ('w process, unit) io) \<Rightarrow> flags \<Rightarrow> globals \<Rightarrow>
   'w process \<Rightarrow> globals outcome \<times> 'w process" where
  "run L PL env S T KH H W Js retry F G p =
     (let podName = Getenv env ''POD_NAME'' in
      and_then (load_config PL env H W F G p) (\<lambda>G0 p0.
      and_then (if Contains podName ''csi-controller'' then controllerRun env S H Js F G0 p0 else (Cont G0, p0)) (\<lambda>G1 p1.
        if Contains podName ''csi-node'' then nodeRun L env S T KH H Js retry F G1 p1 else (Cont G1, p1))))"

definition main_Run ::
  "(VersionInfo \<Rightarrow> string res) \<Rightarrow> string \<times> string \<times> string \<Rightarrow> string \<times> string \<times> string \<times> string \<Rightarrow> (string \<Rightarrow> 'w \<Rightarrow> 'w) \<Rightarrow>
   (globals \<Rightarrow> 'w process \<Rightarrow> globals outcome \<times> 'w process) \<Rightarrow> flags \<Rightarrow> 'w process \<Rightarrow> int \<times> 'w process" where
  "main_Run marshal build rt println rn F p =
     (if f_version F then
        (case GetVersionJSON marshal build rt of
           Inl _ \<Rightarrow> (255, p)
         | Inr info \<Rightarrow> (0, (println info (fst p), snd p)))
      else (case rn initial_globals p of (Exit c, p') \<Rightarrow> (c, p') | (Cont _, p') \<Rightarrow> (0, p')))"

section \<open>What the configuration keeps\<close>

text \<open>The parts that read the environment leave the modes of the driver alone.\<close>

lemma image_env_keeps [simp]:
  "ByProcess (image_env env G) = ByProcess G" "FormatInPod (image_env env G) = FormatInPod G"
  "Provisioner (image_env env G) = Provisioner G" "MountManager (image_env env G) = MountManager G"
  "Webhook (image_env env G) = Webhook G" "DriverName (image_env env G) = DriverName G"
  "PodName (image_env env G) = PodName G" "Namespace (image_env env G) = Namespace G"
  "ReconcileTimeout (image_env env G) = ReconcileTimeout G" "SecretReconcilerInterval (image_env env G) = SecretReconcilerInterval G"
  "KubeletPort (image_env env G) = KubeletPort G" "HostIp (image_env env G) = HostIp G"
  by (simp_all add: image_env_def from_env_def Let_def split_beta)

lemma immutable_env_keeps [simp]:
  "ByProcess (immutable_env env G) = ByProcess G" "FormatInPod (immutable_env env G) = FormatInPod G"
  "Provisioner (immutable_env env G) = Provisioner G" "MountManager (immutable_env env G) = MountManager G"
  "Webhook (immutable_env env G) = Webhook G" "DriverName (immutable_env env G) = DriverName G"
  "ReconcileTimeout (immutable_env env G) = ReconcileTimeout G" "SecretReconcilerInterval (immutable_env env G) = SecretReconcilerInterval G"
  by (simp_all add: immutable_env_def Let_def split: option.split)

lemma duration_env_ge: "old \<le> duration_env L env key old"
  by (simp add: duration_env_def Let_def)

lemma node_env_keeps [simp]:
  "ByProcess (node_env L env G) = ByProcess G" "FormatInPod (node_env L env G) = FormatInPod G"
  "Provisioner (node_env L env G) = Provisioner G" "MountManager (node_env L env G) = MountManager G"
  "Webhook (node_env L env G) = Webhook G"
  "PodName (node_env L env G) = Getenv env ''POD_NAME''" "Namespace (node_env L env G) = Getenv env ''JUICEFS_MOUNT_NAMESPACE''"
  "KubeletPort (node_env L env G) = Getenv env ''KUBELET_PORT''" "HostIp (node_env L env G) = Getenv env ''HOST_IP''"
  "DriverName (node_env L env G) = (if Getenv env ''DRIVER_NAME'' = [] then DriverName G else Getenv env ''DRIVER_NAME'')"
  by (simp_all add: node_env_def from_env_def Let_def)

lemma node_env_durations:
  "ReconcileTimeout G \<le> ReconcileTimeout (node_env L env G)" "SecretReconcilerInterval G \<le> SecretReconcilerInterval (node_env L env G)"
  by (simp_all add: node_env_def from_env_def Let_def duration_env_ge)

lemma controller_env_keeps [simp]:
  "ByProcess (controller_env env G) = ByProcess G" "FormatInPod (controller_env env G) = FormatInPod G"
  "Provisioner (controller_env env G) = Provisioner G" "MountManager (controller_env env G) = MountManager G"
  "Webhook (controller_env env G) = Webhook G" "DriverName (controller_env env G) = DriverName G"
  by (simp_all add: controller_env_def)

lemma parseNodeConfig_modes:
  assumes "parseNodeConfig L env newClient F G w = (Cont G', w')"
  shows "ByProcess G' = f_process F" "Provisioner G' = Provisioner G" "Webhook G' = Webhook G"
    "FormatInPod G' \<longleftrightarrow> \<not> f_process F \<and> f_formatInPod F"
    "\<not> f_process F \<Longrightarrow> KubeletPort G' = Getenv env ''KUBELET_PORT'' \<and> HostIp G' = Getenv env ''HOST_IP''"
  using assms by (auto simp: parseNodeConfig_def Let_def split: if_splits prod.splits sum.splits)

lemma parseControllerConfig_modes:
  assumes "parseControllerConfig env newClient F G w = (Cont G', w')"
  shows "ByProcess G' = f_process F" "Provisioner G' \<longleftrightarrow> \<not> f_process F \<and> f_provisioner F"
    "Webhook G' \<longleftrightarrow> \<not> f_process F \<and> f_webhook F" "MountManager G' \<longleftrightarrow> \<not> f_process F \<and> \<not> f_webhook F"
    "FormatInPod G' \<longleftrightarrow> \<not> f_process F \<and> (f_webhook F \<or> f_formatInPod F)"
    "DriverName G' = (if Getenv env ''DRIVER_NAME'' = [] then DriverName G else Getenv env ''DRIVER_NAME'')"
  using assms by (auto simp: parseControllerConfig_def from_env_def Let_def split: if_splits prod.splits sum.splits)


definition node_env_vars :: environ where
  "node_env_vars k = (if k = ''POD_NAME'' then Some ''juicefs-csi-node-x'' else if k = ''JUICEFS_MOUNT_NAMESPACE'' then Some ''kube-system''
     else if k = ''JUICEFS_RECONCILE_TIMEOUT'' then Some ''1s'' else None)"

definition node_client :: "unit K8sClient" where
  "node_client = idle_client\<lparr>c_pods_get := \<lambda>ns n. if n = ''juicefs-csi-node-x'' then ret (zero_pod\<lparr>pMeta := zero_meta\<lparr>mName := n\<rparr>\<rparr>) else fail NotFound,
     c_daemonsets_get := \<lambda>_ _. ret zero_spec\<rparr>"


text \<open>
  Run by process, the node ignores the driver name of the environment, the controller
  does not: when one is set that differs from the default, the two register under different names.
\<close>

theorem driver_name_by_process:
  assumes "f_process F" "Getenv env ''DRIVER_NAME'' \<noteq> []" "Getenv env ''DRIVER_NAME'' \<noteq> DriverName initial_globals"
  shows "\<exists>Gn Gc. parseNodeConfig L env newClient F initial_globals w = (Cont Gn, w) \<and>
    parseControllerConfig env newClient F initial_globals w = (Cont Gc, w) \<and>
    fst (GetPluginInfo Gn v) = ''csi.juicefs.com'' \<and> fst (GetPluginInfo Gc v) = Getenv env ''DRIVER_NAME'' \<and>
    fst (GetPluginInfo Gn v) \<noteq> fst (GetPluginInfo Gc v)"
  using assms by (simp add: parseNodeConfig_def parseControllerConfig_def GetPluginInfo_def from_env_def initial_globals_def)


definition named_vars :: environ where
  "named_vars k = (if k = ''DRIVER_NAME'' then Some ''my.csi'' else None)"

theorem driver_name_by_process_witness:
  "\<exists>Gn Gc. parseNodeConfig sample_lib named_vars (ret node_client) (default_flags\<lparr>f_process := True\<rparr>) initial_globals () = (Cont Gn, ()) \<and>
     parseControllerConfig named_vars (ret node_client) (default_flags\<lparr>f_process := True\<rparr>) initial_globals () = (Cont Gc, ()) \<and>
     fst (GetPluginInfo Gn ''v'') \<noteq> fst (GetPluginInfo Gc ''v'')"
proof -
  have "DriverName initial_globals = ''csi.juicefs.com''" "Getenv named_vars ''DRIVER_NAME'' = ''my.csi''"
    by (simp_all add: initial_globals_def Getenv_def named_vars_def)
  then show ?thesis
    using driver_name_by_process [of "default_flags\<lparr>f_process := True\<rparr>" named_vars sample_lib "ret node_client" "()" "''v''"] by auto
qed

section \<open>What the commands start\<close>

text \<open>
  retry.OnError calls its function again after an error, a bounded number of times, and
  returns the first success or the last error.
\<close>

fun attempts :: "nat \<Rightarrow> ('s, 'a) io \<Rightarrow> ('s, 'a) io" where
  "attempts 0 m = m"
| "attempts (Suc n) m = (\<lambda>s. case m s of (Inr x, s') \<Rightarrow> (Inr x, s') | (Inl _, s') \<Rightarrow> attempts n m s')"

definition retries :: "(('s, 'a) io \<Rightarrow> ('s, 'a) io) \<Rightarrow> bool" where
  "retries retry \<longleftrightarrow> (\<forall>m s. \<exists>n. retry m s = attempts n m s)"

definition started_by :: "'a res \<Rightarrow> service \<Rightarrow> service list" where
  "started_by r s = (case r of Inr _ \<Rightarrow> [s] | Inl _ \<Rightarrow> [])"

lemma attempts_started:
  assumes "\<And>p r p'. m p = (r, p') \<Longrightarrow> snd p' = snd p @ started_by r s"
  shows "attempts n m p = (r, p') \<Longrightarrow> snd p' = snd p @ started_by r s"
proof (induction n arbitrary: p)
  case (Suc n)
  obtain r1 p1 where m: "m p = (r1, p1)" by (cases "m p")
  from Suc.prems m assms [OF m] Suc.IH [of p1] show ?case by (cases r1) (auto simp: started_by_def)
qed (use assms in simp)

lemma start_reconciler_started:
  "start_reconciler T env KH newClient G H p = (r, p') \<Longrightarrow> snd p' = snd p @ started_by r ReconcileLoop"
  by (auto simp: start_reconciler_def bind_eq after_def ret_def started_by_def split: prod.splits sum.splits dest!: on_world_started')

lemma start_manager_started:
  assumes "retries retry"
  shows "\<exists>m. snd (start_manager retry (start_reconciler T env KH newClient G H) G p) = snd p @ [m] \<and>
    (m = PodManagerTask \<or> m = ReconcileLoop \<and> KubeletPort G \<noteq> [] \<and> HostIp G \<noteq> [])"
proof -
  let ?m = "start_reconciler T env KH newClient G H"
  obtain r p1 where r: "retry ?m p = (r, p1)" by (cases "retry ?m p")
  moreover from assms obtain n where "retry ?m p = attempts n ?m p" unfolding retries_def by blast
  ultimately have "snd p1 = snd p @ started_by r ReconcileLoop"
    using attempts_started [of ?m ReconcileLoop n p r p1] start_reconciler_started by metis
  with r show ?thesis by (cases r) (auto simp: start_manager_def started_by_def)
qed

lemma run_driver_started:
  "run_driver S G H Js F p = (r, p') \<Longrightarrow> snd p' = snd p \<or> Provisioner G \<and> snd p' = snd p @ [ProvisionerTask]"
  using Driver_Run_started [of S G H]
  by (auto simp: run_driver_def or_fatal_def split: prod.splits sum.splits if_splits dest!: on_world_started')
    (metis append_Nil2 snd_conv)+

text \<open>
  C9: a node whose configuration is complete has one manager of the mount pods when it is
  asked for one: the loop on the kubelet or the controller on the API server, however often
  the start of the loop was retried; the loop only when port and address of the kubelet are known.
  By process, or without the flag, there is none. Nothing is started before the
  configuration is complete.
\<close>

theorem nodeRun_one_manager:
  assumes "retries retry" "nodeRun L env S T KH H Js retry F initial_globals (w, []) = (r, w', started)"
  shows "started = [] \<and> (\<exists>c. r = Exit c) \<or>
    (\<exists>m. started = [PprofServer, MetricsServer (WebPort env)] @ m \<and>
      (if f_process F \<or> \<not> f_podManager F then m = []
       else m = [PodManagerTask] \<or> m = [ReconcileLoop] \<and> Getenv env ''KUBELET_PORT'' \<noteq> [] \<and> Getenv env ''HOST_IP'' \<noteq> []))"
proof -
  obtain o1 w1 where c: "parseNodeConfig L env (su_new_client S) F initial_globals w = (o1, w1)" by fastforce
  show ?thesis
  proof (cases o1)
    case (Exit e)
    with c assms(2) show ?thesis by (auto simp: nodeRun_def)
  next
    case (Cont G1)
    note mo = parseNodeConfig_modes [OF c [unfolded Cont]]
    have pr: "\<not> Provisioner G1" using mo(2) by (simp add: initial_globals_def)
    let ?p1 = "servers env (w1, [])"
    have s1: "snd ?p1 = [PprofServer, MetricsServer (WebPort env)]" by (simp add: servers_def)
    show ?thesis
    proof (cases "f_nodeID F = []")
      case True
      with c Cont assms(2) show ?thesis by (auto simp: nodeRun_def)
    next
      case n: False
      let ?p2 = "if \<not> f_process F \<and> f_podManager F
        then start_manager retry (start_reconciler T env KH (su_new_client S) G1 H) G1 ?p1 else ?p1"
      have "run_driver S G1 H Js F ?p2 = (r, w', started)" using assms(2) n c Cont by (simp add: nodeRun_def Let_def)
      then have st: "started = snd ?p2" using run_driver_started pr by fastforce
      show ?thesis
      proof (cases "f_process F \<or> \<not> f_podManager F")
        case True
        then show ?thesis using st s1 by auto
      next
        case False
        with start_manager_started [OF assms(1), of T env KH "su_new_client S" G1 H ?p1] st s1 mo(5)
        show ?thesis by auto
      qed
    qed
  qed
qed

definition calm :: "unit surroundings" where
  "calm = \<lparr>su_new_client = ret node_client, su_must_register = (\<lambda>_. ret ()), su_url_parse = (\<lambda>_. Inr (''unix'', ''tmp'', ''/csi.sock'')),
     su_to_lower = (\<lambda>s. s), su_listen = (\<lambda>_ _. ret ()), su_serve = ret (), su_server_version = (\<lambda>_. ret ''v1''), su_provision = (\<lambda>_ _ _ _ _ w. w)\<rparr>"

definition plain_transport :: "(unit, unit) transport_lib" where
  "plain_transport = \<lparr>tl_has_ca = (\<lambda>c. tlsCAData (tcTLS c) \<noteq> [] \<or> tlsCAFile (tcTLS c) \<noteq> []), tl_tls_config_for = (\<lambda>_. Inr None),
     tl_default_transport = (), tl_old_transport_defaults = (\<lambda>_. ()), tl_http_wrappers = (\<lambda>_ t. Inr t)\<rparr>"

definition no_kubelet :: "(unit, unit, unit) kubelet_http" where
  "no_kubelet = \<lparr>kh_get = (\<lambda>_ _. fail Timeout), kh_read_all = (\<lambda>_. ret []), kh_unmarshal = (\<lambda>_ x. (None, x))\<rparr>"

definition kubelet_vars :: environ where
  "kubelet_vars k = (if k = ''KUBELET_PORT'' then Some ''10250'' else if k = ''HOST_IP'' then Some ''10.0.0.1'' else node_env_vars k)"

definition node_flags :: flags where
  "node_flags = default_flags\<lparr>f_nodeID := ''n'', f_podManager := True\<rparr>"

definition three_jfs :: "unit juicefs \<times> unit juicefs \<times> unit juicefs" where
  "three_jfs = (let j = \<lparr>j_client = None, j_env = (\<lambda>_. None), j_UUIDMaps = (\<lambda>_. []), j_set_UUIDMaps = (\<lambda>_ w. w),
     j_CacheDirMaps = (\<lambda>_. []), j_set_CacheDirMaps = (\<lambda>_ w. w), j_kubelet = (\<lambda>_ _. ret ()), j_fuel = 1\<rparr> in (j, j, j))"

lemma attempts_retry: "retries (attempts n)" by (auto simp: retries_def)

text \<open>A kubelet that does not answer: after four attempts the controller on the API server is started.\<close>

theorem nodeRun_one_manager_witness:
  "\<exists>m r. nodeRun sample_lib kubelet_vars calm plain_transport no_kubelet idle_host three_jfs (attempts 3) node_flags initial_globals ((), [])
     = (r, (), [PprofServer, MetricsServer 8080, m]) \<and> (m = PodManagerTask \<or> m = ReconcileLoop)"
proof -
  let ?run = "nodeRun sample_lib kubelet_vars calm plain_transport no_kubelet idle_host three_jfs (attempts 3) node_flags initial_globals ((), [])"
  obtain r w' started where n: "?run = (r, w', started)" by (cases ?run)
  have "\<exists>G'. parseNodeConfig sample_lib kubelet_vars (ret node_client) node_flags initial_globals () = (Cont G', ())"
    by (simp add: parseNodeConfig_def node_flags_def default_flags_def Let_def Getenv_def kubelet_vars_def node_env_vars_def ret_def node_client_def GetPod_def)
  then obtain G' where G': "parseNodeConfig sample_lib kubelet_vars (su_new_client calm) node_flags initial_globals () = (Cont G', ())"
    by (auto simp: calm_def)
  let ?p = "start_manager (attempts 3) (start_reconciler plain_transport kubelet_vars no_kubelet (su_new_client calm) G' idle_host) G'
    (servers kubelet_vars ((), []))"
  have "run_driver calm G' idle_host three_jfs node_flags ?p = (r, w', started)"
    using n G' by (simp add: nodeRun_def node_flags_def default_flags_def Let_def)
  then have "started \<noteq> []"
    using run_driver_started start_manager_started [OF attempts_retry, of 3 plain_transport kubelet_vars no_kubelet "su_new_client calm" G' idle_host "servers kubelet_vars ((), [])"]
    by fastforce
  with nodeRun_one_manager [OF attempts_retry n] n show ?thesis
    by (auto simp: node_flags_def default_flags_def WebPort_def MustGetWebPort_def kubelet_vars_def node_env_vars_def)
qed

text \<open>
  C16: the controller starts one manager: the webhook for sidecars or the manager of mount
  pods, never both, and none by process; the provisioner only when it is asked for and not
  by process. A provisioner that is started has a client, so its loop does not end
  the process for want of one.
\<close>

theorem controllerRun_services:
  assumes "controllerRun env S H Js F initial_globals (w, []) = (r, w', started)"
  shows "(started = [] \<and> (\<exists>c. r = Exit c) \<or>
     (\<exists>p. started = [PprofServer, MetricsServer (WebPort env)] @
          (if f_process F then [] else if f_webhook F then [WebhookManagerTask] else [MountManagerTask]) @ p \<and>
        (p = [] \<or> p = [ProvisionerTask] \<and> f_provisioner F \<and> \<not> f_process F))) \<and>
    (\<forall>G1 w1 w2 d. parseControllerConfig env (su_new_client S) F initial_globals w = (Cont G1, w1) \<longrightarrow>
       NewDriver S G1 Js (f_endpoint F) (f_nodeID F) le ns lease w1 = (Inr d, w2) \<longrightarrow> Provisioner G1 \<longrightarrow> prClient (dProvisioner d) \<noteq> None)"
proof (rule conjI)
  show "\<forall>G1 w1 w2 d. parseControllerConfig env (su_new_client S) F initial_globals w = (Cont G1, w1) \<longrightarrow>
       NewDriver S G1 Js (f_endpoint F) (f_nodeID F) le ns lease w1 = (Inr d, w2) \<longrightarrow> Provisioner G1 \<longrightarrow> prClient (dProvisioner d) \<noteq> None"
  proof (intro allI impI)
    fix G1 w1 w2 d
    assume "parseControllerConfig env (su_new_client S) F initial_globals w = (Cont G1, w1)"
      "NewDriver S G1 Js (f_endpoint F) (f_nodeID F) le ns lease w1 = (Inr d, w2)" "Provisioner G1"
    then show "prClient (dProvisioner d) \<noteq> None" using parseControllerConfig_modes(1,2) NewDriver_clients(5) by metis
  qed
  obtain o1 w1 where c: "parseControllerConfig env (su_new_client S) F initial_globals w = (o1, w1)" by fastforce
  show "started = [] \<and> (\<exists>c. r = Exit c) \<or>
     (\<exists>p. started = [PprofServer, MetricsServer (WebPort env)] @
          (if f_process F then [] else if f_webhook F then [WebhookManagerTask] else [MountManagerTask]) @ p \<and>
        (p = [] \<or> p = [ProvisionerTask] \<and> f_provisioner F \<and> \<not> f_process F))"
  proof (cases "o1 = Exit (case o1 of Exit e \<Rightarrow> e) \<or> f_nodeID F = []")
    case True
    with c assms show ?thesis by (cases o1) (auto simp: controllerRun_def)
  next
    case False
    then obtain G1 where G1: "o1 = Cont G1" by (cases o1) auto
    note mo = parseControllerConfig_modes [OF c [unfolded G1]]
    let ?p1 = "servers env (w1, [])"
    let ?p2 = "if MountManager G1 then go MountManagerTask ?p1 else ?p1"
    let ?p3 = "if Webhook G1 then go WebhookManagerTask ?p2 else ?p2"
    have "run_driver S G1 H Js F ?p3 = (r, w', started)" using assms False c G1 by (simp add: controllerRun_def Let_def)
    then have "started = snd ?p3 \<or> Provisioner G1 \<and> started = snd ?p3 @ [ProvisionerTask]" using run_driver_started by fastforce
    then show ?thesis using mo(2-4) by (auto simp: servers_def)
  qed
qed

theorem controllerRun_services_witness:
  "\<exists>r p. controllerRun node_env_vars calm idle_host three_jfs (default_flags\<lparr>f_nodeID := ''n'', f_provisioner := True\<rparr>) initial_globals ((), [])
     = (r, (), [PprofServer, MetricsServer 8080, MountManagerTask] @ p) \<and> (p = [] \<or> p = [ProvisionerTask])"
proof -
  let ?F = "default_flags\<lparr>f_nodeID := ''n'', f_provisioner := True\<rparr>"
  let ?run = "controllerRun node_env_vars calm idle_host three_jfs ?F initial_globals ((), [])"
  obtain r w' started where n: "?run = (r, w', started)" by (cases ?run)
  have "\<exists>G'. parseControllerConfig node_env_vars (ret node_client) ?F initial_globals () = (Cont G', ())"
    by (simp add: parseControllerConfig_def default_flags_def Let_def from_env_def Getenv_def node_env_vars_def ret_def node_client_def GetDaemonSet_def)
  then have "started \<noteq> []"
    using n by (auto simp: controllerRun_def calm_def Let_def servers_def dest!: run_driver_started split: if_splits)
  with controllerRun_services [OF n] n show ?thesis
    by (auto simp: default_flags_def WebPort_def MustGetWebPort_def node_env_vars_def)
qed

section \<open>What the managers see\<close>

text \<open>A manager's cache has the objects of a kind that carry every label of each selector for it.\<close>

definition cache_sees :: "manager_options \<Rightarrow> kind \<Rightarrow> smap \<Rightarrow> bool" where
  "cache_sees opts k lbls = list_all (\<lambda>(k', sel). k' = k \<longrightarrow> list_all (\<lambda>(key, v). map_of lbls key = Some v) sel) (mo_selectors opts)"

text \<open>The sidecars that the webhook injects are seen by its manager, so that they are stopped with their application.\<close>

lemma webhook_sees_injected:
  assumes "Mutate L G H J K serverless pairs pod w = (Inr out, w')" "pairs \<noteq> []"
  shows "cache_sees (webhook_options F) PodKind (omap (mLabels (pMeta out)))"
  using mutate_pairs_injected [OF assms(1) [unfolded Mutate_def]] assms(2)
  by (simp add: cache_sees_def webhook_options_def marked_done_def)

lemma NewMountPod_labels:
  assumes "NewMountPod L G podName s = Inr (s', pod)" "sAttr s' = Some a"
  shows "mLabels (pMeta pod) = Some (fst (gen_metadata s' a))" "pod_ns pod = aNamespace a"
proof -
  from assms(1) obtain pod0 cmd where c: "genCommonJuicePod L G genCommonContainer s = Inr (s', pod0)"
    and p: "pod = add_volumes (genHostPathVolumes s') (add_volumes (genCacheDirVolumes s') (add_volumes (genPodVolumes G)
      (upd_container (\<lambda>c. c\<lparr>cCommand := [''sh'', ''-c'', cmd], cEnv := [(''JFS_FOREGROUND'', ''1'')]\<rparr>) (pod0\<lparr>pMeta := (pMeta pod0)\<lparr>mName := podName\<rparr>\<rparr>))))"
    by (auto simp: NewMountPod_def bind_res_Inr_iff Let_def)
  from genCommonJuicePod_cases [OF c] obtain b where b: "s' = s\<lparr>sAttr := Some b\<rparr>" "pod0 = common_pod G s' b genCommonContainer" by blast
  with assms(2) have "b = a" by simp
  then show "mLabels (pMeta pod) = Some (fst (gen_metadata s' a))" "pod_ns pod = aNamespace a"
    by (simp_all add: p b(2) common_pod_def genPodTemplate_def Let_def)
qed

text \<open>
  C14: a generated mount pod is seen by the managers and handled by the reconciler exactly
  when the labels configured for it leave the driver's own label alone: they are put over
  it, and a pod that lost it this way is never cleaned up or recovered.
\<close>

theorem generated_pod_managed:
  assumes "NewMountPod L G podName s = Inr (s', pod)" "sAttr s' = Some a" "wf_map (aLabels a)" "aNamespace a = Namespace G"
  shows "(cache_sees (mount_options F) PodKind (omap (mLabels (pMeta pod))) \<longleftrightarrow> map_of (aLabels a) PodTypeKey \<in> {None, Some PodTypeValue}) \<and>
    (cache_sees pod_options PodKind (omap (mLabels (pMeta pod))) \<longleftrightarrow> map_of (aLabels a) PodTypeKey \<in> {None, Some PodTypeValue}) \<and>
    (is_mount_pod G pod \<longleftrightarrow> map_of (aLabels a) PodTypeKey \<in> {None, Some PodTypeValue})"
proof -
  have "map_of (omap (mLabels (pMeta pod))) PodTypeKey = (case map_of (aLabels a) PodTypeKey of None \<Rightarrow> Some PodTypeValue | Some v \<Rightarrow> Some v)"
    using NewMountPod_labels(1) [OF assms(1,2)] map_of_mputs [OF assms(3)]
    by (simp add: gen_metadata_def Let_def map_add_def split: option.split)
  then show ?thesis using NewMountPod_labels(2) [OF assms(1,2)] assms(4)
    by (auto simp: cache_sees_def mount_options_def pod_options_def is_mount_pod_def split: option.splits)
qed

definition relabel_globals :: globals where
  "relabel_globals = sample_globals\<lparr>GlobalConfig := newCfg\<lparr>cfMountPodPatch := [zero_patch\<lparr>mpLabels := Some [(PodTypeKey, ''mine'')]\<rparr>]\<rparr>\<rparr>"

definition copy_lib :: setting_lib where
  "copy_lib = sample_lib\<lparr>l_patch := (l_patch sample_lib)\<lparr>pl_unmarshal := \<lambda>_ _. (None, zero_patch\<lparr>mpLabels := Some [(PodTypeKey, ''mine'')]\<rparr>)\<rparr>\<rparr>"

theorem generated_pod_managed_witness:
  "\<exists>s' pod. NewMountPod copy_lib relabel_globals ''p'' sample_setting = Inr (s', pod) \<and>
     \<not> cache_sees pod_options PodKind (omap (mLabels (pMeta pod))) \<and> \<not> is_mount_pod relabel_globals pod"
proof -
  have "case NewMountPod copy_lib relabel_globals ''p'' sample_setting of Inl _ \<Rightarrow> False
    | Inr (s', pod) \<Rightarrow> (case sAttr s' of None \<Rightarrow> False
        | Some a \<Rightarrow> wf_map (aLabels a) \<and> aNamespace a = Namespace relabel_globals \<and> map_of (aLabels a) PodTypeKey = Some ''mine'')"
    by code_simp
  then obtain s' pod a where n: "NewMountPod copy_lib relabel_globals ''p'' sample_setting = Inr (s', pod)" "sAttr s' = Some a"
    "wf_map (aLabels a)" "aNamespace a = Namespace relabel_globals" and l: "map_of (aLabels a) PodTypeKey = Some ''mine''"
    by (auto split: sum.splits option.splits)
  from generated_pod_managed [OF n, of default_flags] n(1) l show ?thesis by (auto simp: PodTypeValue_def)
qed

end
