(* ===== verification/DashboardServer.thy ===== *)
theory DashboardServer
  imports Dashboard Commands
begin

text \<open>
  The dashboard as a program: src/cmd/dashboard/main.go (its flags, the static files, the
  managers and servers it starts), StartManager of src/pkg/dashboard/controller.go and the
  state that src/pkg/dashboard/debug.go shows. The router, the HTTP servers and the
  controller runtime are parameters.
\<close>

section \<open>Static files\<close>

text \<open>
  The file information is \<open>True\<close> for a directory. When os.Stat fails for any other reason
  than a missing file, the information is nil, and reading it panics.
\<close>

datatype static_reply = Redirect nat string | AbortStatus nat | ServeFile string

definition static_root :: static_reply where
  "static_root = Redirect 301 ''/app''"

definition static_file :: "(string \<Rightarrow> ('w, bool) io) \<Rightarrow> string \<Rightarrow> string \<Rightarrow> ('w, static_reply) io" where
  "static_file stat staticDir path =
     (if Contains path dotdot then ret (AbortStatus 403)
      else tryE (stat (path_Join [staticDir, path]))
        (\<lambda>e. if e = NotExist then ret (ServeFile (path_Join [staticDir, ''index.html'']))
             else fail (Panic ''nil pointer dereference''))
        (\<lambda>isDir. if isDir then ret (ServeFile (path_Join [staticDir, ''index.html'']))
             else ret (ServeFile (path_Join [staticDir, path]))))"

section \<open>State\<close>

record APIStatus =
  asSysNamespace :: string
  asSysIndexes :: "nsname list"
  asAppIndexes :: "nsname list"
  asNodeindex :: "(string \<times> nsname) list"
  asPvIndexes :: "nsname list"
  asPvcIndexes :: "nsname list"
  asPairs :: "(string \<times> nsname) list"

text \<open>The name of an object in its namespace, printed with a slash.\<close>

definition nsname_String :: "nsname \<Rightarrow> string" where
  "nsname_String n = fst n @ ''/'' @ snd n"

definition index_debug :: "nsname list \<Rightarrow> nsname list" where
  "index_debug l = foldl (\<lambda>names e. names @ [e]) [] l"

lemma index_debug_all: "index_debug l = l"
proof -
  have "foldl (\<lambda>names e. names @ [e]) acc l = acc @ l" for acc by (induction l arbitrary: acc) simp_all
  then show ?thesis by (simp add: index_debug_def)
qed

definition debugAPIStatus :: "API \<Rightarrow> APIStatus reply" where
  "debugAPIStatus api = IndentedJSON 200
     \<lparr>asSysNamespace = sysNamespace api, asSysIndexes = index_debug (sysIndexes api), asAppIndexes = index_debug (appIndexes api),
      asNodeindex = mputs (csiNodeIndex api) [], asPvIndexes = index_debug (pvIndexes api), asPvcIndexes = index_debug (pvcIndexes api),
      asPairs = mputs (map (\<lambda>(k, v). (nsname_String k, v)) (pairs api)) []\<rparr>"

section \<open>Routes (api.go)\<close>

text \<open>The routes below /api/v1, in the order of Handle, with the middleware of their group.\<close>

definition grouped :: "string \<Rightarrow> string \<Rightarrow> (string \<times> string) list \<Rightarrow> (string \<times> string option \<times> string) list" where
  "grouped base mw rs = map (\<lambda>(p, h). (base @ p, Some mw, h)) rs"

definition Handle :: "(string \<times> string option \<times> string) list" where
  "Handle =
     map (\<lambda>(p, h). (p, None, h))
       [(''/debug/status'', ''debugAPIStatus''), (''/pods'', ''listAppPod''), (''/syspods'', ''listSysPod''),
        (''/mountpods'', ''listMountPod''), (''/csi-nodes'', ''listCSINodePod''), (''/controllers'', ''listCSIControllerPod''),
        (''/pvs'', ''listPVsHandler''), (''/pvcs'', ''listPVCsHandler''), (''/storageclasses'', ''listSCsHandler''),
        (''/csi-node/:nodeName'', ''getCSINodeByName'')] @
     grouped ''/pod/:namespace/:name'' ''getPodMiddileware''
       [(''/'', ''getPodHandler''), (''/events'', ''getPodEvents''), (''/logs/:container'', ''getPodLogs''),
        (''/pvs'', ''listPodPVsHandler''), (''/pvcs'', ''listPodPVCsHandler''), (''/mountpods'', ''listMountPodsOfAppPod''),
        (''/apppods'', ''listAppPodsOfMountPod''), (''/node'', ''getPodNode'')] @
     grouped ''/pv/:name'' ''getPVMiddileware''
       [(''/'', ''getPVHandler''), (''/mountpods'', ''getMountPodsOfPV''), (''/events'', ''getPVEvents'')] @
     grouped ''/pvc/:namespace/:name'' ''getPVCMiddileware''
       [(''/'', ''getPVCHandler''), (''/mountpods'', ''getMountPodsOfPVC''), (''/events'', ''getPVCEvents'')] @
     grouped ''/storageclass/:name'' ''getSCMiddileware'' [(''/'', ''getSCHandler''), (''/pvs'', ''getPVOfSC'')]"

text \<open>No route is registered twice, which would panic at the start.\<close>

lemma Handle_distinct: "distinct (map fst Handle)"
  by code_simp

section \<open>Managers and servers\<close>

datatype dashboard_kind = DPod | DPV | DPVC

record 'w dashboard_runtime =
  dr_local_config :: "string \<Rightarrow> ('w, unit) io" \<comment> \<open>the configuration in a file\<close>
  dr_config_or_die :: "('w, unit) io" \<comment> \<open>ends the process with 1 instead of an error\<close>
  dr_new_manager :: "manager_options \<Rightarrow> ('w, unit) io"
  dr_new_client :: "('w, unit) io"
  dr_setup :: "string \<Rightarrow> dashboard_kind \<Rightarrow> ('w, unit) io" \<comment> \<open>controller.New and Watch\<close>
  dr_start :: "('w, unit) io"
  dr_shutdown :: "('w, unit) io"

definition getLocalConfig :: "'w dashboard_runtime \<Rightarrow> string \<Rightarrow> ('w, unit) io" where
  "getLocalConfig R homeDir =
     dr_local_config R (path_Join [if homeDir = [] then ''/root'' else homeDir, ''.kube'', ''config''])"

definition StartManager :: "'w dashboard_runtime \<Rightarrow> ('w, unit) io" where
  "StartManager R =
     bind (dr_setup R ''pod'' DPod) (\<lambda>_.
     bind (dr_setup R ''pv'' DPV) (\<lambda>_.
     bind (dr_setup R ''pvc'' DPVC) (\<lambda>_. dr_start R)))"

record dashboard_flags =
  df_port :: "16 word"
  df_devMode :: bool
  df_staticDir :: string
  df_leaderElection :: bool
  df_leaderElectionNamespace :: string
  df_leaderElectionLeaseDuration :: int

definition dashboard_default_flags :: dashboard_flags where
  "dashboard_default_flags = \<lparr>df_port = 8088, df_devMode = False, df_staticDir = [], df_leaderElection = False,
     df_leaderElectionNamespace = [], df_leaderElectionLeaseDuration = 15 * second\<rparr>"

definition dashboard_options :: "dashboard_flags \<Rightarrow> manager_options" where
  "dashboard_options F = \<lparr>mo_port = 9442, mo_certDir = [], mo_metrics = ''0.0.0.0:8082'', mo_leaderElection = df_leaderElection F,
     mo_leaderElectionID = ''dashboard.juicefs.com'', mo_leaderElectionNamespace = df_leaderElectionNamespace F,
     mo_leaseDuration = Some (df_leaderElectionLeaseDuration F), mo_selectors = []\<rparr>"

definition dashboard_newManager :: "'w dashboard_runtime \<Rightarrow> dashboard_flags \<Rightarrow> ('w, unit) io" where
  "dashboard_newManager R F = dr_new_manager R (dashboard_options F)"

text \<open>
  The start: the configuration, the manager and the client, in this order, each of them
  fatal; then the API, whether other origins and static files are allowed, and the address. The
  program then waits for a signal, which the end of the manager sends too, and shuts the
  server down.
\<close>

record dashboard_server =
  dsApi :: API
  dsCors :: bool
  dsStatic :: "string option"
  dsAddr :: string

definition dashboard_start ::
  "'w dashboard_runtime \<Rightarrow> environ \<Rightarrow> string \<Rightarrow> dashboard_flags \<Rightarrow> 'w \<Rightarrow> dashboard_server outcome \<times> 'w" where
  "dashboard_start R env homeDir F w =
     (case (if df_devMode F then getLocalConfig R homeDir else dr_config_or_die R) w of
        (Inl _, w1) \<Rightarrow> (Exit 1, w1)
      | (Inr _, w1) \<Rightarrow> (case dashboard_newManager R F w1 of
          (Inl _, w2) \<Rightarrow> (Exit 1, w2)
        | (Inr _, w2) \<Rightarrow> (case dr_new_client R w2 of
            (Inl _, w3) \<Rightarrow> (Exit 1, w3)
          | (Inr _, w3) \<Rightarrow>
              (Cont \<lparr>dsApi = NewAPI (if df_devMode F then ''kube-system'' else Getenv env ''SYS_NAMESPACE''),
                 dsCors = df_devMode F, dsStatic = (if df_staticDir F \<noteq> [] then Some (df_staticDir F) else None),
                 dsAddr = '':'' @ decimal (unat (df_port F))\<rparr>, w3))))"

definition dashboard_stop :: "'w dashboard_runtime \<Rightarrow> 'w \<Rightarrow> unit outcome \<times> 'w" where
  "dashboard_stop R w = (case dr_shutdown R w of (Inl _, w1) \<Rightarrow> (Exit 1, w1) | (Inr _, w1) \<Rightarrow> (Cont (), w1))"

section \<open>Static files are confined\<close>

lemma clean_stack_append: "clean_stack r st (xs @ ys) = clean_stack r (rev (clean_stack r st xs)) ys"
proof (induction r st xs rule: clean_stack.induct)
  case (2 r st c cs)
  then show ?case by (cases st) auto
qed simp

lemma clean_stack_no_dotdot: "dotdot \<notin> set cs \<Longrightarrow> clean_stack r st cs = rev st @ filter (\<lambda>c. c \<noteq> [] \<and> c \<noteq> dot) cs"
  by (induction cs arbitrary: st) auto

lemma Split_part: "c \<in> set (Split x s) \<Longrightarrow> \<exists>a b. s = a @ c @ b"
proof (induction s arbitrary: c)
  case (Cons y s)
  show ?case
  proof (cases "y = x")
    case True
    with Cons show ?thesis by (auto intro: exI [of _ "[]"]) (metis append_Cons)
  next
    case False
    then obtain z zs where z: "Split x s = z # zs" by (cases "Split x s") auto
    have zpre: "\<exists>t. s = z @ t" using z by (metis Join_Split Join.simps(2,3) append_Nil2 list.exhaust)
    from Cons.prems False z have "c = y # z \<or> c \<in> set zs" by auto
    then show ?thesis
    proof
      assume "c = y # z"
      then show ?thesis using zpre by (auto intro: exI [of _ "[]"])
    next
      assume "c \<in> set zs"
      then show ?thesis using Cons.IH [of c] z by (metis append_Cons list.set_intros(2))
    qed
  qed
qed simp

lemma path_comps_Clean: "HasPrefix s ''/'' \<Longrightarrow> path_comps (path_Clean s) = path_comps s"
proof -
  assume r: "HasPrefix s ''/''"
  let ?cs = "path_comps s"
  have c: "path_Clean s = CHR ''/'' # Join ?cs ''/''" using r by (simp add: path_Clean_def path_comps_def Let_def)
  have p: "\<forall>c \<in> set ?cs. c \<noteq> [] \<and> c \<noteq> dot \<and> c \<noteq> dotdot \<and> CHR ''/'' \<notin> set c"
    using clean_stack_proper [of True "[]" "Split CHR ''/'' s"] r path_comps_no_sep [of _ s]
    by (auto simp: path_comps_def list_all_iff proper_comp_def)
  show ?thesis
  proof (cases "?cs = []")
    case True
    then show ?thesis by (simp add: c path_comps_def)
  next
    case False
    then have "Split CHR ''/'' (Join ?cs ''/'') = ?cs" using p by (intro Split_Join) auto
    then have "path_comps (path_Clean s) = clean_stack True [] ([] # ?cs)" by (simp add: c path_comps_def)
    also have "\<dots> = ?cs" using p by (subst clean_stack_no_dotdot) (auto simp: dotdot_def)
    finally show ?thesis .
  qed
qed

lemma path_Join_within:
  assumes "HasPrefix d ''/''" "\<not> Contains p dotdot"
  shows "pathWithinBase (path_Join [d, p]) d"
proof -
  have d: "d \<noteq> []" using assms(1) by auto
  have nd: "dotdot \<notin> set (Split CHR ''/'' p)" using assms(2) Split_part [of dotdot "CHR ''/''" p] by (auto simp: Contains_iff)
  define s where "s = (if p = [] then d else d @ ''/'' @ p)"
  have j: "path_Join [d, p] = path_Clean s" using d by (simp add: path_Join_def s_def)
  have r: "HasPrefix s ''/''" using assms(1) by (auto simp: s_def HasPrefix_iff)
  have rc: "HasPrefix (path_Clean s) ''/''" using r by (simp add: path_Clean_def Let_def)
  have "prefix (path_comps d) (path_comps s)"
  proof (cases "p = []")
    case False
    have "path_comps s = clean_stack True (rev (path_comps d)) (Split CHR ''/'' p)"
      using False r assms(1) by (simp add: s_def path_comps_def Split_append_sep clean_stack_append)
    then show ?thesis by (simp add: clean_stack_no_dotdot [OF nd])
  qed (simp add: s_def)
  then show ?thesis using pathWithinBase_rooted [OF rc assms(1)] path_comps_Clean [OF r] by (simp add: j)
qed

text \<open>
  C19: whatever a client asks for, a static file that is served lies in the directory of the
  static files, and a request with two dots in a row is answered with 403.
\<close>

theorem static_file_confined:
  assumes "HasPrefix staticDir ''/''"
  shows "(static_file stat staticDir path w = (Inr (ServeFile f), w') \<longrightarrow> pathWithinBase f staticDir) \<and>
    (Contains path dotdot \<longrightarrow> static_file stat staticDir path w = (Inr (AbortStatus 403), w))"
proof -
  have "\<not> Contains ''index.html'' dotdot" by code_simp
  with path_Join_within [OF assms] show ?thesis
    by (auto simp: static_file_def tryE_def ret_def fail_def split: if_splits prod.splits sum.splits)
qed

theorem static_file_confined_witness:
  "pathWithinBase ''/static/js/app.js'' ''/static'' \<and>
   static_file (\<lambda>_. ret False) ''/static'' ''/../etc/passwd'' () = (Inr (AbortStatus 403), ())"
proof -
  have "static_file (\<lambda>_. ret False) ''/static'' ''/js/app.js'' () = (Inr (ServeFile ''/static/js/app.js''), ())"
    "Contains ''/../etc/passwd'' dotdot" by code_simp+
  then show ?thesis using static_file_confined [of "''/static''" "\<lambda>_. ret False" "''/js/app.js''" "()" "''/static/js/app.js''" "()"]
    static_file_confined [of "''/static''" "\<lambda>_. ret False" "''/../etc/passwd''" "()"] by auto
qed

text \<open>
  The branch for other errors of os.Stat is never reached: such a request panics before it
  (a file in an unreadable directory, a name that is too long).
\<close>

lemma static_file_panics:
  assumes "\<not> Contains path dotdot" "stat (path_Join [staticDir, path]) w = (Inl e, w')" "e \<noteq> NotExist"
  shows "static_file stat staticDir path w = (Inl (Panic ''nil pointer dereference''), w')"
  using assms by (simp add: static_file_def tryE_def fail_def)

end
